(* ===== verification/Prelude.thy ===== *)
theory Prelude
  imports Main "HOL-Library.State_Monad" "HOL-Library.Sublist" "HOL-Library.Multiset"
begin

text \<open>
  The vocabulary every component of the development shares.

  \<^item> Go values: error values (\<open>err\<close>), string maps with their nil value, the parts of
    \<^verbatim>\<open>strings\<close>, \<^verbatim>\<open>strconv\<close> and \<^verbatim>\<open>fmt\<close> the operator uses.
  \<^item> A Hoare calculus for programs of the library's state monad: \<open>triple\<close>, \<open>keeps\<close>, and the
    rules collected in \<open>keeps_intros\<close>.
  \<^item> Histories: \<open>ok_log Q h\<close> says that every event of a (newest first) history satisfied
    \<open>Q\<close> at the moment it happened.
  \<^item> Generic lemmas on lists and decimal strings.
\<close>

named_theorems keeps_intros "invariants of programs, one rule per program construct"
named_theorems prog_defs "definitions of the operator's programs"

section \<open>Errors\<close>

text \<open>
  A Go \<^verbatim>\<open>error\<close> is nil (\<open>None\<close>) or a value: an API status error with its reason, an error
  with a text, an error wrapped by \<^verbatim>\<open>fmt.Errorf("...%w")\<close>, the aggregate of
  \<^verbatim>\<open>utilerrors.NewAggregate\<close>, or a run-time panic (a write to a nil map).
\<close>

datatype reason = NotFound | AlreadyExists | Conflict | NamespaceTerminating | Invalid | OtherReason

datatype err =
    StatusError reason
  | GoError string
  | Wrapped string err
  | Aggregate "err list"
  | Panic string

type_synonym error = "err option"

text \<open>The reason \<^verbatim>\<open>apierrors.ReasonForError\<close> finds, through wrapped errors.\<close>

fun reason_for :: "err \<Rightarrow> reason option" where
  "reason_for (StatusError r) = Some r"
| "reason_for (Wrapped _ e) = reason_for e"
| "reason_for _ = None"

definition IsNotFound :: "err \<Rightarrow> bool" where
  "IsNotFound e \<longleftrightarrow> reason_for e = Some NotFound"

definition IsAlreadyExists :: "err \<Rightarrow> bool" where
  "IsAlreadyExists e \<longleftrightarrow> reason_for e = Some AlreadyExists"

definition IsConflict :: "err \<Rightarrow> bool" where
  "IsConflict e \<longleftrightarrow> reason_for e = Some Conflict"

definition IsInvalid :: "err \<Rightarrow> bool" where
  "IsInvalid e \<longleftrightarrow> reason_for e = Some Invalid"

definition IsNamespaceTerminating :: "err \<Rightarrow> bool" where
  "IsNamespaceTerminating e \<longleftrightarrow> reason_for e = Some NamespaceTerminating"

definition NewAggregate :: "err list \<Rightarrow> error" where
  "NewAggregate es = (if es = [] then None else Some (Aggregate es))"

lemma NewAggregate_None [simp]: "NewAggregate es = None \<longleftrightarrow> es = []"
  by (simp add: NewAggregate_def)

lemma IsNotFound_simps [simp]:
  "IsNotFound (StatusError r) = (r = NotFound)"
  "IsNotFound (Wrapped m e) = IsNotFound e"
  "\<not> IsNotFound (GoError t)" "\<not> IsNotFound (Aggregate es)" "\<not> IsNotFound (Panic t)"
  by (simp_all add: IsNotFound_def)

section \<open>Strings and string maps\<close>

text \<open>
  A Go map of strings is nil (\<open>None\<close>) or a finite map. Reading a missing key or a nil map gives
  the empty string; writing to a nil map panics; deleting from a nil map does nothing.
\<close>

type_synonym strmap = "(string \<rightharpoonup> string) option"

definition mlookup :: "strmap \<Rightarrow> string \<Rightarrow> string option" where
  "mlookup m k = (case m of None \<Rightarrow> None | Some f \<Rightarrow> f k)"

definition mget :: "strmap \<Rightarrow> string \<Rightarrow> string" where
  "mget m k = (case mlookup m k of None \<Rightarrow> '''' | Some v \<Rightarrow> v)"

definition mput :: "strmap \<Rightarrow> string \<Rightarrow> string \<Rightarrow> err + strmap" where
  "mput m k v = (case m of None \<Rightarrow> Inl (Panic ''assignment to entry in nil map'')
                 | Some f \<Rightarrow> Inr (Some (f(k \<mapsto> v))))"

definition mdel :: "strmap \<Rightarrow> string \<Rightarrow> strmap" where
  "mdel m k = map_option (\<lambda>f. f(k := None)) m"

text \<open>\<^verbatim>\<open>if m == nil { m = make(map[string]string) }\<close>\<close>

definition mmake :: "strmap \<Rightarrow> string \<rightharpoonup> string" where
  "mmake m = (case m of None \<Rightarrow> Map.empty | Some f \<Rightarrow> f)"

lemma mlookup_simps [simp]:
  "mlookup None k = None" "mlookup (Some f) k = f k"
  by (simp_all add: mlookup_def)

lemma mget_simps [simp]:
  "mget None k = ''''"
  "mget (Some (f(k \<mapsto> v))) k = v"
  "k \<noteq> j \<Longrightarrow> mget (Some (f(k \<mapsto> v))) j = mget (Some f) j"
  "mget (mdel m k) k = ''''"
  "k \<noteq> j \<Longrightarrow> mget (mdel m k) j = mget m j"
  by (cases m; simp add: mget_def mdel_def)+

lemma mmake_Some [simp]: "mmake (Some f) = f" and mmake_None [simp]: "mmake None = Map.empty"
  by (simp_all add: mmake_def)

text \<open>\<^verbatim>\<open>strings.Contains\<close>, \<^verbatim>\<open>strings.TrimSuffix\<close> and the first part of \<^verbatim>\<open>strings.Cut\<close>.\<close>

fun str_contains :: "string \<Rightarrow> string \<Rightarrow> bool" where
  "str_contains sub [] = (sub = [])"
| "str_contains sub (c # cs) = (prefix sub (c # cs) \<or> str_contains sub cs)"

definition TrimSuffix :: "string \<Rightarrow> string \<Rightarrow> string" where
  "TrimSuffix s suf = (if suffix suf s then take (length s - length suf) s else s)"

lemma str_contains_iff: "str_contains sub s \<longleftrightarrow> (\<exists>p q. s = p @ sub @ q)"
proof (induction s)
  case Nil
  then show ?case by auto
next
  case (Cons c cs)
  have "(\<exists>p q. c # cs = p @ sub @ q) \<longleftrightarrow> prefix sub (c # cs) \<or> (\<exists>p q. cs = p @ sub @ q)"
    by (auto simp: prefix_def Cons_eq_append_conv intro: exI [of _ "[]"])
  with Cons show ?case by simp
qed

subsection \<open>Decimal numbers\<close>

text \<open>Conversion to a signed integer of 32 bits.\<close>

definition wrap32 :: "int \<Rightarrow> int" where
  "wrap32 x = (x + 2 ^ 31) mod 2 ^ 32 - 2 ^ 31"

text \<open>\<^verbatim>\<open>strconv.Itoa\<close> on naturals and on integers, \<^verbatim>\<open>fmt.Sprintf("%0wd", i)\<close>.\<close>

definition digit_char :: "nat \<Rightarrow> char" where
  "digit_char d = char_of (48 + d)"

definition is_digit :: "char \<Rightarrow> bool" where
  "is_digit c \<longleftrightarrow> 48 \<le> (of_char c :: nat) \<and> (of_char c :: nat) \<le> 57"

definition digit_val :: "char \<Rightarrow> nat" where
  "digit_val c = of_char c - 48"

fun itoa :: "nat \<Rightarrow> string" where
  "itoa n = (if n < 10 then [digit_char n] else itoa (n div 10) @ [digit_char (n mod 10)])"

declare itoa.simps [simp del]

definition atoi :: "string \<Rightarrow> nat" where
  "atoi s = foldl (\<lambda>n c. 10 * n + digit_val c) 0 s"

definition Itoa :: "int \<Rightarrow> string" where
  "Itoa i = (if i < 0 then ''-'' @ itoa (nat (- i)) else itoa (nat i))"

definition zero_pad :: "nat \<Rightarrow> string \<Rightarrow> string" where
  "zero_pad w s = replicate (w - length s) (CHR ''0'') @ s"

definition Sprintf_0wd :: "nat \<Rightarrow> int \<Rightarrow> string" where
  "Sprintf_0wd w i =
     (if i < 0 then ''-'' @ zero_pad (w - 1) (itoa (nat (- i))) else zero_pad w (itoa (nat i)))"

lemma digit_char_props:
  assumes "d < 10"
  shows "is_digit (digit_char d)" and "digit_val (digit_char d) = d"
proof -
  have "of_char (digit_char d) = (48 + d)" using assms
    by (simp add: digit_char_def)
  with assms show "is_digit (digit_char d)" and "digit_val (digit_char d) = d"
    by (simp_all add: is_digit_def digit_val_def)
qed

lemma itoa_digits: "list_all is_digit (itoa n)"
proof (induction n rule: itoa.induct)
  case (1 n)
  then show ?case
    by (cases "n < 10") (simp_all add: itoa.simps [of n] digit_char_props)
qed

lemma itoa_nonempty [simp]: "itoa n \<noteq> []"
  by (subst itoa.simps) simp

lemma atoi_snoc: "atoi (s @ [c]) = 10 * atoi s + digit_val c"
  by (simp add: atoi_def)

lemma atoi_itoa [simp]: "atoi (itoa n) = n"
proof (induction n rule: itoa.induct)
  case (1 n)
  then show ?case
    by (cases "n < 10")
      (simp_all add: itoa.simps [of n] atoi_snoc digit_char_props, simp add: atoi_def digit_char_props)
qed

lemma atoi_zeros [simp]: "atoi (replicate k (CHR ''0'') @ s) = atoi s"
  by (induction k) (simp_all add: atoi_def digit_val_def)

lemma atoi_zero_pad [simp]: "atoi (zero_pad w s) = atoi s"
  by (simp add: zero_pad_def)

lemma zero_pad_digits: "list_all is_digit s \<Longrightarrow> list_all is_digit (zero_pad w s)"
  by (auto simp: zero_pad_def list_all_iff is_digit_def)

lemma zero_pad_nonempty: "s \<noteq> [] \<Longrightarrow> zero_pad w s \<noteq> []"
  by (simp add: zero_pad_def)

lemma zero_pad_itoa_inject:
  assumes "zero_pad w (itoa m) = zero_pad w (itoa n)"
  shows "m = n"
proof -
  have "atoi (zero_pad w (itoa m)) = atoi (zero_pad w (itoa n))" using assms by simp
  then show ?thesis by simp
qed

lemma dash_not_digit [simp]: "\<not> is_digit (CHR ''-'')"
  by (simp add: is_digit_def)

section \<open>Programs of the state monad and their invariants\<close>

text \<open>
  \<open>triple P m Q\<close>: from a state with \<open>P\<close>, the program ends with a result and a state in
  \<open>Q\<close>. \<open>keeps I m\<close>: the program keeps the state predicate \<open>I\<close>.
\<close>

definition triple :: "('s \<Rightarrow> bool) \<Rightarrow> ('s, 'a) state \<Rightarrow> ('a \<Rightarrow> 's \<Rightarrow> bool) \<Rightarrow> bool" where
  "triple P m Q \<longleftrightarrow> (\<forall>s. P s \<longrightarrow> Q (fst (run_state m s)) (snd (run_state m s)))"

definition keeps :: "('s \<Rightarrow> bool) \<Rightarrow> ('s, 'a) state \<Rightarrow> bool" where
  "keeps I m \<longleftrightarrow> triple I m (\<lambda>_. I)"

lemma tripleI: "(\<And>s. P s \<Longrightarrow> Q (fst (run_state m s)) (snd (run_state m s))) \<Longrightarrow> triple P m Q"
  by (simp add: triple_def)

lemma tripleD: "triple P m Q \<Longrightarrow> P s \<Longrightarrow> Q (fst (run_state m s)) (snd (run_state m s))"
  by (simp add: triple_def)

lemma keepsI: "(\<And>s. I s \<Longrightarrow> I (snd (run_state m s))) \<Longrightarrow> keeps I m"
  by (simp add: keeps_def triple_def)

lemma keepsD: "keeps I m \<Longrightarrow> I s \<Longrightarrow> I (snd (run_state m s))"
  by (simp add: keeps_def triple_def)

lemma triple_return: "(\<And>s. P s \<Longrightarrow> Q x s) \<Longrightarrow> triple P (State_Monad.return x) Q"
  by (simp add: triple_def)

lemma triple_bind:
  assumes "triple P m R" and "\<And>x. triple (R x) (f x) Q"
  shows "triple P (State_Monad.bind m f) Q"
  using assms by (auto simp: triple_def split: prod.split)

lemma triple_weaken:
  assumes "triple P' m Q'" and "\<And>s. P s \<Longrightarrow> P' s" and "\<And>x s. Q' x s \<Longrightarrow> Q x s"
  shows "triple P m Q"
  using assms by (simp add: triple_def)

lemma triple_keeps: "keeps I m \<Longrightarrow> triple I m (\<lambda>_. I)"
  by (simp add: keeps_def)

lemma keeps_return [keeps_intros]: "keeps I (State_Monad.return x)"
  by (rule keepsI) simp

lemma keeps_bind [keeps_intros]:
  assumes "keeps I m" and "\<And>x. keeps I (f x)"
  shows "keeps I (State_Monad.bind m f)"
  using assms by (auto simp: keeps_def intro: triple_bind)

text \<open>The same with what is known of the result.\<close>

lemma keeps_bind_result:
  assumes "triple I m (\<lambda>x s. I s \<and> R x)" and "\<And>x. R x \<Longrightarrow> keeps I (f x)"
  shows "keeps I (State_Monad.bind m f)"
  using assms by (fastforce simp: keeps_def triple_def split: prod.split)

lemma keeps_get [keeps_intros]: "keeps I State_Monad.get"
  by (rule keepsI) simp

lemma keeps_if [keeps_intros]:
  "(b \<Longrightarrow> keeps I m) \<Longrightarrow> (\<not> b \<Longrightarrow> keeps I n) \<Longrightarrow> keeps I (if b then m else n)"
  by simp

lemma keeps_case_option [keeps_intros]:
  "(x = None \<Longrightarrow> keeps I m) \<Longrightarrow> (\<And>y. x = Some y \<Longrightarrow> keeps I (f y)) \<Longrightarrow>
   keeps I (case x of None \<Rightarrow> m | Some y \<Rightarrow> f y)"
  by (cases x) simp_all

lemma keeps_case_sum [keeps_intros]:
  "(\<And>y. x = Inl y \<Longrightarrow> keeps I (f y)) \<Longrightarrow> (\<And>y. x = Inr y \<Longrightarrow> keeps I (g y)) \<Longrightarrow>
   keeps I (case x of Inl y \<Rightarrow> f y | Inr y \<Rightarrow> g y)"
  by (cases x) simp_all

lemma keeps_case_prod [keeps_intros]:
  "(\<And>a b. x = (a, b) \<Longrightarrow> keeps I (f a b)) \<Longrightarrow> keeps I (case x of (a, b) \<Rightarrow> f a b)"
  by (cases x) simp

lemma keeps_let [keeps_intros]: "keeps I (f x) \<Longrightarrow> keeps I (Let x f)"
  by simp

lemma keeps_conj: "keeps I m \<Longrightarrow> keeps J m \<Longrightarrow> keeps (\<lambda>s. I s \<and> J s) m"
  by (simp add: keeps_def triple_def)

text \<open>Triples whose postcondition is an invariant that the rest of the program keeps.\<close>

lemma triple_of_keeps: "keeps I m \<Longrightarrow> (\<And>s. P s \<Longrightarrow> I s) \<Longrightarrow> triple P m (\<lambda>_. I)"
  by (simp add: keeps_def triple_def)

lemma triple_first:
  assumes "triple P m (\<lambda>_. I)" and "\<And>x. keeps I (f x)"
  shows "triple P (State_Monad.bind m f) (\<lambda>_. I)"
  by (rule triple_bind [OF assms(1)]) (rule triple_keeps [OF assms(2)])

lemma triple_if:
  "(b \<Longrightarrow> triple P m Q) \<Longrightarrow> (\<not> b \<Longrightarrow> triple P n Q) \<Longrightarrow> triple P (if b then m else n) Q"
  by simp

lemma triple_case_option:
  "(x = None \<Longrightarrow> triple P m Q) \<Longrightarrow> (\<And>y. x = Some y \<Longrightarrow> triple P (f y) Q) \<Longrightarrow>
   triple P (case x of None \<Rightarrow> m | Some y \<Rightarrow> f y) Q"
  by (cases x) simp_all

lemma triple_case_sum:
  "(\<And>y. x = Inl y \<Longrightarrow> triple P (f y) Q) \<Longrightarrow> (\<And>y. x = Inr y \<Longrightarrow> triple P (g y) Q) \<Longrightarrow>
   triple P (case x of Inl y \<Rightarrow> f y | Inr y \<Rightarrow> g y) Q"
  by (cases x) simp_all

lemma keeps_of_triple: "triple I m (\<lambda>_. I) \<Longrightarrow> keeps I m"
  by (simp add: keeps_def)

text \<open>
  \<^verbatim>\<open>if err := m; err != nil { return err }; k\<close>, for programs that return an error and for
  programs that return a value or an error.
\<close>

definition andthen :: "('s, error) state \<Rightarrow> ('s, error) state \<Rightarrow> ('s, error) state" where
  "andthen m k = do { e \<leftarrow> m; case e of None \<Rightarrow> k | Some _ \<Rightarrow> State_Monad.return e }"

definition with_value :: "('s, err + 'a) state \<Rightarrow> ('a \<Rightarrow> ('s, error) state) \<Rightarrow> ('s, error) state" where
  "with_value m k = do { r \<leftarrow> m; case r of Inl e \<Rightarrow> State_Monad.return (Some e) | Inr x \<Rightarrow> k x }"

definition with_result ::
  "('s, err + 'a) state \<Rightarrow> ('a \<Rightarrow> ('s, err + 'b) state) \<Rightarrow> ('s, err + 'b) state" where
  "with_result m k = do { r \<leftarrow> m; case r of Inl e \<Rightarrow> State_Monad.return (Inl e) | Inr x \<Rightarrow> k x }"

definition ok :: "('s, error) state" where
  "ok = State_Monad.return None"

definition fail :: "err \<Rightarrow> ('s, error) state" where
  "fail e = State_Monad.return (Some e)"

lemma keeps_andthen [keeps_intros]: "keeps I m \<Longrightarrow> keeps I k \<Longrightarrow> keeps I (andthen m k)"
  unfolding andthen_def by (intro keeps_intros)

lemma keeps_with_value [keeps_intros]:
  "keeps I m \<Longrightarrow> (\<And>x. keeps I (k x)) \<Longrightarrow> keeps I (with_value m k)"
  unfolding with_value_def by (intro keeps_intros)

lemma keeps_with_result [keeps_intros]:
  "keeps I m \<Longrightarrow> (\<And>x. keeps I (k x)) \<Longrightarrow> keeps I (with_result m k)"
  unfolding with_result_def by (intro keeps_intros)

lemma keeps_ok [keeps_intros]: "keeps I ok" and keeps_fail [keeps_intros]: "keeps I (fail e)"
  unfolding ok_def fail_def by (rule keeps_return)+

lemma run_andthen [simp]:
  "run_state (andthen m k) s =
     (case run_state m s of (None, s') \<Rightarrow> run_state k s' | (Some e, s') \<Rightarrow> (Some e, s'))"
  by (auto simp: andthen_def split: prod.split option.split)

lemma run_with_value [simp]:
  "run_state (with_value m k) s =
     (case run_state m s of (Inl e, s') \<Rightarrow> (Some e, s') | (Inr x, s') \<Rightarrow> run_state (k x) s')"
  by (auto simp: with_value_def split: prod.split sum.split)

lemma run_with_result [simp]:
  "run_state (with_result m k) s =
     (case run_state m s of (Inl e, s') \<Rightarrow> (Inl e, s') | (Inr x, s') \<Rightarrow> run_state (k x) s')"
  by (auto simp: with_result_def split: prod.split sum.split)

lemma run_ok [simp]: "run_state ok s = (None, s)"
  and run_fail [simp]: "run_state (fail e) s = (Some e, s)"
  by (simp_all add: ok_def fail_def)

lemma triple_with_value:
  assumes "triple P m R" and "\<And>x. triple (R (Inr x)) (k x) Q"
    and "\<And>e s. R (Inl e) s \<Longrightarrow> Q (Some e) s"
  shows "triple P (with_value m k) Q"
  unfolding with_value_def
  by (rule triple_bind [OF assms(1)]) (auto split: sum.split intro: assms(2,3) triple_return)

lemma triple_andthen:
  assumes "triple P m R" and "triple (R None) k Q"
    and "\<And>e s. R (Some e) s \<Longrightarrow> Q (Some e) s"
  shows "triple P (andthen m k) Q"
  unfolding andthen_def
  by (rule triple_bind [OF assms(1)]) (auto split: option.split intro: assms(2,3) triple_return)

section \<open>Histories\<close>

text \<open>
  A history lists events, the newest first. \<open>ok_log Q h\<close>: each event of \<open>h\<close> satisfied
  \<open>Q\<close> against the events before it.
\<close>

fun ok_log :: "('e list \<Rightarrow> 'e \<Rightarrow> bool) \<Rightarrow> 'e list \<Rightarrow> bool" where
  "ok_log Q [] = True"
| "ok_log Q (e # h) = (Q h e \<and> ok_log Q h)"

lemma ok_log_iff: "ok_log Q h \<longleftrightarrow> (\<forall>a e b. h = a @ e # b \<longrightarrow> Q b e)"
proof (induction h)
  case Nil
  then show ?case by simp
next
  case (Cons x h)
  have "(\<forall>a e b. x # h = a @ e # b \<longrightarrow> Q b e) \<longleftrightarrow> Q h x \<and> (\<forall>a e b. h = a @ e # b \<longrightarrow> Q b e)"
    by (auto simp: Cons_eq_append_conv)
  with Cons show ?case by simp
qed

lemma ok_log_append: "ok_log Q (a @ b) \<Longrightarrow> ok_log Q b"
  by (induction a) auto

section \<open>Lists\<close>

lemma filter_length_sum:
  "length (filter P xs) + length (filter (\<lambda>x. \<not> P x) xs) = length xs"
  by (induction xs) auto

lemma mset_take_drop: "mset (take n xs) + mset (drop n xs) = mset xs"
  by (metis append_take_drop_id mset_append)

lemma distinct_filter_map: "distinct (map f xs) \<Longrightarrow> distinct (map f (filter P xs))"
  by (induction xs) auto

end
