(* ===== verification/Objects.thy ===== *)
theory Objects
  imports Prelude
begin

text \<open>
  The data the operator works on: the NodeSet resource of
  \<^verbatim>\<open>api/v1beta1/nodeset_types.go\<close>, the well-known annotation and label keys of
  \<^verbatim>\<open>well_known.go\<close>, the defaults of \<^verbatim>\<open>internal/defaults/nodeset.go\<close>, the fields of the
  Kubernetes objects (Pod, Node, PersistentVolumeClaim) and of the Slurm REST objects (node,
  job, update message) that the code reads or writes.

  Times are nanoseconds counted from Go's zero time, so that \<open>0\<close> is the zero \<^verbatim>\<open>time.Time\<close>;
  durations are nanoseconds. String-typed enumerations stay strings, because the code falls
  through to a default on values it does not know. Parts of a specification the modelled code
  only passes on are of type \<open>opaque\<close>.
\<close>

type_synonym opaque = string
type_synonym nsname = "string \<times> string" \<comment> \<open>types.NamespacedName: namespace, name\<close>
type_synonym time = int
type_synonym duration = int

definition Second :: duration where
  "Second = 1000000000"

definition Minute :: duration where
  "Minute = 60 * Second"

lemma Second_pos [simp]: "0 < Second"
  by (simp add: Second_def)

text \<open>\<^verbatim>\<open>types.NamespacedName.String()\<close>\<close>

definition nsname_String :: "nsname \<Rightarrow> string" where
  "nsname_String k = fst k @ ''/'' @ snd k"

section \<open>Kubernetes objects\<close>

record owner_ref =
  or_APIVersion :: string
  or_Kind :: string
  or_Name :: string
  or_UID :: string
  or_Controller :: "bool option"
  or_BlockOwnerDeletion :: "bool option"

record pod_condition =
  pc_Type :: string
  pc_Status :: string
  pc_Message :: string
  pc_LastTransitionTime :: time

record volume =
  vol_Name :: string
  vol_ClaimName :: "string option" \<comment> \<open>PersistentVolumeClaim source, nil otherwise\<close>

record toleration =
  tol_Key :: string
  tol_Operator :: string
  tol_Value :: string
  tol_Effect :: string

record taint =
  taint_Key :: string
  taint_Value :: string
  taint_Effect :: string

record pod_affinity_term =
  pat_TopologyKey :: string
  pat_Key :: string
  pat_Operator :: string
  pat_Values :: "string list"

text \<open>
  \<open>aff_PodAntiAffinity\<close>: nil pointer, or the required terms, themselves a possibly nil slice.
\<close>

record affinity =
  aff_NodeAffinity :: "opaque option"
  aff_PodAntiAffinity :: "pod_affinity_term list option option"

record pod =
  pod_Namespace :: string
  pod_Name :: string
  pod_GenerateName :: string
  pod_UID :: string
  pod_ResourceVersion :: string
  pod_Labels :: strmap
  pod_Annotations :: strmap
  pod_OwnerReferences :: "owner_ref list"
  pod_DeletionTimestamp :: "time option"
  pod_CreationTimestamp :: time
  pod_NodeName :: string
  pod_Hostname :: string
  pod_HostNetwork :: bool
  pod_Volumes :: "volume list"
  pod_Tolerations :: "toleration list"
  pod_Affinity :: "affinity option"
  pod_Phase :: string
  pod_Conditions :: "pod_condition list"

definition pod_key :: "pod \<Rightarrow> nsname" where
  "pod_key p = (pod_Namespace p, pod_Name p)"

record pvc =
  pvc_Namespace :: string
  pvc_Name :: string
  pvc_Labels :: strmap
  pvc_OwnerReferences :: "owner_ref list"
  pvc_DeletionTimestamp :: "time option"
  pvc_Spec :: opaque

record node_condition =
  nc_Type :: string
  nc_Status :: string
  nc_Reason :: string
  nc_Message :: string

record node =
  node_Name :: string
  node_Labels :: strmap
  node_Annotations :: strmap
  node_Unschedulable :: bool
  node_Taints :: "taint list"
  node_Conditions :: "node_condition list"

text \<open>A reference to a key of a secret or of a configuration map.\<close>

record secret_key_selector =
  sks_Name :: string
  sks_Key :: string

definition no_secret_key :: secret_key_selector where
  "no_secret_key = \<lparr>sks_Name = '''', sks_Key = ''''\<rparr>"

section \<open>Parts of pods\<close>

record env_var =
  ev_Name :: string
  ev_Value :: string
  ev_ValueFrom :: "opaque option"

record container_port =
  cp_Name :: string
  cp_ContainerPort :: int
  cp_Protocol :: string

datatype probe_handler = NoProbe | HTTPGet string string | TCPSocket int | ExecAction "string list" | OtherProbe opaque

record probe =
  pr_Handler :: probe_handler
  pr_FailureThreshold :: int
  pr_PeriodSeconds :: int
  pr_Rest :: opaque

record volume_mount =
  vm_Name :: string
  vm_MountPath :: string
  vm_SubPath :: string
  vm_ReadOnly :: bool

text \<open>\<^verbatim>\<open>SecurityContext\<close> and \<^verbatim>\<open>PodSecurityContext\<close>.\<close>

record security_context =
  sc_RunAsNonRoot :: "bool option"
  sc_RunAsUser :: "int option"
  sc_RunAsGroup :: "int option"
  sc_FSGroup :: "int option"
  sc_Privileged :: "bool option"
  sc_AddCapabilities :: "string list"
  sc_Rest :: opaque

record container =
  c_Name :: string
  c_Command :: "string list"
  c_Args :: "string list"
  c_Env :: "env_var list"
  c_Ports :: "container_port list"
  c_StartupProbe :: "probe option"
  c_ReadinessProbe :: "probe option"
  c_LivenessProbe :: "probe option"
  c_RestartPolicy :: "string option"
  c_SecurityContext :: "security_context option"
  c_VolumeMounts :: "volume_mount list"
  c_PreStop :: "string list option" \<comment> \<open>command of the life-cycle hook\<close>
  c_Limits :: "(int \<times> int) option" \<comment> \<open>values of the limits of processors and memory\<close>
  c_Rest :: opaque

text \<open>A projection: the object, and the keys that become files, with their mode. No keys: all of them.\<close>

datatype projection =
    ConfigMapProjection string "(string \<times> string \<times> int option) list"
  | SecretProjection string "(string \<times> string \<times> int option) list"

datatype volume_source = EmptyDir string | Projected int "projection list" | ClaimSource string | OtherSource opaque

record pod_volume =
  pv_Name :: string
  pv_Source :: volume_source

record pod_spec =
  ps_Containers :: "container list"
  ps_InitContainers :: "container list"
  ps_Volumes :: "pod_volume list"
  ps_SecurityContext :: "security_context option"
  ps_AutomountServiceAccountToken :: "bool option"
  ps_EnableServiceLinks :: "bool option"
  ps_DNSSearches :: "string list"
  ps_Hostname :: string
  ps_Subdomain :: string
  ps_Tolerations :: "toleration list"
  ps_Affinity :: "affinity option"
  ps_NodeName :: string
  ps_HostNetwork :: bool
  ps_Limits :: "(int \<times> int) option"
  ps_Rest :: opaque

record metadata =
  md_Annotations :: strmap
  md_Labels :: strmap

text \<open>\<^verbatim>\<open>PodTemplate\<close> of a resource, and \<^verbatim>\<open>corev1.PodTemplateSpec\<close>.\<close>

record pod_template =
  pt_Metadata :: metadata
  pt_PodSpec :: pod_spec

record pod_template_spec =
  pts_Key :: nsname
  pts_Metadata :: metadata
  pts_Spec :: pod_spec

definition no_metadata :: metadata where
  "no_metadata = \<lparr>md_Annotations = None, md_Labels = None\<rparr>"

definition empty_container :: container where
  "empty_container = \<lparr>c_Name = '''', c_Command = [], c_Args = [], c_Env = [], c_Ports = [], c_StartupProbe = None,
     c_ReadinessProbe = None, c_LivenessProbe = None, c_RestartPolicy = None, c_SecurityContext = None,
     c_VolumeMounts = [], c_PreStop = None, c_Limits = None, c_Rest = ''''\<rparr>"

definition empty_pod_spec :: pod_spec where
  "empty_pod_spec = \<lparr>ps_Containers = [], ps_InitContainers = [], ps_Volumes = [], ps_SecurityContext = None,
     ps_AutomountServiceAccountToken = None, ps_EnableServiceLinks = None, ps_DNSSearches = [], ps_Hostname = '''', ps_Subdomain = '''',
     ps_Tolerations = [], ps_Affinity = None, ps_NodeName = '''', ps_HostNetwork = False, ps_Limits = None, ps_Rest = ''''\<rparr>"

definition empty_template :: pod_template where
  "empty_template = \<lparr>pt_Metadata = no_metadata, pt_PodSpec = empty_pod_spec\<rparr>"

definition empty_template_spec :: pod_template_spec where
  "empty_template_spec = \<lparr>pts_Key = ('''', ''''), pts_Metadata = no_metadata, pts_Spec = empty_pod_spec\<rparr>"

section \<open>Revisions\<close>

record controller_revision =
  cr_Namespace :: string
  cr_Name :: string
  cr_Labels :: strmap
  cr_Annotations :: strmap
  cr_OwnerReferences :: "owner_ref list"
  cr_Revision :: int
  cr_Data :: opaque

text \<open>The parts of a NodeSet that its revisions record; a zero part is left out.\<close>

record revision_patch =
  rp_Template :: pod_template
  rp_OrdinalPadding :: nat
  rp_Slurmd :: container
  rp_ExtraConf :: "string option"
  rp_LogFile :: "container option"
  rp_Ssh :: "(bool \<times> string \<times> secret_key_selector) option"

text \<open>\<^verbatim>\<open>metav1.GetControllerOf\<close>: the first owner reference that is a controller.\<close>

definition GetControllerOf :: "owner_ref list \<Rightarrow> owner_ref option" where
  "GetControllerOf refs = List.find (\<lambda>r. or_Controller r = Some True) refs"

section \<open>The NodeSet resource\<close>

definition ScalingModeStatefulset :: string where "ScalingModeStatefulset = ''StatefulSet''"
definition ScalingModeDaemonset :: string where "ScalingModeDaemonset = ''DaemonSet''"
definition RetainPVC :: string where "RetainPVC = ''Retain''"
definition DeletePVC :: string where "DeletePVC = ''Delete''"
definition RollingUpdateType :: string where "RollingUpdateType = ''RollingUpdate''"
definition OnDeleteType :: string where "OnDeleteType = ''OnDelete''"
definition PruneNever :: string where "PruneNever = ''Never''"
definition PruneNodeNotFound :: string where "PruneNodeNotFound = ''NodeNotFound''"

text \<open>\<^verbatim>\<open>intstr.IntOrString\<close>\<close>

datatype int_or_string = IntVal int | StrVal string

record nodeset_spec =
  spec_ControllerRef :: nsname
  spec_Replicas :: "int option"
  spec_ScalingMode :: string
  spec_Slurmd :: container
  spec_SshEnabled :: bool
  spec_SshExtraSshdConfig :: string
  spec_SssdConfRef :: secret_key_selector
  spec_LogFile :: container
  spec_Template :: pod_template
  spec_ExtraConf :: string
  spec_PartitionEnabled :: bool
  spec_PartitionConfig :: string
  spec_VolumeClaimTemplates :: "pvc list"
  spec_UpdateStrategyType :: string
  spec_MaxUnavailable :: "int_or_string option"
  spec_RevisionHistoryLimit :: int
  spec_WhenDeleted :: string
  spec_WhenScaled :: string
  spec_MinReadySeconds :: int
  spec_OrdinalPadding :: nat
  spec_PinToNode :: bool
  spec_TaintKubeNodes :: bool
  spec_WorkloadDisruptionProtection :: "bool option"
  spec_PruneSlurmNodeRecords :: string

record nodeset_status =
  status_Replicas :: int
  status_UpdatedReplicas :: int
  status_ReadyReplicas :: int
  status_AvailableReplicas :: int
  status_UnavailableReplicas :: int
  status_Desired :: int
  status_SlurmIdle :: int
  status_SlurmAllocated :: int
  status_SlurmDown :: int
  status_SlurmDrain :: int
  status_ObservedGeneration :: int
  status_NodeSetHash :: string
  status_CollisionCount :: "int option"
  status_Conditions :: "opaque list"
  status_OrdinalToNode :: strmap
  status_Selector :: string

record nodeset =
  ns_Namespace :: string
  ns_Name :: string
  ns_UID :: string
  ns_Generation :: int
  ns_DeletionTimestamp :: "time option"
  ns_Labels :: strmap
  ns_Annotations :: strmap
  ns_Spec :: nodeset_spec
  ns_Status :: nodeset_status

text \<open>\<^verbatim>\<open>NodeSet.Key()\<close>, \<^verbatim>\<open>objectutils.NamespacedName\<close> and \<^verbatim>\<open>objectutils.KeyFunc\<close>.\<close>

definition ns_Key :: "nodeset \<Rightarrow> nsname" where
  "ns_Key ns = (ns_Namespace ns, ns_Name ns)"

definition KeyFunc :: "nodeset \<Rightarrow> string" where
  "KeyFunc ns = nsname_String (ns_Key ns)"

definition is_statefulset :: "nodeset \<Rightarrow> bool" where
  "is_statefulset ns \<longleftrightarrow> spec_ScalingMode (ns_Spec ns) = ScalingModeStatefulset"

definition is_daemonset :: "nodeset \<Rightarrow> bool" where
  "is_daemonset ns \<longleftrightarrow> spec_ScalingMode (ns_Spec ns) = ScalingModeDaemonset"

lemma not_statefulset_and_daemonset [simp]: "is_daemonset ns \<Longrightarrow> \<not> is_statefulset ns"
  by (simp add: is_daemonset_def is_statefulset_def ScalingModeStatefulset_def ScalingModeDaemonset_def)

section \<open>Well-known keys\<close>

definition SlinkyPrefix :: string where "SlinkyPrefix = ''slinky.slurm.net/''"
definition NodeSetPrefix :: string where "NodeSetPrefix = ''nodeset.'' @ SlinkyPrefix"
definition TopologyPrefix :: string where "TopologyPrefix = ''topology.'' @ SlinkyPrefix"
definition AnnotationPodCordon :: string where
  "AnnotationPodCordon = NodeSetPrefix @ ''pod-cordon''"
definition AnnotationPodDeletionCost :: string where
  "AnnotationPodDeletionCost = NodeSetPrefix @ ''pod-deletion-cost''"
definition AnnotationPodDeadline :: string where
  "AnnotationPodDeadline = NodeSetPrefix @ ''pod-deadline''"
definition AnnotationNodeCordonReason :: string where
  "AnnotationNodeCordonReason = NodeSetPrefix @ ''node-cordon-reason''"
definition AnnotationNodeTopologySpec :: string where
  "AnnotationNodeTopologySpec = TopologyPrefix @ ''spec''"
definition AnnotationNodeHostnameOverride :: string where
  "AnnotationNodeHostnameOverride = NodeSetPrefix @ ''hostname-override''"
definition LabelNodeSetPodName :: string where
  "LabelNodeSetPodName = NodeSetPrefix @ ''pod-name''"
definition LabelNodeSetPodIndex :: string where
  "LabelNodeSetPodIndex = NodeSetPrefix @ ''pod-index''"
definition LabelNodeSetPodHostname :: string where
  "LabelNodeSetPodHostname = NodeSetPrefix @ ''pod-hostname''"
definition LabelNodeSetPodProtect :: string where
  "LabelNodeSetPodProtect = NodeSetPrefix @ ''pod-protect''"
definition LabelNodeSetScalingMode :: string where
  "LabelNodeSetScalingMode = NodeSetPrefix @ ''scaling-mode''"

lemmas key_defs = SlinkyPrefix_def NodeSetPrefix_def TopologyPrefix_def AnnotationPodCordon_def
  AnnotationPodDeletionCost_def AnnotationPodDeadline_def AnnotationNodeCordonReason_def
  AnnotationNodeTopologySpec_def AnnotationNodeHostnameOverride_def LabelNodeSetPodName_def
  LabelNodeSetPodIndex_def LabelNodeSetPodHostname_def LabelNodeSetPodProtect_def
  LabelNodeSetScalingMode_def

lemmas mode_defs = ScalingModeStatefulset_def ScalingModeDaemonset_def RetainPVC_def DeletePVC_def
  RollingUpdateType_def OnDeleteType_def PruneNever_def PruneNodeNotFound_def

lemma label_keys_distinct:
  "distinct [LabelNodeSetPodName, LabelNodeSetPodIndex, LabelNodeSetPodHostname,
     LabelNodeSetPodProtect, LabelNodeSetScalingMode]"
  by (simp add: key_defs)

lemma label_keys_neq [simp]:
  "LabelNodeSetPodName \<noteq> LabelNodeSetPodIndex" "LabelNodeSetPodIndex \<noteq> LabelNodeSetPodName"
  "LabelNodeSetPodName \<noteq> LabelNodeSetPodHostname" "LabelNodeSetPodHostname \<noteq> LabelNodeSetPodName"
  "LabelNodeSetPodIndex \<noteq> LabelNodeSetPodHostname" "LabelNodeSetPodHostname \<noteq> LabelNodeSetPodIndex"
  "LabelNodeSetScalingMode \<noteq> LabelNodeSetPodName" "LabelNodeSetPodName \<noteq> LabelNodeSetScalingMode"
  "LabelNodeSetScalingMode \<noteq> LabelNodeSetPodIndex" "LabelNodeSetPodIndex \<noteq> LabelNodeSetScalingMode"
  "LabelNodeSetScalingMode \<noteq> LabelNodeSetPodHostname" "LabelNodeSetPodHostname \<noteq> LabelNodeSetScalingMode"
  using label_keys_distinct by auto

section \<open>Defaults\<close>

definition DefaultNodeSetReplicas :: int where "DefaultNodeSetReplicas = 1"
definition DefaultNodeSetWorkloadDisruptionProtection :: bool where
  "DefaultNodeSetWorkloadDisruptionProtection = True"
definition DefaultNodeSetRollingUpdateMaxUnavailable :: int_or_string where
  "DefaultNodeSetRollingUpdateMaxUnavailable = StrVal ''25%''"

text \<open>\<^verbatim>\<open>ptr.Deref\<close>\<close>

definition deref :: "'a option \<Rightarrow> 'a \<Rightarrow> 'a" where
  "deref p d = (case p of None \<Rightarrow> d | Some x \<Rightarrow> x)"

lemma deref_simps [simp]: "deref None d = d" "deref (Some x) d = x"
  by (simp_all add: deref_def)

definition default_string :: "string \<Rightarrow> string \<Rightarrow> string" where
  "default_string v d = (if v = '''' then d else v)"

definition default_ptr :: "'a option \<Rightarrow> 'a \<Rightarrow> 'a option" where
  "default_ptr p d = (if p = None then Some d else p)"

lemma default_string_nonempty: "d \<noteq> '''' \<Longrightarrow> default_string v d \<noteq> ''''"
  and default_string_id: "v \<noteq> '''' \<Longrightarrow> default_string v d = v"
  by (simp_all add: default_string_def)

lemma default_ptr_set: "default_ptr p d \<noteq> None"
  and default_ptr_id: "p \<noteq> None \<Longrightarrow> default_ptr p d = p"
  by (simp_all add: default_ptr_def)

definition SetNodeSetDefaults_spec :: "nodeset_spec \<Rightarrow> nodeset_spec" where
  "SetNodeSetDefaults_spec s =
     (let strategy = default_string (spec_UpdateStrategyType s) RollingUpdateType
      in s\<lparr>spec_Replicas := default_ptr (spec_Replicas s) DefaultNodeSetReplicas,
          spec_ScalingMode := default_string (spec_ScalingMode s) ScalingModeStatefulset,
          spec_WorkloadDisruptionProtection :=
            default_ptr (spec_WorkloadDisruptionProtection s) DefaultNodeSetWorkloadDisruptionProtection,
          spec_UpdateStrategyType := strategy,
          spec_MaxUnavailable :=
            (if strategy = RollingUpdateType
             then default_ptr (spec_MaxUnavailable s) DefaultNodeSetRollingUpdateMaxUnavailable
             else spec_MaxUnavailable s),
          spec_WhenDeleted := default_string (spec_WhenDeleted s) RetainPVC,
          spec_WhenScaled := default_string (spec_WhenScaled s) RetainPVC,
          spec_PruneSlurmNodeRecords := default_string (spec_PruneSlurmNodeRecords s) PruneNever\<rparr>)"

definition SetNodeSetDefaults :: "nodeset \<Rightarrow> nodeset" where
  "SetNodeSetDefaults ns = ns\<lparr>ns_Spec := SetNodeSetDefaults_spec (ns_Spec ns)\<rparr>"

text \<open>What a specification has once the defaults are set.\<close>

definition defaulted :: "nodeset_spec \<Rightarrow> bool" where
  "defaulted s \<longleftrightarrow>
     spec_Replicas s \<noteq> None \<and> spec_ScalingMode s \<noteq> '''' \<and>
     spec_WorkloadDisruptionProtection s \<noteq> None \<and> spec_UpdateStrategyType s \<noteq> '''' \<and>
     (spec_UpdateStrategyType s = RollingUpdateType \<longrightarrow> spec_MaxUnavailable s \<noteq> None) \<and>
     spec_WhenDeleted s \<noteq> '''' \<and> spec_WhenScaled s \<noteq> '''' \<and> spec_PruneSlurmNodeRecords s \<noteq> ''''"

lemma mode_strings_nonempty [simp]:
  "ScalingModeStatefulset \<noteq> ''''" "RollingUpdateType \<noteq> ''''" "RetainPVC \<noteq> ''''" "PruneNever \<noteq> ''''"
  by (simp_all add: mode_defs)

lemma SetNodeSetDefaults_spec_defaulted: "defaulted (SetNodeSetDefaults_spec s)"
  by (simp add: defaulted_def SetNodeSetDefaults_spec_def Let_def default_string_nonempty
      default_ptr_set)

lemma SetNodeSetDefaults_spec_id: "defaulted s \<Longrightarrow> SetNodeSetDefaults_spec s = s"
  by (cases s) (simp add: defaulted_def SetNodeSetDefaults_spec_def Let_def default_string_id
      default_ptr_id)

section \<open>Slurm objects\<close>

datatype node_state =
    ALLOCATED | DOWN | ERROR | FUTURE | IDLE | MIXED | UNKNOWN
  | COMPLETING | DRAIN | FAIL | INVALID | INVALIDREG | MAINTENANCE | NOTRESPONDING | UNDRAIN
  | OtherNodeState string

record slurm_node =
  sn_Name :: "string option"
  sn_State :: "node_state list"
  sn_Reason :: "string option"
  sn_Comment :: "string option"
  sn_Topology :: "string option"

definition has_state :: "slurm_node \<Rightarrow> node_state \<Rightarrow> bool" where
  "has_state n x \<longleftrightarrow> x \<in> set (sn_State n)"

record node_msg =
  um_Comment :: "string option"
  um_State :: "node_state list option"
  um_Reason :: "string option"
  um_TopologyStr :: "string option"

definition empty_msg :: node_msg where
  "empty_msg = \<lparr>um_Comment = None, um_State = None, um_Reason = None, um_TopologyStr = None\<rparr>"

text \<open>
  A Slurm job: the fields are pointers; \<open>job_StartTime\<close> is the number of its
  \<^verbatim>\<open>NoValStruct\<close>, \<open>job_TimeLimit\<close> number and infinite flag.
\<close>

record job =
  job_State :: "string list"
  job_Nodes :: "string option"
  job_StartTime :: "int option option"
  job_TimeLimit :: "(int option \<times> bool option) option"

section \<open>Pod information in the Slurm node's comment\<close>

record pod_info =
  pi_Namespace :: string
  pi_PodName :: string
  pi_Node :: string
  pi_NodeSetName :: string
  pi_NodeSetUID :: string

definition empty_pod_info :: pod_info where
  "empty_pod_info = \<lparr>pi_Namespace = '''', pi_PodName = '''', pi_Node = '''',
     pi_NodeSetName = '''', pi_NodeSetUID = ''''\<rparr>"

section \<open>Zero values\<close>

text \<open>\<^verbatim>\<open>corev1.Pod{}\<close>, \<^verbatim>\<open>corev1.Node{}\<close> and \<^verbatim>\<open>slinkyv1beta1.NodeSet{}\<close>.\<close>

definition empty_pod :: pod where
  "empty_pod = \<lparr>pod_Namespace = '''', pod_Name = '''', pod_GenerateName = '''', pod_UID = '''', pod_ResourceVersion = '''',
     pod_Labels = None, pod_Annotations = None, pod_OwnerReferences = [],
     pod_DeletionTimestamp = None, pod_CreationTimestamp = 0, pod_NodeName = '''',
     pod_Hostname = '''', pod_HostNetwork = False, pod_Volumes = [], pod_Tolerations = [],
     pod_Affinity = None, pod_Phase = '''', pod_Conditions = []\<rparr>"

definition empty_node :: node where
  "empty_node = \<lparr>node_Name = '''', node_Labels = None, node_Annotations = None, node_Unschedulable = False,
     node_Taints = [], node_Conditions = []\<rparr>"

definition empty_nodeset_spec :: nodeset_spec where
  "empty_nodeset_spec = \<lparr>spec_ControllerRef = ('''', ''''), spec_Replicas = None,
     spec_ScalingMode = '''', spec_Slurmd = empty_container, spec_SshEnabled = False,
     spec_SshExtraSshdConfig = '''', spec_SssdConfRef = no_secret_key, spec_LogFile = empty_container,
     spec_Template = empty_template, spec_ExtraConf = '''', spec_PartitionEnabled = False,
     spec_PartitionConfig = '''', spec_VolumeClaimTemplates = [], spec_UpdateStrategyType = '''',
     spec_MaxUnavailable = None, spec_RevisionHistoryLimit = 0, spec_WhenDeleted = '''',
     spec_WhenScaled = '''', spec_MinReadySeconds = 0, spec_OrdinalPadding = 0,
     spec_PinToNode = False, spec_TaintKubeNodes = False,
     spec_WorkloadDisruptionProtection = None, spec_PruneSlurmNodeRecords = ''''\<rparr>"

definition empty_nodeset_status :: nodeset_status where
  "empty_nodeset_status = \<lparr>status_Replicas = 0, status_UpdatedReplicas = 0, status_ReadyReplicas = 0,
     status_AvailableReplicas = 0, status_UnavailableReplicas = 0, status_Desired = 0,
     status_SlurmIdle = 0, status_SlurmAllocated = 0, status_SlurmDown = 0, status_SlurmDrain = 0,
     status_ObservedGeneration = 0, status_NodeSetHash = '''', status_CollisionCount = None,
     status_Conditions = [], status_OrdinalToNode = None, status_Selector = ''''\<rparr>"

definition empty_nodeset :: nodeset where
  "empty_nodeset = \<lparr>ns_Namespace = '''', ns_Name = '''', ns_UID = '''', ns_Generation = 0,
     ns_DeletionTimestamp = None, ns_Labels = None, ns_Annotations = None, ns_Spec = empty_nodeset_spec,
     ns_Status = empty_nodeset_status\<rparr>"

end
