(* ===== verification/Stores.thy ===== *)
theory Stores
  imports Objects
begin

text \<open>
  The in-memory stores the controllers share: \<^verbatim>\<open>internal/utils/durationstore\<close>,
  \<^verbatim>\<open>internal/utils/timestore\<close> and \<^verbatim>\<open>internal/clientmap\<close>.

  Each method is atomic here: a \<^verbatim>\<open>sync.Map\<close> operation and the locked update of the cell it
  returns are one step. The interface the controllers rely on, a store that keeps of several
  values pushed to a key the one its evaluation function prefers, is the locale
  \<open>keyed_store\<close>, interpreted on both stores with both evaluation functions.
\<close>

section \<open>The interface\<close>

text \<open>
  \<open>view s k\<close> is the value a key holds, if any. The preference \<open>eval old new\<close> is the strict
  part of a total order, as both functions of each package are.
\<close>

locale keyed_store =
  fixes eval :: "'v \<Rightarrow> 'v \<Rightarrow> bool"
    and zero :: 'v
    and push :: "'s \<Rightarrow> string \<Rightarrow> 'v \<Rightarrow> 's"
    and pop :: "'s \<Rightarrow> string \<Rightarrow> 'v \<times> 's"
    and peek :: "'s \<Rightarrow> string \<Rightarrow> 'v"
    and view :: "'s \<Rightarrow> string \<Rightarrow> 'v option"
  assumes view_push: "view (push s k v) j =
      (if j = k then Some (case view s k of None \<Rightarrow> v | Some w \<Rightarrow> if eval w v then v else w)
       else view s j)"
    and pop_value: "fst (pop s k) = (case view s k of None \<Rightarrow> zero | Some w \<Rightarrow> w)"
    and view_pop: "view (snd (pop s k)) j = (if j = k then None else view s j)"
    and peek_value: "peek s k = (case view s k of None \<Rightarrow> zero | Some w \<Rightarrow> w)"
    and eval_trans: "eval u v \<Longrightarrow> eval v w \<Longrightarrow> eval u w"
    and eval_irrefl: "\<not> eval v v"
    and eval_total: "v = w \<or> eval v w \<or> eval w v"
begin

definition push_all :: "'s \<Rightarrow> (string \<times> 'v) list \<Rightarrow> 's" where
  "push_all s ps = foldl (\<lambda>s (k, v). push s k v) s ps"

text \<open>\<open>v\<close> is the value of \<open>V\<close> that no other value of \<open>V\<close> beats.\<close>

definition best :: "'v set \<Rightarrow> 'v \<Rightarrow> bool" where
  "best V v \<longleftrightarrow> v \<in> V \<and> (\<forall>w \<in> V. \<not> eval v w)"

lemma eval_negtrans: "\<not> eval u v \<Longrightarrow> \<not> eval v w \<Longrightarrow> \<not> eval u w"
  using eval_total eval_trans by metis

lemma best_insert:
  assumes "best V w"
  shows "best (insert v V) (if eval w v then v else w)"
proof (cases "eval w v")
  case True
  with assms have "\<not> eval v u" if "u \<in> V" for u
    using that eval_trans [of w v u] unfolding best_def by blast
  with True show ?thesis
    using eval_irrefl unfolding best_def by simp
next
  case False
  with assms show ?thesis unfolding best_def by simp
qed

lemma best_unique: "best V v \<Longrightarrow> best V w \<Longrightarrow> v = w"
  using eval_total unfolding best_def by blast

lemma push_all_snoc: "push_all s (ps @ [(k, v)]) = push (push_all s ps) k v"
  by (simp add: push_all_def)

lemma view_push_all:
  assumes "view s k = None"
  shows "case view (push_all s ps) k of
           None \<Rightarrow> {v. (k, v) \<in> set ps} = {}
         | Some v \<Rightarrow> best {v. (k, v) \<in> set ps} v"
proof (induction ps rule: rev_induct)
  case Nil
  then show ?case using assms by (simp add: push_all_def)
next
  case (snoc p ps)
  obtain j v where p: "p = (j, v)" by fastforce
  show ?case
  proof (cases "j = k")
    case True
    have ins: "{x. (k, x) \<in> set (ps @ [p])} = insert v {x. (k, x) \<in> set ps}"
      using p True by auto
    show ?thesis
    proof (cases "view (push_all s ps) k")
      case None
      with snoc True p eval_irrefl show ?thesis
        unfolding ins by (simp add: push_all_snoc view_push best_def)
    next
      case (Some w)
      with snoc True p best_insert [of _ w v] show ?thesis
        unfolding ins by (simp add: push_all_snoc view_push)
    qed
  next
    case False
    with p have same: "{x. (k, x) \<in> set (ps @ [p])} = {x. (k, x) \<in> set ps}" by auto
    from snoc False show ?thesis unfolding same by (simp add: p push_all_snoc view_push)
  qed
qed

text \<open>A pop returns the best of the values pushed to its key, and a second pop returns zero.\<close>

lemma pop_push_all:
  assumes "view s k = None" and "(k, u) \<in> set ps"
  shows "best {v. (k, v) \<in> set ps} (fst (pop (push_all s ps) k))"
  using view_push_all [OF assms(1), of ps] assms(2)
  by (auto simp: pop_value split: option.splits)

lemma pop_pop: "fst (pop (snd (pop s k)) k) = zero"
  by (simp add: pop_value view_pop)

lemma pop_other: "j \<noteq> k \<Longrightarrow> fst (pop (snd (pop s k)) j) = fst (pop s j)"
  by (simp add: pop_value view_pop)

lemma peek_eq_pop: "peek s k = fst (pop s k)"
  by (simp add: peek_value pop_value)

end

section \<open>DurationStore\<close>

text \<open>
  What a key of the \<^verbatim>\<open>sync.Map\<close> holds: a cell of the expected type, or a value of another
  type (the edge case the code recovers from).
\<close>

datatype 'v entry = Cell 'v | Corrupt

type_synonym duration_store = "string \<rightharpoonup> duration entry"

definition NewDurationStore :: duration_store where
  "NewDurationStore = Map.empty"

definition dur_Greater :: "duration \<Rightarrow> duration \<Rightarrow> bool" where
  "dur_Greater oldDur newDur \<longleftrightarrow> newDur > oldDur"

definition dur_Less :: "duration \<Rightarrow> duration \<Rightarrow> bool" where
  "dur_Less oldDur newDur \<longleftrightarrow> newDur < oldDur"

definition dur_Update :: "(duration \<Rightarrow> duration \<Rightarrow> bool) \<Rightarrow> duration \<Rightarrow> duration \<Rightarrow> duration" where
  "dur_Update eval d newDur = (if eval d newDur then newDur else d)"

definition dur_Push ::
  "(duration \<Rightarrow> duration \<Rightarrow> bool) \<Rightarrow> duration_store \<Rightarrow> string \<Rightarrow> duration \<Rightarrow> duration_store" where
  "dur_Push eval dm key newDur =
     (case dm key of
        None \<Rightarrow> dm(key \<mapsto> Cell newDur)
      | Some Corrupt \<Rightarrow> (dm(key := None))(key \<mapsto> Cell newDur)
      | Some (Cell d) \<Rightarrow> dm(key \<mapsto> Cell (dur_Update eval d newDur)))"

definition dur_Pop :: "duration_store \<Rightarrow> string \<Rightarrow> duration \<times> duration_store" where
  "dur_Pop dm key =
     ((case dm key of None \<Rightarrow> 0 | Some Corrupt \<Rightarrow> 0 | Some (Cell d) \<Rightarrow> d), dm(key := None))"

definition dur_Peek :: "duration_store \<Rightarrow> string \<Rightarrow> duration" where
  "dur_Peek dm key = (case dm key of None \<Rightarrow> 0 | Some Corrupt \<Rightarrow> 0 | Some (Cell d) \<Rightarrow> d)"

section \<open>TimeStore\<close>

type_synonym time_store = "string \<rightharpoonup> time entry"

definition NewTimeStore :: time_store where
  "NewTimeStore = Map.empty"

definition time_Greater :: "time \<Rightarrow> time \<Rightarrow> bool" where
  "time_Greater oldTime newTime \<longleftrightarrow> newTime > oldTime"

definition time_Less :: "time \<Rightarrow> time \<Rightarrow> bool" where
  "time_Less oldTime newTime \<longleftrightarrow> newTime < oldTime"

definition time_Update :: "(time \<Rightarrow> time \<Rightarrow> bool) \<Rightarrow> time \<Rightarrow> time \<Rightarrow> time" where
  "time_Update eval t newTime = (if eval t newTime then newTime else t)"

definition time_Push :: "(time \<Rightarrow> time \<Rightarrow> bool) \<Rightarrow> time_store \<Rightarrow> string \<Rightarrow> time \<Rightarrow> time_store" where
  "time_Push eval ts key newTime =
     (case ts key of
        None \<Rightarrow> ts(key \<mapsto> Cell newTime)
      | Some Corrupt \<Rightarrow> (ts(key := None))(key \<mapsto> Cell newTime)
      | Some (Cell d) \<Rightarrow> ts(key \<mapsto> Cell (time_Update eval d newTime)))"

definition time_Pop :: "time_store \<Rightarrow> string \<Rightarrow> time \<times> time_store" where
  "time_Pop ts key =
     ((case ts key of None \<Rightarrow> 0 | Some Corrupt \<Rightarrow> 0 | Some (Cell t) \<Rightarrow> t), ts(key := None))"

definition time_Peek :: "time_store \<Rightarrow> string \<Rightarrow> time" where
  "time_Peek ts key = (case ts key of None \<Rightarrow> 0 | Some Corrupt \<Rightarrow> 0 | Some (Cell t) \<Rightarrow> t)"

section \<open>Both stores meet the interface\<close>

text \<open>A key with a value of another type counts as empty.\<close>

definition cell_view :: "(string \<rightharpoonup> 'v entry) \<Rightarrow> string \<Rightarrow> 'v option" where
  "cell_view m k = (case m k of Some (Cell v) \<Rightarrow> Some v | _ \<Rightarrow> None)"

lemmas dur_store_defs = dur_Push_def dur_Pop_def dur_Peek_def dur_Update_def dur_Greater_def
  dur_Less_def cell_view_def
lemmas time_store_defs = time_Push_def time_Pop_def time_Peek_def time_Update_def time_Greater_def
  time_Less_def cell_view_def

interpretation longest: keyed_store dur_Greater 0 "dur_Push dur_Greater" dur_Pop dur_Peek cell_view
  by unfold_locales (auto simp: dur_store_defs split: option.splits entry.splits)

interpretation shortest: keyed_store dur_Less 0 "dur_Push dur_Less" dur_Pop dur_Peek cell_view
  by unfold_locales (auto simp: dur_store_defs split: option.splits entry.splits)

interpretation latest: keyed_store time_Greater 0 "time_Push time_Greater" time_Pop time_Peek cell_view
  by unfold_locales (auto simp: time_store_defs split: option.splits entry.splits)

interpretation earliest: keyed_store time_Less 0 "time_Push time_Less" time_Pop time_Peek cell_view
  by unfold_locales (auto simp: time_store_defs split: option.splits entry.splits)

lemma best_is_Max:
  assumes "finite V"
  shows "longest.best V v \<longleftrightarrow> V \<noteq> {} \<and> v = Max V"
  using assms by (auto simp: longest.best_def dur_Greater_def not_less intro!: Max_eqI [symmetric] Max_in)

lemma latest_is_Max:
  assumes "finite V"
  shows "latest.best V v \<longleftrightarrow> V \<noteq> {} \<and> v = Max V"
  using assms by (auto simp: latest.best_def time_Greater_def not_less intro!: Max_eqI [symmetric] Max_in)

lemma finite_pushed: "finite {v. (k, v) \<in> set ps}"
  by (rule finite_subset [of _ "snd ` set ps"]) (auto simp: rev_image_eqI)

text \<open>
  The requeue store of the reconcilers (a \<open>DurationStore\<close> made with \<open>Greater\<close>): whatever
  is pushed to whatever keys, a pop returns the longest of the durations pushed to its key since
  the key was last popped, and the pop after it returns 0.
\<close>

theorem durationStore_pop_longest:
  assumes "cell_view dm key = None" and "(key, d) \<in> set pushes"
  shows "fst (dur_Pop (foldl (\<lambda>s (k, v). dur_Push dur_Greater s k v) dm pushes) key) =
           Max {v. (key, v) \<in> set pushes} \<and>
         fst (dur_Pop (snd (dur_Pop (foldl (\<lambda>s (k, v). dur_Push dur_Greater s k v) dm pushes) key)) key) = 0"
  using longest.pop_push_all [OF assms] longest.pop_pop
  by (simp add: best_is_Max [OF finite_pushed] longest.push_all_def)

theorem durationStore_pop_longest_witness:
  "fst (dur_Pop (foldl (\<lambda>s (k, v). dur_Push dur_Greater s k v) NewDurationStore
      [(''a'', 10), (''b'', 99), (''a'', 30), (''a'', 20)]) ''a'') = 30"
  using durationStore_pop_longest [of NewDurationStore "''a''" 10
      "[(''a'', 10), (''b'', 99), (''a'', 30), (''a'', 20)]"]
  by (simp add: NewDurationStore_def dur_store_defs)

section \<open>ClientMap\<close>

text \<open>
  The registry of Slurm clients. A client is started when it enters the map and stopped when it
  leaves it; \<open>cm_runs\<close> is the sequence of those calls, newest first.
\<close>

datatype client_call = Started nat | Stopped nat

record client_map =
  cm_clients :: "string \<rightharpoonup> nat"
  cm_runs :: "client_call list"

definition NewClientMap :: client_map where
  "NewClientMap = \<lparr>cm_clients = Map.empty, cm_runs = []\<rparr>"

definition cm_Get :: "client_map \<Rightarrow> nsname \<Rightarrow> nat option" where
  "cm_Get c name = (case cm_clients c (nsname_String name) of Some client \<Rightarrow> Some client | None \<Rightarrow> None)"

fun cm_Has :: "client_map \<Rightarrow> nsname list \<Rightarrow> bool" where
  "cm_Has c [] = False"
| "cm_Has c (name # names) = (if cm_clients c (nsname_String name) \<noteq> None then True else cm_Has c names)"

definition cm_add :: "client_map \<Rightarrow> nsname \<Rightarrow> nat \<Rightarrow> bool \<times> client_map" where
  "cm_add c name client =
     (if cm_clients c (nsname_String name) = None
      then (True, c\<lparr>cm_runs := Started client # cm_runs c,
                    cm_clients := (cm_clients c)(nsname_String name \<mapsto> client)\<rparr>)
      else (False, c))"

definition cm_remove :: "client_map \<Rightarrow> nsname \<Rightarrow> bool \<times> client_map" where
  "cm_remove c name =
     (case cm_clients c (nsname_String name) of
        Some client \<Rightarrow> (True, c\<lparr>cm_runs := Stopped client # cm_runs c,
                              cm_clients := (cm_clients c)(nsname_String name := None)\<rparr>)
      | None \<Rightarrow> (False, c))"

definition cm_Add :: "client_map \<Rightarrow> nsname \<Rightarrow> nat \<Rightarrow> bool \<times> client_map" where
  "cm_Add c name client = cm_add (snd (cm_remove c name)) name client"

definition cm_Remove :: "client_map \<Rightarrow> nsname \<Rightarrow> bool \<times> client_map" where
  "cm_Remove c name = cm_remove c name"

lemmas cm_defs = cm_Get_def cm_add_def cm_remove_def cm_Add_def cm_Remove_def

text \<open>Names have no slash in their namespace part, so their textual form is unambiguous.\<close>

definition plain_namespace :: "nsname \<Rightarrow> bool" where
  "plain_namespace k \<longleftrightarrow> CHR ''/'' \<notin> set (fst k)"

lemma nsname_String_inject:
  assumes "plain_namespace a" and "plain_namespace b"
  shows "nsname_String a = nsname_String b \<longleftrightarrow> a = b"
proof
  assume eq: "nsname_String a = nsname_String b"
  have "takeWhile (\<lambda>c. c \<noteq> CHR ''/'') (nsname_String k) = fst k" if "plain_namespace k" for k
    using that by (subst nsname_String_def, subst takeWhile_append2)
      (auto simp: plain_namespace_def)
  then have "fst a = fst b"
    using assms eq by metis
  with eq show "a = b"
    by (cases a; cases b) (simp add: nsname_String_def)
qed simp

text \<open>Every client has been started as often as it was stopped and is now registered.\<close>

definition keys_of :: "('k \<rightharpoonup> 'v) \<Rightarrow> 'v \<Rightarrow> 'k set" where
  "keys_of m x = {k. m k = Some x}"

definition cm_balanced :: "client_map \<Rightarrow> bool" where
  "cm_balanced c \<longleftrightarrow> finite (dom (cm_clients c)) \<and>
     (\<forall>x. count_list (cm_runs c) (Started x) =
          count_list (cm_runs c) (Stopped x) + card (keys_of (cm_clients c) x))"

lemma finite_keys_of: "finite (dom m) \<Longrightarrow> finite (keys_of m x)"
  by (rule finite_subset [of _ "dom m"]) (auto simp: keys_of_def)

lemma card_keys_put:
  assumes "finite (dom m)" and "m k = None"
  shows "card (keys_of (m(k \<mapsto> c)) x) = card (keys_of m x) + (if c = x then 1 else 0)"
proof -
  have "keys_of (m(k \<mapsto> c)) x = (if c = x then insert k (keys_of m x) else keys_of m x)"
    and "k \<notin> keys_of m x"
    using assms(2) by (auto simp: keys_of_def)
  then show ?thesis
    using finite_keys_of [OF assms(1)] by simp
qed

lemma card_keys_delete:
  assumes "finite (dom m)" and "m k = Some c"
  shows "card (keys_of m x) = card (keys_of (m(k := None)) x) + (if c = x then 1 else 0)"
proof -
  have "m = (m(k := None))(k \<mapsto> c)" using assms(2) by auto
  then show ?thesis
    using card_keys_put [of "m(k := None)" k c x] assms(1) by simp
qed

lemma cm_balanced_add: "cm_balanced c \<Longrightarrow> cm_balanced (snd (cm_add c name x))"
  by (auto simp: cm_balanced_def cm_add_def card_keys_put)

lemma cm_balanced_remove: "cm_balanced c \<Longrightarrow> cm_balanced (snd (cm_remove c name))"
  using card_keys_delete [of "cm_clients c" "nsname_String name"]
  by (cases "cm_clients c (nsname_String name)") (auto simp: cm_balanced_def cm_remove_def)

inductive cm_reachable :: "client_map \<Rightarrow> bool" where
  cm_new: "cm_reachable NewClientMap"
| cm_added: "cm_reachable c \<Longrightarrow> cm_reachable (snd (cm_Add c name client))"
| cm_removed: "cm_reachable c \<Longrightarrow> cm_reachable (snd (cm_Remove c name))"

lemma cm_reachable_balanced: "cm_reachable c \<Longrightarrow> cm_balanced c"
proof (induction rule: cm_reachable.induct)
  case cm_new
  then show ?case by (simp add: cm_balanced_def NewClientMap_def keys_of_def)
qed (simp_all add: cm_Add_def cm_Remove_def cm_balanced_add cm_balanced_remove)

text \<open>
  C36. In every client map the operations can build, each Slurm client has been started once more
  often than it was stopped for each name it is registered under: a registered client runs, and
  one that was replaced or removed under all its names is stopped.
\<close>

theorem clientmap_starts_balanced:
  assumes "cm_reachable c"
  shows "count_list (cm_runs c) (Started x) =
         count_list (cm_runs c) (Stopped x) + card (keys_of (cm_clients c) x)"
  using cm_reachable_balanced [OF assms] by (simp add: cm_balanced_def)

theorem clientmap_starts_balanced_witness:
  "count_list (cm_runs (snd (cm_Add NewClientMap (''ns'', ''a'') 7))) (Started 7) =
   count_list (cm_runs (snd (cm_Add NewClientMap (''ns'', ''a'') 7))) (Stopped 7) +
   card (keys_of (cm_clients (snd (cm_Add NewClientMap (''ns'', ''a'') 7))) 7)"
  using clientmap_starts_balanced [OF cm_added [OF cm_new]] .

text \<open>The map refines a map from names to clients.\<close>

text \<open>
  \<open>Add\<close> always registers the given client under the given name, replacing any client that
  was there, \<open>Remove\<close> leaves the name without a client, and neither changes what any other
  name resolves to.
\<close>

theorem clientmap_lookup:
  assumes "plain_namespace name" and "plain_namespace other"
  shows "cm_Get (snd (cm_Add c name client)) other = (if other = name then Some client else cm_Get c other) \<and>
         cm_Get (snd (cm_Remove c name)) other = (if other = name then None else cm_Get c other) \<and>
         fst (cm_Add c name client) \<and> fst (cm_Remove c name) = (cm_Get c name \<noteq> None)"
  using nsname_String_inject [OF assms] by (auto simp: cm_defs split: option.split)

theorem clientmap_lookup_witness:
  "cm_Get (snd (cm_Add NewClientMap (''ns'', ''a'') 7)) (''ns'', ''a'') = Some 7"
  using clientmap_lookup [of "(''ns'', ''a'')" "(''ns'', ''a'')" NewClientMap 7]
  by (simp add: plain_namespace_def)

end
