(* ===== verification/Resources.thy ===== *)
theory Resources
  imports Objects
begin

text \<open>
  The resources next to NodeSets (\<^verbatim>\<open>api/v1beta1\<close>: Controller, RestApi, Accounting, LoginSet), their
  services, and the objects that the controllers apply.
  Fields of Kubernetes objects that the code only passes on are collected in a field of type \<open>opaque\<close>.
\<close>

section \<open>Services\<close>

record service_port =
  sp_Name :: string
  sp_Protocol :: string
  sp_Port :: int
  sp_TargetPort :: string
  sp_NodePort :: int

record service_spec =
  ss_Ports :: "service_port list"
  ss_Selector :: strmap
  ss_ClusterIP :: string
  ss_PublishNotReadyAddresses :: bool
  ss_Rest :: opaque

text \<open>\<^verbatim>\<open>ServiceSpec\<close> of \<^verbatim>\<open>base_types.go\<close>, the template for the service of a resource.\<close>

record service_template =
  st_Metadata :: metadata
  st_Spec :: service_spec
  st_Port :: int
  st_NodePort :: int

record metric_endpoint =
  me_Path :: string
  me_Interval :: string
  me_ScrapeTimeout :: string

record metrics =
  mt_Enabled :: bool
  mt_MonitorEnabled :: bool
  mt_Metadata :: metadata
  mt_Interval :: string
  mt_ScrapeTimeout :: string
  mt_Endpoints :: "metric_endpoint list"

section \<open>Resources\<close>

record slurm_controller =
  ct_Namespace :: string
  ct_Name :: string
  ct_UID :: string
  ct_Metadata :: metadata
  ct_DeletionTimestamp :: "time option"
  ct_ClusterName :: string
  ct_SlurmKeyRef :: secret_key_selector
  ct_JwtHs256KeyRef :: "secret_key_selector option"
  ct_JwtKeyRef :: "secret_key_selector option"
  ct_JwksKeyRef :: "secret_key_selector option"
  ct_AccountingRef :: "nsname option"
  ct_External :: bool
  ct_ExternalHost :: string
  ct_ExternalPort :: int
  ct_Slurmctld :: container
  ct_InplaceReconfigure :: bool
  ct_Reconfigure :: container
  ct_LogFile :: container
  ct_Template :: pod_template
  ct_ExtraConf :: string
  ct_ConfigFileRefs :: "nsname list"
  ct_PrologScriptRefs :: "nsname list"
  ct_EpilogScriptRefs :: "nsname list"
  ct_PrologSlurmctldScriptRefs :: "nsname list"
  ct_EpilogSlurmctldScriptRefs :: "nsname list"
  ct_PersistenceEnabled :: "bool option"
  ct_ExistingClaim :: string
  ct_ClaimSpec :: opaque
  ct_Service :: service_template
  ct_Metrics :: metrics
  ct_Conditions :: "opaque list"

record restapi =
  ra_Namespace :: string
  ra_Name :: string
  ra_UID :: string
  ra_Metadata :: metadata
  ra_DeletionTimestamp :: "time option"
  ra_ControllerRef :: nsname
  ra_Replicas :: "int option"
  ra_Slurmrestd :: container
  ra_Template :: pod_template
  ra_Service :: service_template
  ra_Conditions :: "opaque list"

record accounting =
  ac_Namespace :: string
  ac_Name :: string
  ac_UID :: string
  ac_Metadata :: metadata
  ac_DeletionTimestamp :: "time option"
  ac_SlurmKeyRef :: secret_key_selector
  ac_JwtHs256KeyRef :: "secret_key_selector option"
  ac_JwtKeyRef :: "secret_key_selector option"
  ac_JwksKeyRef :: "secret_key_selector option"
  ac_External :: bool
  ac_Slurmdbd :: container
  ac_Template :: pod_template
  ac_StorageHost :: string
  ac_StoragePort :: int
  ac_StorageDatabase :: string
  ac_StorageUsername :: string
  ac_PasswordKeyRef :: secret_key_selector
  ac_ExtraConf :: string
  ac_Service :: service_template
  ac_Conditions :: "opaque list"

record loginset =
  ls_Namespace :: string
  ls_Name :: string
  ls_UID :: string
  ls_Metadata :: metadata
  ls_DeletionTimestamp :: "time option"
  ls_ControllerRef :: nsname
  ls_Replicas :: "int option"
  ls_Login :: container
  ls_InitConf :: container
  ls_Template :: pod_template
  ls_RootSshAuthorizedKeys :: string
  ls_ExtraSshdConfig :: string
  ls_SssdConfRef :: secret_key_selector
  ls_Strategy :: opaque
  ls_Service :: service_template
  ls_Conditions :: "opaque list"

record loginset_status =
  lst_Replicas :: int
  lst_Selector :: string
  lst_Conditions :: "opaque list"

text \<open>\<^verbatim>\<open>JwtSecretKeySelector\<close>, and the \<^verbatim>\<open>Token\<close> resource.\<close>

record jwt_secret_ref =
  jr_Selector :: secret_key_selector
  jr_Namespace :: string

record token_status =
  ts_IssuedAt :: "time option"
  ts_Conditions :: "opaque list"

record token =
  tk_Namespace :: string
  tk_Name :: string
  tk_Labels :: strmap
  tk_Annotations :: strmap
  tk_DeletionTimestamp :: "time option"
  tk_JwtHs256KeyRef :: "jwt_secret_ref option"
  tk_JwtKeyRef :: "jwt_secret_ref option"
  tk_Username :: string
  tk_Lifetime :: "duration option"
  tk_Refresh :: "bool option"
  tk_SecretRef :: "secret_key_selector option"
  tk_Status :: token_status

text \<open>The claims of a JSON web token for Slurm.\<close>

record token_claims =
  cl_Issuer :: string
  cl_IssuedAt :: time
  cl_ExpiresAt :: time
  cl_NotBefore :: time
  cl_SlurmUsername :: string

section \<open>Objects the operator makes\<close>

text \<open>
  An endpoint of a service monitor. Objects the operator makes for a resource: their kind, their metadata, whether they are immutable, and
  the fields of their content by path, each with its value. The \<^verbatim>\<open>StringData\<close> of a secret is kept apart.
\<close>

datatype kind = ConfigMap | Secret | Service | Deployment | StatefulSet | SlurmController | RestApi
  | Accounting | NodeSet | LoginSet | PodDisruptionBudget | ServiceMonitor | OtherKind

record endpoint =
  ep_Path :: string
  ep_Port :: string
  ep_Scheme :: string
  ep_Interval :: string
  ep_ScrapeTimeout :: string

datatype field_value =
    Text string
  | Number "int option"
  | Flag bool
  | StringMap "string \<rightharpoonup> string"
  | IntOrString int_or_string
  | ServiceSpecValue service_spec
  | Template pod_template_spec
  | Claims "pvc list"
  | Endpoints "endpoint list"
  | Names "string list"
  | Raw opaque

record kobject =
  ko_Kind :: kind
  ko_Key :: nsname
  ko_UID :: string
  ko_DeletionTimestamp :: "time option"
  ko_Annotations :: strmap
  ko_Labels :: strmap
  ko_OwnerReferences :: "owner_ref list"
  ko_Immutable :: "bool option"
  ko_Fields :: "string \<rightharpoonup> field_value"
  ko_StringData :: strmap

section \<open>Zero values\<close>

definition empty_service_spec :: service_spec where
  "empty_service_spec = \<lparr>ss_Ports = [], ss_Selector = None, ss_ClusterIP = '''', ss_PublishNotReadyAddresses = False,
     ss_Rest = ''''\<rparr>"

definition empty_service :: service_template where
  "empty_service = \<lparr>st_Metadata = no_metadata, st_Spec = empty_service_spec, st_Port = 0, st_NodePort = 0\<rparr>"

definition empty_metrics :: metrics where
  "empty_metrics = \<lparr>mt_Enabled = False, mt_MonitorEnabled = False, mt_Metadata = no_metadata, mt_Interval = '''',
     mt_ScrapeTimeout = '''', mt_Endpoints = []\<rparr>"

definition empty_controller :: slurm_controller where
  "empty_controller = \<lparr>ct_Namespace = '''', ct_Name = '''', ct_UID = '''', ct_Metadata = no_metadata,
     ct_DeletionTimestamp = None, ct_ClusterName = '''', ct_SlurmKeyRef = no_secret_key, ct_JwtHs256KeyRef = None,
     ct_JwtKeyRef = None, ct_JwksKeyRef = None, ct_AccountingRef = None, ct_External = False, ct_ExternalHost = '''',
     ct_ExternalPort = 0, ct_Slurmctld = empty_container, ct_InplaceReconfigure = False, ct_Reconfigure = empty_container,
     ct_LogFile = empty_container, ct_Template = empty_template, ct_ExtraConf = '''', ct_ConfigFileRefs = [],
     ct_PrologScriptRefs = [], ct_EpilogScriptRefs = [], ct_PrologSlurmctldScriptRefs = [],
     ct_EpilogSlurmctldScriptRefs = [], ct_PersistenceEnabled = None, ct_ExistingClaim = '''', ct_ClaimSpec = '''',
     ct_Service = empty_service, ct_Metrics = empty_metrics, ct_Conditions = []\<rparr>"

definition empty_restapi :: restapi where
  "empty_restapi = \<lparr>ra_Namespace = '''', ra_Name = '''', ra_UID = '''', ra_Metadata = no_metadata,
     ra_DeletionTimestamp = None, ra_ControllerRef = ('''', ''''), ra_Replicas = None, ra_Slurmrestd = empty_container,
     ra_Template = empty_template, ra_Service = empty_service, ra_Conditions = []\<rparr>"

definition empty_accounting :: accounting where
  "empty_accounting = \<lparr>ac_Namespace = '''', ac_Name = '''', ac_UID = '''', ac_Metadata = no_metadata,
     ac_DeletionTimestamp = None, ac_SlurmKeyRef = no_secret_key, ac_JwtHs256KeyRef = None, ac_JwtKeyRef = None,
     ac_JwksKeyRef = None, ac_External = False, ac_Slurmdbd = empty_container, ac_Template = empty_template,
     ac_StorageHost = '''', ac_StoragePort = 0, ac_StorageDatabase = '''', ac_StorageUsername = '''',
     ac_PasswordKeyRef = no_secret_key, ac_ExtraConf = '''', ac_Service = empty_service, ac_Conditions = []\<rparr>"

definition empty_loginset :: loginset where
  "empty_loginset = \<lparr>ls_Namespace = '''', ls_Name = '''', ls_UID = '''', ls_Metadata = no_metadata,
     ls_DeletionTimestamp = None, ls_ControllerRef = ('''', ''''), ls_Replicas = None, ls_Login = empty_container,
     ls_InitConf = empty_container, ls_Template = empty_template, ls_RootSshAuthorizedKeys = '''',
     ls_ExtraSshdConfig = '''', ls_SssdConfRef = no_secret_key, ls_Strategy = '''', ls_Service = empty_service,
     ls_Conditions = []\<rparr>"

end
