(* ===== verification/Machine.thy ===== *)
theory Machine
  imports Stores Resources
begin

text \<open>
  The machine the operator's handlers run on.

  Everything the operator calls that is not part of the repository (the Kubernetes API server
  behind controller-runtime's client, the Slurm REST client, the controller expectations and
  the back-off of Kubernetes, the event recorder, the clock, the goroutine scheduler, pure
  helpers of Kubernetes) is a field of the parameter \<open>world\<close>. An effectful call is answered by
  a function of the whole history of calls, so an answer may depend on everything the operator
  did before, and on any activity of other clients in between: nothing is assumed of it. The
  call and its answer are then put in front of the history.

  The state of a handler is this history (\<open>log\<close>, newest first), the in-memory Pod objects the
  handlers share through pointers (\<open>heap\<close>), and the content of the package variable
  \<^verbatim>\<open>durationStore\<close> (\<open>durs\<close>).
\<close>

type_synonym ref = nat
type_synonym client = nat

text \<open>
  Events: a read with its answer, a write to the cluster or to Slurm with its outcome, and a
  call to the in-process helpers of Kubernetes (expectations, back-off, event recorder). A panic is an
  event too, so that no caller can lose it; it changes nothing outside and stands with the reads.
\<close>

text \<open>What is asked of Go's key generators: the length of an RSA key, the curve of an ECDSA key.\<close>

datatype key_request = RsaKey int | EcdsaKey opaque | Ed25519Key

text \<open>
  The run-time panics of a reconcile of a NodeSet, with the object at fault: a write to the nil annotations
  of a pod, a write to the nil labels of a revision, an item of the extra configuration that is no
  assignment, and accesses outside of a slice of revisions.
\<close>

datatype panic =
    NilAnnotations pod
  | NilLabels controller_revision
  | MalformedConf
  | IndexOutOfRange
  | SliceBounds
  | NilRevision

datatype rd =
    GotPod nsname "err + pod"
  | ListedPods "err + pod list"
  | GotNode string "err + node"
  | ListedNodes "err + node list"
  | ListedPodsOn string "err + pod list" \<comment> \<open>by node name\<close>
  | GotNodeSet nsname "err + nodeset"
  | ListedNodeSets "err + nodeset list"
  | ListedNodeSetsIn string "err + nodeset list" \<comment> \<open>by namespace\<close>
  | ListedControllers "err + slurm_controller list"
  | GotPVC nsname "err + pvc"
  | ListedRevisions "err + controller_revision list"
  | GotRevision nsname "err + controller_revision"
  | LookedUpClient nsname "client option"
  | GotSlurmNode client string "err + slurm_node"
  | ListedSlurmNodes client bool "err + slurm_node list"
  | ListedSlurmJobs client "err + job list"
  | GotObject kind nsname "err + kobject"
  | GotSlurmController nsname "err + slurm_controller"
  | ListedRestapis "err + restapi list"
  | GotSecretData nsname "err + (string \<rightharpoonup> string)"
  | GotToken nsname "err + token"
  | GotAccounting nsname "err + accounting"
  | ListedAccountings "err + accounting list"
  | GotRestapi nsname "err + restapi"
  | GotLoginSet nsname "err + loginset"
  | ListedLoginSets "err + loginset list"
  | GotConfigMapData nsname "err + (string \<rightharpoonup> string)"
  | GotDeploymentReplicas nsname "err + int" \<comment> \<open>of the status\<close>
  | MappedKind kind error \<comment> \<open>whether the API server knows a kind\<close>
  | MadeKeyPair key_request "err + opaque"
  | SignedToken token_claims string string "err + string" \<comment> \<open>claims, method, key\<close>
  | MadeClient string string "err + client" \<comment> \<open>server, token\<close>
  | Satisfied string bool
  | InBackOff string bool
  | BackOffDelay string duration
  | Clock time
  | Panicked panic \<comment> \<open>the goroutine ends here\<close>

datatype wr =
    CreatedPod pod "err + pod"
  | UpdatedPod pod "err + pod"
  | PatchedPod pod pod error \<comment> \<open>new object, base of the patch\<close>
  | PatchedPodStatus pod pod error
  | PatchedPodRaw nsname opaque error \<comment> \<open>patch as bytes\<close>
  | DeletedPod nsname error
  | PatchedNode node node error
  | UpdatedNodeSetStatus nodeset nodeset_status error
  | CreatedPVC pvc error
  | UpdatedPVC pvc error
  | UpdatedSlurmNode client slurm_node node_msg error
  | DeletedSlurmNode client string error
  | ClaimedPods nodeset "err + pod list" \<comment> \<open>adoption and release of pods\<close>
  | CreatedRevision controller_revision "err + controller_revision"
  | UpdatedRevision controller_revision "err + controller_revision"
  | DeletedRevision nsname error
  | CreatedObject kobject error
  | PatchedObject kobject kobject error \<comment> \<open>new object, base of the patch\<close>
  | DeletedObject kobject error
  | UpdatedTokenStatus token token_status error
  | ConnectedClient client string string \<comment> \<open>server and token set in a running client\<close>
  | UpdatedConditions kind nsname "opaque list" error \<comment> \<open>status of a Controller, RestApi or Accounting\<close>
  | UpdatedLoginSetStatus nsname loginset_status error

datatype ctl =
    ExpectedDeletions string "string list" error
  | RaisedExpectations string nat nat
  | ResetExpectations string nat nat error
  | CreationObserved string
  | DeletionObserved string string
  | DeletedExpectations string
  | BackOffNext string
  | Enqueued nsname duration \<comment> \<open>a request in the work queue, after a delay\<close>
  | Eventf string string string error \<comment> \<open>type, reason, action, error shown in the note\<close>

datatype ev = Rd rd | Wr wr | Ctl ctl

type_synonym history = "ev list"

record st =
  log :: history
  heap :: "ref \<Rightarrow> pod"
  durs :: duration_store
  clients :: client_map

type_synonym 'a prog = "(st, 'a) state"

text \<open>
  The variables a retried closure captures and rebinds: the local copy of the Pod, if the first
  attempt was rejected, and whether an update was attempted.
\<close>

type_synonym retry_locals = "pod option \<times> bool"

record world =
  w_GetPod :: "history \<Rightarrow> nsname \<Rightarrow> err + pod"
  w_ListPods :: "history \<Rightarrow> err + pod list"
  w_CreatePod :: "history \<Rightarrow> pod \<Rightarrow> err + pod"
  w_UpdatePod :: "history \<Rightarrow> pod \<Rightarrow> err + pod"
  w_PatchPod :: "history \<Rightarrow> pod \<Rightarrow> pod \<Rightarrow> error"
  w_PatchPodStatus :: "history \<Rightarrow> pod \<Rightarrow> pod \<Rightarrow> error"
  w_PatchPodRaw :: "history \<Rightarrow> nsname \<Rightarrow> opaque \<Rightarrow> error"
  w_DeletePod :: "history \<Rightarrow> nsname \<Rightarrow> error"
  w_GetNode :: "history \<Rightarrow> string \<Rightarrow> err + node"
  w_ListNodes :: "history \<Rightarrow> err + node list"
  w_ListPodsOn :: "history \<Rightarrow> string \<Rightarrow> err + pod list"
  w_ListNodeSetsIn :: "history \<Rightarrow> string \<Rightarrow> err + nodeset list"
  w_ListControllers :: "history \<Rightarrow> err + slurm_controller list"
  w_PatchNode :: "history \<Rightarrow> node \<Rightarrow> node \<Rightarrow> error"
  w_GetNodeSet :: "history \<Rightarrow> nsname \<Rightarrow> err + nodeset"
  w_ListNodeSets :: "history \<Rightarrow> err + nodeset list"
  w_UpdateNodeSetStatus :: "history \<Rightarrow> nodeset \<Rightarrow> nodeset_status \<Rightarrow> error"
  w_GetPVC :: "history \<Rightarrow> nsname \<Rightarrow> err + pvc"
  w_CreatePVC :: "history \<Rightarrow> pvc \<Rightarrow> error"
  w_UpdatePVC :: "history \<Rightarrow> pvc \<Rightarrow> error"
  w_ListRevisions :: "history \<Rightarrow> nodeset \<Rightarrow> err + controller_revision list"
  w_GetRevision :: "history \<Rightarrow> nsname \<Rightarrow> err + controller_revision"
  w_CreateRevision :: "history \<Rightarrow> controller_revision \<Rightarrow> err + controller_revision"
  w_UpdateRevision :: "history \<Rightarrow> controller_revision \<Rightarrow> err + controller_revision"
  w_DeleteRevision :: "history \<Rightarrow> nsname \<Rightarrow> error"
  \<comment> \<open>PodControllerRefManager.ClaimPods: the pods of the NodeSet among the given ones\<close>
  w_ClaimPods :: "history \<Rightarrow> nodeset \<Rightarrow> pod list \<Rightarrow> (pod \<Rightarrow> bool) \<Rightarrow> err + pod list"
  w_ClientMap :: "history \<Rightarrow> client_map"
  w_SlurmGet :: "history \<Rightarrow> client \<Rightarrow> string \<Rightarrow> err + slurm_node"
  w_SlurmListNodes :: "history \<Rightarrow> client \<Rightarrow> bool \<Rightarrow> err + slurm_node list"
  w_SlurmListJobs :: "history \<Rightarrow> client \<Rightarrow> err + job list"
  w_SlurmUpdate :: "history \<Rightarrow> client \<Rightarrow> slurm_node \<Rightarrow> node_msg \<Rightarrow> error"
  w_SlurmDelete :: "history \<Rightarrow> client \<Rightarrow> string \<Rightarrow> error"
  w_GetObject :: "history \<Rightarrow> kind \<Rightarrow> nsname \<Rightarrow> err + kobject"
  w_CreateObject :: "history \<Rightarrow> kobject \<Rightarrow> error"
  w_PatchObject :: "history \<Rightarrow> kobject \<Rightarrow> kobject \<Rightarrow> error"
  w_DeleteObject :: "history \<Rightarrow> kobject \<Rightarrow> error"
  w_GetSlurmController :: "history \<Rightarrow> nsname \<Rightarrow> err + slurm_controller"
  w_ListRestapis :: "history \<Rightarrow> err + restapi list"
  w_GetSecretData :: "history \<Rightarrow> nsname \<Rightarrow> err + (string \<rightharpoonup> string)"
  w_GetToken :: "history \<Rightarrow> nsname \<Rightarrow> err + token"
  w_UpdateTokenStatus :: "history \<Rightarrow> token \<Rightarrow> token_status \<Rightarrow> error"
  \<comment> \<open>jwt.NewWithClaims(method, claims).SignedString(key), with a fresh identifier in the claims\<close>
  w_SignToken :: "history \<Rightarrow> token_claims \<Rightarrow> string \<Rightarrow> string \<Rightarrow> err + string"
  \<comment> \<open>slurmclient.NewClient\<close>
  w_NewClient :: "history \<Rightarrow> string \<Rightarrow> string \<Rightarrow> err + client"
  w_GetAccounting :: "history \<Rightarrow> nsname \<Rightarrow> err + accounting"
  w_ListAccountings :: "history \<Rightarrow> err + accounting list"
  w_GetRestapi :: "history \<Rightarrow> nsname \<Rightarrow> err + restapi"
  w_GetLoginSet :: "history \<Rightarrow> nsname \<Rightarrow> err + loginset"
  w_ListLoginSets :: "history \<Rightarrow> err + loginset list"
  w_GetConfigMapData :: "history \<Rightarrow> nsname \<Rightarrow> err + (string \<rightharpoonup> string)"
  w_GetDeploymentReplicas :: "history \<Rightarrow> nsname \<Rightarrow> err + int"
  \<comment> \<open>GroupVersionKindFor and RESTMapping of a kind\<close>
  w_MapKind :: "history \<Rightarrow> kind \<Rightarrow> error"
  \<comment> \<open>generation of a key pair of a type (rsa, ecdsa, ed25519)\<close>
  w_GenerateKey :: "history \<Rightarrow> key_request \<Rightarrow> err + opaque"
  w_UpdateConditions :: "history \<Rightarrow> kind \<Rightarrow> nsname \<Rightarrow> opaque list \<Rightarrow> error"
  w_UpdateLoginSetStatus :: "history \<Rightarrow> nsname \<Rightarrow> loginset_status \<Rightarrow> error"
  w_ExpectDeletions :: "history \<Rightarrow> string \<Rightarrow> string list \<Rightarrow> error"
  w_SetExpectations :: "history \<Rightarrow> string \<Rightarrow> nat \<Rightarrow> nat \<Rightarrow> error"
  w_SatisfiedExpectations :: "history \<Rightarrow> string \<Rightarrow> bool"
  w_InBackOff :: "history \<Rightarrow> string \<Rightarrow> bool"
  w_BackOffGet :: "history \<Rightarrow> string \<Rightarrow> duration"
  w_Now :: "history \<Rightarrow> time"
  \<comment> \<open>the order in which the goroutines of one batch run\<close>
  w_sched :: "nat list \<Rightarrow> nat list"
  \<comment> \<open>sort.Sort on a slice of Pod pointers, by a Less function\<close>
  w_sort :: "(ref \<Rightarrow> ref \<Rightarrow> bool) \<Rightarrow> ref list \<Rightarrow> ref list"
  \<comment> \<open>the order in which a range over a map of claims visits its entries\<close>
  w_range :: "(string \<times> pvc) list \<Rightarrow> (string \<times> pvc) list"
  \<comment> \<open>podutil.IsPodReady, podutil.IsPodAvailable\<close>
  w_IsPodReady :: "pod \<Rightarrow> bool"
  w_IsPodAvailable :: "pod \<Rightarrow> int \<Rightarrow> time \<Rightarrow> bool"
  \<comment> \<open>podutil.IsPodTerminal, daemonutils.GetTargetNodeName\<close>
  w_IsPodTerminal :: "pod \<Rightarrow> bool"
  w_GetTargetNodeName :: "pod \<Rightarrow> string option"
  \<comment> \<open>intstr.GetScaledValueFromIntOrPercent\<close>
  w_GetScaledValue :: "int_or_string option \<Rightarrow> int \<Rightarrow> bool \<Rightarrow> err + int"
  \<comment> \<open>nodeaffinity.GetRequiredNodeAffinity(pod).Match(node)\<close>
  w_NodeAffinityMatch :: "pod \<Rightarrow> node \<Rightarrow> bool"
  \<comment> \<open>corev1helper.FindMatchingUntoleratedTaint: whether there is one\<close>
  w_HasUntoleratedTaint :: "taint list \<Rightarrow> toleration list \<Rightarrow> (taint \<Rightarrow> bool) \<Rightarrow> bool"
  \<comment> \<open>taints.AddOrUpdateTaint, taints.RemoveTaint: the new node and whether it changed\<close>
  w_AddOrUpdateTaint :: "node \<Rightarrow> taint \<Rightarrow> err + node \<times> bool"
  w_RemoveTaint :: "node \<Rightarrow> taint \<Rightarrow> err + node \<times> bool"
  \<comment> \<open>daemonutils.ReplaceDaemonSetPodNodeNameNodeAffinity\<close>
  w_ReplaceNodeAffinity :: "affinity option \<Rightarrow> string \<Rightarrow> affinity option"
  \<comment> \<open>k8scontroller.GetPodFromTemplate with the NodeSet as parent and controller; its error is dropped\<close>
  w_GetPodFromTemplate :: "pod_template_spec \<Rightarrow> nodeset \<Rightarrow> pod"
  \<comment> \<open>time.Parse(time.RFC3339, s), t.Format(time.RFC3339)\<close>
  w_ParseTime :: "string \<Rightarrow> time option"
  w_FormatTime :: "time \<Rightarrow> string"
  \<comment> \<open>json.Marshal of a PodInfo, json.Unmarshal into one\<close>
  w_MarshalPodInfo :: "pod_info \<Rightarrow> string"
  w_UnmarshalPodInfo :: "string \<Rightarrow> pod_info \<times> error" \<comment> \<open>what a zero PodInfo becomes\<close>
  \<comment> \<open>hostlist.Expand\<close>
  w_Expand :: "string \<Rightarrow> err + string list"
  \<comment> \<open>the entries of a map of strings, in the order in which a range over it visits them\<close>
  w_entries :: "(string \<rightharpoonup> string) \<Rightarrow> (string \<times> string) list"
  \<comment> \<open>k8slabels.SelectorFromSet(labels).String()\<close>
  w_SelectorString :: "(string \<rightharpoonup> string) \<Rightarrow> string"
  \<comment> \<open>k8slabels.SelectorFromSet(labels).Empty(), .Matches(set)\<close>
  w_SelectorEmpty :: "(string \<rightharpoonup> string) \<Rightarrow> bool"
  w_SelectorMatches :: "(string \<rightharpoonup> string) \<Rightarrow> strmap \<Rightarrow> bool"
  \<comment> \<open>podutil.GetPodCondition, podutil.UpdatePodCondition at a time\<close>
  w_GetPodCondition :: "pod_condition list \<Rightarrow> string \<Rightarrow> pod_condition option"
  w_UpdatePodCondition :: "time \<Rightarrow> pod_condition list \<Rightarrow> pod_condition \<Rightarrow> pod_condition list"
  \<comment> \<open>jwt.NewNumericDate; jwt.ParseWithClaims into a map of claims at a time, and the expiration and
      issue times of the claims; errors.Is(err, jwt.ErrTokenExpired)\<close>
  w_NumericDate :: "time \<Rightarrow> time"
  w_ParseClaims :: "time \<Rightarrow> string \<Rightarrow> string \<Rightarrow> err + (err + time option) \<times> (err + time option)"
  w_IsTokenExpired :: "err \<Rightarrow> bool"
  \<comment> \<open>apiequality.Semantic.DeepEqual of a token status and a pointer to one\<close>
  w_TokenDeepEqual :: "token_status \<Rightarrow> token_status \<Rightarrow> bool"
  \<comment> \<open>controllerutil.SetControllerReference: the owner references with the one of the owner added\<close>
  w_SetControllerReference :: "kobject \<Rightarrow> kobject \<Rightarrow> err + owner_ref list"
  \<comment> \<open>controllerutil.RemoveControllerReference, controllerutil.SetOwnerReference: the new owner references\<close>
  w_RemoveControllerReference :: "kobject \<Rightarrow> kobject \<Rightarrow> err + owner_ref list"
  w_SetOwnerReference :: "kobject \<Rightarrow> kobject \<Rightarrow> err + owner_ref list"
  \<comment> \<open>meta.IsNoMatchError\<close>
  w_IsNoMatch :: "err \<Rightarrow> bool"
  \<comment> \<open>structutils.StrategicMergePatch of two containers and of two pod templates\<close>
  w_MergeContainer :: "container \<Rightarrow> container \<Rightarrow> container"
  w_MergeTemplate :: "pod_template_spec \<Rightarrow> pod_template_spec \<Rightarrow> pod_template_spec"
  \<comment> \<open>rsa.Validate, crypto.Signer.Public, and the encodings of package ssh and pem\<close>
  w_ValidateKey :: "opaque \<Rightarrow> error"
  w_Public :: "opaque \<Rightarrow> opaque"
  w_MarshalPrivateKey :: "opaque \<Rightarrow> string \<Rightarrow> err + opaque"
  w_MarshalPrivateKeyWithPassphrase :: "opaque \<Rightarrow> string \<Rightarrow> string \<Rightarrow> err + opaque"
  w_EncodeToMemory :: "opaque \<Rightarrow> string"
  w_NewPublicKey :: "opaque \<Rightarrow> err + opaque"
  w_MarshalAuthorizedKey :: "opaque \<Rightarrow> string"
  \<comment> \<open>validation.ValidatePodName as a prefix gives no message\<close>
  w_ValidPodPrefix :: "string \<Rightarrow> bool"
  \<comment> \<open>the hexadecimal SHA-256 sum of a byte string\<close>
  w_CheckSum :: "string \<Rightarrow> string"
  \<comment> \<open>the embedded scripts, by name\<close>
  w_Script :: "string \<Rightarrow> string"
  \<comment> \<open>the lines of /etc/resolv.conf, when it can be opened\<close>
  w_ResolvConf :: "string list option"
  \<comment> \<open>apiequality.Semantic.DeepEqual of the status of a resource and a pointer to a status; of a pointer
      to an object reference and an object reference\<close>
  w_StatusDeepEqual :: "opaque list \<Rightarrow> opaque list \<Rightarrow> bool"
  w_LoginSetDeepEqual :: "opaque list \<Rightarrow> loginset_status \<Rightarrow> bool"
  w_RefDeepEqual :: "nsname option \<Rightarrow> nsname \<Rightarrow> bool"
  \<comment> \<open>sort.Slice of NodeSets by name; cases.Title(language.English).String\<close>
  w_SortNodeSets :: "nodeset list \<Rightarrow> nodeset list"
  w_Title :: "string \<Rightarrow> string"
  \<comment> \<open>apiequality.Semantic.DeepEqual of a status and a pointer to a status\<close>
  w_DeepEqual :: "nodeset_status \<Rightarrow> nodeset_status \<Rightarrow> bool"
  \<comment> \<open>retry.RetryOnConflict with one of its two standard backoffs\<close>
  w_RetryOnConflict :: "(retry_locals \<Rightarrow> (error \<times> retry_locals) prog) \<Rightarrow>
                        retry_locals \<Rightarrow> (error \<times> retry_locals) prog"
  w_RetryRevision :: "(controller_revision \<Rightarrow> (error \<times> controller_revision) prog) \<Rightarrow>
                      controller_revision \<Rightarrow> (error \<times> controller_revision) prog"
  \<comment> \<open>package history: SortControllerRevisions, EqualRevision, FindEqualRevisions,
      HashControllerRevision, ControllerRevisionName, NewControllerRevision\<close>
  w_SortRevisions :: "controller_revision list \<Rightarrow> controller_revision list"
  w_EqualRevision :: "controller_revision \<Rightarrow> controller_revision \<Rightarrow> bool"
  w_FindEqualRevisions :: "controller_revision list \<Rightarrow> controller_revision \<Rightarrow> controller_revision list"
  w_HashRevision :: "controller_revision \<Rightarrow> int \<Rightarrow> string"
  w_RevisionName :: "string \<Rightarrow> string \<Rightarrow> string"
  w_NewRevision :: "nodeset \<Rightarrow> opaque \<Rightarrow> int \<Rightarrow> int \<Rightarrow> err + controller_revision"
  \<comment> \<open>json.Marshal of the parts of a NodeSet that make a revision\<close>
  w_MarshalPatch :: "revision_patch \<Rightarrow> err + opaque"

text \<open>
  A concrete world, for the witnesses: nothing is found, every write succeeds, goroutines run in
  order, and a retried function succeeds at the first attempt.
\<close>

definition quiet_world :: world where
  "quiet_world = \<lparr>
     w_GetPod = (\<lambda>h k. Inl (StatusError NotFound)), w_ListPods = (\<lambda>h. Inr []),
     w_CreatePod = (\<lambda>h p. Inr p), w_UpdatePod = (\<lambda>h p. Inr p), w_PatchPod = (\<lambda>h p q. None),
     w_PatchPodStatus = (\<lambda>h p q. None), w_PatchPodRaw = (\<lambda>h k d. None), w_DeletePod = (\<lambda>h k. None),
     w_GetNode = (\<lambda>h n. Inl (StatusError NotFound)), w_ListNodes = (\<lambda>h. Inr []),
     w_ListPodsOn = (\<lambda>h n. Inr []), w_ListNodeSetsIn = (\<lambda>h n. Inr []), w_ListControllers = (\<lambda>h. Inr []),
     w_PatchNode = (\<lambda>h n m. None), w_GetNodeSet = (\<lambda>h k. Inl (StatusError NotFound)),
     w_ListNodeSets = (\<lambda>h. Inr []), w_UpdateNodeSetStatus = (\<lambda>h ns t. None),
     w_GetPVC = (\<lambda>h k. Inl (StatusError NotFound)),
     w_CreatePVC = (\<lambda>h c. None), w_UpdatePVC = (\<lambda>h c. None),
     w_ListRevisions = (\<lambda>h ns. Inr []), w_GetRevision = (\<lambda>h k. Inl (StatusError NotFound)),
     w_CreateRevision = (\<lambda>h r. Inr r), w_UpdateRevision = (\<lambda>h r. Inr r), w_DeleteRevision = (\<lambda>h k. None),
     w_ClaimPods = (\<lambda>h ns ps f. Inr (filter f ps)), w_ClientMap = (\<lambda>h. NewClientMap),
     w_SlurmGet = (\<lambda>h c n. Inl (GoError ''Not Found'')), w_SlurmListNodes = (\<lambda>h c b. Inr []),
     w_SlurmListJobs = (\<lambda>h c. Inr []), w_SlurmUpdate = (\<lambda>h c n m. None), w_SlurmDelete = (\<lambda>h c n. None),
     w_GetObject = (\<lambda>h k n. Inl (StatusError NotFound)), w_CreateObject = (\<lambda>h x. None),
     w_PatchObject = (\<lambda>h x y. None), w_DeleteObject = (\<lambda>h x. None),
     w_GetSlurmController = (\<lambda>h k. Inl (StatusError NotFound)), w_ListRestapis = (\<lambda>h. Inr []),
     w_GetSecretData = (\<lambda>h k. Inl (StatusError NotFound)), w_GetToken = (\<lambda>h k. Inl (StatusError NotFound)),
     w_UpdateTokenStatus = (\<lambda>h t u. None), w_SignToken = (\<lambda>h c m k. Inr k), w_NewClient = (\<lambda>h a b. Inr 0),
     w_GetAccounting = (\<lambda>h k. Inl (StatusError NotFound)), w_ListAccountings = (\<lambda>h. Inr []),
     w_GetRestapi = (\<lambda>h k. Inl (StatusError NotFound)), w_GetLoginSet = (\<lambda>h k. Inl (StatusError NotFound)),
     w_ListLoginSets = (\<lambda>h. Inr []), w_GetConfigMapData = (\<lambda>h k. Inl (StatusError NotFound)),
     w_GetDeploymentReplicas = (\<lambda>h k. Inr 0), w_MapKind = (\<lambda>h k. None),
     w_GenerateKey = (\<lambda>h t. Inr ''key''), w_UpdateConditions = (\<lambda>h k n cs. None),
     w_UpdateLoginSetStatus = (\<lambda>h n t. None),
     w_ExpectDeletions = (\<lambda>h k ks. None), w_SetExpectations = (\<lambda>h k a d. None),
     w_SatisfiedExpectations = (\<lambda>h k. True), w_InBackOff = (\<lambda>h k. False), w_BackOffGet = (\<lambda>h k. 0),
     w_Now = (\<lambda>h. 0), w_sched = (\<lambda>is. is), w_sort = (\<lambda>less rs. rs), w_range = (\<lambda>cs. cs),
     w_IsPodReady = (\<lambda>p. pod_Phase p = ''Running''),
     w_IsPodAvailable = (\<lambda>p m t. pod_Phase p = ''Running''), w_IsPodTerminal = (\<lambda>p. False),
     w_GetTargetNodeName = (\<lambda>p. None), w_GetScaledValue = (\<lambda>v n up. Inr 1),
     w_NodeAffinityMatch = (\<lambda>p n. True), w_HasUntoleratedTaint = (\<lambda>ts tols f. False),
     w_AddOrUpdateTaint = (\<lambda>n t. Inr (n, False)), w_RemoveTaint = (\<lambda>n t. Inr (n, False)),
     w_ReplaceNodeAffinity = (\<lambda>a n. a), w_GetPodFromTemplate = (\<lambda>t ns. empty_pod),
     w_ParseTime = (\<lambda>s. None), w_FormatTime = (\<lambda>t. []), w_MarshalPodInfo = (\<lambda>i. []),
     w_UnmarshalPodInfo = (\<lambda>s. (empty_pod_info, Some (GoError ''EOF''))), w_Expand = (\<lambda>s. Inr [s]),
     w_entries = (\<lambda>m. []), w_SelectorString = (\<lambda>l. []), w_SelectorEmpty = (\<lambda>l. False),
     w_SelectorMatches = (\<lambda>l m. l \<subseteq>\<^sub>m mmake m),
     w_GetPodCondition = (\<lambda>cs t. List.find (\<lambda>c. pc_Type c = t) cs),
     w_UpdatePodCondition = (\<lambda>now cs c. filter (\<lambda>d. pc_Type d \<noteq> pc_Type c) cs @ [c]),
     w_NumericDate = (\<lambda>t. t), w_ParseClaims = (\<lambda>t a b. Inr (Inr None, Inr None)),
     w_IsTokenExpired = (\<lambda>e. False), w_TokenDeepEqual = (\<lambda>s t. False),
     w_SetControllerReference = (\<lambda>a b. Inr (ko_OwnerReferences b)),
     w_RemoveControllerReference = (\<lambda>a b. Inr (ko_OwnerReferences b)),
     w_SetOwnerReference = (\<lambda>a b. Inr (ko_OwnerReferences b)), w_IsNoMatch = (\<lambda>e. False),
     w_MergeContainer = (\<lambda>a b. a), w_MergeTemplate = (\<lambda>a b. a), w_ValidateKey = (\<lambda>k. None),
     w_Public = (\<lambda>k. k), w_MarshalPrivateKey = (\<lambda>k c. Inr k), w_MarshalPrivateKeyWithPassphrase = (\<lambda>k c p. Inr k),
     w_EncodeToMemory = (\<lambda>b. b), w_NewPublicKey = Inr, w_MarshalAuthorizedKey = (\<lambda>k. k), w_ValidPodPrefix = (\<lambda>x. True), w_CheckSum = (\<lambda>x. x), w_Script = (\<lambda>n. n),
     w_ResolvConf = None, w_StatusDeepEqual = (\<lambda>a b. False), w_LoginSetDeepEqual = (\<lambda>a b. False),
     w_RefDeepEqual = (\<lambda>a b. False), w_SortNodeSets = (\<lambda>l. l), w_Title = (\<lambda>s. s),
     w_DeepEqual = (\<lambda>s t. False), w_RetryOnConflict = (\<lambda>fn l. fn l),
     w_RetryRevision = (\<lambda>fn l. fn l), w_SortRevisions = (\<lambda>rs. rs), w_EqualRevision = (\<lambda>a b. cr_Data a = cr_Data b),
     w_FindEqualRevisions = (\<lambda>rs r. filter (\<lambda>x. cr_Data x = cr_Data r) rs), w_HashRevision = (\<lambda>r n. Itoa n),
     w_RevisionName = (\<lambda>p h. p @ ''-'' @ h),
     w_NewRevision = (\<lambda>ns d rev n. Inr \<lparr>cr_Namespace = ns_Namespace ns, cr_Name = ns_Name ns @ ''-'' @ Itoa n,
        cr_Labels = Some Map.empty, cr_Annotations = None, cr_OwnerReferences = [], cr_Revision = rev, cr_Data = d\<rparr>),
     w_MarshalPatch = (\<lambda>p. Inr (ps_Hostname (pt_PodSpec (rp_Template p))))\<rparr>"

definition st_init :: st where
  "st_init = \<lparr>log = [], heap = (\<lambda>r. empty_pod), durs = NewDurationStore, clients = NewClientMap\<rparr>"

lemma log_st_init [simp]: "log st_init = []"
  by (simp add: st_init_def)

section \<open>Calls\<close>

definition call :: "(history \<Rightarrow> 'r) \<Rightarrow> ('r \<Rightarrow> ev) \<Rightarrow> 'r prog" where
  "call f mk = State (\<lambda>s. let r = f (log s) in (r, s\<lparr>log := mk r # log s\<rparr>))"

definition emit :: "ctl \<Rightarrow> unit prog" where
  "emit e = call (\<lambda>_. ()) (\<lambda>_. Ctl e)"

lemma run_call [simp]:
  "run_state (call f mk) s = (f (log s), s\<lparr>log := mk (f (log s)) # log s\<rparr>)"
  by (simp add: call_def Let_def)

lemma run_emit [simp]: "run_state (emit e) s = ((), s\<lparr>log := Ctl e # log s\<rparr>)"
  by (simp add: emit_def)

text \<open>
  A panic is recorded. The definitions then go on with the error \<open>Panic\<close> in place of a result; that the run of
  the program has ended there is told from the record.
\<close>

definition crash :: "panic \<Rightarrow> unit prog" where
  "crash c = call (\<lambda>_. ()) (\<lambda>_. Rd (Panicked c))"

definition GetPod where "GetPod (W :: world) k = call (\<lambda>h. w_GetPod W h k) (\<lambda>r. Rd (GotPod k r))"
definition ListPods where "ListPods (W :: world) = call (w_ListPods W) (\<lambda>r. Rd (ListedPods r))"
definition CreatePod where "CreatePod (W :: world) p = call (\<lambda>h. w_CreatePod W h p) (\<lambda>r. Wr (CreatedPod p r))"
definition UpdatePod where "UpdatePod (W :: world) p = call (\<lambda>h. w_UpdatePod W h p) (\<lambda>r. Wr (UpdatedPod p r))"
definition PatchPod where "PatchPod (W :: world) p q = call (\<lambda>h. w_PatchPod W h p q) (\<lambda>r. Wr (PatchedPod p q r))"
definition PatchPodStatus where
  "PatchPodStatus (W :: world) p q = call (\<lambda>h. w_PatchPodStatus W h p q) (\<lambda>r. Wr (PatchedPodStatus p q r))"
definition PatchPodRaw where
  "PatchPodRaw (W :: world) k d = call (\<lambda>h. w_PatchPodRaw W h k d) (\<lambda>r. Wr (PatchedPodRaw k d r))"
definition DeletePod_api where
  "DeletePod_api (W :: world) k = call (\<lambda>h. w_DeletePod W h k) (\<lambda>r. Wr (DeletedPod k r))"
definition GetNode where "GetNode (W :: world) n = call (\<lambda>h. w_GetNode W h n) (\<lambda>r. Rd (GotNode n r))"
definition ListNodes where "ListNodes (W :: world) = call (w_ListNodes W) (\<lambda>r. Rd (ListedNodes r))"
definition ListPodsOn where
  "ListPodsOn (W :: world) n = call (\<lambda>h. w_ListPodsOn W h n) (\<lambda>r. Rd (ListedPodsOn n r))"
definition ListNodeSetsIn where
  "ListNodeSetsIn (W :: world) n = call (\<lambda>h. w_ListNodeSetsIn W h n) (\<lambda>r. Rd (ListedNodeSetsIn n r))"
definition ListControllers where
  "ListControllers (W :: world) = call (w_ListControllers W) (\<lambda>r. Rd (ListedControllers r))"
definition GetObject where
  "GetObject (W :: world) kd k = call (\<lambda>h. w_GetObject W h kd k) (\<lambda>r. Rd (GotObject kd k r))"
definition CreateObject where
  "CreateObject (W :: world) x = call (\<lambda>h. w_CreateObject W h x) (\<lambda>r. Wr (CreatedObject x r))"
definition PatchObject where
  "PatchObject (W :: world) x y = call (\<lambda>h. w_PatchObject W h x y) (\<lambda>r. Wr (PatchedObject x y r))"
definition DeleteObject_api where
  "DeleteObject_api (W :: world) x = call (\<lambda>h. w_DeleteObject W h x) (\<lambda>r. Wr (DeletedObject x r))"
definition GetSlurmController where
  "GetSlurmController (W :: world) k = call (\<lambda>h. w_GetSlurmController W h k) (\<lambda>r. Rd (GotSlurmController k r))"
definition ListRestapis where
  "ListRestapis (W :: world) = call (w_ListRestapis W) (\<lambda>r. Rd (ListedRestapis r))"
definition GetSecretData where
  "GetSecretData (W :: world) k = call (\<lambda>h. w_GetSecretData W h k) (\<lambda>r. Rd (GotSecretData k r))"
definition GetToken where
  "GetToken (W :: world) k = call (\<lambda>h. w_GetToken W h k) (\<lambda>r. Rd (GotToken k r))"
definition UpdateTokenStatus_api where
  "UpdateTokenStatus_api (W :: world) t u = call (\<lambda>h. w_UpdateTokenStatus W h t u) (\<lambda>r. Wr (UpdatedTokenStatus t u r))"
definition SignToken where
  "SignToken (W :: world) c m k = call (\<lambda>h. w_SignToken W h c m k) (\<lambda>r. Rd (SignedToken c m k r))"
definition NewClient where
  "NewClient (W :: world) a b = call (\<lambda>h. w_NewClient W h a b) (\<lambda>r. Rd (MadeClient a b r))"
definition ConnectClient :: "client \<Rightarrow> string \<Rightarrow> string \<Rightarrow> unit prog" where
  "ConnectClient c server tok = call (\<lambda>_. ()) (\<lambda>_. Wr (ConnectedClient c server tok))"
definition PatchNode where "PatchNode (W :: world) n m = call (\<lambda>h. w_PatchNode W h n m) (\<lambda>r. Wr (PatchedNode n m r))"
definition GetNodeSet where "GetNodeSet (W :: world) k = call (\<lambda>h. w_GetNodeSet W h k) (\<lambda>r. Rd (GotNodeSet k r))"
definition ListNodeSets where "ListNodeSets (W :: world) = call (w_ListNodeSets W) (\<lambda>r. Rd (ListedNodeSets r))"
definition UpdateNodeSetStatus_api where
  "UpdateNodeSetStatus_api (W :: world) ns t =
     call (\<lambda>h. w_UpdateNodeSetStatus W h ns t) (\<lambda>r. Wr (UpdatedNodeSetStatus ns t r))"
definition GetPVC where "GetPVC (W :: world) k = call (\<lambda>h. w_GetPVC W h k) (\<lambda>r. Rd (GotPVC k r))"
definition CreatePVC where "CreatePVC (W :: world) c = call (\<lambda>h. w_CreatePVC W h c) (\<lambda>r. Wr (CreatedPVC c r))"
definition UpdatePVC where "UpdatePVC (W :: world) c = call (\<lambda>h. w_UpdatePVC W h c) (\<lambda>r. Wr (UpdatedPVC c r))"
definition ListRevisions where
  "ListRevisions (W :: world) ns = call (\<lambda>h. w_ListRevisions W h ns) (\<lambda>r. Rd (ListedRevisions r))"
definition GetRevision_api where
  "GetRevision_api (W :: world) k = call (\<lambda>h. w_GetRevision W h k) (\<lambda>r. Rd (GotRevision k r))"
definition CreateRevision where
  "CreateRevision (W :: world) c = call (\<lambda>h. w_CreateRevision W h c) (\<lambda>r. Wr (CreatedRevision c r))"
definition UpdateRevision where
  "UpdateRevision (W :: world) c = call (\<lambda>h. w_UpdateRevision W h c) (\<lambda>r. Wr (UpdatedRevision c r))"
definition DeleteRevision where
  "DeleteRevision (W :: world) k = call (\<lambda>h. w_DeleteRevision W h k) (\<lambda>r. Wr (DeletedRevision k r))"
definition ClaimPods where
  "ClaimPods (W :: world) ns ps f = call (\<lambda>h. w_ClaimPods W h ns ps f) (\<lambda>r. Wr (ClaimedPods ns r))"
definition LookupClient where
  "LookupClient (W :: world) n = call (\<lambda>h. cm_Get (w_ClientMap W h) n) (\<lambda>r. Rd (LookedUpClient n r))"
definition SlurmGet where
  "SlurmGet (W :: world) c n = call (\<lambda>h. w_SlurmGet W h c n) (\<lambda>r. Rd (GotSlurmNode c n r))"
definition SlurmListNodes where
  "SlurmListNodes (W :: world) c b = call (\<lambda>h. w_SlurmListNodes W h c b) (\<lambda>r. Rd (ListedSlurmNodes c b r))"
definition SlurmListJobs where
  "SlurmListJobs (W :: world) c = call (\<lambda>h. w_SlurmListJobs W h c) (\<lambda>r. Rd (ListedSlurmJobs c r))"
definition SlurmUpdate where
  "SlurmUpdate (W :: world) c n m = call (\<lambda>h. w_SlurmUpdate W h c n m) (\<lambda>r. Wr (UpdatedSlurmNode c n m r))"
definition SlurmDelete where
  "SlurmDelete (W :: world) c n = call (\<lambda>h. w_SlurmDelete W h c n) (\<lambda>r. Wr (DeletedSlurmNode c n r))"
definition GetAccounting where
  "GetAccounting (W :: world) k = call (\<lambda>h. w_GetAccounting W h k) (\<lambda>r. Rd (GotAccounting k r))"
definition ListAccountings where
  "ListAccountings (W :: world) = call (w_ListAccountings W) (\<lambda>r. Rd (ListedAccountings r))"
definition GetRestapi where
  "GetRestapi (W :: world) k = call (\<lambda>h. w_GetRestapi W h k) (\<lambda>r. Rd (GotRestapi k r))"
definition GetLoginSet where
  "GetLoginSet (W :: world) k = call (\<lambda>h. w_GetLoginSet W h k) (\<lambda>r. Rd (GotLoginSet k r))"
definition ListLoginSets where
  "ListLoginSets (W :: world) = call (w_ListLoginSets W) (\<lambda>r. Rd (ListedLoginSets r))"
definition GetConfigMapData where
  "GetConfigMapData (W :: world) k = call (\<lambda>h. w_GetConfigMapData W h k) (\<lambda>r. Rd (GotConfigMapData k r))"
definition GetDeploymentReplicas where
  "GetDeploymentReplicas (W :: world) k =
     call (\<lambda>h. w_GetDeploymentReplicas W h k) (\<lambda>r. Rd (GotDeploymentReplicas k r))"
definition MapKind where
  "MapKind (W :: world) k = call (\<lambda>h. w_MapKind W h k) (\<lambda>r. Rd (MappedKind k r))"
definition GenerateKey where
  "GenerateKey (W :: world) t = call (\<lambda>h. w_GenerateKey W h t) (\<lambda>r. Rd (MadeKeyPair t r))"
definition UpdateConditions_api where
  "UpdateConditions_api (W :: world) k n cs =
     call (\<lambda>h. w_UpdateConditions W h k n cs) (\<lambda>r. Wr (UpdatedConditions k n cs r))"
definition UpdateLoginSetStatus_api where
  "UpdateLoginSetStatus_api (W :: world) n t =
     call (\<lambda>h. w_UpdateLoginSetStatus W h n t) (\<lambda>r. Wr (UpdatedLoginSetStatus n t r))"
definition ExpectDeletions where
  "ExpectDeletions (W :: world) k ks = call (\<lambda>h. w_ExpectDeletions W h k ks) (\<lambda>r. Ctl (ExpectedDeletions k ks r))"
definition SetExpectations where
  "SetExpectations (W :: world) k a d = call (\<lambda>h. w_SetExpectations W h k a d) (\<lambda>r. Ctl (ResetExpectations k a d r))"
definition SatisfiedExpectations where
  "SatisfiedExpectations (W :: world) k =
     call (\<lambda>h. w_SatisfiedExpectations W h k) (\<lambda>r. Rd (Satisfied k r))"
definition IsInBackOff where
  "IsInBackOff (W :: world) k = call (\<lambda>h. w_InBackOff W h k) (\<lambda>r. Rd (InBackOff k r))"
definition BackOffGet where
  "BackOffGet (W :: world) k = call (\<lambda>h. w_BackOffGet W h k) (\<lambda>r. Rd (BackOffDelay k r))"
definition Now where "Now (W :: world) = call (w_Now W) (\<lambda>r. Rd (Clock r))"

lemmas call_defs = GetPod_def ListPods_def CreatePod_def UpdatePod_def PatchPod_def
  PatchPodStatus_def PatchPodRaw_def DeletePod_api_def GetNode_def ListNodes_def PatchNode_def GetNodeSet_def
  ListNodeSets_def UpdateNodeSetStatus_api_def GetPVC_def CreatePVC_def
  UpdatePVC_def LookupClient_def SlurmGet_def SlurmListNodes_def SlurmListJobs_def SlurmUpdate_def SlurmDelete_def
  ListRevisions_def GetRevision_api_def CreateRevision_def UpdateRevision_def DeleteRevision_def ClaimPods_def
  GetAccounting_def ListAccountings_def GetRestapi_def GetLoginSet_def ListLoginSets_def GetConfigMapData_def
  GetDeploymentReplicas_def MapKind_def GenerateKey_def UpdateConditions_api_def UpdateLoginSetStatus_api_def
  ExpectDeletions_def SetExpectations_def SatisfiedExpectations_def IsInBackOff_def BackOffGet_def
  GetObject_def CreateObject_def PatchObject_def DeleteObject_api_def GetSlurmController_def ListRestapis_def
  GetSecretData_def GetToken_def UpdateTokenStatus_api_def SignToken_def NewClient_def ConnectClient_def
  ListPodsOn_def ListNodeSetsIn_def ListControllers_def Now_def emit_def crash_def

text \<open>Pointers to Pods.\<close>

definition load :: "ref \<Rightarrow> pod prog" where
  "load r = State (\<lambda>s. (heap s r, s))"

definition store :: "ref \<Rightarrow> pod \<Rightarrow> unit prog" where
  "store r p = State (\<lambda>s. ((), s\<lparr>heap := (heap s)(r := p)\<rparr>))"

definition load_heap :: "(ref \<Rightarrow> pod) prog" where
  "load_heap = State (\<lambda>s. (heap s, s))"

lemma run_load [simp]: "run_state (load r) s = (heap s r, s)"
  and run_store [simp]: "run_state (store r p) s = ((), s\<lparr>heap := (heap s)(r := p)\<rparr>)"
  and run_load_heap [simp]: "run_state load_heap s = (heap s, s)"
  by (simp_all add: load_def store_def load_heap_def)

text \<open>The package variable \<^verbatim>\<open>durationStore\<close>, made with \<open>Greater\<close>.\<close>

definition durationStore_Push :: "string \<Rightarrow> duration \<Rightarrow> unit prog" where
  "durationStore_Push k d = State (\<lambda>s. ((), s\<lparr>durs := dur_Push dur_Greater (durs s) k d\<rparr>))"

definition durationStore_Pop :: "string \<Rightarrow> duration prog" where
  "durationStore_Pop k = State (\<lambda>s. (fst (dur_Pop (durs s) k), s\<lparr>durs := snd (dur_Pop (durs s) k)\<rparr>))"

lemma run_durationStore [simp]:
  "run_state (durationStore_Push k d) s = ((), s\<lparr>durs := dur_Push dur_Greater (durs s) k d\<rparr>)"
  "run_state (durationStore_Pop k) s =
     (fst (dur_Pop (durs s) k), s\<lparr>durs := snd (dur_Pop (durs s) k)\<rparr>)"
  by (simp_all add: durationStore_Push_def durationStore_Pop_def)

section \<open>Invariants over histories\<close>

text \<open>\<open>logs Q\<close>: every event of the history satisfied \<open>Q\<close> when it happened.\<close>

definition logs :: "(history \<Rightarrow> ev \<Rightarrow> bool) \<Rightarrow> st \<Rightarrow> bool" where
  "logs Q s \<longleftrightarrow> ok_log Q (log s)"

lemma logs_simps [simp]:
  "logs Q (s\<lparr>log := e # h\<rparr>) = (Q h e \<and> ok_log Q h)"
  "logs Q (s\<lparr>heap := hp\<rparr>) = logs Q s"
  "logs Q (s\<lparr>durs := d\<rparr>) = logs Q s"
  by (simp_all add: logs_def)

lemma logsD: "logs Q s \<Longrightarrow> ok_log Q (log s)"
  by (simp add: logs_def)

lemma logs_empty [simp]: "log s = [] \<Longrightarrow> logs Q s"
  by (simp add: logs_def)

lemma keeps_logs_call: "(\<And>h r. Q h (mk r)) \<Longrightarrow> keeps (logs Q) (call f mk)"
  by (rule keepsI) (simp add: logsD)

lemma keeps_logs_emit: "(\<And>h. Q h (Ctl e)) \<Longrightarrow> keeps (logs Q) (emit e)"
  unfolding emit_def by (rule keeps_logs_call)

lemma keeps_load [keeps_intros]: "keeps I (load r)"
  and keeps_load_heap [keeps_intros]: "keeps I load_heap"
  by (rule keepsI, simp)+

lemma keeps_logs_store [keeps_intros]: "keeps (logs Q) (store r p)"
  by (rule keepsI) simp

lemma keeps_logs_durs [keeps_intros]:
  "keeps (logs Q) (durationStore_Push k d)" "keeps (logs Q) (durationStore_Pop k)"
  by (rule keepsI, simp)+

text \<open>
  \<open>permits Q E\<close>: the history property \<open>Q\<close> puts no constraint on events of class \<open>E\<close>. The
  lemmas below say which class of events each call adds to the history, so that a property of,
  say, Pod deletions goes through every other call.
\<close>

definition permits :: "(history \<Rightarrow> ev \<Rightarrow> bool) \<Rightarrow> (ev \<Rightarrow> bool) \<Rightarrow> bool" where
  "permits Q E \<longleftrightarrow> (\<forall>h e. E e \<longrightarrow> Q h e)"

lemma permitsI: "(\<And>h e. E e \<Longrightarrow> Q h e) \<Longrightarrow> permits Q E"
  by (simp add: permits_def)

lemma permitsD: "permits Q E \<Longrightarrow> E e \<Longrightarrow> Q h e"
  by (simp add: permits_def)

definition reads :: "ev \<Rightarrow> bool" where
  "reads e = (case e of Rd _ \<Rightarrow> True | _ \<Rightarrow> False)"

definition controls :: "ev \<Rightarrow> bool" where
  "controls e = (case e of Ctl _ \<Rightarrow> True | _ \<Rightarrow> False)"

fun slurm_writes :: "ev \<Rightarrow> bool" where
  "slurm_writes (Wr (UpdatedSlurmNode c n m r)) = True"
| "slurm_writes (Wr (DeletedSlurmNode c n r)) = True"
| "slurm_writes _ = False"

fun claim_writes :: "ev \<Rightarrow> bool" where
  "claim_writes (Wr (CreatedPVC c r)) = True"
| "claim_writes (Wr (UpdatedPVC c r)) = True"
| "claim_writes _ = False"

text \<open>Creations, updates (of the object or its status) and deletions of Pods; writes to Nodes and NodeSets.\<close>

fun pod_creates :: "ev \<Rightarrow> bool" where
  "pod_creates (Wr (CreatedPod p r)) = True"
| "pod_creates _ = False"

fun pod_updates :: "ev \<Rightarrow> bool" where
  "pod_updates (Wr (UpdatedPod p r)) = True"
| "pod_updates (Wr (PatchedPod p q r)) = True"
| "pod_updates (Wr (PatchedPodStatus p q r)) = True"
| "pod_updates (Wr (PatchedPodRaw k d r)) = True"
| "pod_updates (Wr (ClaimedPods ns r)) = True"
| "pod_updates _ = False"

fun pod_deletes :: "ev \<Rightarrow> bool" where
  "pod_deletes (Wr (DeletedPod k r)) = True"
| "pod_deletes _ = False"

fun kube_writes :: "ev \<Rightarrow> bool" where
  "kube_writes (Wr (PatchedNode n m r)) = True"
| "kube_writes (Wr (UpdatedNodeSetStatus ns t r)) = True"
| "kube_writes (Wr (CreatedObject x r)) = True"
| "kube_writes (Wr (PatchedObject x y r)) = True"
| "kube_writes (Wr (DeletedObject x r)) = True"
| "kube_writes (Wr (UpdatedConditions k n cs r)) = True"
| "kube_writes (Wr (UpdatedLoginSetStatus n t r)) = True"
| "kube_writes _ = False"

fun revision_writes :: "ev \<Rightarrow> bool" where
  "revision_writes (Wr (CreatedRevision c r)) = True"
| "revision_writes (Wr (UpdatedRevision c r)) = True"
| "revision_writes (Wr (DeletedRevision k r)) = True"
| "revision_writes _ = False"

lemma class_simps [simp]:
  "reads (Rd x)" "\<not> reads (Wr y)" "\<not> reads (Ctl z)"
  "controls (Ctl z)" "\<not> controls (Rd x)" "\<not> controls (Wr y)"
  by (simp_all add: reads_def controls_def)

lemma keeps_logs_permits: "permits Q E \<Longrightarrow> (\<And>r. E (mk r)) \<Longrightarrow> keeps (logs Q) (call f mk)"
  by (rule keeps_logs_call) (simp add: permitsD)

lemma ok_log_reads: "permits Q reads \<Longrightarrow> list_all reads h \<Longrightarrow> ok_log Q g \<Longrightarrow> ok_log Q (h @ g)"
  by (induction h) (auto simp: permitsD)

lemma keeps_reads [keeps_intros]:
  assumes "permits Q reads"
  shows "keeps (logs Q) (GetPod W k)" "keeps (logs Q) (ListPods W)" "keeps (logs Q) (GetNode W n)"
    "keeps (logs Q) (ListNodes W)" "keeps (logs Q) (GetNodeSet W k)" "keeps (logs Q) (ListNodeSets W)"
    "keeps (logs Q) (GetPVC W k)" "keeps (logs Q) (LookupClient W k)"
    "keeps (logs Q) (SlurmGet W c n)" "keeps (logs Q) (SlurmListNodes W c b)"
    "keeps (logs Q) (SlurmListJobs W c)" "keeps (logs Q) (SatisfiedExpectations W n)"
    "keeps (logs Q) (ListRevisions W ns)" "keeps (logs Q) (GetRevision_api W k)"
    "keeps (logs Q) (IsInBackOff W n)" "keeps (logs Q) (BackOffGet W n)" "keeps (logs Q) (Now W)"
    "keeps (logs Q) (GetObject W kd k)" "keeps (logs Q) (GetSlurmController W k)" "keeps (logs Q) (ListControllers W)"
    "keeps (logs Q) (ListRestapis W)" "keeps (logs Q) (GetSecretData W k)" "keeps (logs Q) (GetAccounting W k)"
    "keeps (logs Q) (ListAccountings W)" "keeps (logs Q) (GetRestapi W k)" "keeps (logs Q) (GetLoginSet W k)"
    "keeps (logs Q) (ListLoginSets W)" "keeps (logs Q) (GetConfigMapData W k)"
    "keeps (logs Q) (GetDeploymentReplicas W k)" "keeps (logs Q) (MapKind W kd)" "keeps (logs Q) (GenerateKey W kr)"
    "keeps (logs Q) (crash pc)"
  unfolding call_defs by (rule keeps_logs_permits [OF assms], simp)+

lemma keeps_controls [keeps_intros]:
  assumes "permits Q controls"
  shows "keeps (logs Q) (emit x)" "keeps (logs Q) (ExpectDeletions W n ks)"
    "keeps (logs Q) (SetExpectations W n a d)"
  unfolding call_defs by (rule keeps_logs_permits [OF assms], simp)+

lemma keeps_slurm_writes [keeps_intros]:
  assumes "permits Q slurm_writes"
  shows "keeps (logs Q) (SlurmUpdate W c x m)" "keeps (logs Q) (SlurmDelete W c n)"
  unfolding call_defs by (rule keeps_logs_permits [OF assms], simp)+

lemma keeps_claim_writes [keeps_intros]:
  assumes "permits Q claim_writes"
  shows "keeps (logs Q) (CreatePVC W c)" "keeps (logs Q) (UpdatePVC W c)"
  unfolding call_defs by (rule keeps_logs_permits [OF assms], simp)+

lemma keeps_pod_writes [keeps_intros]:
  "permits Q pod_creates \<Longrightarrow> keeps (logs Q) (CreatePod W p)"
  "permits Q pod_updates \<Longrightarrow> keeps (logs Q) (UpdatePod W p)"
  "permits Q pod_updates \<Longrightarrow> keeps (logs Q) (PatchPod W p q)"
  "permits Q pod_updates \<Longrightarrow> keeps (logs Q) (PatchPodStatus W p q)"
  "permits Q pod_updates \<Longrightarrow> keeps (logs Q) (PatchPodRaw W k d)"
  "permits Q pod_updates \<Longrightarrow> keeps (logs Q) (ClaimPods W ns ps f)"
  "permits Q pod_deletes \<Longrightarrow> keeps (logs Q) (DeletePod_api W k)"
  unfolding call_defs by (erule keeps_logs_permits, simp)+

lemma keeps_revision_writes [keeps_intros]:
  assumes "permits Q revision_writes"
  shows "keeps (logs Q) (CreateRevision W c)" "keeps (logs Q) (UpdateRevision W c)"
    "keeps (logs Q) (DeleteRevision W k)"
  unfolding call_defs by (rule keeps_logs_permits [OF assms], simp)+

lemma keeps_kube_writes [keeps_intros]:
  assumes "permits Q kube_writes"
  shows "keeps (logs Q) (PatchNode W n m)" "keeps (logs Q) (UpdateNodeSetStatus_api W ns t)"
    "keeps (logs Q) (CreateObject W x)" "keeps (logs Q) (PatchObject W x y)" "keeps (logs Q) (DeleteObject_api W x)"
    "keeps (logs Q) (UpdateConditions_api W kd k cs)" "keeps (logs Q) (UpdateLoginSetStatus_api W k u)"
  unfolding call_defs by (rule keeps_logs_permits [OF assms], simp)+

text \<open>A call whose event is unconditionally allowed, as a Hoare triple.\<close>

lemma triple_call:
  "(\<And>s. P s \<Longrightarrow> Q (f (log s)) (s\<lparr>log := mk (f (log s)) # log s\<rparr>)) \<Longrightarrow> triple P (call f mk) Q"
  by (rule tripleI) simp

text \<open>The history only grows.\<close>

definition extends :: "history \<Rightarrow> st \<Rightarrow> bool" where
  "extends h s \<longleftrightarrow> suffix h (log s)"

lemma extends_refl [simp]: "extends (log s) s"
  by (simp add: extends_def)

lemma keeps_extends_call [keeps_intros]: "keeps (extends h) (call f mk)"
  by (rule keepsI) (simp add: extends_def suffix_ConsI)

lemma keeps_extends_durs [keeps_intros]:
  "keeps (extends h) (durationStore_Push k d)" "keeps (extends h) (durationStore_Pop k)"
  by (rule keepsI, simp add: extends_def)+

lemma keeps_extends_store [keeps_intros]: "keeps (extends h) (store r p)"
  by (rule keepsI) (simp add: extends_def)

end
