(* ===== verification/PodUtils.thy ===== *)
theory PodUtils
  imports Machine
begin

text \<open>
  Predicates on Pods (\<^verbatim>\<open>internal/utils/podutils/pod.go\<close>), typed readers of annotation maps and
  list helpers (\<^verbatim>\<open>internal/utils/structutils\<close>), the label builder
  (\<^verbatim>\<open>internal/builder/labels\<close>) and the revision label
  (\<^verbatim>\<open>internal/utils/historycontrol/utils.go\<close>).
\<close>

section \<open>Pod predicates\<close>

definition PodPending :: string where "PodPending = ''Pending''"
definition PodRunning :: string where "PodRunning = ''Running''"
definition PodSucceeded :: string where "PodSucceeded = ''Succeeded''"
definition PodFailed :: string where "PodFailed = ''Failed''"
definition PodUnknown :: string where "PodUnknown = ''Unknown''"

lemmas phase_defs = PodPending_def PodRunning_def PodSucceeded_def PodFailed_def PodUnknown_def

definition IsPodCordon :: "pod \<Rightarrow> bool" where
  "IsPodCordon p \<longleftrightarrow> mget (pod_Annotations p) AnnotationPodCordon = ''true''"

definition IsRunning :: "pod \<Rightarrow> bool" where
  "IsRunning p \<longleftrightarrow> pod_Phase p = PodRunning"

definition IsRunningAndReady :: "world \<Rightarrow> pod \<Rightarrow> bool" where
  "IsRunningAndReady W p \<longleftrightarrow> IsRunning p \<and> w_IsPodReady W p"

definition IsRunningAndAvailable :: "world \<Rightarrow> pod \<Rightarrow> int \<Rightarrow> bool prog" where
  "IsRunningAndAvailable W p minReadySeconds = do {
     now \<leftarrow> Now W;
     State_Monad.return (w_IsPodAvailable W p minReadySeconds now)
   }"

definition IsCreated :: "pod \<Rightarrow> bool" where
  "IsCreated p \<longleftrightarrow> pod_Phase p \<noteq> ''''"

definition IsPending :: "pod \<Rightarrow> bool" where
  "IsPending p \<longleftrightarrow> pod_Phase p = PodPending"

definition IsFailed :: "pod \<Rightarrow> bool" where
  "IsFailed p \<longleftrightarrow> pod_Phase p = PodFailed"

definition IsSucceeded :: "pod \<Rightarrow> bool" where
  "IsSucceeded p \<longleftrightarrow> pod_Phase p = PodSucceeded"

definition IsTerminating :: "pod \<Rightarrow> bool" where
  "IsTerminating p \<longleftrightarrow> pod_DeletionTimestamp p \<noteq> None"

definition IsHealthy :: "world \<Rightarrow> pod \<Rightarrow> bool" where
  "IsHealthy W p \<longleftrightarrow> IsRunningAndReady W p \<and> \<not> IsTerminating p"

section \<open>Annotation values\<close>

text \<open>
  \<^verbatim>\<open>strconv.ParseInt(s, 10, 32)\<close>: an optional sign, then decimal digits, within the range of a
  32-bit integer. \<^verbatim>\<open>strconv.ParseBool\<close>: the twelve spellings it accepts.
\<close>

definition parse_digits :: "string \<Rightarrow> nat option" where
  "parse_digits s = (if s \<noteq> [] \<and> list_all is_digit s then Some (atoi s) else None)"

definition ParseInt32 :: "string \<Rightarrow> int option" where
  "ParseInt32 s =
     (let (neg, digits) = (case s of
            c # cs \<Rightarrow> if c = CHR ''-'' then (True, cs) else if c = CHR ''+'' then (False, cs) else (False, s)
          | [] \<Rightarrow> (False, s))
      in case parse_digits digits of
           None \<Rightarrow> None
         | Some n \<Rightarrow> (let i = (if neg then - int n else int n)
                     in if - (2 ^ 31) \<le> i \<and> i < 2 ^ 31 then Some i else None))"

definition ParseBool :: "string \<Rightarrow> bool option" where
  "ParseBool s =
     (if s \<in> {''1'', ''t'', ''T'', ''TRUE'', ''true'', ''True''} then Some True
      else if s \<in> {''0'', ''f'', ''F'', ''FALSE'', ''false'', ''False''} then Some False
      else None)"

definition validFirstDigit :: "string \<Rightarrow> bool" where
  "validFirstDigit str =
     (if length str = 0 then False
      else str ! 0 = CHR ''-'' \<or> (str ! 0 = CHR ''0'' \<and> str = ''0'') \<or>
           (is_digit (str ! 0) \<and> str ! 0 \<noteq> CHR ''0''))"

definition GetNumberFromAnnotations :: "strmap \<Rightarrow> string \<Rightarrow> int \<times> error" where
  "GetNumberFromAnnotations annotations key =
     (case mlookup annotations key of
        None \<Rightarrow> (0, None)
      | Some v \<Rightarrow>
          if \<not> validFirstDigit v then (0, Some (GoError ''invalid value''))
          else case ParseInt32 v of
                 None \<Rightarrow> (0, Some (GoError ''strconv.ParseInt''))
               | Some i \<Rightarrow> (i, None))"

definition GetBoolFromAnnotations :: "strmap \<Rightarrow> string \<Rightarrow> bool \<times> error" where
  "GetBoolFromAnnotations annotations key =
     (case mlookup annotations key of
        None \<Rightarrow> (False, None)
      | Some v \<Rightarrow> (case ParseBool v of
                   None \<Rightarrow> (False, Some (GoError ''strconv.ParseBool''))
                 | Some b \<Rightarrow> (b, None)))"

definition GetTimeFromAnnotations :: "world \<Rightarrow> strmap \<Rightarrow> string \<Rightarrow> time \<times> error" where
  "GetTimeFromAnnotations W annotations key =
     (case mlookup annotations key of
        None \<Rightarrow> (0, None)
      | Some v \<Rightarrow> (case w_ParseTime W v of
                   None \<Rightarrow> (0, Some (GoError ''time.Parse''))
                 | Some t \<Rightarrow> (t, None)))"

lemma itoa_leading: "0 < n \<Longrightarrow> hd (itoa n) \<noteq> CHR ''0''"
proof (induction n rule: itoa.induct)
  case (1 n)
  show ?case
  proof (cases "n < 10")
    case True
    with 1(2) have "digit_val (digit_char n) \<noteq> digit_val (CHR ''0'')"
      by (simp add: digit_char_props digit_val_def [of "CHR ''0''"])
    with True show ?thesis by (auto simp: itoa.simps [of n])
  next
    case False
    with 1 show ?thesis by (simp add: itoa.simps [of n])
  qed
qed

lemma hd_itoa_digit: "is_digit (hd (itoa n))"
  using itoa_digits [of n] itoa_nonempty [of n] by (cases "itoa n") auto

lemma sign_not_digit [simp]: "\<not> is_digit (CHR ''+'')"
  by (simp add: is_digit_def)

lemma parse_digits_itoa [simp]: "parse_digits (itoa n) = Some n"
  by (simp add: parse_digits_def itoa_digits)

lemma ParseInt32_itoa: "int n < 2 ^ 31 \<Longrightarrow> ParseInt32 (itoa n) = Some (int n)"
  using hd_itoa_digit [of n] parse_digits_itoa [of n]
  by (cases "itoa n") (auto simp: ParseInt32_def)

lemma ParseInt32_Itoa:
  assumes "- (2 ^ 31) \<le> i" and "i < 2 ^ 31"
  shows "ParseInt32 (Itoa i) = Some i"
proof (cases "i < 0")
  case True
  with assms show ?thesis by (simp add: Itoa_def ParseInt32_def)
next
  case False
  with assms ParseInt32_itoa [of "nat i"] show ?thesis by (simp add: Itoa_def)
qed

lemma validFirstDigit_Itoa: "validFirstDigit (Itoa i)"
proof -
  have "itoa 0 = ''0''"
    by code_simp
  moreover have "itoa n ! 0 = hd (itoa n)" for n
    by (simp add: hd_conv_nth)
  ultimately show ?thesis
    using hd_itoa_digit [of "nat i"] itoa_leading [of "nat i"]
    by (cases "i = 0") (auto simp: validFirstDigit_def Itoa_def)
qed

lemma ParseInt32_range: "ParseInt32 s = Some i \<Longrightarrow> - (2 ^ 31) \<le> i \<and> i < 2 ^ 31"
  by (auto simp: ParseInt32_def Let_def split: list.splits if_splits option.splits)

text \<open>
  A number written to an annotation with \<open>strconv.Itoa\<close> is read back, for every 32-bit
  value; whatever an annotation holds, what is read is a 32-bit value, and 0 when an error is
  reported or the annotation is missing.
\<close>

theorem number_annotation_roundtrip:
  "(- (2 ^ 31) \<le> i \<and> i < 2 ^ 31 \<longrightarrow>
      GetNumberFromAnnotations (Some (f(key \<mapsto> Itoa i))) key = (i, None)) \<and>
   - (2 ^ 31) \<le> fst (GetNumberFromAnnotations m key) \<and> fst (GetNumberFromAnnotations m key) < 2 ^ 31 \<and>
   (snd (GetNumberFromAnnotations m key) \<noteq> None \<longrightarrow> fst (GetNumberFromAnnotations m key) = 0) \<and>
   (mlookup m key = None \<longrightarrow> GetNumberFromAnnotations m key = (0, None))"
  using ParseInt32_range
  by (auto simp: GetNumberFromAnnotations_def validFirstDigit_Itoa ParseInt32_Itoa
      split: option.split)

theorem number_annotation_roundtrip_witness:
  "GetNumberFromAnnotations (Some (Map.empty(''cost'' \<mapsto> Itoa (- 42)))) ''cost'' = (- 42, None)"
  using number_annotation_roundtrip [of "- 42" Map.empty "''cost''"] by simp

section \<open>Lists and maps\<close>

definition MergeMaps :: "strmap list \<Rightarrow> string \<rightharpoonup> string" where
  "MergeMaps mapList = foldl (\<lambda>out m. out ++ mmake m) Map.empty mapList"

definition MergeList :: "'a list list \<Rightarrow> 'a list" where
  "MergeList items = foldl (\<lambda>list item. list @ item) [] items"

fun DereferenceList :: "'a option list \<Rightarrow> 'a list" where
  "DereferenceList [] = []"
| "DereferenceList (None # items) = DereferenceList items"
| "DereferenceList (Some x # items) = x # DereferenceList items"

definition ReferenceList :: "'a list \<Rightarrow> 'a option list" where
  "ReferenceList items = map Some items"

lemma foldl_append_concat: "foldl (@) acc xss = acc @ concat xss"
  by (induction xss arbitrary: acc) simp_all

lemma MergeList_concat [simp]: "MergeList items = concat items"
  by (simp add: MergeList_def foldl_append_concat)

lemma Dereference_Reference [simp]: "DereferenceList (ReferenceList xs) = xs"
  by (induction xs) (simp_all add: ReferenceList_def)

text \<open>In a merge, the last map that has a key decides.\<close>

lemma MergeMaps_snoc [simp]: "MergeMaps (ms @ [m]) = MergeMaps ms ++ mmake m"
  by (simp add: MergeMaps_def)

section \<open>Labels\<close>

definition AppLabel :: string where "AppLabel = ''app.kubernetes.io/name''"
definition instanceLabel :: string where "instanceLabel = ''app.kubernetes.io/instance''"
definition componentLabel :: string where "componentLabel = ''app.kubernetes.io/component''"
definition clusterLabel :: string where "clusterLabel = ''slinky.slurm.net/cluster''"
definition WorkerApp :: string where "WorkerApp = ''slurmd''"
definition WorkerComp :: string where "WorkerComp = ''worker''"

type_synonym label_builder = "string \<rightharpoonup> string"

definition WithApp :: "string \<Rightarrow> label_builder \<Rightarrow> label_builder" where
  "WithApp app b = b(AppLabel \<mapsto> app)"
definition WithInstance :: "string \<Rightarrow> label_builder \<Rightarrow> label_builder" where
  "WithInstance inst b = b(instanceLabel \<mapsto> inst)"
definition WithComponent :: "string \<Rightarrow> label_builder \<Rightarrow> label_builder" where
  "WithComponent component b = b(componentLabel \<mapsto> component)"
definition WithCluster :: "string \<Rightarrow> label_builder \<Rightarrow> label_builder" where
  "WithCluster cluster b = b(clusterLabel \<mapsto> cluster)"
definition WithLabels :: "strmap \<Rightarrow> label_builder \<Rightarrow> label_builder" where
  "WithLabels l b = b ++ mmake l"
definition WithPodProtect :: "label_builder \<Rightarrow> label_builder" where
  "WithPodProtect b = b(LabelNodeSetPodProtect \<mapsto> ''true'')"

definition WithWorkerSelectorLabels :: "nodeset \<Rightarrow> label_builder \<Rightarrow> label_builder" where
  "WithWorkerSelectorLabels obj b = WithInstance (ns_Name obj) (WithApp WorkerApp b)"

definition WithWorkerLabels :: "nodeset \<Rightarrow> label_builder \<Rightarrow> label_builder" where
  "WithWorkerLabels obj b =
     WithCluster (snd (spec_ControllerRef (ns_Spec obj)))
       (WithComponent WorkerComp (WithWorkerSelectorLabels obj b))"

lemmas label_defs = AppLabel_def instanceLabel_def componentLabel_def clusterLabel_def
  WithApp_def WithInstance_def WithComponent_def WithCluster_def WithWorkerSelectorLabels_def
  WithWorkerLabels_def

text \<open>A worker's labels satisfy the selector of its own NodeSet, and of no other.\<close>

lemma worker_labels_match_selector:
  "WithWorkerSelectorLabels a Map.empty \<subseteq>\<^sub>m WithWorkerLabels b Map.empty \<longleftrightarrow> ns_Name a = ns_Name b"
  by (auto simp: label_defs map_le_def)

section \<open>Revision label\<close>

definition ControllerRevisionHashLabel :: string where
  "ControllerRevisionHashLabel = ''controller.kubernetes.io/hash''"

text \<open>
  \<^verbatim>\<open>SetRevision\<close> writes into the map it is given; on a nil map it writes into a fresh map that
  the caller never sees.
\<close>

definition SetRevision :: "strmap \<Rightarrow> string \<Rightarrow> strmap" where
  "SetRevision labels revision =
     (case labels of
        None \<Rightarrow> None
      | Some f \<Rightarrow> if length revision > 0 then Some (f(ControllerRevisionHashLabel \<mapsto> revision)) else Some f)"

definition GetRevision :: "strmap \<Rightarrow> string" where
  "GetRevision labels = (case labels of None \<Rightarrow> '''' | Some _ \<Rightarrow> mget labels ControllerRevisionHashLabel)"

lemma GetRevision_SetRevision:
  "labels \<noteq> None \<Longrightarrow> revision \<noteq> '''' \<Longrightarrow> GetRevision (SetRevision labels revision) = revision"
  by (auto simp: GetRevision_def SetRevision_def)

lemma revision_label_neq [simp]:
  "ControllerRevisionHashLabel \<noteq> LabelNodeSetPodName" "LabelNodeSetPodName \<noteq> ControllerRevisionHashLabel"
  "ControllerRevisionHashLabel \<noteq> LabelNodeSetPodIndex" "LabelNodeSetPodIndex \<noteq> ControllerRevisionHashLabel"
  "ControllerRevisionHashLabel \<noteq> LabelNodeSetPodHostname" "LabelNodeSetPodHostname \<noteq> ControllerRevisionHashLabel"
  "ControllerRevisionHashLabel \<noteq> LabelNodeSetScalingMode" "LabelNodeSetScalingMode \<noteq> ControllerRevisionHashLabel"
  by (simp_all add: ControllerRevisionHashLabel_def key_defs)

lemma mget_SetRevision [simp]:
  "k \<noteq> ControllerRevisionHashLabel \<Longrightarrow> mget (SetRevision l r) k = mget l k"
  by (auto simp: SetRevision_def mget_def split: option.split)

end
