(* ===== verification/Naming.thy ===== *)
theory Naming
  imports PodUtils "HOL-Library.AList"
begin

text \<open>
  Names, identity and storage of NodeSet pods: \<^verbatim>\<open>internal/controller/nodeset/utils/utils.go\<close>.

  A pod of a StatefulSet-mode NodeSet is named \<^verbatim>\<open><nodeset>-<padded ordinal>\<close>; the ordinal is
  recovered by the regular expression \<^verbatim>\<open>(.*)-([0-9]+)$\<close>. Its match is unique up to the start
  of the text: the last dash must be followed by one or more digits and the end of the text, and
  the first group is what precedes that dash on its line. A Go map from template names to claims
  is an association list in which an update overwrites in place; the order in which
  \<^verbatim>\<open>range\<close> visits it is the parameter \<open>w_range\<close>.
\<close>

section \<open>Ordinals\<close>

definition newline :: char where "newline = CHR 0x0A"

definition split_last_dash :: "string \<Rightarrow> (string \<times> string) option" where
  "split_last_dash s =
     (case dropWhile (\<lambda>c. c \<noteq> CHR ''-'') (rev s) of
        [] \<Rightarrow> None
      | _ # before \<Rightarrow> Some (rev before, rev (takeWhile (\<lambda>c. c \<noteq> CHR ''-'') (rev s))))"

text \<open>\<^verbatim>\<open>nodesetPodRegex.FindStringSubmatch\<close>: the two groups, if the expression matches.\<close>

definition nodesetPodRegex :: "string \<Rightarrow> (string \<times> string) option" where
  "nodesetPodRegex s =
     (case split_last_dash s of
        None \<Rightarrow> None
      | Some (before, after) \<Rightarrow>
          if after \<noteq> [] \<and> list_all is_digit after
          then Some (rev (takeWhile (\<lambda>c. c \<noteq> newline) (rev before)), after)
          else None)"

definition GetParentNameAndOrdinal :: "pod \<Rightarrow> string \<times> int" where
  "GetParentNameAndOrdinal p =
     (case nodesetPodRegex (pod_Name p) of
        None \<Rightarrow> ('''', -1)
      | Some (parent, digits) \<Rightarrow>
          (parent, case ParseInt32 digits of Some i \<Rightarrow> i | None \<Rightarrow> -1))"

definition GetOrdinal :: "pod \<Rightarrow> int" where
  "GetOrdinal p = snd (GetParentNameAndOrdinal p)"

text \<open>
  \<^verbatim>\<open>fmt\<close> reads a width as long as the digits read so far do not exceed \<open>1e6\<close>; a wider one
  makes it report a missing verb and the unused argument.
\<close>

definition max_width :: nat where "max_width = 10000009"

definition GetPaddedOrdinal :: "nodeset \<Rightarrow> int \<Rightarrow> string" where
  "GetPaddedOrdinal ns ordinal =
     (if spec_OrdinalPadding (ns_Spec ns) \<le> max_width
      then Sprintf_0wd (spec_OrdinalPadding (ns_Spec ns)) ordinal
      else ''%!(NOVERB)%!(EXTRA int='' @ Itoa ordinal @ '')'')"

definition GetOrdinalPodName :: "nodeset \<Rightarrow> int \<Rightarrow> string" where
  "GetOrdinalPodName ns ordinal = ns_Name ns @ ''-'' @ GetPaddedOrdinal ns ordinal"

text \<open>What a NodeSet name and padding satisfy: DNS names have no line break.\<close>

definition nameable :: "nodeset \<Rightarrow> bool" where
  "nameable ns \<longleftrightarrow> newline \<notin> set (ns_Name ns) \<and> spec_OrdinalPadding (ns_Spec ns) \<le> max_width"

definition int32_ordinal :: "int \<Rightarrow> bool" where
  "int32_ordinal i \<longleftrightarrow> 0 \<le> i \<and> i < 2 ^ 31"

lemma digits_no_dash: "list_all is_digit s \<Longrightarrow> CHR ''-'' \<notin> set s"
  using dash_not_digit by (auto simp: list_all_iff)

lemma split_last_dash_append:
  assumes "CHR ''-'' \<notin> set b"
  shows "split_last_dash (a @ CHR ''-'' # b) = Some (a, b)"
proof -
  have "dropWhile (\<lambda>c. c \<noteq> CHR ''-'') (rev b @ CHR ''-'' # rev a) = CHR ''-'' # rev a"
    using assms by (subst dropWhile_append2) auto
  moreover have "takeWhile (\<lambda>c. c \<noteq> CHR ''-'') (rev b @ CHR ''-'' # rev a) = rev b"
    using assms by (subst takeWhile_append2) auto
  ultimately show ?thesis
    by (simp add: split_last_dash_def)
qed

lemma ParseInt32_digits:
  assumes "s \<noteq> []" and "list_all is_digit s"
  shows "ParseInt32 s = (if atoi s < 2 ^ 31 then Some (int (atoi s)) else None)"
proof -
  obtain c cs where s: "s = c # cs" using assms(1) by (cases s) auto
  with assms(2) have "c \<noteq> CHR ''-''" "c \<noteq> CHR ''+''"
    using dash_not_digit sign_not_digit by auto
  with assms s show ?thesis
    by (auto simp: ParseInt32_def parse_digits_def)
qed

lemma padded_digits:
  assumes "nameable ns" and "0 \<le> i"
  shows "GetPaddedOrdinal ns i = zero_pad (spec_OrdinalPadding (ns_Spec ns)) (itoa (nat i))"
  using assms by (simp add: nameable_def GetPaddedOrdinal_def Sprintf_0wd_def)

lemma GetParentNameAndOrdinal_padded:
  assumes "nameable ns" and "int32_ordinal i" and "pod_Name p = GetOrdinalPodName ns i"
  shows "GetParentNameAndOrdinal p = (ns_Name ns, i)"
proof -
  let ?d = "GetPaddedOrdinal ns i"
  have d: "?d = zero_pad (spec_OrdinalPadding (ns_Spec ns)) (itoa (nat i))" and i: "0 \<le> i" "i < 2 ^ 31"
    using assms(1,2) padded_digits by (auto simp: int32_ordinal_def)
  have digits: "list_all is_digit ?d" "?d \<noteq> []" "atoi ?d = nat i"
    unfolding d by (simp_all add: zero_pad_digits itoa_digits zero_pad_nonempty)
  have "rev (takeWhile (\<lambda>c. c \<noteq> newline) (rev (ns_Name ns))) = ns_Name ns"
    using assms(1) by (subst takeWhile_eq_all_conv [THEN iffD2]) (auto simp: nameable_def)
  then have "nodesetPodRegex (pod_Name p) = Some (ns_Name ns, ?d)"
    using digits split_last_dash_append [OF digits_no_dash [OF digits(1)]]
    by (simp add: assms(3) GetOrdinalPodName_def nodesetPodRegex_def)
  moreover have "ParseInt32 ?d = Some i"
    using digits i by (simp add: ParseInt32_digits nat_less_iff)
  ultimately show ?thesis
    by (simp add: GetParentNameAndOrdinal_def)
qed

lemma GetOrdinal_range: "-1 \<le> GetOrdinal p \<and> GetOrdinal p < 2 ^ 31"
  by (auto simp: GetOrdinal_def GetParentNameAndOrdinal_def nodesetPodRegex_def ParseInt32_digits
      split: option.split if_splits)

lemma GetOrdinalPodName_inject:
  assumes "nameable ns" and "int32_ordinal i" and "int32_ordinal j"
    and "GetOrdinalPodName ns i = GetOrdinalPodName ns j"
  shows "i = j"
proof -
  have "GetPaddedOrdinal ns i = GetPaddedOrdinal ns j"
    using assms(4) by (simp add: GetOrdinalPodName_def)
  then have "nat i = nat j"
    using assms padded_digits zero_pad_itoa_inject by (metis int32_ordinal_def)
  then show ?thesis
    using assms by (auto simp: int32_ordinal_def)
qed

text \<open>
  C33. The name of a NodeSet's pod determines its parent and its ordinal: for every NodeSet name
  (dashes and digits included), padding and 32-bit ordinal, parsing the generated name gives the
  NodeSet's name and the ordinal back. What parsing any name at all gives as ordinal is -1 or a
  32-bit ordinal.
\<close>

theorem ordinal_name_roundtrip:
  assumes "nameable ns" and "int32_ordinal i" and "pod_Name p = GetOrdinalPodName ns i"
  shows "GetParentNameAndOrdinal p = (ns_Name ns, i) \<and> GetOrdinal p = i \<and>
         (\<forall>q. GetOrdinal q = -1 \<or> int32_ordinal (GetOrdinal q))"
proof (intro conjI allI)
  show "GetOrdinal q = -1 \<or> int32_ordinal (GetOrdinal q)" for q
    using GetOrdinal_range [of q] by (auto simp: int32_ordinal_def)
qed (use GetParentNameAndOrdinal_padded [OF assms] in \<open>simp_all add: GetOrdinal_def\<close>)

theorem ordinal_name_roundtrip_witness:
  "GetParentNameAndOrdinal (empty_pod\<lparr>pod_Name := GetOrdinalPodName (empty_nodeset\<lparr>ns_Name := ''gpu-a-3''\<rparr>) 12\<rparr>) =
     (''gpu-a-3'', 12)"
  using ordinal_name_roundtrip [of "empty_nodeset\<lparr>ns_Name := ''gpu-a-3''\<rparr>" 12
      "empty_pod\<lparr>pod_Name := GetOrdinalPodName (empty_nodeset\<lparr>ns_Name := ''gpu-a-3''\<rparr>) 12\<rparr>"]
  by (simp add: nameable_def int32_ordinal_def newline_def max_width_def empty_nodeset_def empty_nodeset_spec_def)

section \<open>Hostnames\<close>

definition GetDaemonSetPodHostname :: "string \<Rightarrow> string \<Rightarrow> string" where
  "GetDaemonSetPodHostname nodeName hostnameOverride =
     (if hostnameOverride \<noteq> '''' then hostnameOverride
      else takeWhile (\<lambda>c. c \<noteq> CHR ''.'') nodeName)"

definition GetSlurmNodeName :: "pod \<Rightarrow> string" where
  "GetSlurmNodeName p =
     (if mget (pod_Labels p) LabelNodeSetScalingMode = ScalingModeStatefulset
      then if pod_HostNetwork p then pod_NodeName p
           else if pod_Hostname p \<noteq> '''' then pod_Hostname p
           else pod_Name p
      else pod_Hostname p)"

section \<open>Identity\<close>

definition UpdateIdentity :: "nodeset \<Rightarrow> pod \<Rightarrow> pod" where
  "UpdateIdentity ns p =
     (let p = p\<lparr>pod_Namespace := ns_Namespace ns\<rparr>;
          labels = mmake (pod_Labels p);
          labels = (if is_statefulset ns
                    then labels(LabelNodeSetPodIndex \<mapsto> GetPaddedOrdinal ns (GetOrdinal p))
                    else labels);
          labels = labels(LabelNodeSetPodName \<mapsto> pod_Name p);
          host = GetSlurmNodeName (p\<lparr>pod_Labels := Some labels\<rparr>)
      in p\<lparr>pod_Labels := Some (labels(LabelNodeSetPodHostname \<mapsto> host))\<rparr>)"

definition initIdentity :: "nodeset \<Rightarrow> pod \<Rightarrow> pod" where
  "initIdentity ns p =
     (let p = UpdateIdentity ns p;
          p = (if is_statefulset ns
               then let ordinal = GetOrdinal p;
                        paddedOrdinal = GetPaddedOrdinal ns ordinal;
                        name = GetOrdinalPodName ns ordinal
                    in p\<lparr>pod_Name := name,
                         pod_Hostname := (if pod_Hostname p \<noteq> '''' then pod_Hostname p @ paddedOrdinal
                                          else name)\<rparr>
               else p);
          labels = (mmake (pod_Labels p))(LabelNodeSetPodHostname \<mapsto> GetSlurmNodeName p);
          labels = labels(LabelNodeSetScalingMode \<mapsto> spec_ScalingMode (ns_Spec ns))
      in p\<lparr>pod_Labels := Some labels\<rparr>)"

definition IsIdentityMatch :: "nodeset \<Rightarrow> pod \<Rightarrow> bool" where
  "IsIdentityMatch ns p =
     (if is_statefulset ns
      then let (parent, ordinal) = GetParentNameAndOrdinal p
           in ordinal \<ge> 0 \<and> ns_Name ns = parent \<and> pod_Namespace p = ns_Namespace ns \<and>
              mget (pod_Labels p) LabelNodeSetPodName = pod_Name p
      else ns_Name ns = TrimSuffix (pod_GenerateName p) ''-'' \<and>
           pod_Namespace p = ns_Namespace ns \<and>
           mget (pod_Labels p) LabelNodeSetPodName = pod_Name p)"

text \<open>
  \<^verbatim>\<open>regexp.MatchString("^" + name + "-", pod.Name)\<close>, for names made of letters, digits, dashes
  and dots, as Kubernetes names are: in the expression a dot stands for any character but a line
  break.
\<close>

fun name_regex :: "string \<Rightarrow> string \<Rightarrow> bool" where
  "name_regex [] s = True"
| "name_regex (c # cs) [] = False"
| "name_regex (c # cs) (d # ds) =
     ((c = CHR ''.'' \<and> d \<noteq> newline \<or> c \<noteq> CHR ''.'' \<and> c = d) \<and> name_regex cs ds)"

definition IsPodFromNodeSet :: "nodeset \<Rightarrow> pod \<Rightarrow> bool" where
  "IsPodFromNodeSet ns p = name_regex (ns_Name ns @ ''-'') (pod_Name p)"

lemma name_regex_prefix: "CHR ''.'' \<notin> set r \<Longrightarrow> name_regex r s \<longleftrightarrow> prefix r s"
  by (induction r s rule: name_regex.induct) auto

lemma name_regex_self: "newline \<notin> set r \<Longrightarrow> name_regex r (r @ s)"
  by (induction r) auto

lemma GetOrdinal_cong: "pod_Name p = pod_Name q \<Longrightarrow> GetParentNameAndOrdinal p = GetParentNameAndOrdinal q"
  by (simp add: GetParentNameAndOrdinal_def)

lemma UpdateIdentity_simps [simp]:
  "pod_Name (UpdateIdentity ns p) = pod_Name p"
  "pod_Namespace (UpdateIdentity ns p) = ns_Namespace ns"
  "pod_GenerateName (UpdateIdentity ns p) = pod_GenerateName p"
  "pod_Hostname (UpdateIdentity ns p) = pod_Hostname p"
  "pod_HostNetwork (UpdateIdentity ns p) = pod_HostNetwork p"
  "mget (pod_Labels (UpdateIdentity ns p)) LabelNodeSetPodName = pod_Name p"
  "GetOrdinal (UpdateIdentity ns p) = GetOrdinal p"
  "GetParentNameAndOrdinal (UpdateIdentity ns p) = GetParentNameAndOrdinal p"
  "pod_Volumes (UpdateIdentity ns p) = pod_Volumes p"
  by (simp_all add: UpdateIdentity_def Let_def GetOrdinal_def GetParentNameAndOrdinal_def)

lemma initIdentity_simps [simp]:
  "pod_Namespace (initIdentity ns p) = ns_Namespace ns"
  "pod_Name (initIdentity ns p) =
     (if is_statefulset ns then GetOrdinalPodName ns (GetOrdinal p) else pod_Name p)"
  "mget (pod_Labels (initIdentity ns p)) LabelNodeSetPodName = pod_Name p"
  "mget (pod_Labels (initIdentity ns p)) LabelNodeSetScalingMode = spec_ScalingMode (ns_Spec ns)"
  "pod_Volumes (initIdentity ns p) = pod_Volumes p"
  "pod_HostNetwork (initIdentity ns p) = pod_HostNetwork p"
proof -
  have "mget (Some (mmake m)) k = mget m k" for m :: strmap and k
    by (cases m) (simp_all add: mget_def)
  then show "mget (pod_Labels (initIdentity ns p)) LabelNodeSetPodName = pod_Name p"
    by (simp add: initIdentity_def Let_def)
qed (simp_all add: initIdentity_def Let_def)

text \<open>Updating the identity repairs what the identity check tests, whenever the name fits.\<close>

lemma UpdateIdentity_match:
  assumes "is_statefulset ns \<Longrightarrow> GetParentNameAndOrdinal p = (ns_Name ns, i) \<and> 0 \<le> i"
    and "\<not> is_statefulset ns \<Longrightarrow> TrimSuffix (pod_GenerateName p) ''-'' = ns_Name ns"
  shows "IsIdentityMatch ns (UpdateIdentity ns p)"
  using assms by (simp add: IsIdentityMatch_def)

text \<open>The identity check only depends on the name when the labels were just updated.\<close>

lemma UpdateIdentity_idem: "UpdateIdentity ns (UpdateIdentity ns p) = UpdateIdentity ns p"
  by (auto simp: UpdateIdentity_def Let_def GetOrdinal_def GetParentNameAndOrdinal_def GetSlurmNodeName_def
      mget_def fun_upd_twist fun_upd_idem_iff intro!: ext)

section \<open>Storage\<close>

definition GetPersistentVolumeClaimNameOrdinal :: "nodeset \<Rightarrow> pvc \<Rightarrow> string \<Rightarrow> string" where
  "GetPersistentVolumeClaimNameOrdinal ns claim paddedOrdinal =
     pvc_Name claim @ ''-'' @ ns_Name ns @ ''-'' @ paddedOrdinal"

definition GetPersistentVolumeClaimNameNodeName :: "nodeset \<Rightarrow> pvc \<Rightarrow> string \<Rightarrow> string" where
  "GetPersistentVolumeClaimNameNodeName ns claim nodeName =
     pvc_Name claim @ ''-'' @ ns_Name ns @ ''-'' @ nodeName"

definition claim_name :: "nodeset \<Rightarrow> pod \<Rightarrow> pvc \<Rightarrow> string" where
  "claim_name ns p claim =
     (if is_statefulset ns
      then GetPersistentVolumeClaimNameOrdinal ns claim (GetPaddedOrdinal ns (GetOrdinal p))
      else GetPersistentVolumeClaimNameNodeName ns claim (mget (pod_Labels p) LabelNodeSetPodHostname))"

definition claim_of :: "nodeset \<Rightarrow> pod \<Rightarrow> pvc \<Rightarrow> pvc" where
  "claim_of ns p t =
     (let selectorLabels = WithWorkerSelectorLabels ns Map.empty
      in t\<lparr>pvc_Name := claim_name ns p t,
           pvc_Namespace := ns_Namespace ns,
           pvc_Labels := Some (case pvc_Labels t of
                                 Some l \<Rightarrow> l ++ selectorLabels
                               | None \<Rightarrow> selectorLabels)\<rparr>)"

definition GetPersistentVolumeClaims :: "nodeset \<Rightarrow> pod \<Rightarrow> (string \<times> pvc) list" where
  "GetPersistentVolumeClaims ns p =
     foldl (\<lambda>claims t. AList.update (pvc_Name t) (claim_of ns p t) claims) []
       (spec_VolumeClaimTemplates (ns_Spec ns))"

definition claim_volume :: "string \<times> pvc \<Rightarrow> volume" where
  "claim_volume nc = \<lparr>vol_Name = fst nc, vol_ClaimName = Some (pvc_Name (snd nc))\<rparr>"

definition UpdateStorage :: "world \<Rightarrow> nodeset \<Rightarrow> pod \<Rightarrow> pod" where
  "UpdateStorage W ns p =
     (let currentVolumes = pod_Volumes p;
          claims = GetPersistentVolumeClaims ns p;
          newVolumes = map claim_volume (w_range W claims)
      in p\<lparr>pod_Volumes := newVolumes @ filter (\<lambda>v. map_of claims (vol_Name v) = None) currentVolumes\<rparr>)"

text \<open>The Go map of volumes by name: a later volume of the same name overwrites an earlier one.\<close>

definition volumes_by_name :: "volume list \<Rightarrow> string \<rightharpoonup> volume" where
  "volumes_by_name vs = foldl (\<lambda>m v. m(vol_Name v \<mapsto> v)) Map.empty vs"

fun claims_mounted :: "nodeset \<Rightarrow> pod \<Rightarrow> (string \<rightharpoonup> volume) \<Rightarrow> pvc list \<Rightarrow> bool" where
  "claims_mounted ns p volumes [] = True"
| "claims_mounted ns p volumes (claim # rest) =
     (case volumes (pvc_Name claim) of
        None \<Rightarrow> False
      | Some volume \<Rightarrow>
          (case vol_ClaimName volume of
             None \<Rightarrow> False
           | Some name \<Rightarrow> if name \<noteq> claim_name ns p claim then False
                          else claims_mounted ns p volumes rest))"

definition IsStorageMatch :: "nodeset \<Rightarrow> pod \<Rightarrow> bool" where
  "IsStorageMatch ns p =
     (if is_statefulset ns \<and> GetOrdinal p < 0 then False
      else claims_mounted ns p (volumes_by_name (pod_Volumes p)) (spec_VolumeClaimTemplates (ns_Spec ns)))"

text \<open>The order in which the map of claims is visited is some permutation of its entries.\<close>

definition fair_range :: "world \<Rightarrow> bool" where
  "fair_range W \<longleftrightarrow> (\<forall>xs. mset (w_range W xs) = mset xs)"

lemma volumes_by_name_snoc: "volumes_by_name (vs @ [v]) = (volumes_by_name vs)(vol_Name v \<mapsto> v)"
  by (simp add: volumes_by_name_def)

lemma volumes_by_name_Some:
  assumes "v \<in> set vs" and "\<And>w. w \<in> set vs \<Longrightarrow> vol_Name w = vol_Name v \<Longrightarrow> w = v"
  shows "volumes_by_name vs (vol_Name v) = Some v"
  using assms
proof (induction vs rule: rev_induct)
  case (snoc w vs)
  then show ?case by (cases "vol_Name w = vol_Name v") (auto simp: volumes_by_name_snoc)
qed simp

lemma claims_of_templates:
  "map_of (foldl (\<lambda>claims t. AList.update (pvc_Name t) (claim_of ns p t) claims) acc ts) k =
     (case List.find (\<lambda>t. pvc_Name t = k) (rev ts) of
        Some t \<Rightarrow> Some (claim_of ns p t) | None \<Rightarrow> map_of acc k)"
  by (induction ts arbitrary: acc rule: rev_induct) (auto simp: AList.update_conv' split: option.split)

lemma claims_distinct:
  "distinct (map fst acc) \<Longrightarrow>
   distinct (map fst (foldl (\<lambda>claims t. AList.update (pvc_Name t) (claim_of ns p t) claims) acc ts))"
  by (induction ts arbitrary: acc) (simp_all add: AList.distinct_update)

lemma find_name: "List.find (\<lambda>t. pvc_Name t = k) ts = Some t \<Longrightarrow> pvc_Name t = k"
  by (induction ts) (auto split: if_splits)

lemma claim_of_Name [simp]: "pvc_Name (claim_of ns p t) = claim_name ns p t"
  by (simp add: claim_of_def Let_def)

lemma claim_name_cong: "pvc_Name s = pvc_Name t \<Longrightarrow> claim_name ns p s = claim_name ns p t"
  by (simp add: claim_name_def GetPersistentVolumeClaimNameOrdinal_def
      GetPersistentVolumeClaimNameNodeName_def)

lemma GetPersistentVolumeClaims_lookup:
  assumes "t \<in> set (spec_VolumeClaimTemplates (ns_Spec ns))"
  shows "\<exists>c. map_of (GetPersistentVolumeClaims ns p) (pvc_Name t) = Some c \<and> pvc_Name c = claim_name ns p t"
proof -
  from assms obtain u where u: "List.find (\<lambda>u. pvc_Name u = pvc_Name t)
      (rev (spec_VolumeClaimTemplates (ns_Spec ns))) = Some u"
    by (cases "List.find (\<lambda>u. pvc_Name u = pvc_Name t) (rev (spec_VolumeClaimTemplates (ns_Spec ns)))")
      (auto simp: find_None_iff)
  then show ?thesis
    using claim_name_cong [OF find_name [OF u]]
    by (simp add: GetPersistentVolumeClaims_def claims_of_templates)
qed

lemma claims_mounted_iff:
  "claims_mounted ns p volumes ts \<longleftrightarrow>
     (\<forall>t \<in> set ts. \<exists>v. volumes (pvc_Name t) = Some v \<and> vol_ClaimName v = Some (claim_name ns p t))"
  by (induction ts) (auto split: option.split)

lemma UpdateStorage_simps [simp]:
  "pod_Name (UpdateStorage W ns p) = pod_Name p" "pod_Labels (UpdateStorage W ns p) = pod_Labels p"
  "pod_Namespace (UpdateStorage W ns p) = pod_Namespace p"
  "pod_GenerateName (UpdateStorage W ns p) = pod_GenerateName p"
  "pod_Hostname (UpdateStorage W ns p) = pod_Hostname p"
  "pod_HostNetwork (UpdateStorage W ns p) = pod_HostNetwork p"
  "GetParentNameAndOrdinal (UpdateStorage W ns p) = GetParentNameAndOrdinal p"
  "GetOrdinal (UpdateStorage W ns p) = GetOrdinal p"
  "claim_name ns (UpdateStorage W ns p) = claim_name ns p"
  by (simp_all add: UpdateStorage_def Let_def GetOrdinal_def GetParentNameAndOrdinal_def claim_name_def fun_eq_iff)

lemma UpdateStorage_volume:
  assumes "fair_range W" and "map_of (GetPersistentVolumeClaims ns p) k = Some c"
  shows "volumes_by_name (pod_Volumes (UpdateStorage W ns p)) k = Some (claim_volume (k, c))"
proof -
  let ?cs = "GetPersistentVolumeClaims ns p"
  have dist: "distinct (map fst ?cs)"
    by (simp add: GetPersistentVolumeClaims_def claims_distinct)
  have perm: "set (w_range W ?cs) = set ?cs"
    using assms(1) unfolding fair_range_def by (metis set_mset_mset)
  have "volumes_by_name (pod_Volumes (UpdateStorage W ns p)) (vol_Name (claim_volume (k, c))) =
      Some (claim_volume (k, c))"
  proof (rule volumes_by_name_Some)
    show "claim_volume (k, c) \<in> set (pod_Volumes (UpdateStorage W ns p))"
      using assms(2) perm by (auto simp: UpdateStorage_def Let_def dest: map_of_SomeD)
    show "w = claim_volume (k, c)"
      if "w \<in> set (pod_Volumes (UpdateStorage W ns p))" "vol_Name w = vol_Name (claim_volume (k, c))" for w
    proof -
      from that assms(2) perm obtain d where "(k, d) \<in> set ?cs" and "w = claim_volume (k, d)"
        by (auto simp: UpdateStorage_def Let_def claim_volume_def)
      moreover from this have "map_of ?cs k = Some d"
        using dist by simp
      ultimately show ?thesis using assms(2) by simp
    qed
  qed
  then show ?thesis by (simp add: claim_volume_def)
qed

lemma UpdateStorage_match:
  assumes "fair_range W" and "is_statefulset ns \<Longrightarrow> 0 \<le> GetOrdinal p"
  shows "IsStorageMatch ns (UpdateStorage W ns p)"
proof -
  have "\<exists>v. volumes_by_name (pod_Volumes (UpdateStorage W ns p)) (pvc_Name t) = Some v \<and>
      vol_ClaimName v = Some (claim_name ns p t)"
    if t: "t \<in> set (spec_VolumeClaimTemplates (ns_Spec ns))" for t
    using GetPersistentVolumeClaims_lookup [OF t, of p] UpdateStorage_volume [OF assms(1)]
    by (force simp: claim_volume_def)
  with assms(2) show ?thesis
    by (auto simp: IsStorageMatch_def claims_mounted_iff)
qed

text \<open>Volumes of the template that no claim replaces stay mounted.\<close>

lemma UpdateStorage_keeps:
  assumes "v \<in> set (pod_Volumes p)" and "map_of (GetPersistentVolumeClaims ns p) (vol_Name v) = None"
  shows "v \<in> set (pod_Volumes (UpdateStorage W ns p))"
  using assms by (simp add: UpdateStorage_def Let_def)

section \<open>Scheduling constraints\<close>

definition LabelHostname :: string where "LabelHostname = ''kubernetes.io/hostname''"

definition worker_anti_affinity_term :: pod_affinity_term where
  "worker_anti_affinity_term =
     \<lparr>pat_TopologyKey = LabelHostname, pat_Key = AppLabel, pat_Operator = ''In'', pat_Values = [WorkerApp]\<rparr>"

definition updateNodeSetPodAntiAffinity :: "affinity option \<Rightarrow> affinity option" where
  "updateNodeSetPodAntiAffinity a =
     (let podAffinityTerms = [worker_anti_affinity_term]
      in case a of
           None \<Rightarrow> Some \<lparr>aff_NodeAffinity = None, aff_PodAntiAffinity = Some (Some podAffinityTerms)\<rparr>
         | Some aff \<Rightarrow>
             (case aff_PodAntiAffinity aff of
                None \<Rightarrow> Some (aff\<lparr>aff_PodAntiAffinity := Some (Some podAffinityTerms)\<rparr>)
              | Some None \<Rightarrow> Some (aff\<lparr>aff_PodAntiAffinity := Some (Some podAffinityTerms)\<rparr>)
              | Some (Some terms) \<Rightarrow>
                  Some (aff\<lparr>aff_PodAntiAffinity := Some (Some (terms @ podAffinityTerms))\<rparr>)))"

definition TaintEffectNoExecute :: string where "TaintEffectNoExecute = ''NoExecute''"
definition TaintEffectNoSchedule :: string where "TaintEffectNoSchedule = ''NoSchedule''"

text \<open>\<open>(fitsNodeName, fitsNodeAffinity, fitsTaints)\<close>\<close>

definition predicates :: "world \<Rightarrow> pod \<Rightarrow> node \<Rightarrow> taint list \<Rightarrow> bool \<times> bool \<times> bool" where
  "predicates W p n taints =
     (let fitsNodeName = (length (pod_NodeName p) = 0 \<or> pod_NodeName p = node_Name n);
          fitsNodeAffinity = w_NodeAffinityMatch W p n;
          hasUntoleratedTaint = w_HasUntoleratedTaint W taints (pod_Tolerations p)
            (\<lambda>t. taint_Effect t = TaintEffectNoExecute \<or> taint_Effect t = TaintEffectNoSchedule)
      in (fitsNodeName, fitsNodeAffinity, \<not> hasUntoleratedTaint))"

text \<open>\<open>(shouldRun, shouldContinueRunning)\<close>\<close>

definition PodShouldRunOnNode :: "world \<Rightarrow> pod \<Rightarrow> node \<Rightarrow> bool \<times> bool" where
  "PodShouldRunOnNode W p n =
     (let taints = node_Taints n;
          (fitsNodeName, fitsNodeAffinity, fitsTaints) = predicates W p n taints
      in if \<not> fitsNodeName \<or> \<not> fitsNodeAffinity then (False, False)
         else if \<not> fitsTaints
         then let hasUntoleratedTaint = w_HasUntoleratedTaint W taints (pod_Tolerations p)
                    (\<lambda>t. taint_Effect t = TaintEffectNoExecute)
              in (False, \<not> hasUntoleratedTaint)
         else (True, True))"

lemma PodShouldRunOnNode_implies_continue:
  "fst (PodShouldRunOnNode W p n) \<Longrightarrow> snd (PodShouldRunOnNode W p n)"
  by (auto simp: PodShouldRunOnNode_def Let_def predicates_def split: if_splits)

section \<open>A sample\<close>

definition sample_nodeset :: nodeset where
  "sample_nodeset = empty_nodeset\<lparr>ns_Namespace := ''slurm'', ns_Name := ''gpu'',
     ns_Spec := SetNodeSetDefaults_spec empty_nodeset_spec\<rparr>"

lemma sample_nodeset_stateful [simp]: "is_statefulset sample_nodeset"
  and sample_nodeset_nameable [simp]: "nameable sample_nodeset"
  by (simp_all add: sample_nodeset_def is_statefulset_def nameable_def newline_def max_width_def
      SetNodeSetDefaults_spec_def Let_def default_string_def empty_nodeset_spec_def)

lemma fair_range_quiet [simp]: "fair_range quiet_world"
  by (simp add: fair_range_def quiet_world_def)

end
