(* ===== verification/PodControl.thy ===== *)
theory PodControl
  imports Naming
begin

text \<open>
  Creation, deletion and repair of NodeSet pods and of the ownership of their volume claims:
  \<^verbatim>\<open>internal/controller/nodeset/podcontrol/podcontrol.go\<close> on top of
  \<^verbatim>\<open>internal/utils/podcontrol/podcontrol.go\<close>.

  The first part is pure: which owner references a claim should have under the retention policy
  of its NodeSet. The second part are the operations against the API server.
\<close>

section \<open>Owner references\<close>

text \<open>An owner: its API version and kind, name and UID.\<close>

record owner =
  ow_APIVersion :: string
  ow_Kind :: string
  ow_Name :: string
  ow_UID :: string

definition nodeset_owner :: "nodeset \<Rightarrow> owner" where
  "nodeset_owner ns = \<lparr>ow_APIVersion = ''slinky.slurm.net/v1beta1'', ow_Kind = ''NodeSet'',
     ow_Name = ns_Name ns, ow_UID = ns_UID ns\<rparr>"

definition pod_owner :: "pod \<Rightarrow> owner" where
  "pod_owner p = \<lparr>ow_APIVersion = ''v1'', ow_Kind = ''Pod'', ow_Name = pod_Name p, ow_UID = pod_UID p\<rparr>"

definition matchesRef :: "owner_ref \<Rightarrow> owner \<Rightarrow> bool" where
  "matchesRef r obj \<longleftrightarrow> ow_APIVersion obj = or_APIVersion r \<and> ow_Kind obj = or_Kind r \<and> or_Name r = ow_Name obj"

definition NewControllerRef :: "owner \<Rightarrow> owner_ref" where
  "NewControllerRef obj = \<lparr>or_APIVersion = ow_APIVersion obj, or_Kind = ow_Kind obj, or_Name = ow_Name obj,
     or_UID = ow_UID obj, or_Controller = Some True, or_BlockOwnerDeletion = Some True\<rparr>"

definition hasOwnerRef :: "pvc \<Rightarrow> owner \<Rightarrow> bool" where
  "hasOwnerRef target obj = list_ex (\<lambda>r. or_UID r = ow_UID obj) (pvc_OwnerReferences target)"

text \<open>Only the first reference that matches the object is looked at.\<close>

definition hasStaleOwnerRef :: "pvc \<Rightarrow> owner \<Rightarrow> bool" where
  "hasStaleOwnerRef target obj =
     (case List.find (\<lambda>r. matchesRef r obj) (pvc_OwnerReferences target) of
        Some r \<Rightarrow> or_UID r \<noteq> ow_UID obj
      | None \<Rightarrow> False)"

definition addControllerRef :: "owner_ref list \<Rightarrow> owner \<Rightarrow> owner_ref list" where
  "addControllerRef refs obj =
     (if list_ex (\<lambda>r. or_UID r = ow_UID obj) refs then refs else refs @ [NewControllerRef obj])"

definition removeRefs :: "owner_ref list \<Rightarrow> (owner_ref \<Rightarrow> bool) \<Rightarrow> owner_ref list" where
  "removeRefs refs pred = filter (\<lambda>r. \<not> pred r) refs"

text \<open>\<open>(WhenDeleted, WhenScaled)\<close>\<close>

definition getPersistentVolumeClaimRetentionPolicy :: "nodeset \<Rightarrow> string \<times> string" where
  "getPersistentVolumeClaimRetentionPolicy ns =
     (if spec_WhenDeleted (ns_Spec ns) \<noteq> '''' then spec_WhenDeleted (ns_Spec ns) else RetainPVC,
      if spec_WhenScaled (ns_Spec ns) \<noteq> '''' then spec_WhenScaled (ns_Spec ns) else RetainPVC)"

fun unexpected_in :: "nodeset \<Rightarrow> pod \<Rightarrow> owner_ref list \<Rightarrow> bool" where
  "unexpected_in ns p [] = False"
| "unexpected_in ns p (r # refs) =
     (if matchesRef r (nodeset_owner ns)
      then if or_UID r \<noteq> ns_UID ns then True else unexpected_in ns p refs
      else if matchesRef r (pod_owner p)
      then if or_UID r \<noteq> pod_UID p then True else unexpected_in ns p refs
      else if or_Controller r = Some True then True
      else unexpected_in ns p refs)"

definition hasUnexpectedController :: "pvc \<Rightarrow> nodeset \<Rightarrow> pod \<Rightarrow> bool" where
  "hasUnexpectedController claim ns p =
     (let (whenDeleted, whenScaled) = getPersistentVolumeClaimRetentionPolicy ns
      in if whenScaled = RetainPVC \<and> whenDeleted = RetainPVC then False
         else unexpected_in ns p (pvc_OwnerReferences claim))"

definition hasNonControllerOwner :: "pvc \<Rightarrow> nodeset \<Rightarrow> pod \<Rightarrow> bool" where
  "hasNonControllerOwner claim ns p =
     list_ex (\<lambda>r. (or_UID r = ns_UID ns \<or> or_UID r = pod_UID p) \<and> or_Controller r \<noteq> Some True)
       (pvc_OwnerReferences claim)"

definition isClaimOwnerUpToDate :: "pvc \<Rightarrow> nodeset \<Rightarrow> pod \<Rightarrow> bool" where
  "isClaimOwnerUpToDate claim ns p =
     (let hasSet = hasOwnerRef claim (nodeset_owner ns);
          hasPod = hasOwnerRef claim (pod_owner p);
          (whenDeleted, whenScaled) = getPersistentVolumeClaimRetentionPolicy ns;
          podScaledDown = IsPodCordon p
      in if hasStaleOwnerRef claim (nodeset_owner ns) \<or> hasStaleOwnerRef claim (pod_owner p) then True
         else if hasUnexpectedController claim ns p
         then if hasSet \<or> hasPod then False else True
         else if hasNonControllerOwner claim ns p then False
         else if whenDeleted = RetainPVC \<and> whenScaled = RetainPVC
         then if hasSet \<or> hasPod then False else True
         else if whenDeleted = DeletePVC \<and> whenScaled = RetainPVC
         then if \<not> hasSet \<or> hasPod then False else True
         else if whenDeleted = RetainPVC \<and> whenScaled = DeletePVC
         then if hasSet then False else if podScaledDown \<noteq> hasPod then False else True
         else if whenDeleted = DeletePVC \<and> whenScaled = DeletePVC
         then if podScaledDown = hasSet then False else if podScaledDown \<noteq> hasPod then False else True
         else if hasSet \<or> hasPod then False else True)"

definition updateClaimOwnerRefForSetAndPod :: "pvc \<Rightarrow> nodeset \<Rightarrow> pod \<Rightarrow> pvc" where
  "updateClaimOwnerRefForSetAndPod claim ns p =
     (let refs = pvc_OwnerReferences claim;
          unexpectedController = hasUnexpectedController claim ns p;
          refs = removeRefs refs (\<lambda>r. matchesRef r (nodeset_owner ns) \<or> matchesRef r (pod_owner p));
          (whenDeleted, whenScaled) = getPersistentVolumeClaimRetentionPolicy ns;
          podScaledDown = IsPodCordon p
      in if unexpectedController then claim\<lparr>pvc_OwnerReferences := refs\<rparr>
         else let refs =
           (if whenScaled = RetainPVC \<and> whenDeleted = RetainPVC then refs
            else if whenScaled = RetainPVC \<and> whenDeleted = DeletePVC
            then addControllerRef refs (nodeset_owner ns)
            else if whenScaled = DeletePVC \<and> whenDeleted = RetainPVC
            then if podScaledDown then addControllerRef refs (pod_owner p) else refs
            else if whenScaled = DeletePVC \<and> whenDeleted = DeletePVC
            then let refs = (if podScaledDown then addControllerRef refs (pod_owner p) else refs)
                 in if \<not> podScaledDown then addControllerRef refs (nodeset_owner ns) else refs
            else refs)
         in claim\<lparr>pvc_OwnerReferences := refs\<rparr>)"

subsection \<open>What the ownership should be\<close>

text \<open>
  The table of the code's comment: the NodeSet owns the claim when it is to go with the NodeSet
  (and not already with a pod that is being scaled down), the pod owns it when it is to go with a
  pod that is being scaled down.
\<close>

definition set_should_own :: "nodeset \<Rightarrow> pod \<Rightarrow> bool" where
  "set_should_own ns p =
     (let (d, s) = getPersistentVolumeClaimRetentionPolicy ns
      in d = DeletePVC \<and> (s = RetainPVC \<or> s = DeletePVC \<and> \<not> IsPodCordon p))"

definition pod_should_own :: "nodeset \<Rightarrow> pod \<Rightarrow> bool" where
  "pod_should_own ns p =
     (let (d, s) = getPersistentVolumeClaimRetentionPolicy ns
      in s = DeletePVC \<and> (d = RetainPVC \<or> d = DeletePVC) \<and> IsPodCordon p)"

text \<open>References name the NodeSet or the pod exactly when they carry its UID.\<close>

definition refs_consistent :: "pvc \<Rightarrow> nodeset \<Rightarrow> pod \<Rightarrow> bool" where
  "refs_consistent claim ns p \<longleftrightarrow> ns_UID ns \<noteq> pod_UID p \<and>
     (\<forall>r \<in> set (pvc_OwnerReferences claim).
        (matchesRef r (nodeset_owner ns) \<longleftrightarrow> or_UID r = ns_UID ns) \<and>
        (matchesRef r (pod_owner p) \<longleftrightarrow> or_UID r = pod_UID p))"

definition foreign_refs :: "owner_ref list \<Rightarrow> nodeset \<Rightarrow> pod \<Rightarrow> owner_ref list" where
  "foreign_refs refs ns p = filter (\<lambda>r. or_UID r \<noteq> ns_UID ns \<and> or_UID r \<noteq> pod_UID p) refs"

lemma policy_neq [simp]: "RetainPVC \<noteq> DeletePVC" "DeletePVC \<noteq> RetainPVC"
  by (simp_all add: mode_defs)

lemma owner_uids [simp]:
  "ow_UID (nodeset_owner ns) = ns_UID ns" "ow_UID (pod_owner p) = pod_UID p"
  by (simp_all add: nodeset_owner_def pod_owner_def)

lemma NewControllerRef_matches [simp]:
  "matchesRef (NewControllerRef x) x" "or_UID (NewControllerRef x) = ow_UID x"
  "or_Controller (NewControllerRef x) = Some True"
  "\<not> matchesRef (NewControllerRef (nodeset_owner ns)) (pod_owner p)"
  "\<not> matchesRef (NewControllerRef (pod_owner p)) (nodeset_owner ns)"
  by (simp_all add: matchesRef_def NewControllerRef_def nodeset_owner_def pod_owner_def)

text \<open>Under consistent references, the update computes: the foreign references, then the reference that should be there.\<close>

lemma scrubbed:
  assumes "refs_consistent claim ns p"
  shows "removeRefs (pvc_OwnerReferences claim)
      (\<lambda>r. matchesRef r (nodeset_owner ns) \<or> matchesRef r (pod_owner p)) =
    foreign_refs (pvc_OwnerReferences claim) ns p"
  using assms unfolding removeRefs_def foreign_refs_def refs_consistent_def
  by (intro filter_cong) auto

lemma addControllerRef_foreign:
  "addControllerRef (foreign_refs refs ns p) (nodeset_owner ns) = foreign_refs refs ns p @ [NewControllerRef (nodeset_owner ns)]"
  "addControllerRef (foreign_refs refs ns p) (pod_owner p) = foreign_refs refs ns p @ [NewControllerRef (pod_owner p)]"
  by (auto simp: addControllerRef_def foreign_refs_def list_ex_iff)

lemma update_refs:
  assumes "refs_consistent claim ns p"
  shows "pvc_OwnerReferences (updateClaimOwnerRefForSetAndPod claim ns p) =
    foreign_refs (pvc_OwnerReferences claim) ns p @
      (if hasUnexpectedController claim ns p then []
       else if set_should_own ns p then [NewControllerRef (nodeset_owner ns)]
       else if pod_should_own ns p then [NewControllerRef (pod_owner p)] else [])"
  by (auto simp: updateClaimOwnerRefForSetAndPod_def scrubbed [OF assms] addControllerRef_foreign
      set_should_own_def pod_should_own_def Let_def split: prod.split)

lemma unexpected_iff:
  assumes "refs_consistent claim ns p"
  shows "unexpected_in ns p (pvc_OwnerReferences claim) \<longleftrightarrow>
    list_ex (\<lambda>r. or_Controller r = Some True) (foreign_refs (pvc_OwnerReferences claim) ns p)"
proof -
  have "unexpected_in ns p refs \<longleftrightarrow> list_ex (\<lambda>r. or_Controller r = Some True) (foreign_refs refs ns p)"
    if "\<forall>r \<in> set refs. (matchesRef r (nodeset_owner ns) \<longleftrightarrow> or_UID r = ns_UID ns) \<and>
        (matchesRef r (pod_owner p) \<longleftrightarrow> or_UID r = pod_UID p)" for refs
    using that by (induction refs) (auto simp: foreign_refs_def)
  with assms show ?thesis by (simp add: refs_consistent_def)
qed

lemma no_stale:
  assumes "refs_consistent claim ns p"
  shows "\<not> hasStaleOwnerRef claim (nodeset_owner ns)" and "\<not> hasStaleOwnerRef claim (pod_owner p)"
  using assms by (auto simp: hasStaleOwnerRef_def refs_consistent_def find_Some_iff split: option.split
      dest!: nth_mem)

lemma update_consistent:
  assumes "refs_consistent claim ns p"
  shows "refs_consistent (updateClaimOwnerRefForSetAndPod claim ns p) ns p"
  using assms unfolding refs_consistent_def update_refs [OF assms] by (auto simp: foreign_refs_def)

lemma foreign_update:
  assumes "refs_consistent claim ns p"
  shows "foreign_refs (pvc_OwnerReferences (updateClaimOwnerRefForSetAndPod claim ns p)) ns p =
    foreign_refs (pvc_OwnerReferences claim) ns p"
  unfolding update_refs [OF assms] by (simp add: foreign_refs_def)

lemma unexpected_update:
  assumes "refs_consistent claim ns p"
  shows "hasUnexpectedController (updateClaimOwnerRefForSetAndPod claim ns p) ns p = hasUnexpectedController claim ns p"
  using assms by (simp add: hasUnexpectedController_def unexpected_iff update_consistent foreign_update Let_def split_beta)

lemma owners_after_update:
  assumes "refs_consistent claim ns p"
  defines "c \<equiv> updateClaimOwnerRefForSetAndPod claim ns p"
  shows "hasOwnerRef c (nodeset_owner ns) \<longleftrightarrow> \<not> hasUnexpectedController claim ns p \<and> set_should_own ns p"
    and "hasOwnerRef c (pod_owner p) \<longleftrightarrow> \<not> hasUnexpectedController claim ns p \<and> \<not> set_should_own ns p \<and> pod_should_own ns p"
    and "\<not> hasNonControllerOwner c ns p"
  using assms unfolding hasOwnerRef_def hasNonControllerOwner_def c_def update_refs [OF assms(1)]
  by (auto simp: foreign_refs_def list_ex_iff refs_consistent_def)

lemma update_only_refs:
  "updateClaimOwnerRefForSetAndPod claim ns p =
     claim\<lparr>pvc_OwnerReferences := pvc_OwnerReferences (updateClaimOwnerRefForSetAndPod claim ns p)\<rparr>"
  by (simp add: updateClaimOwnerRefForSetAndPod_def Let_def split_beta)

lemma set_or_pod: "pod_should_own ns p \<Longrightarrow> \<not> set_should_own ns p"
  by (auto simp: pod_should_own_def set_should_own_def)

text \<open>
  Retention policy of volume claims. For a claim whose references to the NodeSet and the pod
  are not stale, \<open>updateClaimOwnerRefForSetAndPod\<close> reaches a state that
  \<open>isClaimOwnerUpToDate\<close> accepts, keeps every reference to other owners, and, unless another
  controller owns the claim, leaves it owned by the NodeSet exactly if the policy deletes claims
  with the NodeSet (and not with the pod that is being scaled down), and by the pod exactly if the
  policy deletes claims on scale-down and the pod is cordoned. Applying it again changes nothing.
\<close>

theorem claim_ownership_update:
  assumes "refs_consistent claim ns p"
  defines "c \<equiv> updateClaimOwnerRefForSetAndPod claim ns p"
  shows "isClaimOwnerUpToDate c ns p \<and>
    foreign_refs (pvc_OwnerReferences c) ns p = foreign_refs (pvc_OwnerReferences claim) ns p \<and>
    (\<not> hasUnexpectedController claim ns p \<longrightarrow>
       hasOwnerRef c (nodeset_owner ns) = set_should_own ns p \<and>
       hasOwnerRef c (pod_owner p) = pod_should_own ns p) \<and>
    updateClaimOwnerRefForSetAndPod c ns p = c"
proof -
  note upd = owners_after_update [OF assms(1)] unexpected_update [OF assms(1)]
    no_stale [OF update_consistent [OF assms(1)]] foreign_update [OF assms(1)]
  have "isClaimOwnerUpToDate c ns p"
    unfolding isClaimOwnerUpToDate_def c_def Let_def
    by (auto simp: upd set_should_own_def pod_should_own_def split: prod.split)
  moreover have "pvc_OwnerReferences (updateClaimOwnerRefForSetAndPod c ns p) = pvc_OwnerReferences c"
    unfolding c_def update_refs [OF update_consistent [OF assms(1)]] upd
    by (simp add: update_refs [OF assms(1)])
  then have "updateClaimOwnerRefForSetAndPod c ns p = c"
    using update_only_refs [of c ns p] by simp
  ultimately show ?thesis
    using set_or_pod [of ns p] by (auto simp: c_def upd)
qed

definition sample_claim :: pvc where
  "sample_claim = \<lparr>pvc_Namespace = ''slurm'', pvc_Name = ''data-gpu-0'', pvc_Labels = None,
     pvc_OwnerReferences = [\<lparr>or_APIVersion = ''v1'', or_Kind = ''ConfigMap'', or_Name = ''cm'',
       or_UID = ''u9'', or_Controller = None, or_BlockOwnerDeletion = None\<rparr>],
     pvc_DeletionTimestamp = None, pvc_Spec = ''''\<rparr>"

theorem claim_ownership_update_witness:
  "isClaimOwnerUpToDate (updateClaimOwnerRefForSetAndPod sample_claim
     (sample_nodeset\<lparr>ns_UID := ''u1'', ns_Spec := (ns_Spec sample_nodeset)\<lparr>spec_WhenDeleted := DeletePVC\<rparr>\<rparr>)
     (empty_pod\<lparr>pod_UID := ''u2''\<rparr>))
     (sample_nodeset\<lparr>ns_UID := ''u1'', ns_Spec := (ns_Spec sample_nodeset)\<lparr>spec_WhenDeleted := DeletePVC\<rparr>\<rparr>)
     (empty_pod\<lparr>pod_UID := ''u2''\<rparr>)"
  using claim_ownership_update [of sample_claim
      "sample_nodeset\<lparr>ns_UID := ''u1'', ns_Spec := (ns_Spec sample_nodeset)\<lparr>spec_WhenDeleted := DeletePVC\<rparr>\<rparr>"
      "empty_pod\<lparr>pod_UID := ''u2''\<rparr>"]
  by (simp add: refs_consistent_def sample_claim_def matchesRef_def nodeset_owner_def pod_owner_def)

section \<open>Events about pods and claims\<close>

definition recordPodEvent :: "string \<Rightarrow> error \<Rightarrow> unit prog" where
  "recordPodEvent verb err =
     (case err of
        None \<Rightarrow> emit (Eventf ''Normal'' (''Successful'' @ verb) verb None)
      | Some e \<Rightarrow> emit (Eventf ''Warning'' (''Failed'' @ verb) verb (Some e)))"

definition recordClaimEvent :: "string \<Rightarrow> error \<Rightarrow> unit prog" where
  "recordClaimEvent verb err =
     (case err of
        None \<Rightarrow> emit (Eventf ''Normal'' (''Successful'' @ verb) verb None)
      | Some e \<Rightarrow> emit (Eventf ''Warning'' (''Failed'' @ verb) verb (Some e)))"

section \<open>The generic pod control\<close>

definition createPods :: "world \<Rightarrow> pod \<Rightarrow> (error \<times> pod) prog" where
  "createPods W p =
     (if pod_Labels p = None \<or> pod_Labels p = Some Map.empty
      then State_Monad.return (Some (GoError ''unable to create pods, no labels''), p)
      else do {
        r \<leftarrow> CreatePod W p;
        case r of
          Inl e \<Rightarrow> do {
            (if \<not> IsNamespaceTerminating e then emit (Eventf ''Warning'' ''FailedCreate'' ''Create'' (Some e))
             else State_Monad.return ());
            State_Monad.return (Some e, p)
          }
        | Inr p' \<Rightarrow> do {
            emit (Eventf ''Normal'' ''SuccessfulCreate'' ''Create'' None);
            State_Monad.return (None, p')
          }
      })"

definition DeletePod :: "world \<Rightarrow> nsname \<Rightarrow> error prog" where
  "DeletePod W k = do {
     r \<leftarrow> DeletePod_api W k;
     case r of
       Some e \<Rightarrow>
         if IsNotFound e then State_Monad.return (Some e)
         else do {
           emit (Eventf ''Warning'' ''FailedDelete'' ''Delete'' (Some e));
           State_Monad.return (Some (Wrapped ''unable to delete pods'' e))
         }
     | None \<Rightarrow> do {
         emit (Eventf ''Normal'' ''SuccessfulDelete'' ''Delete'' None);
         State_Monad.return None
       }
   }"

text \<open>
  Pods made of a template. \<^verbatim>\<open>object\<close> is given by its name; the finalizers of a template, which no builder
  sets, are left out. Of the specification of a pod only what the code reads again is kept.
\<close>

definition getPodsLabelSet :: "pod_template_spec \<Rightarrow> string \<rightharpoonup> string" where
  "getPodsLabelSet template = mmake (md_Labels (pts_Metadata template))"

definition getPodsAnnotationSet :: "pod_template_spec \<Rightarrow> string \<rightharpoonup> string" where
  "getPodsAnnotationSet template = mmake (md_Annotations (pts_Metadata template))"

definition getPodsPrefix :: "world \<Rightarrow> string \<Rightarrow> string" where
  "getPodsPrefix W controllerName =
     (let prefix = controllerName @ ''-'' in if w_ValidPodPrefix W prefix then prefix else controllerName)"

definition pod_volumes :: "pod_spec \<Rightarrow> volume list" where
  "pod_volumes spec =
     map (\<lambda>v. \<lparr>vol_Name = pv_Name v, vol_ClaimName = (case pv_Source v of ClaimSource c \<Rightarrow> Some c | _ \<Rightarrow> None)\<rparr>) (ps_Volumes spec)"

definition GetPodFromTemplate :: "world \<Rightarrow> pod_template_spec \<Rightarrow> string \<Rightarrow> owner_ref option \<Rightarrow> pod" where
  "GetPodFromTemplate W template parentName controllerRef =
     empty_pod\<lparr>pod_Labels := Some (getPodsLabelSet template),
       pod_Annotations := Some (getPodsAnnotationSet template),
       pod_GenerateName := getPodsPrefix W parentName,
       pod_OwnerReferences := (case controllerRef of None \<Rightarrow> [] | Some r \<Rightarrow> [r]),
       pod_NodeName := ps_NodeName (pts_Spec template), pod_Hostname := ps_Hostname (pts_Spec template),
       pod_HostNetwork := ps_HostNetwork (pts_Spec template), pod_Volumes := pod_volumes (pts_Spec template),
       pod_Tolerations := ps_Tolerations (pts_Spec template), pod_Affinity := ps_Affinity (pts_Spec template)\<rparr>"

definition validateControllerRef :: "owner_ref option \<Rightarrow> error" where
  "validateControllerRef controllerRef =
     (case controllerRef of
        None \<Rightarrow> Some (GoError ''controllerRef is nil'')
      | Some r \<Rightarrow>
          if or_APIVersion r = '''' then Some (GoError ''controllerRef has empty APIVersion'')
          else if or_Kind r = '''' then Some (GoError ''controllerRef has empty Kind'')
          else if or_Controller r \<noteq> Some True then Some (GoError ''controllerRef.Controller is not set to true'')
          else if or_BlockOwnerDeletion r \<noteq> Some True
          then Some (GoError ''controllerRef.BlockOwnerDeletion is not set to true'')
          else None)"

definition CreatePodsWithGenerateName ::
  "world \<Rightarrow> string \<Rightarrow> pod_template_spec \<Rightarrow> string \<Rightarrow> owner_ref option \<Rightarrow> string \<Rightarrow> error prog" where
  "CreatePodsWithGenerateName W namespace template parentName controllerRef generateName =
     (case validateControllerRef controllerRef of
        Some e \<Rightarrow> fail e
      | None \<Rightarrow>
          let p = (GetPodFromTemplate W template parentName controllerRef)\<lparr>pod_Namespace := namespace\<rparr>;
              p = (if generateName \<noteq> '''' then p\<lparr>pod_GenerateName := generateName\<rparr> else p)
          in do { r \<leftarrow> createPods W p; State_Monad.return (fst r) })"

definition CreatePods ::
  "world \<Rightarrow> string \<Rightarrow> pod_template_spec \<Rightarrow> string \<Rightarrow> owner_ref option \<Rightarrow> error prog" where
  "CreatePods W namespace template parentName controllerRef =
     CreatePodsWithGenerateName W namespace template parentName controllerRef ''''"

definition CreateThisPod :: "world \<Rightarrow> pod option \<Rightarrow> (error \<times> pod) prog" where
  "CreateThisPod W p =
     (case p of
        None \<Rightarrow> State_Monad.return (Some (GoError ''pod cannot be nil''), empty_pod)
      | Some p \<Rightarrow> createPods W p)"

text \<open>\<^verbatim>\<open>PatchPod\<close>, which Kubernetes' \<^verbatim>\<open>ClaimPods\<close> calls to adopt and release pods.\<close>

definition PatchPod_control :: "world \<Rightarrow> string \<Rightarrow> string \<Rightarrow> opaque \<Rightarrow> error prog" where
  "PatchPod_control W namespace name patch = PatchPodRaw W (namespace, name) patch"

section \<open>Claims of a pod\<close>

text \<open>
  The error recorded after a creation is the one of the preceding read: the inner \<^verbatim>\<open>err\<close> of the
  source is scoped to its \<^verbatim>\<open>if\<close>.
\<close>

fun create_claims :: "world \<Rightarrow> nodeset \<Rightarrow> pvc list \<Rightarrow> err list \<Rightarrow> err list prog" where
  "create_claims W ns [] errs = State_Monad.return errs"
| "create_claims W ns (claim # rest) errs = do {
     r \<leftarrow> GetPVC W (ns_Namespace ns, pvc_Name claim);
     case r of
       Inl err \<Rightarrow>
         if IsNotFound err
         then do {
           c \<leftarrow> CreatePVC W claim;
           let errs' = (case c of Some e \<Rightarrow> errs @ [Wrapped ''failed to create PVC'' e] | None \<Rightarrow> errs);
           (if \<not> IsAlreadyExists err then recordClaimEvent ''Create'' (Some err) else State_Monad.return ());
           create_claims W ns rest errs'
         }
         else do {
           recordClaimEvent ''Create'' (Some err);
           create_claims W ns rest (errs @ [Wrapped ''failed to retrieve PVC'' err])
         }
     | Inr pvc \<Rightarrow>
         create_claims W ns rest
           (if pvc_DeletionTimestamp pvc \<noteq> None then errs @ [GoError ''pvc is being deleted''] else errs)
   }"

definition createPersistentVolumeClaims :: "world \<Rightarrow> nodeset \<Rightarrow> pod \<Rightarrow> error prog" where
  "createPersistentVolumeClaims W ns p = do {
     errs \<leftarrow> create_claims W ns (map snd (w_range W (GetPersistentVolumeClaims ns p))) [];
     State_Monad.return (NewAggregate errs)
   }"

fun claims_match_policy :: "world \<Rightarrow> nodeset \<Rightarrow> pod \<Rightarrow> pvc list \<Rightarrow> (bool \<times> error) prog" where
  "claims_match_policy W ns p [] = State_Monad.return (True, None)"
| "claims_match_policy W ns p (t # templates) = do {
     r \<leftarrow> GetPVC W (ns_Namespace ns, claim_name ns p t);
     case r of
       Inl err \<Rightarrow>
         if IsNotFound err then claims_match_policy W ns p templates
         else State_Monad.return (False, Some (GoError ''could not retrieve claim''))
     | Inr claim \<Rightarrow>
         if \<not> isClaimOwnerUpToDate claim ns p then State_Monad.return (False, None)
         else claims_match_policy W ns p templates
   }"

definition PodPVCsMatchRetentionPolicy :: "world \<Rightarrow> nodeset \<Rightarrow> pod \<Rightarrow> (bool \<times> error) prog" where
  "PodPVCsMatchRetentionPolicy W ns p = claims_match_policy W ns p (spec_VolumeClaimTemplates (ns_Spec ns))"

fun update_claims :: "world \<Rightarrow> nodeset \<Rightarrow> pod \<Rightarrow> pvc list \<Rightarrow> error prog" where
  "update_claims W ns p [] = ok"
| "update_claims W ns p (t # templates) = do {
     r \<leftarrow> GetPVC W (ns_Namespace ns, claim_name ns p t);
     case r of
       Inl err \<Rightarrow>
         if IsNotFound err then update_claims W ns p templates
         else fail (Wrapped ''could not retrieve claim'' err)
     | Inr claim \<Rightarrow> do {
         (if hasUnexpectedController claim ns p
          then emit (Eventf ''Warning'' ''ConflictingController'' ''Info'' None)
          else State_Monad.return ());
         if \<not> isClaimOwnerUpToDate claim ns p
         then do {
           u \<leftarrow> UpdatePVC W (updateClaimOwnerRefForSetAndPod claim ns p);
           case u of
             Some e \<Rightarrow> fail (Wrapped ''could not update claim'' e)
           | None \<Rightarrow> update_claims W ns p templates
         }
         else update_claims W ns p templates
       }
   }"

definition UpdatePodPVCsForRetentionPolicy :: "world \<Rightarrow> nodeset \<Rightarrow> pod \<Rightarrow> error prog" where
  "UpdatePodPVCsForRetentionPolicy W ns p = update_claims W ns p (spec_VolumeClaimTemplates (ns_Spec ns))"

fun any_claim_stale :: "world \<Rightarrow> pod \<Rightarrow> pvc list \<Rightarrow> (bool \<times> error) prog" where
  "any_claim_stale W p [] = State_Monad.return (False, None)"
| "any_claim_stale W p (claim # rest) = do {
     r \<leftarrow> GetPVC W (pvc_Namespace claim, pvc_Name claim);
     case r of
       Inl err \<Rightarrow>
         if IsNotFound err then any_claim_stale W p rest else State_Monad.return (False, Some err)
     | Inr pvc \<Rightarrow>
         if hasStaleOwnerRef pvc (pod_owner p) then State_Monad.return (True, None)
         else any_claim_stale W p rest
   }"

definition IsPodPVCsStale :: "world \<Rightarrow> nodeset \<Rightarrow> pod \<Rightarrow> (bool \<times> error) prog" where
  "IsPodPVCsStale W ns p =
     (if snd (getPersistentVolumeClaimRetentionPolicy ns) = RetainPVC then State_Monad.return (False, None)
      else any_claim_stale W p (map snd (w_range W (GetPersistentVolumeClaims ns p))))"

section \<open>Pods of a NodeSet\<close>

definition CreateNodeSetPod :: "world \<Rightarrow> nodeset \<Rightarrow> pod \<Rightarrow> error prog" where
  "CreateNodeSetPod W ns p = do {
     e \<leftarrow> createPersistentVolumeClaims W ns p;
     case e of
       Some err \<Rightarrow> do { recordPodEvent ''Create'' (Some err); State_Monad.return (Some err) }
     | None \<Rightarrow> do {
         r \<leftarrow> createPods W p;
         let (err, p') = r in
         (case err of
            Some x \<Rightarrow>
              if IsAlreadyExists x then State_Monad.return err
              else do {
                u \<leftarrow> UpdatePodPVCsForRetentionPolicy W ns p';
                case u of
                  Some y \<Rightarrow> do { recordPodEvent ''Update'' (Some y); State_Monad.return (Some y) }
                | None \<Rightarrow> State_Monad.return err
              }
          | None \<Rightarrow> do {
              u \<leftarrow> UpdatePodPVCsForRetentionPolicy W ns p';
              case u of
                Some y \<Rightarrow> do { recordPodEvent ''Update'' (Some y); State_Monad.return (Some y) }
              | None \<Rightarrow> State_Monad.return err
            })
       }
   }"

definition DeleteNodeSetPod :: "world \<Rightarrow> pod \<Rightarrow> error prog" where
  "DeleteNodeSetPod W p = DeletePod W (pod_key p)"

text \<open>
  The Pod variable of \<^verbatim>\<open>UpdateNodeSetPod\<close>: the caller's object until an update is rejected, then
  a local copy of what the server has.
\<close>

definition get_local :: "ref \<Rightarrow> retry_locals \<Rightarrow> pod prog" where
  "get_local r l = (case fst l of None \<Rightarrow> load r | Some p \<Rightarrow> State_Monad.return p)"

definition set_local :: "ref \<Rightarrow> retry_locals \<Rightarrow> pod \<Rightarrow> retry_locals prog" where
  "set_local r l p =
     (case fst l of None \<Rightarrow> do { store r p; State_Monad.return l }
      | Some _ \<Rightarrow> State_Monad.return (Some p, snd l))"

text \<open>The tail of the retried function: commit the pod if it is dirty.\<close>

definition commit_pod ::
  "world \<Rightarrow> nodeset \<Rightarrow> ref \<Rightarrow> bool \<Rightarrow> retry_locals \<Rightarrow> (error \<times> retry_locals) prog" where
  "commit_pod W ns r consistent l =
     (if consistent then State_Monad.return (None, l)
      else do {
        let l = (fst l, True);
        p \<leftarrow> get_local r l;
        u \<leftarrow> UpdatePod W p;
        case u of
          Inr p' \<Rightarrow> do { l \<leftarrow> set_local r l p'; State_Monad.return (None, l) }
        | Inl updateErr \<Rightarrow> do {
            g \<leftarrow> GetPod W (ns_Namespace ns, pod_Name p);
            case g of
              Inr updated \<Rightarrow> State_Monad.return (Some updateErr, (Some updated, True))
            | Inl _ \<Rightarrow> State_Monad.return (Some updateErr, l)
          }
      })"

definition update_attempt ::
  "world \<Rightarrow> nodeset \<Rightarrow> ref \<Rightarrow> retry_locals \<Rightarrow> (error \<times> retry_locals) prog" where
  "update_attempt W ns r l = do {
     p \<leftarrow> get_local r l;
     let idOk = IsIdentityMatch ns p;
     let p = (if \<not> idOk then UpdateIdentity ns p else p);
     let stOk = IsStorageMatch ns p;
     let p = (if \<not> stOk then UpdateStorage W ns p else p);
     l \<leftarrow> set_local r l p;
     e \<leftarrow> (if \<not> stOk then createPersistentVolumeClaims W ns p else ok);
     case e of
       Some err \<Rightarrow> do { recordPodEvent ''Update'' (Some err); State_Monad.return (Some err, l) }
     | None \<Rightarrow> do {
         m \<leftarrow> PodPVCsMatchRetentionPolicy W ns p;
         case m of
           (_, Some err) \<Rightarrow> do { recordPodEvent ''Update'' (Some err); State_Monad.return (Some err, l) }
         | (False, None) \<Rightarrow> do {
             u \<leftarrow> UpdatePodPVCsForRetentionPolicy W ns p;
             case u of
               Some err \<Rightarrow> do { recordPodEvent ''Update'' (Some err); State_Monad.return (Some err, l) }
             | None \<Rightarrow> commit_pod W ns r False l
           }
         | (True, None) \<Rightarrow> commit_pod W ns r (idOk \<and> stOk) l
       }
   }"

definition UpdateNodeSetPod :: "world \<Rightarrow> nodeset \<Rightarrow> ref \<Rightarrow> error prog" where
  "UpdateNodeSetPod W ns r = do {
     x \<leftarrow> w_RetryOnConflict W (update_attempt W ns r) (None, False);
     (if snd (snd x) then recordPodEvent ''Update'' (fst x) else State_Monad.return ());
     State_Monad.return (fst x)
   }"

section \<open>Their effects\<close>

lemma keeps_recordPodEvent [keeps_intros]: "permits Q controls \<Longrightarrow> keeps (logs Q) (recordPodEvent v e)"
  and keeps_recordClaimEvent [keeps_intros]: "permits Q controls \<Longrightarrow> keeps (logs Q) (recordClaimEvent v e)"
  unfolding recordPodEvent_def recordClaimEvent_def by (intro keeps_intros; assumption)+

lemma keeps_create_claims:
  assumes "permits Q reads" "permits Q controls" "permits Q claim_writes"
  shows "keeps (logs Q) (create_claims W ns cs errs)"
  by (induction cs arbitrary: errs) (auto intro!: keeps_intros assms simp: Let_def)

lemma keeps_update_claims:
  assumes "permits Q reads" "permits Q controls" "permits Q claim_writes"
  shows "keeps (logs Q) (update_claims W ns p ts)"
  by (induction ts) (auto intro!: keeps_intros assms)

lemma keeps_claims_match_policy: "permits Q reads \<Longrightarrow> keeps (logs Q) (claims_match_policy W ns p ts)"
  by (induction ts) (auto intro!: keeps_intros)

lemma keeps_any_claim_stale: "permits Q reads \<Longrightarrow> keeps (logs Q) (any_claim_stale W p cs)"
  by (induction cs) (auto intro!: keeps_intros)

lemma keeps_claims [keeps_intros]:
  assumes "permits Q reads" "permits Q controls" "permits Q claim_writes"
  shows "keeps (logs Q) (createPersistentVolumeClaims W ns p)"
    "keeps (logs Q) (UpdatePodPVCsForRetentionPolicy W ns p)"
  unfolding createPersistentVolumeClaims_def UpdatePodPVCsForRetentionPolicy_def
  by (intro keeps_intros keeps_create_claims keeps_update_claims assms)+

lemma keeps_claim_queries [keeps_intros]:
  assumes "permits Q reads"
  shows "keeps (logs Q) (PodPVCsMatchRetentionPolicy W ns p)" "keeps (logs Q) (IsPodPVCsStale W ns p)"
  unfolding PodPVCsMatchRetentionPolicy_def IsPodPVCsStale_def
  by (intro keeps_intros keeps_claims_match_policy keeps_any_claim_stale assms)+

lemma keeps_createPods [keeps_intros]:
  "permits Q controls \<Longrightarrow> keeps (logs Q) (CreatePod W p) \<Longrightarrow> keeps (logs Q) (createPods W p)"
  unfolding createPods_def by (auto intro!: keeps_intros)

lemma keeps_DeletePod [keeps_intros]:
  "permits Q controls \<Longrightarrow> keeps (logs Q) (DeletePod_api W k) \<Longrightarrow> keeps (logs Q) (DeletePod W k)"
  unfolding DeletePod_def by (auto intro!: keeps_intros)

lemma keeps_CreateNodeSetPod [keeps_intros]:
  assumes "permits Q reads" "permits Q controls" "permits Q claim_writes" "permits Q pod_creates"
  shows "keeps (logs Q) (CreateNodeSetPod W ns p)"
  unfolding CreateNodeSetPod_def by (auto intro!: keeps_intros assms)

lemma keeps_DeleteNodeSetPod:
  "permits Q controls \<Longrightarrow> (\<And>k. k = pod_key p \<Longrightarrow> keeps (logs Q) (DeletePod_api W k)) \<Longrightarrow>
   keeps (logs Q) (DeleteNodeSetPod W p)"
  unfolding DeleteNodeSetPod_def by (simp add: keeps_DeletePod)

lemma keeps_locals [keeps_intros]: "keeps (logs Q) (get_local r l)" "keeps (logs Q) (set_local r l p)"
  unfolding get_local_def set_local_def by (auto intro!: keeps_intros)

lemma keeps_update_attempt:
  assumes "permits Q reads" "permits Q controls" "permits Q claim_writes" "permits Q pod_updates"
  shows "keeps (logs Q) (update_attempt W ns r l)"
  unfolding update_attempt_def commit_pod_def Let_def
  by (auto intro!: keeps_intros assms split: bool.split)

text \<open>
  What \<^verbatim>\<open>retry.RetryOnConflict\<close> promises: it runs the function one or more times, each time on the
  variables the previous run left, and returns the result of the last run.
\<close>

inductive retries :: "('l \<Rightarrow> (error \<times> 'l) prog) \<Rightarrow> 'l \<Rightarrow> st \<Rightarrow> (error \<times> 'l) \<times> st \<Rightarrow> bool" for fn where
  last_try: "run_state (fn l) s = r \<Longrightarrow> retries fn l s r"
| next_try: "run_state (fn l) s = ((Some e, l'), s') \<Longrightarrow> retries fn l' s' r \<Longrightarrow> retries fn l s r"

definition retry_ok :: "world \<Rightarrow> bool" where
  "retry_ok W \<longleftrightarrow> (\<forall>fn l s. retries fn l s (run_state (w_RetryOnConflict W fn l) s)) \<and>
     (\<forall>fn l s. retries fn l s (run_state (w_RetryRevision W fn l) s))"

lemma retries_keeps:
  "retries fn l s r \<Longrightarrow> (\<And>l. keeps I (fn l)) \<Longrightarrow> I s \<Longrightarrow> I (snd r)"
proof (induction rule: retries.induct)
  case (last_try l s r)
  then show ?case using keepsD by fastforce
next
  case (next_try l s e l' s' r)
  then have "I s'" using keepsD [of I "fn l" s] by simp
  with next_try show ?case by blast
qed

lemma keeps_retry:
  assumes "retry_ok W" and "\<And>l. keeps I (fn l)"
  shows "keeps I (w_RetryOnConflict W fn l)"
proof (rule keepsI)
  fix s assume "I s"
  have "retries fn l s (run_state (w_RetryOnConflict W fn l) s)"
    using assms(1) unfolding retry_ok_def by blast
  then show "I (snd (run_state (w_RetryOnConflict W fn l) s))"
    by (rule retries_keeps [OF _ assms(2) \<open>I s\<close>])
qed

lemma keeps_retry_revision:
  assumes "retry_ok W" and "\<And>c. keeps I (fn c)"
  shows "keeps I (w_RetryRevision W fn c)"
proof (rule keepsI)
  fix s assume "I s"
  have "retries fn c s (run_state (w_RetryRevision W fn c) s)"
    using assms(1) unfolding retry_ok_def by blast
  then show "I (snd (run_state (w_RetryRevision W fn c) s))"
    by (rule retries_keeps [OF _ assms(2) \<open>I s\<close>])
qed

lemma retry_ok_quiet [simp]: "retry_ok quiet_world"
  by (simp add: retry_ok_def quiet_world_def retries.last_try)

lemma keeps_UpdateNodeSetPod [keeps_intros]:
  assumes "permits Q reads" "permits Q controls" "permits Q claim_writes" "permits Q pod_updates" "retry_ok W"
  shows "keeps (logs Q) (UpdateNodeSetPod W ns r)"
  unfolding UpdateNodeSetPod_def
  by (intro keeps_intros keeps_retry keeps_update_attempt assms)

section \<open>Claims come before pods\<close>

text \<open>A claim is ready: it was read and is not being deleted, or it was created.\<close>

definition claim_ready :: "nodeset \<Rightarrow> pvc \<Rightarrow> history \<Rightarrow> bool" where
  "claim_ready ns c h \<longleftrightarrow>
     (\<exists>x. Rd (GotPVC (ns_Namespace ns, pvc_Name c) (Inr x)) \<in> set h \<and> pvc_DeletionTimestamp x = None) \<or>
     Wr (CreatedPVC c None) \<in> set h"

lemma claim_ready_mono: "claim_ready ns c h \<Longrightarrow> set h \<subseteq> set h' \<Longrightarrow> claim_ready ns c h'"
  unfolding claim_ready_def by blast

lemma run_recordClaimEvent: "\<exists>x. run_state (recordClaimEvent v e) s = ((), s\<lparr>log := x # log s\<rparr>)"
  by (cases e) (auto simp: recordClaimEvent_def)

lemma create_claims_ready:
  "run_state (create_claims W ns cs errs) s = (errs', s') \<Longrightarrow>
   set (log s) \<subseteq> set (log s') \<and> prefix errs errs' \<and> (errs' = errs \<longrightarrow> (\<forall>c \<in> set cs. claim_ready ns c (log s')))"
proof (induction cs arbitrary: errs s)
  case Nil
  then show ?case by simp
next
  case (Cons c cs)
  let ?k = "(ns_Namespace ns, pvc_Name c)"
  let ?r = "w_GetPVC W (log s) ?k"
  have rest: ?case if "run_state (create_claims W ns cs errs1) s1 = (errs', s')"
    "set (log s) \<subseteq> set (log s1)" "prefix errs errs1" "errs1 = errs \<Longrightarrow> claim_ready ns c (log s1)" for errs1 s1
    using Cons.IH [OF that(1)] that(2-4)
    by (auto intro: prefix_order.trans claim_ready_mono dest: prefix_order.antisym)
  show ?case
  proof (cases ?r)
    case (Inr x)
    then show ?thesis
      using Cons.prems
      by (intro rest [of "if pvc_DeletionTimestamp x \<noteq> None then errs @ [GoError ''pvc is being deleted''] else errs"
            "s\<lparr>log := Rd (GotPVC ?k ?r) # log s\<rparr>"])
        (auto simp: call_defs claim_ready_def split: if_splits)
  next
    case (Inl e)
    show ?thesis
    proof (cases "IsNotFound e")
      case True
      then have na: "\<not> IsAlreadyExists e" by (simp add: IsNotFound_def IsAlreadyExists_def)
      let ?h = "Rd (GotPVC ?k ?r) # log s"
      let ?u = "w_CreatePVC W ?h c"
      obtain x where x: "run_state (recordClaimEvent ''Create'' (Some e)) (s\<lparr>log := Wr (CreatedPVC c ?u) # ?h\<rparr>) =
          ((), s\<lparr>log := x # Wr (CreatedPVC c ?u) # ?h\<rparr>)"
        using run_recordClaimEvent [of "''Create''" "Some e" "s\<lparr>log := Wr (CreatedPVC c ?u) # ?h\<rparr>"] by auto
      show ?thesis
        using Cons.prems Inl True na x
        by (intro rest [of "case ?u of Some e \<Rightarrow> errs @ [Wrapped ''failed to create PVC'' e] | None \<Rightarrow> errs"
              "s\<lparr>log := x # Wr (CreatedPVC c ?u) # ?h\<rparr>"])
          (auto simp: call_defs Let_def claim_ready_def split: option.splits)
    next
      case False
      obtain x where x: "run_state (recordClaimEvent ''Create'' (Some e)) (s\<lparr>log := Rd (GotPVC ?k ?r) # log s\<rparr>) =
          ((), s\<lparr>log := x # Rd (GotPVC ?k ?r) # log s\<rparr>)"
        using run_recordClaimEvent [of "''Create''" "Some e" "s\<lparr>log := Rd (GotPVC ?k ?r) # log s\<rparr>"] by auto
      show ?thesis
        using Cons.prems Inl False x
        by (intro rest [of "errs @ [Wrapped ''failed to retrieve PVC'' e]" "s\<lparr>log := x # Rd (GotPVC ?k ?r) # log s\<rparr>"])
          (auto simp: call_defs)
    qed
  qed
qed

definition claims_first :: "nodeset \<Rightarrow> history \<Rightarrow> ev \<Rightarrow> bool" where
  "claims_first ns h e \<longleftrightarrow> (\<forall>p r. e = Wr (CreatedPod p r) \<longrightarrow>
     (\<forall>c \<in> snd ` set (GetPersistentVolumeClaims ns p). claim_ready ns c h))"

lemma claims_first_permits [simp]:
  "permits (claims_first ns) reads" "permits (claims_first ns) controls" "permits (claims_first ns) claim_writes"
  by (auto simp: permits_def claims_first_def)

text \<open>
  C8. \<open>CreateNodeSetPod\<close> asks the API server to create a pod only when each volume claim of the
  pod was read and is not being deleted, or was created successfully; if a claim cannot be
  secured, no pod is created.
\<close>

theorem pod_created_after_claims:
  assumes "fair_range W"
  shows "keeps (logs (claims_first ns)) (CreateNodeSetPod W ns p)"
proof -
  let ?I = "logs (claims_first ns)" and ?cs = "GetPersistentVolumeClaims ns p"
  let ?R = "\<lambda>s. ?I s \<and> (\<forall>c \<in> snd ` set ?cs. claim_ready ns c (log s))"
  have "triple ?I (createPersistentVolumeClaims W ns p) (\<lambda>e s. ?I s \<and> (e = None \<longrightarrow> ?R s))"
  proof (rule tripleI)
    fix s assume I: "?I s"
    let ?x = "run_state (create_claims W ns (map snd (w_range W ?cs)) []) s"
    have "set (w_range W ?cs) = set ?cs"
      using assms unfolding fair_range_def by (metis set_mset_mset)
    moreover have "?I (snd ?x)"
      by (rule keepsD [OF keeps_create_claims I]) simp_all
    ultimately show "?I (snd (run_state (createPersistentVolumeClaims W ns p) s)) \<and>
        (fst (run_state (createPersistentVolumeClaims W ns p) s) = None \<longrightarrow> ?R (snd (run_state (createPersistentVolumeClaims W ns p) s)))"
      using create_claims_ready [of W ns "map snd (w_range W ?cs)" "[]" s "fst ?x" "snd ?x"]
      by (simp add: createPersistentVolumeClaims_def split_beta)
  qed
  moreover have "triple ?R (CreatePod W p) (\<lambda>_. ?I)"
    unfolding call_defs by (rule triple_call) (auto simp: claims_first_def logsD)
  then have "triple ?R (createPods W p) (\<lambda>_. ?I)"
    unfolding createPods_def
    by (intro triple_if, intro triple_of_keeps keeps_intros, blast, elim triple_first)
      (auto intro!: keeps_intros)
  ultimately show ?thesis
    unfolding CreateNodeSetPod_def
    by (intro keeps_of_triple triple_bind [where R = "\<lambda>e s. ?I s \<and> (e = None \<longrightarrow> ?R s)"] triple_case_option)
      (auto intro!: triple_of_keeps triple_first keeps_intros simp: Let_def)
qed

theorem pod_created_after_claims_witness:
  "keeps (logs (claims_first sample_nodeset)) (CreateNodeSetPod quiet_world sample_nodeset empty_pod)"
  by (rule pod_created_after_claims) simp

text \<open>
  After a claim was missing and has been created successfully, the event that is recorded is a
  \<open>FailedCreate\<close> warning with the error of the read that preceded the creation.
\<close>

theorem claim_creation_misreported:
  assumes "w_range W (GetPersistentVolumeClaims ns p) = [(n, c)]"
    and "w_GetPVC W (log s) (ns_Namespace ns, pvc_Name c) = Inl (StatusError NotFound)"
    and "w_CreatePVC W (Rd (GotPVC (ns_Namespace ns, pvc_Name c) (Inl (StatusError NotFound))) # log s) c = None"
  shows "run_state (createPersistentVolumeClaims W ns p) s =
    (None, s\<lparr>log := Ctl (Eventf ''Warning'' ''FailedCreate'' ''Create'' (Some (StatusError NotFound))) #
       Wr (CreatedPVC c None) # Rd (GotPVC (ns_Namespace ns, pvc_Name c) (Inl (StatusError NotFound))) # log s\<rparr>)"
  using assms
  by (simp add: createPersistentVolumeClaims_def call_defs recordClaimEvent_def IsAlreadyExists_def
      NewAggregate_def)

definition claimed_nodeset :: nodeset where
  "claimed_nodeset = sample_nodeset\<lparr>ns_Spec := (ns_Spec sample_nodeset)\<lparr>spec_VolumeClaimTemplates := [sample_claim]\<rparr>\<rparr>"

theorem claim_creation_misreported_witness:
  "fst (run_state (createPersistentVolumeClaims quiet_world claimed_nodeset empty_pod) st_init) = None"
  using claim_creation_misreported [of quiet_world claimed_nodeset empty_pod "pvc_Name sample_claim"
      "claim_of claimed_nodeset empty_pod sample_claim" st_init]
  by (simp add: quiet_world_def GetPersistentVolumeClaims_def claimed_nodeset_def)

section \<open>Pods made of a template\<close>

text \<open>The created pods that a piece of history adds: none, or one with its answer.\<close>

definition created :: "history \<Rightarrow> pod list" where
  "created h = concat (map (\<lambda>e. case e of Wr (CreatedPod p r) \<Rightarrow> [p] | _ \<Rightarrow> []) h)"

text \<open>
  The generic pod control asks for a pod exactly when the reference is a complete controller
  reference and the template has labels; the pod it asks for has the labels and annotations of the template,
  the reference as its only owner, the given namespace, and the given generated name or else the name of its
  owner. Without an error the API server has accepted that pod.
\<close>

theorem template_pod_created:
  assumes "log s = []"
    and "run_state (CreatePodsWithGenerateName W namespace template parentName controllerRef generateName) s = (e, t)"
  shows "if \<exists>r. controllerRef = Some r \<and> or_APIVersion r \<noteq> '''' \<and> or_Kind r \<noteq> '''' \<and> or_Controller r = Some True \<and>
        or_BlockOwnerDeletion r = Some True \<and> mmake (md_Labels (pts_Metadata template)) \<noteq> Map.empty
    then \<exists>p. created (log t) = [p] \<and> pod_Labels p = Some (mmake (md_Labels (pts_Metadata template))) \<and>
      pod_Annotations p = Some (mmake (md_Annotations (pts_Metadata template))) \<and>
      map Some (pod_OwnerReferences p) = [controllerRef] \<and> pod_Namespace p = namespace \<and>
      (pod_GenerateName p = generateName \<and> generateName \<noteq> '''' \<or>
       prefix parentName (pod_GenerateName p) \<and> generateName = '''') \<and>
      (e = None \<longleftrightarrow> (\<exists>q. w_CreatePod W [] p = Inr q))
    else e \<noteq> None \<and> created (log t) = []"
proof (cases "validateControllerRef controllerRef")
  case (Some x)
  with assms show ?thesis
    by (auto simp: CreatePodsWithGenerateName_def validateControllerRef_def created_def fail_def
        split: option.splits if_splits)
next
  case None
  define p where "p = (let p = (GetPodFromTemplate W template parentName controllerRef)\<lparr>pod_Namespace := namespace\<rparr>
    in if generateName \<noteq> '''' then p\<lparr>pod_GenerateName := generateName\<rparr> else p)"
  have run: "e = fst (fst (run_state (createPods W p) s))" "t = snd (run_state (createPods W p) s)"
    using assms(2) None by (simp_all add: CreatePodsWithGenerateName_def p_def Let_def split_beta)
  obtain r where r: "controllerRef = Some r" "or_APIVersion r \<noteq> ''''" "or_Kind r \<noteq> ''''"
      "or_Controller r = Some True" "or_BlockOwnerDeletion r = Some True"
    using None by (auto simp: validateControllerRef_def split: option.splits if_splits)
  have p: "pod_Labels p = Some (mmake (md_Labels (pts_Metadata template)))"
      "pod_Annotations p = Some (mmake (md_Annotations (pts_Metadata template)))"
      "map Some (pod_OwnerReferences p) = [controllerRef]" "pod_Namespace p = namespace"
      "pod_GenerateName p = (if generateName \<noteq> '''' then generateName else getPodsPrefix W parentName)"
    by (simp_all add: p_def Let_def GetPodFromTemplate_def getPodsLabelSet_def getPodsAnnotationSet_def r)
  have "prefix parentName (getPodsPrefix W parentName)"
    by (simp add: getPodsPrefix_def Let_def)
  with assms(1) p r show ?thesis
    by (auto simp: run createPods_def call_defs created_def split: sum.split)
qed

theorem template_pod_created_witness:
  "created (log (snd (run_state (CreatePodsWithGenerateName quiet_world ''slurm''
       (empty_template_spec\<lparr>pts_Metadata := no_metadata\<lparr>md_Labels := Some [''a'' \<mapsto> ''b'']\<rparr>\<rparr>) ''gpu''
       (Some (NewControllerRef (nodeset_owner sample_nodeset))) '''') st_init))) \<noteq> []"
proof -
  let ?t = "empty_template_spec\<lparr>pts_Metadata := no_metadata\<lparr>md_Labels := Some [''a'' \<mapsto> ''b'']\<rparr>\<rparr>"
  let ?r = "run_state (CreatePodsWithGenerateName quiet_world ''slurm'' ?t ''gpu''
       (Some (NewControllerRef (nodeset_owner sample_nodeset))) '''') st_init"
  have "or_APIVersion (NewControllerRef (nodeset_owner sample_nodeset)) \<noteq> ''''"
    "or_Kind (NewControllerRef (nodeset_owner sample_nodeset)) \<noteq> ''''"
    "or_BlockOwnerDeletion (NewControllerRef (nodeset_owner sample_nodeset)) = Some True"
    by (simp_all add: NewControllerRef_def nodeset_owner_def)
  then show ?thesis
    using template_pod_created [of st_init quiet_world "''slurm''" ?t "''gpu''"
        "Some (NewControllerRef (nodeset_owner sample_nodeset))" "''''" "fst ?r" "snd ?r"]
    by (auto simp: st_init_def empty_template_spec_def)
qed

end
