(* ===== verification/ConfigText.thy ===== *)
theory ConfigText
  imports Naming "HOL-Library.List_Lexorder" "HOL-Library.Char_ord"
begin

text \<open>
  Configuration files as text: the builder of \<^verbatim>\<open>internal/utils/config/config.go\<close>, the reader of the user's
  extra configuration and the merge of its options with the operator's
  (\<^verbatim>\<open>parseSlurmConfKV\<close>, \<^verbatim>\<open>parseKVKey\<close>, \<^verbatim>\<open>BuildMergedConfig\<close> of \<^verbatim>\<open>internal/builder/common/common.go\<close>), with the
  parts of Go's \<^verbatim>\<open>strings\<close> and \<^verbatim>\<open>path\<close> they use. Text is ASCII.
\<close>

section \<open>Strings\<close>

text \<open>\<^verbatim>\<open>strings.Split\<close> (\<^verbatim>\<open>SplitSeq\<close>) by one character, and \<^verbatim>\<open>strings.Join\<close>.\<close>

fun Split :: "char \<Rightarrow> string \<Rightarrow> string list" where
  "Split c [] = [[]]"
| "Split c (x # xs) = (if x = c then [] # Split c xs else (case Split c xs of y # ys \<Rightarrow> (x # y) # ys | [] \<Rightarrow> [[x]]))"

fun Join :: "string \<Rightarrow> string list \<Rightarrow> string" where
  "Join sep [] = []"
| "Join sep [x] = x"
| "Join sep (x # y # ys) = x @ sep @ Join sep (y # ys)"

definition TrimRight :: "char set \<Rightarrow> string \<Rightarrow> string" where
  "TrimRight cutset s = rev (dropWhile (\<lambda>c. c \<in> cutset) (rev s))"

definition TrimLeft :: "char set \<Rightarrow> string \<Rightarrow> string" where
  "TrimLeft cutset s = dropWhile (\<lambda>c. c \<in> cutset) s"

definition Trim :: "char set \<Rightarrow> string \<Rightarrow> string" where
  "Trim cutset s = TrimRight cutset (TrimLeft cutset s)"

definition spaces :: "char set" where
  "spaces = {CHR 0x09, CHR 0x0A, CHR 0x0B, CHR 0x0C, CHR 0x0D, CHR '' ''}"

definition TrimSpace :: "string \<Rightarrow> string" where
  "TrimSpace s = Trim spaces s"

definition lower_char :: "char \<Rightarrow> char" where
  "lower_char c = (if 65 \<le> (of_char c :: nat) \<and> (of_char c :: nat) \<le> 90 then char_of (of_char c + 32 :: nat) else c)"

definition ToLower :: "string \<Rightarrow> string" where
  "ToLower s = map lower_char s"

text \<open>\<^verbatim>\<open>strings.Cut\<close> at the first occurrence of a character.\<close>

definition Cut :: "char \<Rightarrow> string \<Rightarrow> (string \<times> string) option" where
  "Cut c s = (if c \<in> set s then Some (takeWhile (\<lambda>x. x \<noteq> c) s, tl (dropWhile (\<lambda>x. x \<noteq> c) s)) else None)"

definition CutSuffix :: "char \<Rightarrow> string \<Rightarrow> string option" where
  "CutSuffix c s = (if s \<noteq> [] \<and> last s = c then Some (butlast s) else None)"

text \<open>\<^verbatim>\<open>path.Join\<close> of a rooted directory and a name: the name is cleaned segment by segment.\<close>

fun clean_segments :: "string list \<Rightarrow> string list \<Rightarrow> string list" where
  "clean_segments acc [] = rev acc"
| "clean_segments acc (s # segs) =
     (if s = '''' \<or> s = ''.'' then clean_segments acc segs
      else if s = ''..'' then clean_segments (tl acc) segs
      else clean_segments (s # acc) segs)"

definition path_Join :: "string \<Rightarrow> string \<Rightarrow> string" where
  "path_Join dir name = ''/'' @ Join ''/'' (clean_segments [] (Split (CHR ''/'') (dir @ ''/'' @ name)))"

section \<open>The configuration builder\<close>

record configProperty =
  prop_key :: string
  prop_val :: string
  prop_raw :: bool

record configBuilder =
  cb_sep :: string
  cb_newline :: bool
  cb_props :: "configProperty list"

definition config_NewBuilder :: configBuilder where
  "config_NewBuilder = \<lparr>cb_sep = ''='', cb_newline = True, cb_props = []\<rparr>"

definition AddProperty :: "configProperty \<Rightarrow> configBuilder \<Rightarrow> configBuilder" where
  "AddProperty p b = b\<lparr>cb_props := cb_props b @ [p]\<rparr>"

definition WithSeparator :: "string \<Rightarrow> configBuilder \<Rightarrow> configBuilder" where
  "WithSeparator sep b = b\<lparr>cb_sep := sep\<rparr>"

definition WithFinalNewline :: "bool \<Rightarrow> configBuilder \<Rightarrow> configBuilder" where
  "WithFinalNewline nl b = b\<lparr>cb_newline := nl\<rparr>"

definition NewProperty :: "string \<Rightarrow> string \<Rightarrow> configProperty" where
  "NewProperty k v = \<lparr>prop_key = k, prop_val = v, prop_raw = False\<rparr>"

definition NewPropertyRaw :: "string \<Rightarrow> configProperty" where
  "NewPropertyRaw v = \<lparr>prop_key = [], prop_val = v, prop_raw = True\<rparr>"

definition property_line :: "string \<Rightarrow> configProperty \<Rightarrow> string" where
  "property_line sep p = (if prop_raw p then prop_val p else prop_key p @ sep @ prop_val p)"

definition config_Build :: "configBuilder \<Rightarrow> string" where
  "config_Build b =
     Join [newline] (map (property_line (cb_sep b)) (cb_props b) @ (if cb_newline b then [[]] else []))"

text \<open>Several calls of \<^verbatim>\<open>AddProperty\<close>, one after the other.\<close>

definition AddProperties :: "configProperty list \<Rightarrow> configBuilder \<Rightarrow> configBuilder" where
  "AddProperties ps b = fold AddProperty ps b"

lemma AddProperties_props: "AddProperties ps b = b\<lparr>cb_props := cb_props b @ ps\<rparr>"
  unfolding AddProperties_def by (induction ps arbitrary: b) (simp_all add: AddProperty_def)

section \<open>Reading the extra configuration\<close>

definition setKV :: "string \<Rightarrow> (string \<rightharpoonup> string) \<Rightarrow> string \<rightharpoonup> string" where
  "setKV line out =
     (let logical = TrimSpace line
      in if logical = [] then out
         else case Cut (CHR ''='') logical of
                None \<Rightarrow> out
              | Some (k, v) \<Rightarrow>
                  let key = TrimSpace k; val = TrimSpace v
                  in if key = [] \<or> val = [] \<or> CHR '' '' \<in> set val \<or> newline \<in> set val then out
                     else out(ToLower key \<mapsto> val))"

text \<open>One physical line: the state is the pending text of continued lines and the values read so far.\<close>

definition uncomment :: "string \<Rightarrow> string" where
  "uncomment line =
     TrimRight {CHR '' '', CHR 0x09} (takeWhile (\<lambda>c. c \<noteq> CHR ''#'') (TrimSuffix line [CHR 0x0D]))"

type_synonym conf_state = "string \<times> (string \<rightharpoonup> string)"

definition conf_line :: "string \<Rightarrow> conf_state \<Rightarrow> conf_state" where
  "conf_line raw st =
     (let line = uncomment raw
      in if line = [] then st
         else case CutSuffix (CHR 0x5C) line of
                Some before \<Rightarrow> (fst st @ before, snd st)
              | None \<Rightarrow> ([], setKV (fst st @ line) (snd st)))"

definition conf_lines :: "string \<Rightarrow> conf_state \<Rightarrow> conf_state" where
  "conf_lines text st = fold conf_line (Split newline text) st"

definition parseSlurmConfKV :: "string \<Rightarrow> string \<rightharpoonup> string" where
  "parseSlurmConfKV confRaw =
     (let st = conf_lines confRaw ([], Map.empty)
      in if fst st \<noteq> [] then setKV (fst st) (snd st) else snd st)"

definition parseKVKey :: "string \<Rightarrow> string" where
  "parseKVKey s = ToLower (case Cut (CHR ''='') s of Some (k, _) \<Rightarrow> k | None \<Rightarrow> s)"

section \<open>Merging options\<close>

text \<open>
  The options of the user that are added to those of the operator: not an option whose key is there
  already, and of several with one key the first. \<open>seen\<close> are the keys that are there.
\<close>

fun merge_options :: "string list \<Rightarrow> string set \<Rightarrow> string list \<Rightarrow> string list" where
  "merge_options vals seen [] = vals"
| "merge_options vals seen (v # vs) =
     (if v = [] \<or> parseKVKey v \<in> seen then merge_options vals seen vs
      else merge_options (vals @ [ToLower v]) (insert (parseKVKey v) seen) vs)"

text \<open>A Go map with literal keys is a list of pairs with distinct keys; a set is listed sorted, each once.\<close>

type_synonym merge_config = "(string \<times> string list) list"

definition merged_value :: "string list \<Rightarrow> string \<Rightarrow> string" where
  "merged_value opts val =
     Join '','' (sort (remdups (merge_options opts (set (map parseKVKey opts)) (Split (CHR '','') val))))"

definition merged_line :: "(string \<rightharpoonup> string) \<Rightarrow> merge_config \<Rightarrow> string \<Rightarrow> configProperty list" where
  "merged_line lineVals mergeConfig pKey =
     (case lineVals (ToLower pKey) of
        None \<Rightarrow> []
      | Some val \<Rightarrow> [NewProperty pKey (merged_value (the (map_of mergeConfig pKey)) val)])"

definition merged_props :: "(string \<rightharpoonup> string) \<Rightarrow> merge_config \<Rightarrow> configProperty list" where
  "merged_props lineVals mergeConfig =
     concat (map (merged_line lineVals mergeConfig) (sort (map fst mergeConfig)))"

definition BuildMergedConfig :: "string \<Rightarrow> merge_config \<Rightarrow> string" where
  "BuildMergedConfig confRaw mergeConfig =
     config_Build (AddProperties (merged_props (parseSlurmConfKV confRaw) mergeConfig)
       (WithFinalNewline False config_NewBuilder))"

text \<open>The end of a configuration file: the user's text, and what of it is merged.\<close>

definition snippet_props :: "string \<Rightarrow> string \<Rightarrow> configProperty list" where
  "snippet_props title snippet =
     (if snippet = '''' then [] else [NewPropertyRaw ''#'', NewPropertyRaw title, NewPropertyRaw snippet])"

definition extra_props :: "string \<Rightarrow> merge_config \<Rightarrow> configProperty list" where
  "extra_props extraConf mergeConfig =
     snippet_props ''### EXTRA CONFIG ###'' extraConf @
     snippet_props ''### MERGED CONFIG ###'' (BuildMergedConfig extraConf mergeConfig)"

section \<open>Lines\<close>

lemma Split_nonempty [simp]: "Split c s \<noteq> []"
  by (induction s) (auto split: list.split)

lemma Split_append: "Split c (xs @ c # ys) = Split c xs @ Split c ys"
proof (induction xs)
  case (Cons x xs)
  then show ?case by (cases "Split c xs") auto
qed simp

lemma Split_plain: "c \<notin> set s \<Longrightarrow> Split c s = [s]"
  by (induction s) auto

lemma Split_Join:
  assumes "\<forall>x \<in> set xs. c \<notin> set x" and "xs \<noteq> []"
  shows "Split c (Join [c] xs) = xs"
  using assms by (induction "[c]" xs rule: Join.induct) (simp_all add: Split_plain Split_append)

lemma conf_line_empty [simp]: "conf_line [] st = st"
  by (simp add: conf_line_def uncomment_def TrimSuffix_def TrimRight_def)

lemma conf_lines_empty [simp]: "conf_lines [] st = st"
  by (simp add: conf_lines_def)

lemma conf_lines_append: "conf_lines (a @ newline # b) st = conf_lines b (conf_lines a st)"
  by (simp add: conf_lines_def Split_append)

lemma conf_lines_Join: "conf_lines (Join [newline] ls) st = fold conf_lines ls st"
  by (induction "[newline]" ls arbitrary: st rule: Join.induct) (simp_all add: conf_lines_append)

lemma conf_lines_Build: "conf_lines (config_Build b) st = fold (\<lambda>p. conf_lines (property_line (cb_sep b) p)) (cb_props b) st"
  by (simp add: config_Build_def conf_lines_Join fold_map comp_def)

text \<open>What a text adds does not depend on what was read before.\<close>

lemma setKV_base: "setKV l (m ++ out) = m ++ setKV l out"
  by (simp add: setKV_def Let_def split: option.split)

lemma conf_line_base:
  "conf_line l (b, m ++ out) = (fst (conf_line l (b, out)), m ++ snd (conf_line l (b, out)))"
  by (simp add: conf_line_def Let_def setKV_base split: option.split)

lemma conf_lines_base:
  "conf_lines t (b, m ++ out) = (fst (conf_lines t (b, out)), m ++ snd (conf_lines t (b, out)))"
proof -
  have "fold conf_line ls (b, m ++ out) = (fst (fold conf_line ls (b, out)), m ++ snd (fold conf_line ls (b, out)))" for ls
  proof (induction ls arbitrary: b out)
    case (Cons l ls)
    obtain b' out' where l: "conf_line l (b, out) = (b', out')" by fastforce
    show ?case using Cons [of b' out'] by (simp add: conf_line_base l)
  qed simp
  then show ?thesis by (simp add: conf_lines_def)
qed

lemmas conf_lines_over = conf_lines_base [where out = Map.empty, simplified]

section \<open>Lines with a meaning\<close>

text \<open>Characters that a reader takes as they are: no white space, comment or continuation.\<close>

definition plain :: "string \<Rightarrow> bool" where
  "plain s \<longleftrightarrow> (\<forall>c \<in> set s. c \<notin> spaces \<and> c \<noteq> CHR ''#'' \<and> c \<noteq> CHR 0x5C)"

lemma plain_simps [simp]: "plain []" "plain (a @ b) = (plain a \<and> plain b)"
  by (auto simp: plain_def)

lemma plain_Cons [simp]:
  "plain (c # s) = (c \<notin> spaces \<and> c \<noteq> CHR ''#'' \<and> c \<noteq> CHR 0x5C \<and> plain s)"
  by (auto simp: plain_def)

lemma plain_notin:
  "plain s \<Longrightarrow> newline \<notin> set s" "plain s \<Longrightarrow> CHR '' '' \<notin> set s" "plain s \<Longrightarrow> CHR ''#'' \<notin> set s"
  by (auto simp: plain_def spaces_def newline_def)

lemma dropWhile_none: "\<forall>c \<in> set s. \<not> P c \<Longrightarrow> dropWhile P s = s"
  by (cases s) auto

lemma TrimRight_id: "s = [] \<or> last s \<notin> cs \<Longrightarrow> TrimRight cs s = s"
  unfolding TrimRight_def by (cases s rule: rev_cases) auto

lemma TrimRight_none: "\<forall>c \<in> set s. c \<notin> cs \<Longrightarrow> TrimRight cs s = s"
  by (rule TrimRight_id) auto

lemma plain_no_space: "plain s \<Longrightarrow> c \<in> set s \<Longrightarrow> c \<notin> spaces"
  by (simp add: plain_def)

lemma plain_no_blank: "plain s \<Longrightarrow> \<forall>c \<in> set s. c \<notin> {CHR '' '', CHR 0x09}"
  using plain_no_space [of s] by (fastforce simp: spaces_def)

lemma plain_no_return:
  assumes "plain s"
  shows "\<not> suffix [CHR 0x0D] s"
proof
  assume "suffix [CHR 0x0D] s"
  then have "CHR 0x0D \<in> set s" by (auto simp: suffix_def)
  with assms show False using plain_no_space [of s "CHR 0x0D"] by (simp add: spaces_def)
qed

lemma plain_trims:
  assumes "plain s"
  shows "TrimSpace s = s" "uncomment s = s"
proof -
  have "\<forall>c \<in> set s. c \<notin> spaces" using assms plain_no_space by blast
  then show "TrimSpace s = s"
    by (simp add: TrimSpace_def Trim_def TrimLeft_def dropWhile_none TrimRight_none)
  have *: "takeWhile (\<lambda>c. c \<noteq> CHR ''#'') s = s"
    using plain_notin(3) [OF assms] by (auto simp: takeWhile_eq_all_conv)
  have "TrimSuffix s [CHR 0x0D] = s"
    using plain_no_return [OF assms] by (simp add: TrimSuffix_def)
  then show "uncomment s = s"
    unfolding uncomment_def by (simp only: * TrimRight_none [OF plain_no_blank [OF assms]])
qed

lemma Cut_first: "c \<notin> set k \<Longrightarrow> Cut c (k @ c # v) = Some (k, v)"
  by (induction k) (auto simp: Cut_def)

lemma conf_lines_one: "newline \<notin> set l \<Longrightarrow> conf_lines l st = conf_line l st"
  by (simp add: conf_lines_def Split_plain)

lemma conf_line_property:
  assumes "plain k" "plain v" "k \<noteq> []" "v \<noteq> []" "CHR ''='' \<notin> set k"
  shows "conf_lines (k @ ''='' @ v) ([], out) = ([], out(ToLower k \<mapsto> v))"
proof -
  let ?l = "k @ CHR ''='' # v"
  have p: "plain ?l" using assms by (simp add: spaces_def)
  have "last ?l \<noteq> CHR 0x5C"
    using assms(2,4) last_in_set [of v] by (auto simp: plain_def)
  then have "conf_line ?l ([], out) = ([], setKV ?l out)"
    using assms(3) by (simp add: conf_line_def plain_trims [OF p] CutSuffix_def)
  moreover have "setKV ?l out = out(ToLower k \<mapsto> v)"
    using assms plain_notin [OF assms(2)]
    by (simp add: setKV_def plain_trims [OF p] Cut_first plain_trims(1))
  ultimately show ?thesis
    using plain_notin(1) [OF p] by (simp add: conf_lines_one)
qed

lemma conf_line_comment: "newline \<notin> set s \<Longrightarrow> conf_lines (CHR ''#'' # s) st = st"
proof -
  have "takeWhile (\<lambda>c. c \<noteq> CHR ''#'') (TrimSuffix (CHR ''#'' # s) [CHR 0x0D]) = []"
    by (auto simp: TrimSuffix_def take_Cons' suffix_def)
  then have "uncomment (CHR ''#'' # s) = []"
    by (simp add: uncomment_def TrimRight_def)
  then show "newline \<notin> set s \<Longrightarrow> conf_lines (CHR ''#'' # s) st = st"
    by (simp add: conf_lines_one newline_def conf_line_def)
qed

section \<open>What a line does to one key\<close>

definition keeps_key :: "string \<Rightarrow> (conf_state \<Rightarrow> conf_state) \<Rightarrow> bool" where
  "keeps_key x f \<longleftrightarrow> (\<forall>m. \<exists>m'. f ([], m) = ([], m') \<and> m' x = m x)"

definition sets_key :: "string \<Rightarrow> string \<Rightarrow> (conf_state \<Rightarrow> conf_state) \<Rightarrow> bool" where
  "sets_key x v f \<longleftrightarrow> (\<forall>m. \<exists>m'. f ([], m) = ([], m') \<and> m' x = Some v)"

lemma keeps_keyI: "(\<And>m. \<exists>m'. f ([], m) = ([], m') \<and> m' x = m x) \<Longrightarrow> keeps_key x f"
  by (simp add: keeps_key_def)

lemma keeps_keyD: "keeps_key x f \<Longrightarrow> \<exists>m'. f ([], m) = ([], m') \<and> m' x = m x"
  by (simp add: keeps_key_def)

lemma keeps_key_fold: "\<forall>y \<in> set ys. keeps_key x (f y) \<Longrightarrow> keeps_key x (fold f ys)"
proof (induction ys)
  case (Cons y ys)
  show ?case
  proof (rule keeps_keyI)
    fix m
    obtain m1 where 1: "f y ([], m) = ([], m1)" "m1 x = m x"
      using Cons.prems keeps_keyD [of x "f y" m] by auto
    moreover obtain m2 where "fold f ys ([], m1) = ([], m2)" "m2 x = m1 x"
      using Cons keeps_keyD [of x "fold f ys" m1] by auto
    ultimately show "\<exists>m'. fold f (y # ys) ([], m) = ([], m') \<and> m' x = m x" by simp
  qed
qed (simp add: keeps_key_def)

lemma keeps_then_sets: "keeps_key x f \<Longrightarrow> sets_key x v g \<Longrightarrow> sets_key x v (g \<circ> f)"
  by (auto simp: keeps_key_def sets_key_def) metis

lemma sets_then_keeps: "sets_key x v f \<Longrightarrow> keeps_key x g \<Longrightarrow> sets_key x v (g \<circ> f)"
  by (auto simp: keeps_key_def sets_key_def) metis

lemma sets_key_fold:
  assumes "\<forall>y \<in> set pre. keeps_key x (f y)" "sets_key x v (f y)" "\<forall>y \<in> set post. keeps_key x (f y)"
  shows "sets_key x v (fold f (pre @ y # post))"
  using sets_then_keeps [OF keeps_then_sets [OF keeps_key_fold [OF assms(1)] assms(2)] keeps_key_fold [OF assms(3)]]
  by (simp add: comp_assoc)

text \<open>A line \<^verbatim>\<open>key=value\<close> whose value has no line break and no backslash sets at most this key.\<close>

definition line_safe :: "string \<Rightarrow> bool" where
  "line_safe s \<longleftrightarrow> newline \<notin> set s \<and> CHR 0x5C \<notin> set s"

lemma line_safe_simps [simp]:
  "line_safe []" "line_safe (a @ b) = (line_safe a \<and> line_safe b)"
  "line_safe (c # a) = (c \<noteq> newline \<and> c \<noteq> CHR 0x5C \<and> line_safe a)"
  by (auto simp: line_safe_def)

lemma plain_line_safe: "plain s \<Longrightarrow> line_safe s"
  by (auto simp: line_safe_def plain_def spaces_def newline_def)

definition conf_key :: "string \<Rightarrow> bool" where
  "conf_key k \<longleftrightarrow> plain k \<and> k \<noteq> [] \<and> CHR ''='' \<notin> set k"

lemma TrimRight_keep: "c \<notin> cs \<Longrightarrow> TrimRight cs (k @ c # v) = k @ c # TrimRight cs v"
  by (simp add: TrimRight_def dropWhile_append)

lemma TrimLeft_keep: "c \<notin> cs \<Longrightarrow> TrimLeft cs (c # v) = c # v"
  by (simp add: TrimLeft_def)

lemma set_TrimRight: "set (TrimRight cs v) \<subseteq> set v"
  by (auto simp: TrimRight_def dest: set_dropWhileD)

lemma TrimSuffix_keep:
  assumes "c \<noteq> d"
  shows "TrimSuffix (k @ c # v) [d] = k @ c # TrimSuffix v [d]"
  using assms by (cases v rule: rev_cases) (auto simp: TrimSuffix_def suffix_def)

lemma set_TrimSuffix: "set (TrimSuffix v p) \<subseteq> set v"
  by (auto simp: TrimSuffix_def dest: in_set_takeD)

lemma takeWhile_keep: "\<forall>x \<in> set k. P x \<Longrightarrow> P c \<Longrightarrow> takeWhile P (k @ c # v) = k @ c # takeWhile P v"
  by (induction k) auto

lemma uncomment_property:
  assumes "plain k"
  shows "\<exists>u. uncomment (k @ CHR ''='' # v) = k @ CHR ''='' # u \<and> set u \<subseteq> set v"
proof -
  let ?u = "takeWhile (\<lambda>c. c \<noteq> CHR ''#'') (TrimSuffix v [CHR 0x0D])"
  have "takeWhile (\<lambda>c. c \<noteq> CHR ''#'') (k @ CHR ''='' # TrimSuffix v [CHR 0x0D]) = k @ CHR ''='' # ?u"
    using assms by (intro takeWhile_keep) (auto simp: plain_def)
  then have "uncomment (k @ CHR ''='' # v) = k @ CHR ''='' # TrimRight {CHR '' '', CHR 0x09} ?u"
    by (simp add: uncomment_def TrimSuffix_keep TrimRight_keep)
  moreover have "set (TrimRight {CHR '' '', CHR 0x09} ?u) \<subseteq> set v"
    using set_TrimRight set_TrimSuffix set_takeWhileD by fastforce
  ultimately show ?thesis by blast
qed

lemma setKV_property:
  assumes "conf_key k"
  shows "setKV (k @ CHR ''='' # v) m = m \<or> (\<exists>w. setKV (k @ CHR ''='' # v) m = m(ToLower k \<mapsto> w))"
proof -
  obtain c r where k: "k = c # r" and c: "c \<notin> spaces"
    using assms by (cases k) (auto simp: conf_key_def)
  have "TrimSpace (k @ CHR ''='' # v) = k @ CHR ''='' # TrimRight spaces v"
    using TrimRight_keep [of "CHR ''=''" spaces k v] TrimLeft_keep [OF c, of "r @ CHR ''='' # v"]
    by (simp add: TrimSpace_def Trim_def k spaces_def)
  then show ?thesis
    using assms plain_trims(1) [of k] by (auto simp: setKV_def Let_def Cut_first conf_key_def)
qed

lemma property_keeps_key:
  assumes "conf_key k" "line_safe v" "ToLower k \<noteq> x"
  shows "keeps_key x (conf_lines (k @ ''='' @ v))"
proof (rule keeps_keyI)
  fix m
  have k: "plain k" "k \<noteq> []" using assms(1) by (auto simp: conf_key_def)
  obtain u where u: "uncomment (k @ CHR ''='' # v) = k @ CHR ''='' # u" "set u \<subseteq> set v"
    using uncomment_property [OF k(1)] by blast
  have "u \<noteq> [] \<Longrightarrow> last u \<in> set v"
    using u(2) last_in_set [of u] by blast
  then have "last (k @ CHR ''='' # u) \<noteq> CHR 0x5C"
    using assms(2) by (auto simp: line_safe_def)
  then have "conf_line (k @ CHR ''='' # v) ([], m) = ([], setKV (k @ CHR ''='' # u) m)"
    by (simp add: conf_line_def u CutSuffix_def)
  moreover have "newline \<notin> set (k @ CHR ''='' # v)"
    using plain_notin(1) [OF k(1)] assms(2) by (auto simp: line_safe_def newline_def)
  ultimately show "\<exists>m'. conf_lines (k @ ''='' @ v) ([], m) = ([], m') \<and> m' x = m x"
    using setKV_property [OF assms(1), of u m] assms(3) by (auto simp: conf_lines_one)
qed

lemma property_sets_key:
  assumes "conf_key k" "plain v" "v \<noteq> []"
  shows "sets_key (ToLower k) v (conf_lines (k @ ''='' @ v))"
  using conf_line_property [of k v] assms by (simp add: sets_key_def conf_key_def)

lemma comment_keeps_key: "newline \<notin> set s \<Longrightarrow> keeps_key x (conf_lines (CHR ''#'' # s))"
  by (simp add: keeps_key_def conf_line_comment)


section \<open>Merged options\<close>

lemma Split_no_sep: "y \<in> set (Split c s) \<Longrightarrow> c \<notin> set y"
proof (induction s arbitrary: y)
  case (Cons x s)
  then show ?case by (cases "Split c s") (auto split: if_splits)
qed simp

lemma set_Split: "y \<in> set (Split c s) \<Longrightarrow> set y \<subseteq> set s"
proof (induction s arbitrary: y)
  case (Cons x s)
  then show ?case by (cases "Split c s") (auto split: if_splits, fastforce+)
qed simp

lemma set_Join: "set (Join sep xs) \<subseteq> set sep \<union> (\<Union>x \<in> set xs. set x)"
  by (induction sep xs rule: Join.induct) auto

lemma lower_char_code:
  "of_char (lower_char c) = (if 65 \<le> (of_char c :: nat) \<and> of_char c \<le> (90 :: nat) then of_char c + 32 else (of_char c :: nat))"
proof -
  have "of_char (char_of (of_char c + 32 :: nat)) = (of_char c + 32 :: nat)" if "of_char c \<le> (90 :: nat)"
    using that by (simp add: of_char_of)
  then show ?thesis by (simp add: lower_char_def)
qed

lemma lower_char_special:
  assumes "of_char d \<le> (64 :: nat) \<or> of_char d = (92 :: nat)"
  shows "lower_char c = d \<longleftrightarrow> c = d"
proof -
  have "lower_char c = d \<longleftrightarrow> of_char (lower_char c) = (of_char d :: nat)"
    by (simp add: of_char_eq_iff)
  also have "\<dots> \<longleftrightarrow> of_char c = (of_char d :: nat)"
    using assms by (auto simp: lower_char_code split: if_splits)
  finally show ?thesis by (simp add: of_char_eq_iff)
qed

lemma plain_ToLower [simp]: "plain (ToLower s) = plain s"
  by (simp add: plain_def ToLower_def spaces_def lower_char_special)

lemma lower_char_idem: "lower_char (lower_char c) = lower_char c"
proof -
  have "of_char (lower_char (lower_char c)) = (of_char (lower_char c) :: nat)"
    using lower_char_code [of c] lower_char_code [of "lower_char c"] by (auto split: if_splits)
  then show ?thesis by (simp add: of_char_eq_iff)
qed

lemma ToLower_idem [simp]: "ToLower (ToLower s) = ToLower s"
  by (simp add: ToLower_def lower_char_idem)

lemma Cut_ToLower: "Cut (CHR ''='') (ToLower s) = map_option (\<lambda>(k, v). (ToLower k, ToLower v)) (Cut (CHR ''='') s)"
proof -
  have e: "lower_char c = CHR ''='' \<longleftrightarrow> c = CHR ''=''" for c
    by (rule lower_char_special) simp
  have "takeWhile (\<lambda>x. x \<noteq> CHR ''='') (ToLower s) = ToLower (takeWhile (\<lambda>x. x \<noteq> CHR ''='') s)"
    "tl (dropWhile (\<lambda>x. x \<noteq> CHR ''='') (ToLower s)) = ToLower (tl (dropWhile (\<lambda>x. x \<noteq> CHR ''='') s))"
    "CHR ''='' \<in> set (ToLower s) \<longleftrightarrow> CHR ''='' \<in> set s"
    using e by (simp_all add: ToLower_def takeWhile_map dropWhile_map map_tl comp_def) (metis image_iff e)
  then show ?thesis by (simp add: Cut_def)
qed

lemma parseKVKey_ToLower [simp]: "parseKVKey (ToLower s) = parseKVKey s"
  by (simp add: parseKVKey_def Cut_ToLower split: option.split)

lemma merge_options_keeps: "set vals \<subseteq> set (merge_options vals seen vs)"
  by (induction vals seen vs rule: merge_options.induct) auto

lemma merge_options_keys:
  "v \<in> set vs \<Longrightarrow> v \<noteq> [] \<Longrightarrow> parseKVKey v \<in> seen \<union> parseKVKey ` set (merge_options vals seen vs)"
proof (induction vals seen vs rule: merge_options.induct)
  case (2 vals seen w vs)
  have w: "ToLower w \<in> set (merge_options (vals @ [ToLower w]) (insert (parseKVKey w) seen) vs)"
    using merge_options_keeps [of "vals @ [ToLower w]"] by auto
  show ?case
  proof (cases "w = [] \<or> parseKVKey w \<in> seen")
    case True
    with 2 show ?thesis by auto
  next
    case False
    have "parseKVKey w \<in> parseKVKey ` set (merge_options (vals @ [ToLower w]) (insert (parseKVKey w) seen) vs)"
      using imageI [OF w, of parseKVKey] by simp
    with False 2 show ?thesis by auto
  qed
qed simp

lemma merge_options_source: "y \<in> set (merge_options vals seen vs) \<Longrightarrow> y \<in> set vals \<union> ToLower ` set vs"
  by (induction vals seen vs rule: merge_options.induct) (auto split: if_splits)


text \<open>The options of one parameter: all of the operator, and one for every key the user gave.\<close>

definition option_ok :: "string \<Rightarrow> bool" where
  "option_ok s \<longleftrightarrow> plain s \<and> s \<noteq> [] \<and> CHR '','' \<notin> set s"

lemma plain_Join: "plain sep \<Longrightarrow> \<forall>x \<in> set xs. plain x \<Longrightarrow> plain (Join sep xs)"
  using set_Join [of sep xs] by (fastforce simp: plain_def)

lemma Join_nonempty: "x \<in> set xs \<Longrightarrow> x \<noteq> [] \<Longrightarrow> Join sep xs \<noteq> []"
  by (induction sep xs rule: Join.induct) auto

lemma ToLower_comma: "CHR '','' \<in> set (ToLower s) \<longleftrightarrow> CHR '','' \<in> set s"
proof -
  have "lower_char c = CHR '','' \<longleftrightarrow> c = CHR '',''" for c
    by (rule lower_char_special) simp
  then have "(CHR '','' = lower_char c) = (c = CHR '','')" for c by metis
  then show ?thesis by (simp add: ToLower_def image_iff)
qed

lemma merged_option:
  assumes "\<forall>x \<in> set opts. option_ok x" "x \<in> set (merge_options opts seen (Split (CHR '','') val))"
  shows "CHR '','' \<notin> set x" "plain val \<Longrightarrow> plain x"
proof -
  have "x \<in> set opts \<or> (\<exists>y \<in> set (Split (CHR '','') val). x = ToLower y)"
    using merge_options_source [OF assms(2)] by blast
  moreover have "CHR '','' \<notin> set y" if "y \<in> set (Split (CHR '','') val)" for y
    using Split_no_sep [OF that] .
  moreover have "plain y" if "plain val" "y \<in> set (Split (CHR '','') val)" for y
    using that set_Split [OF that(2)] by (auto simp: plain_def)
  ultimately show "CHR '','' \<notin> set x" "plain val \<Longrightarrow> plain x"
    using assms(1) by (auto simp: option_ok_def ToLower_comma)
qed

lemma merged_value_Split:
  assumes "\<forall>x \<in> set opts. option_ok x" "opts \<noteq> []"
  shows "set (Split (CHR '','') (merged_value opts val)) =
    set (merge_options opts (set (map parseKVKey opts)) (Split (CHR '','') val))"
proof -
  let ?r = "sort (remdups (merge_options opts (set (map parseKVKey opts)) (Split (CHR '','') val)))"
  have "set opts \<subseteq> set ?r" using merge_options_keeps by simp
  then have "?r \<noteq> []" using assms(2) by (metis set_empty subset_empty)
  moreover have "\<forall>x \<in> set ?r. CHR '','' \<notin> set x"
    using merged_option(1) [OF assms(1)] by simp
  ultimately have "Split (CHR '','') (merged_value opts val) = ?r"
    unfolding merged_value_def by (intro Split_Join)
  then show ?thesis by simp
qed

lemma merged_value_plain:
  assumes "\<forall>x \<in> set opts. option_ok x" "opts \<noteq> []" "plain val"
  shows "plain (merged_value opts val)" "merged_value opts val \<noteq> []"
proof -
  let ?r = "sort (remdups (merge_options opts (set (map parseKVKey opts)) (Split (CHR '','') val)))"
  show "plain (merged_value opts val)"
    unfolding merged_value_def using merged_option(2) [OF assms(1) _ assms(3)]
    by (intro plain_Join) (simp_all add: spaces_def)
  obtain x where x: "x \<in> set opts" using assms(2) by (cases opts) auto
  then have "x \<in> set ?r" "x \<noteq> []"
    using merge_options_keeps assms(1) by (auto simp: option_ok_def)
  then show "merged_value opts val \<noteq> []"
    unfolding merged_value_def by (rule Join_nonempty)
qed

section \<open>A file with the user's configuration\<close>

text \<open>
  The operator's own lines, then the user's text, then the merged parameters; \<open>reads_conf\<close> is what a
  reader does on the lines of some properties.
\<close>

definition reads_conf :: "configProperty list \<Rightarrow> conf_state \<Rightarrow> conf_state" where
  "reads_conf ps = fold (\<lambda>p. conf_lines (property_line ''='' p)) ps"

lemma reads_conf_simps [simp]:
  "reads_conf [] st = st" "reads_conf (p # ps) st = reads_conf ps (conf_lines (property_line ''='' p) st)"
  "reads_conf (ps @ qs) st = reads_conf qs (reads_conf ps st)"
  by (simp_all add: reads_conf_def)

lemma reads_conf_Build:
  "conf_lines (config_Build (WithFinalNewline nl (AddProperties ps config_NewBuilder))) st = reads_conf ps st"
  "conf_lines (config_Build (AddProperties ps (WithFinalNewline nl config_NewBuilder))) st = reads_conf ps st"
  "conf_lines (config_Build (AddProperties ps config_NewBuilder)) st = reads_conf ps st"
  by (simp_all add: conf_lines_Build AddProperties_props config_NewBuilder_def WithFinalNewline_def reads_conf_def)

lemma property_line_raw [simp]: "property_line sep (NewPropertyRaw v) = v"
  and property_line_kv [simp]: "property_line sep (NewProperty k v) = k @ sep @ v"
  by (simp_all add: property_line_def NewPropertyRaw_def NewProperty_def)

definition is_comment :: "string \<Rightarrow> bool" where
  "is_comment s \<longleftrightarrow> s \<noteq> [] \<and> hd s = CHR ''#'' \<and> newline \<notin> set s"

lemma comment_line: "is_comment s \<Longrightarrow> conf_lines s st = st"
  using conf_line_comment [of "tl s" st] by (cases s) (auto simp: is_comment_def)

lemma reads_snippet:
  assumes "is_comment title"
  shows "reads_conf (snippet_props title snippet) st = conf_lines snippet st"
proof -
  have "is_comment ''#''" by (simp add: is_comment_def newline_def)
  with assms show ?thesis
    by (simp add: snippet_props_def comment_line)
qed


text \<open>The lines that the merge adds.\<close>

definition options_ok :: "merge_config \<Rightarrow> bool" where
  "options_ok mc \<longleftrightarrow> distinct (map (\<lambda>e. ToLower (fst e)) mc) \<and>
     list_all (\<lambda>(key, opts). conf_key key \<and> opts \<noteq> [] \<and> list_all option_ok opts) mc"

lemma options_okD:
  assumes "options_ok mc" "(key, opts) \<in> set mc"
  shows "conf_key key" "opts \<noteq> []" "\<forall>x \<in> set opts. option_ok x" "map_of mc key = Some opts"
    "\<lbrakk>(key', opts') \<in> set mc; ToLower key' = ToLower key\<rbrakk> \<Longrightarrow> key' = key"
proof -
  show "conf_key key" "opts \<noteq> []" "\<forall>x \<in> set opts. option_ok x"
    using assms by (auto simp: options_ok_def list_all_iff)
  have d: "distinct (map (\<lambda>e. ToLower (fst e)) mc)" using assms(1) by (simp add: options_ok_def)
  then have "distinct (map fst mc)"
    by (metis (mono_tags, lifting) distinct_map list.map_comp comp_apply inj_on_def distinct_conv_nth length_map nth_map)
  then show "map_of mc key = Some opts" using assms(2) by simp
  show "\<lbrakk>(key', opts') \<in> set mc; ToLower key' = ToLower key\<rbrakk> \<Longrightarrow> key' = key"
    using d assms(2) inj_onD [of "\<lambda>e. ToLower (fst e)" "set mc" "(key', opts')" "(key, opts)"]
    by (simp add: distinct_map)
qed

lemma merged_line_keeps:
  assumes "options_ok mc" "\<forall>v \<in> ran u. plain v" "(key, opts) \<in> set mc" "k \<in> fst ` set mc" "k \<noteq> key"
  shows "keeps_key (ToLower key) (reads_conf (merged_line u mc k))"
proof (cases "u (ToLower k)")
  case None
  then show ?thesis by (simp add: merged_line_def keeps_key_def)
next
  case (Some v)
  obtain os where os: "(k, os) \<in> set mc" using assms(4) by auto
  have "plain v" using Some assms(2) by (auto simp: ran_def)
  then have "line_safe (merged_value os v)"
    using options_okD [OF assms(1) os] by (intro plain_line_safe merged_value_plain)
  moreover have "ToLower k \<noteq> ToLower key"
    using options_okD(5) [OF assms(1,3) os] assms(5) by blast
  ultimately have "keeps_key (ToLower key) (conf_lines (k @ ''='' @ merged_value os v))"
    using options_okD(1) [OF assms(1) os] by (intro property_keeps_key)
  then show ?thesis
    using options_okD(4) [OF assms(1) os] Some by (simp add: merged_line_def reads_conf_def)
qed

lemma merged_line_sets:
  assumes "options_ok mc" "plain val" "(key, opts) \<in> set mc" "u (ToLower key) = Some val"
  shows "sets_key (ToLower key) (merged_value opts val) (reads_conf (merged_line u mc key))"
  using property_sets_key [of key "merged_value opts val"] options_okD [OF assms(1,3)] merged_value_plain [of opts val] assms
  by (simp add: merged_line_def reads_conf_def)

lemma reads_merged: "reads_conf (merged_props u mc) = fold (\<lambda>k. reads_conf (merged_line u mc k)) (sort (map fst mc))"
proof -
  have "reads_conf (concat (map (merged_line u mc) ks)) st = fold (\<lambda>k. reads_conf (merged_line u mc k)) ks st" for ks st
    by (induction ks arbitrary: st) simp_all
  then show ?thesis by (auto simp: merged_props_def)
qed

lemma merged_props_keep:
  assumes "options_ok mc" "\<forall>v \<in> ran u. plain v" "(key, opts) \<in> set mc" "u (ToLower key) = None"
  shows "keeps_key (ToLower key) (reads_conf (merged_props u mc))"
proof -
  have "keeps_key (ToLower key) (reads_conf (merged_line u mc k))" if "k \<in> fst ` set mc" for k
    using merged_line_keeps [OF assms(1-3) that] assms(4)
    by (cases "k = key") (simp_all add: merged_line_def keeps_key_def)
  then show ?thesis unfolding reads_merged by (intro keeps_key_fold) simp
qed

lemma merged_props_set:
  assumes "options_ok mc" "\<forall>v \<in> ran u. plain v" "(key, opts) \<in> set mc" "u (ToLower key) = Some val"
  shows "sets_key (ToLower key) (merged_value opts val) (reads_conf (merged_props u mc))"
proof -
  have "distinct (map (\<lambda>e. ToLower (fst e)) mc)" using assms(1) by (simp add: options_ok_def)
  then have "distinct (map ToLower (map fst mc))" by (simp add: comp_def)
  then have d: "distinct (sort (map fst mc))" by (simp only: distinct_map distinct_sort)
  have "key \<in> set (sort (map fst mc))" using assms(3) by force
  then obtain pre post where l: "sort (map fst mc) = pre @ key # post" by (meson split_list)
  have "k \<in> fst ` set mc \<and> k \<noteq> key" if "k \<in> set pre \<union> set post" for k
  proof -
    have "k \<in> set (sort (map fst mc))" using that by (auto simp: l)
    moreover have "k \<noteq> key" using that d by (auto simp: l)
    ultimately show ?thesis by simp
  qed
  then have "keeps_key (ToLower key) (reads_conf (merged_line u mc k))" if "k \<in> set pre \<union> set post" for k
    using merged_line_keeps [OF assms(1-3)] that by blast
  moreover have "sets_key (ToLower key) (merged_value opts val) (reads_conf (merged_line u mc key))"
    by (rule merged_line_sets) (use assms in \<open>auto simp: ran_def\<close>)
  ultimately show ?thesis
    unfolding reads_merged l by (intro sets_key_fold) auto
qed

text \<open>
  What a reader of such a file finds for a parameter of the operator: all options of the operator, and
  one option for each key the user gave.
\<close>

definition complete :: "string \<Rightarrow> bool" where
  "complete t \<longleftrightarrow> fst (conf_lines t ([], Map.empty)) = []"

lemma complete_lines: "complete t \<Longrightarrow> conf_lines t ([], m) = ([], m ++ parseSlurmConfKV t)"
  using conf_lines_over [of t "[]" m] by (simp add: complete_def parseSlurmConfKV_def Let_def)

definition user_options :: "string \<Rightarrow> string \<Rightarrow> string set" where
  "user_options extraConf key =
     (case parseSlurmConfKV extraConf (ToLower key) of None \<Rightarrow> {} | Some val \<Rightarrow> set (Split (CHR '','') val) - {[]})"

lemma merged_conf_options:
  assumes base: "sets_key (ToLower key) (Join '','' opts) (reads_conf base)"
    and ok: "options_ok mc" and mem: "(key, opts) \<in> set mc"
    and extra: "complete extra" "\<forall>v \<in> ran (parseSlurmConfKV extra). plain v"
  shows "\<exists>v. parseSlurmConfKV (config_Build (AddProperties (base @ extra_props extra mc) config_NewBuilder)) (ToLower key) = Some v \<and>
    set opts \<subseteq> set (Split (CHR '','') v) \<and>
    parseKVKey ` user_options extra key \<subseteq> parseKVKey ` set (Split (CHR '','') v)"
proof -
  let ?u = "parseSlurmConfKV extra"
  obtain m where m: "reads_conf base ([], Map.empty) = ([], m)" "m (ToLower key) = Some (Join '','' opts)"
    using base by (auto simp: sets_key_def)
  have titles: "is_comment ''### EXTRA CONFIG ###''" "is_comment ''### MERGED CONFIG ###''"
    by (simp_all add: is_comment_def newline_def)
  have conf: "conf_lines (config_Build (AddProperties (base @ extra_props extra mc) config_NewBuilder)) ([], Map.empty) =
      reads_conf (merged_props ?u mc) ([], m ++ ?u)"
    by (simp add: reads_conf_Build extra_props_def reads_snippet [OF titles(1)] reads_snippet [OF titles(2)] m(1)
        complete_lines [OF extra(1)] BuildMergedConfig_def)
  have opts: "opts \<noteq> []" "\<forall>x \<in> set opts. option_ok x" using options_okD [OF ok mem] by auto
  show ?thesis
  proof (cases "?u (ToLower key)")
    case None
    obtain m' where "reads_conf (merged_props ?u mc) ([], m ++ ?u) = ([], m')" "m' (ToLower key) = Some (Join '','' opts)"
      using keeps_keyD [OF merged_props_keep [OF ok extra(2) mem None], of "m ++ ?u"] m(2) None
      by (auto simp: map_add_def)
    moreover have "Split (CHR '','') (Join '','' opts) = opts"
      using opts by (intro Split_Join) (auto simp: option_ok_def)
    ultimately show ?thesis
      using conf None by (simp add: parseSlurmConfKV_def user_options_def)
  next
    case (Some val)
    obtain m' where "reads_conf (merged_props ?u mc) ([], m ++ ?u) = ([], m')" "m' (ToLower key) = Some (merged_value opts val)"
      using merged_props_set [OF ok extra(2) mem Some] by (auto simp: sets_key_def)
    moreover have "parseKVKey v \<in> parseKVKey ` set (merge_options opts (set (map parseKVKey opts)) (Split (CHR '','') val))"
      if "v \<in> set (Split (CHR '','') val)" "v \<noteq> []" for v
      using merge_options_keys [OF that, of "set (map parseKVKey opts)" opts]
        merge_options_keeps [of opts "set (map parseKVKey opts)" "Split (CHR '','') val"] by fastforce
    ultimately show ?thesis
      using conf Some merge_options_keeps [of opts "set (map parseKVKey opts)" "Split (CHR '','') val"]
      by (auto simp: parseSlurmConfKV_def user_options_def merged_value_Split [OF opts(2,1)])
  qed
qed

end
