(* ===== verification/Keys.thy ===== *)
theory Keys
  imports ConfigText
begin

text \<open>
  Names: the keys of the objects that belong to a resource (\<^verbatim>\<open>api/v1beta1/*_keys.go\<close>), their domain names
  (\<^verbatim>\<open>internal/utils/domainname\<close>), the references between resources (\<^verbatim>\<open>internal/utils/refresolver\<close>), and
  the defaults of the resources (\<^verbatim>\<open>internal/defaults\<close>).
\<close>

section \<open>Domain names\<close>

text \<open>\<^verbatim>\<open>strings.Fields\<close>, \<^verbatim>\<open>strings.CutPrefix\<close>.\<close>

fun Fields_from :: "string \<Rightarrow> string \<Rightarrow> string list" where
  "Fields_from cur [] = (if cur = [] then [] else [cur])"
| "Fields_from cur (c # s) =
     (if c \<in> spaces then (if cur = [] then Fields_from [] s else cur # Fields_from [] s)
      else Fields_from (cur @ [c]) s)"

definition Fields :: "string \<Rightarrow> string list" where
  "Fields s = Fields_from [] s"

definition CutPrefix :: "string \<Rightarrow> string \<Rightarrow> string option" where
  "CutPrefix p s = (if prefix p s then Some (drop (length p) s) else None)"

definition defaultDomain :: string where "defaultDomain = ''cluster.local''"

fun first_svc :: "string list \<Rightarrow> string option" where
  "first_svc [] = None"
| "first_svc (domain # domains) =
     (case CutPrefix ''svc.'' domain of Some after \<Rightarrow> Some after | None \<Rightarrow> first_svc domains)"

fun scan_domain :: "string list \<Rightarrow> string" where
  "scan_domain [] = defaultDomain"
| "scan_domain (line # lines) =
     (if \<not> prefix ''search'' line then scan_domain lines
      else case first_svc (tl (Fields line)) of Some domain \<Rightarrow> domain | None \<Rightarrow> scan_domain lines)"

definition clusterDomain :: "world \<Rightarrow> string" where
  "clusterDomain W = (case w_ResolvConf W of None \<Rightarrow> defaultDomain | Some lines \<Rightarrow> scan_domain lines)"

definition Fqdn :: "world \<Rightarrow> string \<Rightarrow> string \<Rightarrow> string" where
  "Fqdn W name namespace = name @ ''.'' @ namespace @ ''.svc.'' @ clusterDomain W"

definition FqdnShort :: "string \<Rightarrow> string \<Rightarrow> string" where
  "FqdnShort name namespace = name @ ''.'' @ namespace"

section \<open>Keys of Controllers\<close>

text \<open>\<^verbatim>\<open>objectutils.NamespacedName\<close> of a Controller, and the keys of its objects.\<close>

definition ct_key :: "slurm_controller \<Rightarrow> nsname" where
  "ct_key c = (ct_Namespace c, ct_Name c)"

definition Controller_ClusterName :: "slurm_controller \<Rightarrow> string" where
  "Controller_ClusterName c =
     (if ct_ClusterName c \<noteq> '''' then ct_ClusterName c else ct_Namespace c @ ''_'' @ ct_Name c)"

definition Controller_Key :: "slurm_controller \<Rightarrow> nsname" where
  "Controller_Key c = (ct_Namespace c, ct_Name c @ ''-controller'')"

definition Controller_PrimaryName :: "slurm_controller \<Rightarrow> string" where
  "Controller_PrimaryName c = (if ct_External c then ct_ExternalHost c else snd (Controller_Key c) @ ''-0'')"

definition Controller_ServiceKey :: "slurm_controller \<Rightarrow> nsname" where
  "Controller_ServiceKey c = (ct_Namespace c, snd (Controller_Key c))"

definition Controller_ServiceFQDN :: "world \<Rightarrow> slurm_controller \<Rightarrow> string" where
  "Controller_ServiceFQDN W c = Fqdn W (snd (Controller_ServiceKey c)) (fst (Controller_ServiceKey c))"

definition Controller_ServiceFQDNShort :: "slurm_controller \<Rightarrow> string" where
  "Controller_ServiceFQDNShort c = FqdnShort (snd (Controller_ServiceKey c)) (fst (Controller_ServiceKey c))"

definition Controller_PrimaryFQDN :: "slurm_controller \<Rightarrow> string" where
  "Controller_PrimaryFQDN c = Controller_PrimaryName c @ ''.'' @ Controller_ServiceFQDNShort c"

definition AuthSlurmKey :: "slurm_controller \<Rightarrow> nsname" where
  "AuthSlurmKey c = (ct_Namespace c, sks_Name (ct_SlurmKeyRef c))"

definition AuthSlurmRef :: "slurm_controller \<Rightarrow> secret_key_selector" where
  "AuthSlurmRef c = ct_SlurmKeyRef c"

definition AuthJwtRef :: "slurm_controller \<Rightarrow> secret_key_selector" where
  "AuthJwtRef c =
     deref (case ct_JwtKeyRef c of Some r \<Rightarrow> Some r | None \<Rightarrow> ct_JwtHs256KeyRef c) no_secret_key"

definition AuthJwtKey :: "slurm_controller \<Rightarrow> nsname" where
  "AuthJwtKey c = (ct_Namespace c, sks_Name (AuthJwtRef c))"

definition AuthJwksRef :: "slurm_controller \<Rightarrow> secret_key_selector option" where
  "AuthJwksRef c = ct_JwksKeyRef c"

definition AuthJwksKey :: "slurm_controller \<Rightarrow> nsname" where
  "AuthJwksKey c = (ct_Namespace c, sks_Name (deref (AuthJwksRef c) no_secret_key))"

definition Controller_ConfigKey :: "slurm_controller \<Rightarrow> nsname" where
  "Controller_ConfigKey c = (ct_Namespace c, ct_Name c @ ''-config'')"

section \<open>Keys of Accountings\<close>

definition ac_key :: "accounting \<Rightarrow> nsname" where
  "ac_key a = (ac_Namespace a, ac_Name a)"

definition Accounting_Key :: "accounting \<Rightarrow> nsname" where
  "Accounting_Key a = (ac_Namespace a, ac_Name a @ ''-accounting'')"

definition Accounting_PrimaryName :: "accounting \<Rightarrow> string" where
  "Accounting_PrimaryName a = snd (Accounting_Key a) @ ''-0''"

definition Accounting_ServiceKey :: "accounting \<Rightarrow> nsname" where
  "Accounting_ServiceKey a = (ac_Namespace a, snd (Accounting_Key a))"

definition Accounting_ServiceFQDN :: "world \<Rightarrow> accounting \<Rightarrow> string" where
  "Accounting_ServiceFQDN W a = Fqdn W (snd (Accounting_ServiceKey a)) (fst (Accounting_ServiceKey a))"

definition Accounting_ServiceFQDNShort :: "accounting \<Rightarrow> string" where
  "Accounting_ServiceFQDNShort a = FqdnShort (snd (Accounting_ServiceKey a)) (fst (Accounting_ServiceKey a))"

definition Accounting_AuthStorageKey :: "accounting \<Rightarrow> nsname" where
  "Accounting_AuthStorageKey a = (ac_Namespace a, sks_Name (ac_PasswordKeyRef a))"

definition Accounting_AuthStorageRef :: "accounting \<Rightarrow> secret_key_selector" where
  "Accounting_AuthStorageRef a =
     \<lparr>sks_Name = snd (Accounting_AuthStorageKey a), sks_Key = sks_Key (ac_PasswordKeyRef a)\<rparr>"

definition Accounting_AuthSlurmKey :: "accounting \<Rightarrow> nsname" where
  "Accounting_AuthSlurmKey a = (ac_Namespace a, sks_Name (ac_SlurmKeyRef a))"

definition Accounting_AuthSlurmRef :: "accounting \<Rightarrow> secret_key_selector" where
  "Accounting_AuthSlurmRef a = ac_SlurmKeyRef a"

definition Accounting_AuthJwtRef :: "accounting \<Rightarrow> secret_key_selector" where
  "Accounting_AuthJwtRef a =
     deref (case ac_JwtKeyRef a of Some r \<Rightarrow> Some r | None \<Rightarrow> ac_JwtHs256KeyRef a) no_secret_key"

definition Accounting_AuthJwtKey :: "accounting \<Rightarrow> nsname" where
  "Accounting_AuthJwtKey a = (ac_Namespace a, sks_Name (Accounting_AuthJwtRef a))"

definition Accounting_AuthJwksRef :: "accounting \<Rightarrow> secret_key_selector option" where
  "Accounting_AuthJwksRef a = ac_JwksKeyRef a"

definition Accounting_AuthJwksKey :: "accounting \<Rightarrow> nsname" where
  "Accounting_AuthJwksKey a = (ac_Namespace a, sks_Name (deref (Accounting_AuthJwksRef a) no_secret_key))"

definition Accounting_ConfigKey :: "accounting \<Rightarrow> nsname" where
  "Accounting_ConfigKey a = (ac_Namespace a, ac_Name a @ ''-accounting'')"

section \<open>Keys of RestApis, LoginSets and NodeSets\<close>

definition ra_key :: "restapi \<Rightarrow> nsname" where
  "ra_key r = (ra_Namespace r, ra_Name r)"

definition RestApi_Key :: "restapi \<Rightarrow> nsname" where
  "RestApi_Key r = (ra_Namespace r, ra_Name r @ ''-restapi'')"

definition RestApi_ServiceKey :: "restapi \<Rightarrow> nsname" where
  "RestApi_ServiceKey r = (ra_Namespace r, snd (RestApi_Key r))"

definition RestApi_ServiceFQDN :: "world \<Rightarrow> restapi \<Rightarrow> string" where
  "RestApi_ServiceFQDN W r = Fqdn W (snd (RestApi_ServiceKey r)) (fst (RestApi_ServiceKey r))"

definition RestApi_ServiceFQDNShort :: "restapi \<Rightarrow> string" where
  "RestApi_ServiceFQDNShort r = FqdnShort (snd (RestApi_ServiceKey r)) (fst (RestApi_ServiceKey r))"

definition LoginSet_Key :: "loginset \<Rightarrow> nsname" where
  "LoginSet_Key l = (ls_Namespace l, ls_Name l)"

definition LoginSet_ServiceKey :: "loginset \<Rightarrow> nsname" where
  "LoginSet_ServiceKey l = (ls_Namespace l, snd (LoginSet_Key l))"

definition LoginSet_ServiceFQDN :: "world \<Rightarrow> loginset \<Rightarrow> string" where
  "LoginSet_ServiceFQDN W l = Fqdn W (snd (LoginSet_ServiceKey l)) (fst (LoginSet_ServiceKey l))"

definition LoginSet_ServiceFQDNShort :: "loginset \<Rightarrow> string" where
  "LoginSet_ServiceFQDNShort l = FqdnShort (snd (LoginSet_ServiceKey l)) (fst (LoginSet_ServiceKey l))"

definition LoginSet_SssdSecretKey :: "loginset \<Rightarrow> nsname" where
  "LoginSet_SssdSecretKey l = (ls_Namespace l, sks_Name (ls_SssdConfRef l))"

definition LoginSet_SssdSecretRef :: "loginset \<Rightarrow> secret_key_selector" where
  "LoginSet_SssdSecretRef l = \<lparr>sks_Name = snd (LoginSet_SssdSecretKey l), sks_Key = sks_Key (ls_SssdConfRef l)\<rparr>"

definition LoginSet_SshConfigKey :: "loginset \<Rightarrow> nsname" where
  "LoginSet_SshConfigKey l = (ls_Namespace l, ls_Name l @ ''-ssh-config'')"

definition LoginSet_SshHostKeys :: "loginset \<Rightarrow> nsname" where
  "LoginSet_SshHostKeys l = (ls_Namespace l, snd (LoginSet_Key l) @ ''-ssh-host-keys'')"

definition NodeSet_HeadlessServiceKey :: "nodeset \<Rightarrow> nsname" where
  "NodeSet_HeadlessServiceKey ns = (ns_Namespace ns, snd (ns_Key ns) @ ''-headless'')"

definition NodeSet_SssdSecretKey :: "nodeset \<Rightarrow> nsname" where
  "NodeSet_SssdSecretKey ns = (ns_Namespace ns, sks_Name (spec_SssdConfRef (ns_Spec ns)))"

definition NodeSet_SssdSecretRef :: "nodeset \<Rightarrow> secret_key_selector" where
  "NodeSet_SssdSecretRef ns =
     \<lparr>sks_Name = snd (NodeSet_SssdSecretKey ns), sks_Key = sks_Key (spec_SssdConfRef (ns_Spec ns))\<rparr>"

definition NodeSet_SshConfigKey :: "nodeset \<Rightarrow> nsname" where
  "NodeSet_SshConfigKey ns = (ns_Namespace ns, ns_Name ns @ ''-ssh-config'')"

section \<open>Tokens\<close>

definition Token_Key :: "token \<Rightarrow> nsname" where
  "Token_Key t = (tk_Namespace t, tk_Name t)"

definition Token_Username :: "token \<Rightarrow> string" where
  "Token_Username t = (if tk_Username t \<noteq> '''' then tk_Username t else ''nobody'')"

definition Token_Lifetime :: "token \<Rightarrow> duration" where
  "Token_Lifetime t = (case tk_Lifetime t of Some d \<Rightarrow> d | None \<Rightarrow> 15 * Minute)"

definition Token_JwtRef :: "token \<Rightarrow> jwt_secret_ref" where
  "Token_JwtRef t =
     (let refPtr = (case tk_JwtKeyRef t of Some r \<Rightarrow> Some r | None \<Rightarrow> tk_JwtHs256KeyRef t);
          ref = deref refPtr \<lparr>jr_Selector = no_secret_key, jr_Namespace = ''''\<rparr>
      in if jr_Namespace ref = '''' then ref\<lparr>jr_Namespace := tk_Namespace t\<rparr> else ref)"

definition Token_JwtKey :: "token \<Rightarrow> nsname" where
  "Token_JwtKey t = (jr_Namespace (Token_JwtRef t), sks_Name (jr_Selector (Token_JwtRef t)))"

definition Token_SecretKey :: "token \<Rightarrow> nsname" where
  "Token_SecretKey t =
     (tk_Namespace t,
      case tk_SecretRef t of Some r \<Rightarrow> sks_Name r | None \<Rightarrow> tk_Name t @ ''-jwt-'' @ tk_Username t)"

definition Token_SecretRef :: "token \<Rightarrow> secret_key_selector" where
  "Token_SecretRef t =
     \<lparr>sks_Name = snd (Token_SecretKey t),
      sks_Key = (case tk_SecretRef t of Some r \<Rightarrow> sks_Key r | None \<Rightarrow> ''SLURM_JWT'')\<rparr>"

lemmas resource_key_defs = ct_key_def ac_key_def ra_key_def Controller_Key_def Controller_ServiceKey_def AuthSlurmKey_def
  AuthJwtKey_def AuthJwksKey_def Controller_ConfigKey_def Accounting_Key_def Accounting_ServiceKey_def
  Accounting_AuthStorageKey_def Accounting_AuthSlurmKey_def Accounting_AuthJwtKey_def Accounting_AuthJwksKey_def
  Accounting_ConfigKey_def RestApi_Key_def RestApi_ServiceKey_def LoginSet_Key_def LoginSet_ServiceKey_def
  LoginSet_SssdSecretKey_def LoginSet_SshConfigKey_def LoginSet_SshHostKeys_def NodeSet_HeadlessServiceKey_def
  NodeSet_SssdSecretKey_def NodeSet_SshConfigKey_def

section \<open>References\<close>

text \<open>\<^verbatim>\<open>ObjectReference.IsMatch\<close>; a reference is its namespace and name.\<close>

definition ObjectReference_IsMatch :: "nsname \<Rightarrow> nsname \<Rightarrow> bool" where
  "ObjectReference_IsMatch ref key =
     (if snd ref \<noteq> snd key then False else if fst ref \<noteq> fst key then False else True)"

lemma IsMatch_eq: "ObjectReference_IsMatch ref key = (ref = key)"
  by (simp add: ObjectReference_IsMatch_def prod_eq_iff)

definition GetNodeSetsForController :: "world \<Rightarrow> slurm_controller option \<Rightarrow> (err + nodeset list) prog" where
  "GetNodeSetsForController W controller =
     (case controller of
        None \<Rightarrow> State_Monad.return (Inr [])
      | Some c \<Rightarrow> do {
          g \<leftarrow> ListNodeSets W;
          State_Monad.return
            (case g of
               Inl e \<Rightarrow> Inl e
             | Inr items \<Rightarrow> Inr (filter (\<lambda>ns. ObjectReference_IsMatch (spec_ControllerRef (ns_Spec ns)) (ct_key c)) items))
        })"

definition GetLoginSetsForController :: "world \<Rightarrow> slurm_controller option \<Rightarrow> (err + loginset list) prog" where
  "GetLoginSetsForController W controller =
     (case controller of
        None \<Rightarrow> State_Monad.return (Inr [])
      | Some c \<Rightarrow> do {
          g \<leftarrow> ListLoginSets W;
          State_Monad.return
            (case g of
               Inl e \<Rightarrow> Inl e
             | Inr items \<Rightarrow> Inr (filter (\<lambda>l. ObjectReference_IsMatch (ls_ControllerRef l) (ct_key c)) items))
        })"

definition GetRestapisForController :: "world \<Rightarrow> slurm_controller option \<Rightarrow> (err + restapi list) prog" where
  "GetRestapisForController W controller =
     (case controller of
        None \<Rightarrow> State_Monad.return (Inr [])
      | Some c \<Rightarrow> do {
          g \<leftarrow> ListRestapis W;
          State_Monad.return
            (case g of
               Inl e \<Rightarrow> Inl e
             | Inr items \<Rightarrow> Inr (filter (\<lambda>r. ObjectReference_IsMatch (ra_ControllerRef r) (ct_key c)) items))
        })"

definition GetControllersForAccounting :: "world \<Rightarrow> accounting option \<Rightarrow> (err + slurm_controller list) prog" where
  "GetControllersForAccounting W accounting =
     (case accounting of
        None \<Rightarrow> State_Monad.return (Inr [])
      | Some a \<Rightarrow> do {
          g \<leftarrow> ListControllers W;
          State_Monad.return
            (case g of
               Inl e \<Rightarrow> Inl e
             | Inr items \<Rightarrow> Inr (filter (\<lambda>c. case ct_AccountingRef c of
                 None \<Rightarrow> False | Some ref \<Rightarrow> ObjectReference_IsMatch ref (ac_key a)) items))
        })"

definition GetSecretKeyRef :: "world \<Rightarrow> secret_key_selector \<Rightarrow> string \<Rightarrow> (err + string) prog" where
  "GetSecretKeyRef W selector namespace = do {
     g \<leftarrow> GetSecretData W (namespace, sks_Name selector);
     State_Monad.return
       (case g of
          Inl e \<Rightarrow> Inl e
        | Inr data \<Rightarrow> (case data (sks_Key selector) of
                         None \<Rightarrow> Inl (GoError (''secret key not found''))
                       | Some x \<Rightarrow> Inr x))
   }"

lemma keeps_lookups [keeps_intros]:
  assumes "permits Q reads"
  shows "keeps (logs Q) (GetNodeSetsForController W c)" "keeps (logs Q) (GetLoginSetsForController W c)"
    "keeps (logs Q) (GetRestapisForController W c)" "keeps (logs Q) (GetControllersForAccounting W a)"
    "keeps (logs Q) (GetSecretKeyRef W sel n)"
  unfolding GetNodeSetsForController_def GetLoginSetsForController_def GetRestapisForController_def
    GetControllersForAccounting_def GetSecretKeyRef_def
  by (intro keeps_intros assms)+

section \<open>Defaults\<close>

definition DefaultControllerPersistenceEnabled :: bool where "DefaultControllerPersistenceEnabled = True"
definition DefaultAccountingStoragePort :: int where "DefaultAccountingStoragePort = 3306"
definition DefaultAccountingStorageDB :: string where "DefaultAccountingStorageDB = ''slurm_acct_db''"
definition DefaultLoginSetReplicas :: int where "DefaultLoginSetReplicas = 1"
definition DefaultRestApiReplicas :: int where "DefaultRestApiReplicas = 1"

definition DefaultTokenRefresh :: bool where "DefaultTokenRefresh = True"

definition SetTokenDefaults :: "token \<Rightarrow> token" where
  "SetTokenDefaults t = (if tk_Refresh t = None then t\<lparr>tk_Refresh := Some DefaultTokenRefresh\<rparr> else t)"

definition SetControllerDefaults :: "slurm_controller \<Rightarrow> slurm_controller" where
  "SetControllerDefaults c =
     (if ct_PersistenceEnabled c = None
      then c\<lparr>ct_PersistenceEnabled := Some DefaultControllerPersistenceEnabled\<rparr> else c)"

definition SetAccountingDefaults :: "accounting \<Rightarrow> accounting" where
  "SetAccountingDefaults a =
     (let a = (if ac_StoragePort a = 0 then a\<lparr>ac_StoragePort := DefaultAccountingStoragePort\<rparr> else a)
      in if ac_StorageDatabase a = '''' then a\<lparr>ac_StorageDatabase := DefaultAccountingStorageDB\<rparr> else a)"

definition SetLoginSetDefaults :: "loginset \<Rightarrow> loginset" where
  "SetLoginSetDefaults l =
     (if ls_Replicas l = None then l\<lparr>ls_Replicas := Some DefaultLoginSetReplicas\<rparr> else l)"

definition SetRestApiDefaults :: "restapi \<Rightarrow> restapi" where
  "SetRestApiDefaults r =
     (if ra_Replicas r = None then r\<lparr>ra_Replicas := Some DefaultRestApiReplicas\<rparr> else r)"

section \<open>Facts\<close>

text \<open>A domain name is the one of a search path, or the default.\<close>

lemma Fields_nonempty: "f \<in> set (Fields_from cur s) \<Longrightarrow> f \<noteq> []"
  by (induction cur s rule: Fields_from.induct) (auto split: if_splits)

text \<open>The objects of two resources of one kind never share a key.\<close>

lemma keys_injective:
  "(Controller_Key c = Controller_Key d) = (ct_key c = ct_key d)"
  "(Controller_ConfigKey c = Controller_ConfigKey d) = (ct_key c = ct_key d)"
  "(Accounting_Key a = Accounting_Key b) = (ac_key a = ac_key b)"
  "(RestApi_Key r = RestApi_Key q) = (ra_key r = ra_key q)"
  "(LoginSet_SshConfigKey l = LoginSet_SshConfigKey m) = (LoginSet_Key l = LoginSet_Key m)"
  "(LoginSet_SshHostKeys l = LoginSet_SshHostKeys m) = (LoginSet_Key l = LoginSet_Key m)"
  by (simp_all add: resource_key_defs)

text \<open>But a LoginSet and a NodeSet of one name share the key of their SSH configuration.\<close>

lemma ssh_config_clash:
  "(LoginSet_SshConfigKey l = NodeSet_SshConfigKey ns) = (LoginSet_Key l = ns_Key ns)"
  by (simp add: resource_key_defs ns_Key_def)

end
