(* ===== verification/SlurmConf.thy ===== *)
theory SlurmConf
  imports Keys
begin

text \<open>
  The configuration files that the operator writes: \<^verbatim>\<open>slurm.conf\<close> with \<^verbatim>\<open>cgroup.conf\<close> and \<^verbatim>\<open>gres.conf\<close>
  (\<^verbatim>\<open>internal/builder/controllerbuilder/controller_config.go\<close>), \<^verbatim>\<open>slurmdbd.conf\<close>
  (\<^verbatim>\<open>accountingbuilder/accounting_config.go\<close>) and the configuration of the SSH daemons
  (\<^verbatim>\<open>loginbuilder/login_config.go\<close>, \<^verbatim>\<open>workerbuilder/worker_config.go\<close>). A property with an integer value is
  printed in decimal.
\<close>

section \<open>Constants\<close>

definition SlurmUser :: string where "SlurmUser = ''slurm''"
definition SlurmUserUid :: int where "SlurmUserUid = 401"
definition SlurmUserGid :: int where "SlurmUserGid = SlurmUserUid"
definition SlurmConfigVolume :: string where "SlurmConfigVolume = ''slurm-config''"
definition SlurmConfigDir :: string where "SlurmConfigDir = ''/mnt/slurm''"
definition SlurmEtcVolume :: string where "SlurmEtcVolume = ''slurm-etc''"
definition SlurmEtcMountDir :: string where "SlurmEtcMountDir = ''/mnt/etc/slurm''"
definition SlurmEtcDir :: string where "SlurmEtcDir = ''/etc/slurm''"
definition SlurmPidFileVolume :: string where "SlurmPidFileVolume = ''run''"
definition SlurmPidFileDir :: string where "SlurmPidFileDir = ''/run''"
definition SlurmLogFileVolume :: string where "SlurmLogFileVolume = ''slurm-logfile''"
definition SlurmLogFileDir :: string where "SlurmLogFileDir = ''/var/log/slurm''"
definition SlurmKeyFile :: string where "SlurmKeyFile = ''slurm.key''"
definition AuthType :: string where "AuthType = ''auth/slurm''"
definition CredType :: string where "CredType = ''cred/slurm''"
definition AuthInfo :: string where "AuthInfo = ''use_client_ids''"
definition AuthAltTypes :: string where "AuthAltTypes = ''auth/jwt''"
definition JwtKeyFile :: string where "JwtKeyFile = ''jwt.key''"
definition JwtKeyPath :: string where "JwtKeyPath = SlurmEtcDir @ ''/'' @ JwtKeyFile"
definition JwtAuthAltParameters :: string where "JwtAuthAltParameters = ''jwt_key='' @ JwtKeyPath"
definition JwksKeyFile :: string where "JwksKeyFile = ''jwks.json''"
definition JwksKeyPath :: string where "JwksKeyPath = SlurmEtcDir @ ''/'' @ JwksKeyFile"
definition JwksAuthAltParameters :: string where "JwksAuthAltParameters = ''jwks='' @ JwksKeyPath"
definition LogTimeFormat :: string where "LogTimeFormat = ''thread_id''"
definition DevNull :: string where "DevNull = ''/dev/null''"
definition SlurmLivez :: string where "SlurmLivez = ''/livez''"
definition SlurmReadyz :: string where "SlurmReadyz = ''/readyz''"
definition SlurmdPort :: int where "SlurmdPort = 6818"
definition SshPort :: int where "SshPort = 22"
definition SlurmdUser :: string where "SlurmdUser = ''root''"
definition SlurmdLogFilePath :: string where "SlurmdLogFilePath = SlurmLogFileDir @ ''/'' @ ''slurmd.log''"
definition SlurmdSpoolDir :: string where "SlurmdSpoolDir = ''/var/spool/slurmd''"
definition SlurmctldPort :: int where "SlurmctldPort = 6817"
definition SlurmctldLogFilePath :: string where "SlurmctldLogFilePath = SlurmLogFileDir @ ''/'' @ ''slurmctld.log''"
definition SlurmAuthSocketVolume :: string where "SlurmAuthSocketVolume = ''slurm-authsocket''"
definition SlurmctldAuthSocketDir :: string where "SlurmctldAuthSocketDir = ''/run/slurmctld''"
definition SlurmctldStateSaveVolume :: string where "SlurmctldStateSaveVolume = ''statesave''"
definition SlurmctldSpoolDir :: string where "SlurmctldSpoolDir = ''/var/spool/slurmctld''"
definition SlurmdbdPort :: int where "SlurmdbdPort = 6819"
definition SlurmdbdConfFile :: string where "SlurmdbdConfFile = ''slurmdbd.conf''"
definition SlurmConfFile :: string where "SlurmConfFile = ''slurm.conf''"
definition CgroupConfFile :: string where "CgroupConfFile = ''cgroup.conf''"
definition GresConfFile :: string where "GresConfFile = ''gres.conf''"

lemmas option_defs = AuthInfo_def JwtAuthAltParameters_def JwtKeyPath_def JwtKeyFile_def JwksAuthAltParameters_def
  JwksKeyPath_def JwksKeyFile_def SlurmEtcDir_def

section \<open>Parts of slurm.conf\<close>

definition clusterSpoolDir :: "string \<Rightarrow> string" where
  "clusterSpoolDir clustername = path_Join SlurmctldSpoolDir clustername"

definition build_lines :: "configProperty list \<Rightarrow> string" where
  "build_lines ps = config_Build (WithFinalNewline False (AddProperties ps config_NewBuilder))"

definition buildPrologEpilogSlurmctldConf :: "string list \<Rightarrow> string list \<Rightarrow> string" where
  "buildPrologEpilogSlurmctldConf prologSlurmctldScripts epilogSlurmctldScripts =
     build_lines
       (map (\<lambda>filename. NewProperty ''PrologSlurmctld'' (path_Join SlurmEtcDir filename)) (sort prologSlurmctldScripts) @
        map (\<lambda>filename. NewProperty ''EpilogSlurmctld'' (path_Join SlurmEtcDir filename)) (sort epilogSlurmctldScripts))"

definition buildPrologEpilogConf :: "string list \<Rightarrow> string list \<Rightarrow> string" where
  "buildPrologEpilogConf prologScripts epilogScripts =
     build_lines
       (map (NewProperty ''Prolog'') (sort prologScripts) @ map (NewProperty ''Epilog'') (sort epilogScripts))"

text \<open>The name under which Slurm knows the nodes of a NodeSet.\<close>

definition nodeset_feature :: "nodeset \<Rightarrow> string" where
  "nodeset_feature ns =
     (let hostname = ps_Hostname (pt_PodSpec (spec_Template (ns_Spec ns)))
      in if hostname \<noteq> '''' then Trim {CHR ''-''} hostname else ns_Name ns)"

definition nodeset_lines :: "nodeset \<Rightarrow> configProperty list" where
  "nodeset_lines ns =
     (let name = nodeset_feature ns
      in NewPropertyRaw (Join '' '' [''NodeSet='' @ name, ''Feature='' @ name]) #
         (if \<not> spec_PartitionEnabled (ns_Spec ns) then []
          else [NewPropertyRaw (Join '' '' [''PartitionName='' @ name, ''Nodes='' @ name,
                  spec_PartitionConfig (ns_Spec ns)])]))"

definition buildNodeSetConf :: "world \<Rightarrow> nodeset list \<Rightarrow> string" where
  "buildNodeSetConf W nodesetList = build_lines (concat (map nodeset_lines (w_SortNodeSets W nodesetList)))"

definition buildCgroupConf :: string where
  "buildCgroupConf =
     config_Build (AddProperties [NewProperty ''CgroupPlugin'' ''cgroup/v2'', NewProperty ''IgnoreSystemd'' ''yes'']
       config_NewBuilder)"

text \<open>The regular expression \<^verbatim>\<open>(?im)^CgroupPlugin=disabled\<close>: at the start of a line, in any case.\<close>

definition isCgroupEnabled :: "string \<Rightarrow> bool" where
  "isCgroupEnabled cgroupConf \<longleftrightarrow>
     \<not> list_ex (\<lambda>line. prefix (ToLower ''CgroupPlugin=disabled'') (ToLower line)) (Split newline cgroupConf)"

definition buildGresConf :: string where
  "buildGresConf = config_Build (AddProperties [NewProperty ''AutoDetect'' ''nvidia''] config_NewBuilder)"

section \<open>slurm.conf\<close>

text \<open>The options that the operator needs, by parameter.\<close>

definition auth_alt_options :: "bool \<Rightarrow> string list" where
  "auth_alt_options jwks = [JwtAuthAltParameters] @ (if jwks then [JwksAuthAltParameters] else [])"

definition slurm_options :: "slurm_controller \<Rightarrow> bool \<Rightarrow> merge_config" where
  "slurm_options controller cgroupEnabled =
     [(''SlurmctldParameters'',
         [''enable_configless'', ''reconfig_on_restart''] @ (if cgroupEnabled then [''enable_stepmgr''] else [])),
      (''AuthInfo'', [AuthInfo]),
      (''AuthAltParameters'', auth_alt_options (AuthJwksRef controller \<noteq> None))]"

definition option_prop :: "merge_config \<Rightarrow> string \<Rightarrow> configProperty" where
  "option_prop mergeConfig key = NewProperty key (Join '','' (the (map_of mergeConfig key)))"

definition general_props :: "slurm_controller \<Rightarrow> configProperty list" where
  "general_props controller =
     [NewPropertyRaw ''#'', NewPropertyRaw ''### GENERAL ###'',
      NewProperty ''ClusterName'' (Controller_ClusterName controller),
      NewProperty ''SlurmUser'' SlurmUser,
      NewProperty ''SlurmctldHost''
        (Controller_PrimaryName controller @ ''('' @ Controller_ServiceFQDNShort controller @ '')''),
      NewProperty ''SlurmctldPort'' (Itoa SlurmctldPort),
      NewProperty ''StateSaveLocation'' (clusterSpoolDir (Controller_ClusterName controller)),
      NewProperty ''SlurmdUser'' SlurmdUser,
      NewProperty ''SlurmdPort'' (Itoa SlurmdPort),
      NewProperty ''SlurmdSpoolDir'' SlurmdSpoolDir,
      NewProperty ''ReturnToService'' (Itoa 2),
      NewProperty ''MaxNodeCount'' (Itoa 1024),
      NewProperty ''GresTypes'' ''gpu'']"

definition logging_props :: "configProperty list" where
  "logging_props =
     [NewPropertyRaw ''#'', NewPropertyRaw ''### LOGGING ###'',
      NewProperty ''SlurmctldLogFile'' SlurmctldLogFilePath,
      NewProperty ''SlurmSchedLogFile'' SlurmctldLogFilePath,
      NewProperty ''SlurmdLogFile'' SlurmdLogFilePath,
      NewProperty ''LogTimeFormat'' LogTimeFormat]"

definition plugin_props :: "slurm_controller \<Rightarrow> bool \<Rightarrow> configProperty list" where
  "plugin_props controller cgroupEnabled =
     (let mergeConfig = slurm_options controller cgroupEnabled
      in [NewPropertyRaw ''#'', NewPropertyRaw ''### PLUGINS & PARAMETERS ###'',
          NewProperty ''AuthType'' AuthType, NewProperty ''CredType'' CredType,
          NewProperty ''AuthAltTypes'' AuthAltTypes,
          option_prop mergeConfig ''AuthAltParameters'',
          option_prop mergeConfig ''AuthInfo'',
          option_prop mergeConfig ''SlurmctldParameters''] @
         (if cgroupEnabled
          then [NewProperty ''ProctrackType'' ''proctrack/cgroup'', NewProperty ''PrologFlags'' ''Contain'',
                NewProperty ''TaskPlugin'' ''task/affinity,task/cgroup'']
          else [NewProperty ''ProctrackType'' ''proctrack/linuxproc'', NewProperty ''TaskPlugin'' ''task/affinity'']) @
         (if mt_Enabled (ct_Metrics controller) then [NewProperty ''MetricsType'' ''metrics/openmetrics''] else []))"

definition accounting_props :: "accounting option \<Rightarrow> bool \<Rightarrow> configProperty list" where
  "accounting_props accounting cgroupEnabled =
     [NewPropertyRaw ''#'', NewPropertyRaw ''### ACCOUNTING ###''] @
     (case accounting of
        Some a \<Rightarrow>
          [NewProperty ''AccountingStorageType'' ''accounting_storage/slurmdbd'',
           NewProperty ''AccountingStorageHost'' (snd (Accounting_ServiceKey a)),
           NewProperty ''AccountingStoragePort'' (Itoa SlurmdbdPort),
           NewProperty ''AccountingStorageTRES'' ''gres/gpu'',
           NewProperty ''JobAcctGatherType'' (if cgroupEnabled then ''jobacct_gather/cgroup'' else ''jobacct_gather/linux'')]
      | None \<Rightarrow>
          [NewProperty ''AccountingStorageType'' ''accounting_storage/none'',
           NewProperty ''JobAcctGatherType'' ''jobacct_gather/none''])"

definition buildSlurmConf ::
  "world \<Rightarrow> slurm_controller \<Rightarrow> accounting option \<Rightarrow> nodeset list \<Rightarrow> string list \<Rightarrow> string list \<Rightarrow>
   string list \<Rightarrow> string list \<Rightarrow> bool \<Rightarrow> string" where
  "buildSlurmConf W controller accounting nodesetList prologScripts epilogScripts
       prologSlurmctldScripts epilogSlurmctldScripts cgroupEnabled =
     config_Build (AddProperties
       (general_props controller @ logging_props @ plugin_props controller cgroupEnabled @
        accounting_props accounting cgroupEnabled @
        snippet_props ''### SLURMCTLD PROLOG & EPILOG ###''
          (buildPrologEpilogSlurmctldConf prologSlurmctldScripts epilogSlurmctldScripts) @
        snippet_props ''### PROLOG & EPILOG ###'' (buildPrologEpilogConf prologScripts epilogScripts) @
        snippet_props ''### NODESET & PARTITION ###'' (buildNodeSetConf W nodesetList) @
        extra_props (ct_ExtraConf controller) (slurm_options controller cgroupEnabled))
       config_NewBuilder)"

definition buildSlurmConfMinimal :: "slurm_controller \<Rightarrow> accounting option \<Rightarrow> string" where
  "buildSlurmConfMinimal controller accounting =
     config_Build (AddProperties
       ([NewPropertyRaw ''#'', NewPropertyRaw ''### GENERAL ###'',
         NewProperty ''ClusterName'' (Controller_ClusterName controller),
         NewProperty ''SlurmUser'' SlurmUser,
         NewProperty ''SlurmctldHost'' (Controller_PrimaryName controller),
         NewProperty ''SlurmctldPort'' (Itoa SlurmctldPort),
         NewPropertyRaw ''#'', NewPropertyRaw ''### PLUGINS & PARAMETERS ###'',
         NewProperty ''AuthType'' AuthType, NewProperty ''CredType'' CredType,
         NewProperty ''AuthAltTypes'' AuthAltTypes,
         NewPropertyRaw ''#'', NewPropertyRaw ''### ACCOUNTING ###''] @
        (case accounting of
           Some a \<Rightarrow>
             [NewProperty ''AccountingStorageType'' ''accounting_storage/slurmdbd'',
              NewProperty ''AccountingStorageHost'' (snd (Accounting_ServiceKey a)),
              NewProperty ''AccountingStoragePort'' (Itoa SlurmdbdPort)]
         | None \<Rightarrow> [NewProperty ''AccountingStorageType'' ''accounting_storage/none'']))
       config_NewBuilder)"

section \<open>slurmdbd.conf\<close>

definition dbd_options :: "accounting \<Rightarrow> merge_config" where
  "dbd_options accounting =
     [(''AuthInfo'', [AuthInfo]),
      (''AuthAltParameters'', auth_alt_options (Accounting_AuthJwksRef accounting \<noteq> None))]"

definition dbd_props :: "accounting \<Rightarrow> string \<Rightarrow> configProperty list" where
  "dbd_props accounting storagePass =
     [NewPropertyRaw ''#'', NewPropertyRaw ''### GENERAL ###'',
      NewProperty ''DbdHost'' (Accounting_PrimaryName accounting),
      NewProperty ''DbdPort'' (Itoa SlurmdbdPort),
      NewProperty ''SlurmUser'' SlurmUser,
      NewPropertyRaw ''#'', NewPropertyRaw ''### PLUGINS & PARAMETERS ###'',
      NewProperty ''AuthType'' AuthType, NewProperty ''AuthAltTypes'' AuthAltTypes,
      option_prop (dbd_options accounting) ''AuthAltParameters'',
      option_prop (dbd_options accounting) ''AuthInfo'',
      NewPropertyRaw ''#'', NewPropertyRaw ''### STORAGE ###'',
      NewProperty ''StorageType'' ''accounting_storage/mysql'',
      NewProperty ''StorageHost'' (ac_StorageHost accounting),
      NewProperty ''StoragePort'' (Itoa (ac_StoragePort accounting)),
      NewProperty ''StorageUser'' (ac_StorageUsername accounting),
      NewProperty ''StorageLoc'' (ac_StorageDatabase accounting),
      NewProperty ''StoragePass'' storagePass,
      NewPropertyRaw ''#'', NewPropertyRaw ''### LOGGING ###'',
      NewProperty ''LogFile'' DevNull, NewProperty ''LogTimeFormat'' LogTimeFormat]"

definition buildSlurmdbdConf :: "accounting \<Rightarrow> string \<Rightarrow> string" where
  "buildSlurmdbdConf accounting storagePass =
     config_Build (AddProperties
       (dbd_props accounting storagePass @ extra_props (ac_ExtraConf accounting) (dbd_options accounting))
       config_NewBuilder)"

section \<open>SSH\<close>

definition buildAuthorizedKeys :: "string \<Rightarrow> string" where
  "buildAuthorizedKeys authorizedKeys =
     config_Build (AddProperties
       [NewPropertyRaw ''#'', NewPropertyRaw ''### SLINKY ###'', NewPropertyRaw authorizedKeys] config_NewBuilder)"

definition buildSshdConfig :: "string \<Rightarrow> string" where
  "buildSshdConfig extraConf =
     config_Build (AddProperties
       [NewPropertyRaw ''#'', NewPropertyRaw ''### GENERAL ###'',
        NewProperty ''Include'' ''/etc/ssh/sshd_config.d/*.conf'', NewProperty ''UsePAM'' ''yes'',
        NewProperty ''X11Forwarding'' ''yes'', NewProperty ''Subsystem'' ''sftp internal-sftp'',
        NewPropertyRaw ''#'', NewPropertyRaw ''### EXTRA CONFIG ###'', NewPropertyRaw extraConf]
       (WithSeparator '' '' config_NewBuilder))"

definition buildWorkerSshdConfig :: "string \<Rightarrow> string" where
  "buildWorkerSshdConfig extraConf =
     config_Build (AddProperties
       [NewPropertyRaw ''#'', NewPropertyRaw ''### GENERAL ###'',
        NewProperty ''Include'' ''/etc/ssh/sshd_config.d/*.conf'', NewProperty ''UsePAM'' ''yes'',
        NewProperty ''Subsystem'' ''sftp internal-sftp'',
        NewProperty ''AuthenticationMethods'' ''publickey password'',
        NewPropertyRaw ''#'', NewPropertyRaw ''### EXTRA CONFIG ###'', NewPropertyRaw extraConf]
       (WithSeparator '' '' config_NewBuilder))"

section \<open>What a reader of the files finds\<close>

text \<open>The lines of a list of properties that leave a key alone.\<close>

definition quiet_prop :: "string \<Rightarrow> configProperty \<Rightarrow> bool" where
  "quiet_prop x p \<longleftrightarrow> keeps_key x (conf_lines (property_line ''='' p))"

lemma quiet_property: "conf_key k \<Longrightarrow> ToLower k \<noteq> x \<Longrightarrow> line_safe v \<Longrightarrow> quiet_prop x (NewProperty k v)"
  using property_keeps_key [of k v x] by (simp add: quiet_prop_def)

lemma quiet_comment: "is_comment s \<Longrightarrow> quiet_prop x (NewPropertyRaw s)"
  by (simp add: quiet_prop_def keeps_key_def comment_line)

lemma quiet_raw: "conf_key k \<Longrightarrow> ToLower k \<noteq> x \<Longrightarrow> line_safe v \<Longrightarrow> quiet_prop x (NewPropertyRaw (k @ ''='' @ v))"
  using property_keeps_key [of k v x] by (simp add: quiet_prop_def)

lemma quiet_reads: "list_all (quiet_prop x) ps \<Longrightarrow> keeps_key x (reads_conf ps)"
  unfolding reads_conf_def by (rule keeps_key_fold) (simp add: list_all_iff quiet_prop_def)

lemma quiet_snippet:
  assumes "is_comment title" "list_all (quiet_prop x) ps"
  shows "list_all (quiet_prop x) (snippet_props title (build_lines ps))"
proof -
  have "conf_lines (build_lines ps) = reads_conf ps"
    by (rule ext) (simp add: build_lines_def reads_conf_Build)
  then have "quiet_prop x (NewPropertyRaw (build_lines ps))"
    using quiet_reads [OF assms(2)] by (simp add: quiet_prop_def)
  moreover have "quiet_prop x (NewPropertyRaw ''#'')"
    by (rule quiet_comment) (simp add: is_comment_def newline_def)
  ultimately show ?thesis
    using quiet_comment [OF assms(1)] by (simp add: snippet_props_def)
qed

lemma sets_between:
  assumes "list_all (quiet_prop x) pre" "sets_key x v (conf_lines (property_line ''='' p))" "list_all (quiet_prop x) post"
  shows "sets_key x v (reads_conf (pre @ p # post))"
  unfolding reads_conf_def by (rule sets_key_fold) (use assms in \<open>auto simp: list_all_iff quiet_prop_def\<close>)

text \<open>The keys that the operator writes are keys, and none but their own is one of the three parameters.\<close>

definition merge_keys :: "string list" where
  "merge_keys = [''slurmctldparameters'', ''authinfo'', ''authaltparameters'']"

definition conf_keys :: "string list" where
  "conf_keys =
     [''ClusterName'', ''SlurmUser'', ''SlurmctldHost'', ''SlurmctldPort'', ''StateSaveLocation'', ''SlurmdUser'',
      ''SlurmdPort'', ''SlurmdSpoolDir'', ''ReturnToService'', ''MaxNodeCount'', ''GresTypes'', ''SlurmctldLogFile'',
      ''SlurmSchedLogFile'', ''SlurmdLogFile'', ''LogTimeFormat'', ''AuthType'', ''CredType'', ''AuthAltTypes'',
      ''ProctrackType'', ''PrologFlags'', ''TaskPlugin'', ''MetricsType'', ''AccountingStorageType'',
      ''AccountingStorageHost'', ''AccountingStoragePort'', ''AccountingStorageTRES'', ''JobAcctGatherType'',
      ''PrologSlurmctld'', ''EpilogSlurmctld'', ''Prolog'', ''Epilog'', ''NodeSet'', ''PartitionName'',
      ''DbdHost'', ''DbdPort'', ''StorageType'', ''StorageHost'', ''StoragePort'', ''StorageUser'', ''StorageLoc'',
      ''StoragePass'', ''LogFile'']"

lemma conf_keys_ok: "list_all (\<lambda>k. conf_key k \<and> ToLower k \<notin> set merge_keys) conf_keys"
  by code_simp

lemma quiet_key: "k \<in> set conf_keys \<Longrightarrow> x \<in> set merge_keys \<Longrightarrow> line_safe v \<Longrightarrow> quiet_prop x (NewProperty k v)"
  using conf_keys_ok by (intro quiet_property) (auto simp: list_all_iff)

lemma quiet_key_raw:
  "k \<in> set conf_keys \<Longrightarrow> x \<in> set merge_keys \<Longrightarrow> line_safe v \<Longrightarrow> quiet_prop x (NewPropertyRaw (k @ ''='' @ v))"
  using conf_keys_ok by (intro quiet_raw) (auto simp: list_all_iff)

text \<open>The options of the operator, in every combination.\<close>

lemma all_options_ok:
  "\<forall>a \<in> {True, False}. \<forall>b \<in> {True, False}. options_ok
    [(''SlurmctldParameters'', [''enable_configless'', ''reconfig_on_restart''] @ (if a then [''enable_stepmgr''] else [])),
     (''AuthInfo'', [AuthInfo]), (''AuthAltParameters'', auth_alt_options b)]"
  by code_simp

lemma slurm_options_ok: "options_ok (slurm_options c cgroup)"
  unfolding slurm_options_def using all_options_ok by blast

lemma dbd_options_ok: "options_ok (dbd_options a)"
proof -
  have "options_ok ((k, v) # mc) \<Longrightarrow> options_ok mc" for k v mc
    by (simp add: options_ok_def)
  then show ?thesis
    unfolding dbd_options_def using all_options_ok by blast
qed

lemma line_safe_Itoa [simp]: "line_safe (Itoa i)"
proof -
  have "c \<noteq> newline \<and> c \<noteq> CHR 0x5C" if "is_digit c" for c
    using that by (auto simp: is_digit_def newline_def)
  then have "line_safe (itoa n)" for n
    using itoa_digits [of n] by (auto simp: line_safe_def list_all_iff)
  then show ?thesis by (simp add: Itoa_def newline_def)
qed

lemma set_clean_segments: "set (clean_segments acc segs) \<subseteq> set acc \<union> set segs"
proof (induction acc segs rule: clean_segments.induct)
  case (2 acc s segs)
  have "set (tl acc) \<subseteq> set acc" by (cases acc) auto
  with 2 show ?case by (auto split: if_splits)
qed simp

lemma line_safe_path_Join: "line_safe d \<Longrightarrow> line_safe n \<Longrightarrow> line_safe (path_Join d n)"
proof -
  assume dn: "line_safe d" "line_safe n"
  have "x \<in> set d \<union> set n \<union> {CHR ''/''}"
    if "x \<in> set (path_Join d n)" for x
  proof (cases "x = CHR ''/''")
    case False
    then have "x \<in> set (Join ''/'' (clean_segments [] (Split CHR ''/'' (d @ ''/'' @ n))))"
      using that by (simp add: path_Join_def)
    from subsetD [OF set_Join this] False
    obtain seg where "seg \<in> set (clean_segments [] (Split CHR ''/'' (d @ ''/'' @ n)))" "x \<in> set seg" by auto
    then have "seg \<in> set (Split CHR ''/'' (d @ ''/'' @ n))" "x \<in> set seg"
      using set_clean_segments [of "[]"] by auto
    then show ?thesis using set_Split [of seg] by fastforce
  qed simp
  with dn show ?thesis by (auto simp: line_safe_def newline_def)
qed

lemma general_quiet:
  assumes "x \<in> set merge_keys" "line_safe (ct_ClusterName c)" "line_safe (ct_Namespace c)" "line_safe (ct_Name c)"
    "line_safe (ct_ExternalHost c)"
  shows "list_all (quiet_prop x) (general_props c)"
proof -
  have "line_safe (Controller_ClusterName c)" "line_safe (Controller_PrimaryName c)"
    "line_safe (Controller_ServiceFQDNShort c)" "line_safe SlurmctldSpoolDir"
    using assms by (simp_all add: Controller_ClusterName_def Controller_PrimaryName_def Controller_ServiceFQDNShort_def
        FqdnShort_def resource_key_defs newline_def SlurmctldSpoolDir_def)
  then show ?thesis
    using assms(1) unfolding general_props_def list.pred_inject clusterSpoolDir_def
    by (intro conjI TrueI quiet_key quiet_comment)
      (simp_all add: conf_keys_def is_comment_def newline_def line_safe_path_Join SlurmUser_def SlurmdUser_def SlurmdSpoolDir_def)
qed


lemma logging_quiet: "x \<in> set merge_keys \<Longrightarrow> list_all (quiet_prop x) logging_props"
  unfolding logging_props_def list.pred_inject
  by (intro conjI TrueI quiet_key quiet_comment)
    (simp_all add: conf_keys_def is_comment_def newline_def SlurmctldLogFilePath_def SlurmdLogFilePath_def
      SlurmLogFileDir_def LogTimeFormat_def)

lemma accounting_quiet:
  assumes "x \<in> set merge_keys" "\<forall>a \<in> set_option accounting. line_safe (ac_Name a)"
  shows "list_all (quiet_prop x) (accounting_props accounting cgroup)"
proof -
  have "\<forall>a \<in> set_option accounting. line_safe (snd (Accounting_ServiceKey a))"
    using assms(2) by (simp add: resource_key_defs newline_def)
  then show ?thesis
    using assms(1) unfolding accounting_props_def
    by (cases accounting)
      (simp_all add: quiet_key quiet_comment conf_keys_def is_comment_def newline_def)
qed

lemma scripts_quiet:
  assumes "x \<in> set merge_keys" "\<forall>s \<in> set prolog \<union> set epilog. line_safe s"
  shows "list_all (quiet_prop x) (snippet_props ''### SLURMCTLD PROLOG & EPILOG ###'' (buildPrologEpilogSlurmctldConf prolog epilog))"
    and "list_all (quiet_prop x) (snippet_props ''### PROLOG & EPILOG ###'' (buildPrologEpilogConf prolog epilog))"
proof -
  have "line_safe SlurmEtcDir" by (simp add: SlurmEtcDir_def newline_def)
  then show "list_all (quiet_prop x) (snippet_props ''### SLURMCTLD PROLOG & EPILOG ###'' (buildPrologEpilogSlurmctldConf prolog epilog))"
    unfolding buildPrologEpilogSlurmctldConf_def using assms
    by (intro quiet_snippet)
      (auto simp: is_comment_def newline_def list_all_iff conf_keys_def intro!: quiet_key line_safe_path_Join)
  show "list_all (quiet_prop x) (snippet_props ''### PROLOG & EPILOG ###'' (buildPrologEpilogConf prolog epilog))"
    unfolding buildPrologEpilogConf_def using assms
    by (intro quiet_snippet) (auto simp: is_comment_def newline_def list_all_iff conf_keys_def intro!: quiet_key)
qed

definition nodeset_safe :: "nodeset \<Rightarrow> bool" where
  "nodeset_safe ns \<longleftrightarrow> line_safe (ns_Name ns) \<and> line_safe (ps_Hostname (pt_PodSpec (spec_Template (ns_Spec ns)))) \<and>
     line_safe (spec_PartitionConfig (ns_Spec ns))"

lemma line_safe_feature: "nodeset_safe ns \<Longrightarrow> line_safe (nodeset_feature ns)"
proof -
  have "set (Trim cs s) \<subseteq> set s" for cs s
    using set_TrimRight [of cs "TrimLeft cs s"] set_dropWhileD by (fastforce simp: Trim_def TrimLeft_def)
  then have "line_safe s \<Longrightarrow> line_safe (Trim cs s)" for cs s
    by (auto simp: line_safe_def)
  then show "nodeset_safe ns \<Longrightarrow> line_safe (nodeset_feature ns)"
    by (simp add: nodeset_safe_def nodeset_feature_def Let_def)
qed

lemma nodesets_quiet:
  assumes "x \<in> set merge_keys" "\<forall>ns \<in> set nodesets. nodeset_safe ns" "set (w_SortNodeSets W nodesets) = set nodesets"
  shows "list_all (quiet_prop x) (snippet_props ''### NODESET & PARTITION ###'' (buildNodeSetConf W nodesets))"
proof -
  have "list_all (quiet_prop x) (nodeset_lines ns)" if ns: "nodeset_safe ns" for ns
  proof -
    let ?n = "nodeset_feature ns" and ?c = "spec_PartitionConfig (ns_Spec ns)"
    have "quiet_prop x (NewPropertyRaw (''NodeSet'' @ ''='' @ ?n @ '' Feature='' @ ?n))"
      "quiet_prop x (NewPropertyRaw (''PartitionName'' @ ''='' @ ?n @ '' Nodes='' @ ?n @ '' '' @ ?c))"
      using assms(1) line_safe_feature [OF ns] ns
      by (intro quiet_key_raw; simp add: conf_keys_def newline_def nodeset_safe_def)+
    then show ?thesis by (simp add: nodeset_lines_def Let_def)
  qed
  with assms show ?thesis
    unfolding buildNodeSetConf_def
    by (intro quiet_snippet) (auto simp: is_comment_def newline_def list_all_iff)
qed


lemma option_prop_sets:
  assumes "options_ok mc" "(key, opts) \<in> set mc"
  shows "sets_key (ToLower key) (Join '','' opts) (conf_lines (property_line ''='' (option_prop mc key)))"
proof -
  have ok: "conf_key key" "opts \<noteq> []" "\<forall>x \<in> set opts. option_ok x" "map_of mc key = Some opts"
    using options_okD [OF assms] by auto
  obtain x where "x \<in> set opts" using ok(2) by (cases opts) auto
  then have "Join '','' opts \<noteq> []"
    using ok(3) by (intro Join_nonempty [of x]) (auto simp: option_ok_def)
  moreover have "plain (Join '','' opts)"
    using ok(3) by (intro plain_Join) (auto simp: option_ok_def spaces_def)
  ultimately show ?thesis
    using property_sets_key [OF ok(1)] ok(4) by (simp add: option_prop_def)
qed

lemma option_prop_quiet:
  assumes "options_ok mc" "(key, opts) \<in> set mc" "(key', opts') \<in> set mc" "key' \<noteq> key"
  shows "quiet_prop (ToLower key) (option_prop mc key')"
proof -
  have ok: "conf_key key'" "\<forall>x \<in> set opts'. option_ok x" "map_of mc key' = Some opts'"
    using options_okD [OF assms(1,3)] by auto
  have "plain (Join '','' opts')"
    using ok(2) by (intro plain_Join) (auto simp: option_ok_def spaces_def)
  moreover have "ToLower key' \<noteq> ToLower key"
    using options_okD(5) [OF assms(1-3)] assms(4) by blast
  ultimately show ?thesis
    using ok by (simp add: option_prop_def quiet_property plain_line_safe)
qed

lemma options_block:
  assumes "options_ok mc" "(key, opts) \<in> set mc" "distinct ks" "key \<in> set ks" "set ks \<subseteq> fst ` set mc"
    and "list_all (quiet_prop (ToLower key)) pre" "list_all (quiet_prop (ToLower key)) post"
  shows "sets_key (ToLower key) (Join '','' opts) (reads_conf (pre @ map (option_prop mc) ks @ post))"
proof -
  obtain as bs where ks: "ks = as @ key # bs" using assms(4) by (meson split_list)
  have "quiet_prop (ToLower key) (option_prop mc k)" if "k \<in> set as \<union> set bs" for k
  proof -
    have "k \<noteq> key" using that assms(3) by (auto simp: ks)
    moreover have "k \<in> fst ` set mc" using that assms(5) by (auto simp: ks)
    ultimately show ?thesis using option_prop_quiet [OF assms(1,2)] by auto
  qed
  then show ?thesis
    using sets_between [OF _ option_prop_sets [OF assms(1,2)], of "pre @ map (option_prop mc) as" "map (option_prop mc) bs @ post"]
      assms(6,7) by (simp add: ks list_all_iff ball_Un)
qed

text \<open>What the operator's inputs must not contain: line breaks and backslashes.\<close>

definition slurm_inputs_safe ::
  "world \<Rightarrow> slurm_controller \<Rightarrow> accounting option \<Rightarrow> nodeset list \<Rightarrow> string list \<Rightarrow> bool" where
  "slurm_inputs_safe W c accounting nodesets scripts \<longleftrightarrow>
     line_safe (ct_ClusterName c) \<and> line_safe (ct_Namespace c) \<and> line_safe (ct_Name c) \<and> line_safe (ct_ExternalHost c) \<and>
     (case accounting of None \<Rightarrow> True | Some a \<Rightarrow> line_safe (ac_Name a)) \<and>
     list_all nodeset_safe nodesets \<and> list_all line_safe scripts \<and>
     set (w_SortNodeSets W nodesets) = set nodesets"

text \<open>The user's text: it ends no line with a continuation, and its values are without white space.\<close>

definition extra_safe :: "string \<Rightarrow> bool" where
  "extra_safe extra \<longleftrightarrow> complete extra \<and> (\<forall>v \<in> ran (parseSlurmConfKV extra). plain v)"

lemma merge_keys_of: "(key, opts) \<in> set (slurm_options c cgroup) \<Longrightarrow> ToLower key \<in> set merge_keys"
proof -
  have "\<forall>k \<in> set [''SlurmctldParameters'', ''AuthInfo'', ''AuthAltParameters'']. ToLower k \<in> set merge_keys"
    by code_simp
  then show "(key, opts) \<in> set (slurm_options c cgroup) \<Longrightarrow> ToLower key \<in> set merge_keys"
    by (auto simp: slurm_options_def)
qed

text \<open>
  C16. A reader of the generated slurm.conf finds, for each of the parameters SlurmctldParameters, AuthInfo
  and AuthAltParameters, all options that the operator needs, whatever the user's extra configuration
  sets there; and an option with every key that the user gave. The names and values that go into the file must
  not break its lines, and the extra configuration must not end in a continued line.
\<close>

theorem slurm_conf_options:
  assumes "slurm_inputs_safe W c accounting nodesets (prolog @ epilog @ ctldProlog @ ctldEpilog)"
    and "extra_safe (ct_ExtraConf c)" and "(key, opts) \<in> set (slurm_options c cgroup)"
  shows "\<exists>v. parseSlurmConfKV (buildSlurmConf W c accounting nodesets prolog epilog ctldProlog ctldEpilog cgroup)
        (ToLower key) = Some v \<and>
      set opts \<subseteq> set (Split (CHR '','') v) \<and>
      parseKVKey ` user_options (ct_ExtraConf c) key \<subseteq> parseKVKey ` set (Split (CHR '','') v)"
proof -
  let ?x = "ToLower key" and ?mc = "slurm_options c cgroup"
  have x: "?x \<in> set merge_keys" using merge_keys_of [OF assms(3)] .
  let ?auth = "[NewPropertyRaw ''#'', NewPropertyRaw ''### PLUGINS & PARAMETERS ###'', NewProperty ''AuthType'' AuthType,
    NewProperty ''CredType'' CredType, NewProperty ''AuthAltTypes'' AuthAltTypes]"
  let ?task = "(if cgroup
    then [NewProperty ''ProctrackType'' ''proctrack/cgroup'', NewProperty ''PrologFlags'' ''Contain'',
          NewProperty ''TaskPlugin'' ''task/affinity,task/cgroup'']
    else [NewProperty ''ProctrackType'' ''proctrack/linuxproc'', NewProperty ''TaskPlugin'' ''task/affinity'']) @
    (if mt_Enabled (ct_Metrics c) then [NewProperty ''MetricsType'' ''metrics/openmetrics''] else [])"
  let ?ks = "[''AuthAltParameters'', ''AuthInfo'', ''SlurmctldParameters'']"
  let ?rest = "accounting_props accounting cgroup @
    snippet_props ''### SLURMCTLD PROLOG & EPILOG ###'' (buildPrologEpilogSlurmctldConf ctldProlog ctldEpilog) @
    snippet_props ''### PROLOG & EPILOG ###'' (buildPrologEpilogConf prolog epilog) @
    snippet_props ''### NODESET & PARTITION ###'' (buildNodeSetConf W nodesets)"
  have "list_all (quiet_prop ?x) ?auth" "list_all (quiet_prop ?x) ?task"
    using x by (simp_all add: quiet_key quiet_comment conf_keys_def is_comment_def newline_def AuthType_def CredType_def
        AuthAltTypes_def)
  moreover have "list_all (quiet_prop ?x) (general_props c)" "list_all (quiet_prop ?x) logging_props"
    using x assms(1) by (simp_all add: general_quiet logging_quiet slurm_inputs_safe_def)
  moreover have safe: "\<forall>a \<in> set_option accounting. line_safe (ac_Name a)"
    "\<forall>s \<in> set ctldProlog \<union> set ctldEpilog. line_safe s" "\<forall>s \<in> set prolog \<union> set epilog. line_safe s"
    "\<forall>ns \<in> set nodesets. nodeset_safe ns" "set (w_SortNodeSets W nodesets) = set nodesets"
    using assms(1) by (auto simp: slurm_inputs_safe_def list_all_iff split: option.splits)
  moreover have "list_all (quiet_prop ?x) ?rest"
    using accounting_quiet [OF x safe(1), of cgroup] scripts_quiet(1) [OF x safe(2)] scripts_quiet(2) [OF x safe(3)]
      nodesets_quiet [OF x safe(4,5)] by simp
  ultimately have "sets_key ?x (Join '','' opts) (reads_conf ((general_props c @ logging_props @ ?auth) @
      map (option_prop ?mc) ?ks @ (?task @ ?rest)))"
    using assms(3) by (intro options_block [OF slurm_options_ok assms(3)]) (auto simp: slurm_options_def)
  then have base: "sets_key ?x (Join '','' opts) (reads_conf (general_props c @ logging_props @ plugin_props c cgroup @ ?rest))"
    by (simp add: plugin_props_def Let_def)
  show ?thesis
    using merged_conf_options [OF base slurm_options_ok assms(3)] assms(2)
    by (simp add: buildSlurmConf_def extra_safe_def)
qed


definition sample_slurm :: slurm_controller where
  "sample_slurm = empty_controller\<lparr>ct_Namespace := ''ns'', ct_Name := ''a'',
     ct_ExtraConf := ''SlurmctldParameters'' @ ''='' @ ''idle_on_node_suspend''\<rparr>"

lemma sample_extra:
  "conf_lines (ct_ExtraConf sample_slurm) ([], Map.empty) = ([], [''slurmctldparameters'' \<mapsto> ''idle_on_node_suspend''])"
proof -
  have "ToLower ''SlurmctldParameters'' = ''slurmctldparameters''" by code_simp
  then show ?thesis
    using conf_line_property [of "''SlurmctldParameters''" "''idle_on_node_suspend''" Map.empty]
    by (simp add: sample_slurm_def spaces_def)
qed

theorem slurm_conf_options_witness:
  "\<exists>v. parseSlurmConfKV (buildSlurmConf quiet_world sample_slurm None [] [] [] [] [] True) ''slurmctldparameters'' = Some v \<and>
     {''enable_configless'', ''reconfig_on_restart'', ''enable_stepmgr''} \<subseteq> set (Split (CHR '','') v) \<and>
     ''idle_on_node_suspend'' \<in> parseKVKey ` set (Split (CHR '','') v)"
proof -
  have "extra_safe (ct_ExtraConf sample_slurm)"
    by (simp add: extra_safe_def complete_def parseSlurmConfKV_def sample_extra spaces_def)
  moreover have "slurm_inputs_safe quiet_world sample_slurm None [] ([] @ [] @ [] @ [])"
    by (simp add: slurm_inputs_safe_def sample_slurm_def empty_controller_def newline_def quiet_world_def)
  moreover have "(''SlurmctldParameters'', [''enable_configless'', ''reconfig_on_restart'', ''enable_stepmgr'']) \<in>
      set (slurm_options sample_slurm True)"
    by (simp add: slurm_options_def)
  moreover have "ToLower ''SlurmctldParameters'' = ''slurmctldparameters''"
    "parseKVKey ''idle_on_node_suspend'' = ''idle_on_node_suspend''"
    "Split (CHR '','') ''idle_on_node_suspend'' = [''idle_on_node_suspend'']"
    by code_simp+
  moreover from this have "parseKVKey ` user_options (ct_ExtraConf sample_slurm) ''SlurmctldParameters'' = {''idle_on_node_suspend''}"
    by (simp add: user_options_def parseSlurmConfKV_def sample_extra)
  ultimately show ?thesis
    using slurm_conf_options [of quiet_world sample_slurm None "[]" "[]" "[]" "[]" "[]" "''SlurmctldParameters''"
        "[''enable_configless'', ''reconfig_on_restart'', ''enable_stepmgr'']" True] by simp
qed

text \<open>
  The same for slurmdbd.conf: AuthInfo and AuthAltParameters keep the options of the operator, and an
  option with every key of the user.
\<close>

theorem slurmdbd_conf_options:
  assumes "list_all line_safe [ac_Name a, ac_StorageHost a, ac_StorageUsername a, ac_StorageDatabase a, storagePass]"
    and "extra_safe (ac_ExtraConf a)" and "(key, opts) \<in> set (dbd_options a)"
  shows "\<exists>v. parseSlurmConfKV (buildSlurmdbdConf a storagePass) (ToLower key) = Some v \<and>
      set opts \<subseteq> set (Split (CHR '','') v) \<and>
      parseKVKey ` user_options (ac_ExtraConf a) key \<subseteq> parseKVKey ` set (Split (CHR '','') v)"
proof -
  let ?x = "ToLower key" and ?mc = "dbd_options a"
  have x: "?x \<in> set merge_keys"
    using assms(3) merge_keys_of [of key opts "empty_controller\<lparr>ct_JwksKeyRef := ac_JwksKeyRef a\<rparr>" True]
    by (auto simp: slurm_options_def dbd_options_def Accounting_AuthJwksRef_def AuthJwksRef_def)
  let ?pre = "take 9 (dbd_props a storagePass)" and ?post = "drop 11 (dbd_props a storagePass)"
  have "line_safe (Accounting_PrimaryName a)"
    using assms(1) by (simp add: Accounting_PrimaryName_def resource_key_defs newline_def)
  then have "list_all (quiet_prop ?x) ?pre" "list_all (quiet_prop ?x) ?post"
    using x assms(1) by (simp_all add: dbd_props_def quiet_key quiet_comment conf_keys_def is_comment_def newline_def
        AuthType_def AuthAltTypes_def SlurmUser_def DevNull_def LogTimeFormat_def)
  then have "sets_key ?x (Join '','' opts) (reads_conf (?pre @ map (option_prop ?mc) [''AuthAltParameters'', ''AuthInfo''] @ ?post))"
    using assms(3) by (intro options_block [OF dbd_options_ok assms(3)]) (auto simp: dbd_options_def)
  then have base: "sets_key ?x (Join '','' opts) (reads_conf (dbd_props a storagePass))"
    by (simp add: dbd_props_def)
  show ?thesis
    using merged_conf_options [OF base dbd_options_ok assms(3)] assms(2)
    by (simp add: buildSlurmdbdConf_def extra_safe_def)
qed

definition sample_accounting :: accounting where
  "sample_accounting = empty_accounting\<lparr>ac_Name := ''a'', ac_Namespace := ''ns'', ac_StorageHost := ''db'',
     ac_StoragePort := 3306\<rparr>"

theorem slurmdbd_conf_options_witness:
  "\<exists>v. parseSlurmConfKV (buildSlurmdbdConf sample_accounting ''secret'') ''authinfo'' = Some v \<and>
     ''use_client_ids'' \<in> set (Split (CHR '','') v)"
proof -
  have "extra_safe (ac_ExtraConf sample_accounting)"
    by (simp add: sample_accounting_def empty_accounting_def extra_safe_def complete_def parseSlurmConfKV_def)
  moreover have "ToLower ''AuthInfo'' = ''authinfo''" by code_simp
  ultimately show ?thesis
    using slurmdbd_conf_options [of sample_accounting "''secret''" "''AuthInfo''" "[AuthInfo]"]
    by (auto simp: sample_accounting_def empty_accounting_def newline_def dbd_options_def AuthInfo_def)
qed

text \<open>
  C38. Reading a configuration back: a file of plain properties, built and read again, gives the properties
  (keys in lower case, the last value of a key wins).
\<close>

theorem config_roundtrip:
  assumes "list_all (\<lambda>(k, v). conf_key k \<and> plain v \<and> v \<noteq> []) kvs"
  shows "parseSlurmConfKV (config_Build (AddProperties (map (\<lambda>(k, v). NewProperty k v) kvs) config_NewBuilder)) =
    map_of (rev (map (\<lambda>(k, v). (ToLower k, v)) kvs))"
proof -
  have "reads_conf (map (\<lambda>(k, v). NewProperty k v) kvs) ([], m) = ([], m ++ map_of (rev (map (\<lambda>(k, v). (ToLower k, v)) kvs)))" for m
    using assms
  proof (induction kvs arbitrary: m)
    case (Cons kv kvs)
    then show ?case
      by (cases kv) (simp add: conf_line_property [simplified] conf_key_def)
  qed simp
  from this [of Map.empty] show ?thesis
    by (simp add: parseSlurmConfKV_def reads_conf_Build)
qed

theorem config_roundtrip_witness:
  "parseSlurmConfKV (config_Build (AddProperties
     (map (\<lambda>(k, v). NewProperty k v) [(''AutoDetect'', ''off''), (''autodetect'', ''nvidia'')]) config_NewBuilder)) =
   map_of (rev (map (\<lambda>(k, v). (ToLower k, v)) [(''AutoDetect'', ''off''), (''autodetect'', ''nvidia'')]))"
  by (rule config_roundtrip) code_simp

end
