(* ===== verification/ObjectSync.thy ===== *)
theory ObjectSync
  imports Machine PodUtils
begin

text \<open>
  Creating, updating and deleting the objects that the operator makes for its resources:
  \<^verbatim>\<open>SyncObject\<close> and \<^verbatim>\<open>DeleteObject\<close> of \<^verbatim>\<open>internal/utils/objectutils\<close>. Every controller applies its
  services, configurations, secrets and workloads with them.
\<close>

section \<open>SyncObject\<close>

text \<open>The fields that the update of each kind copies from the new object, by path.\<close>

fun copied_fields :: "kind \<Rightarrow> string list" where
  "copied_fields ConfigMap = [''Data'', ''BinaryData'']"
| "copied_fields Secret = [''Data'']"
| "copied_fields Service = [''Spec'']"
| "copied_fields Deployment = [''Spec.MinReadySeconds'', ''Spec.Replicas'', ''Spec.Strategy'', ''Spec.Template'']"
| "copied_fields StatefulSet = [''Spec.MinReadySeconds'', ''Spec.Ordinals'',
     ''Spec.PersistentVolumeClaimRetentionPolicy'', ''Spec.Replicas'', ''Spec.Template'', ''Spec.UpdateStrategy'']"
| "copied_fields SlurmController = [''Spec'']"
| "copied_fields RestApi = [''Spec'']"
| "copied_fields Accounting = [''Spec'']"
| "copied_fields NodeSet = [''Spec.MinReadySeconds'', ''Spec.PersistentVolumeClaimRetentionPolicy'',
     ''Spec.Replicas'', ''Spec.Template'', ''Spec.UpdateStrategy'']"
| "copied_fields LoginSet = [''Spec.Replicas'', ''Spec.Template'']"
| "copied_fields PodDisruptionBudget = [''Spec.MaxUnavailable'', ''Spec.MinAvailable'', ''Spec.Selector'']"
| "copied_fields ServiceMonitor = [''Spec.JobLabel'', ''Spec.TargetLabels'', ''Spec.PodTargetLabels'',
     ''Spec.Endpoints'', ''Spec.Selector'', ''Spec.SelectorMechanism'', ''Spec.NamespaceSelector'',
     ''Spec.SampleLimit'', ''Spec.ScrapeProtocols'', ''Spec.FallbackScrapeProtocol'', ''Spec.TargetLimit'',
     ''Spec.LabelLimit'', ''Spec.LabelNameLengthLimit'', ''Spec.LabelValueLengthLimit'',
     ''Spec.NativeHistogramConfig'', ''Spec.KeepDroppedTargets'', ''Spec.AttachMetadata'',
     ''Spec.ScrapeClassName'', ''Spec.BodySizeLimit'', ''Spec.ServiceDiscoveryRole'']"
| "copied_fields OtherKind = []"

fun copy_fields :: "string list \<Rightarrow> (string \<rightharpoonup> field_value) \<Rightarrow> (string \<rightharpoonup> field_value) \<Rightarrow> string \<rightharpoonup> field_value" where
  "copy_fields [] old new = old"
| "copy_fields (f # fs) old new = copy_fields fs (old(f := new f)) new"

definition updated_object :: "kobject \<Rightarrow> kobject \<Rightarrow> kobject" where
  "updated_object old new =
     old\<lparr>ko_Annotations := Some (MergeMaps [ko_Annotations old, ko_Annotations new]),
         ko_Labels := Some (MergeMaps [ko_Labels old, ko_Labels new]),
         ko_OwnerReferences := (if ko_OwnerReferences old \<noteq> ko_OwnerReferences new
                                then ko_OwnerReferences new else ko_OwnerReferences old),
         ko_Fields := copy_fields (copied_fields (ko_Kind new)) (ko_Fields old) (ko_Fields new),
         ko_StringData := (if ko_Kind new = Secret then ko_StringData new else ko_StringData old)\<rparr>"

definition record_event :: "bool \<Rightarrow> string \<Rightarrow> string \<Rightarrow> string \<Rightarrow> error \<Rightarrow> unit prog" where
  "record_event recorder typ reason action e =
     (if recorder then emit (Eventf typ reason action e) else State_Monad.return ())"

definition being_deleted :: "kobject \<Rightarrow> bool" where
  "being_deleted x \<longleftrightarrow> ko_DeletionTimestamp x \<noteq> None \<and> ko_DeletionTimestamp x \<noteq> Some 0"

text \<open>The second half: the object exists.\<close>

definition patch_object :: "world \<Rightarrow> bool \<Rightarrow> kobject \<Rightarrow> bool \<Rightarrow> kobject \<Rightarrow> error prog" where
  "patch_object W recorder newObj shouldUpdate oldObj =
     (if being_deleted oldObj then ok
      else if \<not> shouldUpdate then ok
      else if ko_Kind newObj \<in> {ConfigMap, Secret} \<and> deref (ko_Immutable oldObj) False then ok
      else do {
        e \<leftarrow> PatchObject W (updated_object oldObj newObj) oldObj;
        case e of
          Some err \<Rightarrow> do {
            record_event recorder ''Warning'' ''PatchFailed'' ''Patch'' (Some err);
            fail (Wrapped ''error patching'' err)
          }
        | None \<Rightarrow> ok
      })"

text \<open>\<open>recorder\<close>: whether the caller passed an event recorder.\<close>

definition SyncObject :: "world \<Rightarrow> bool \<Rightarrow> kobject \<Rightarrow> bool \<Rightarrow> error prog" where
  "SyncObject W recorder newObj shouldUpdate =
     (if ko_Kind newObj = OtherKind then fail (GoError ''unhandled object, this is a bug'')
      else do {
        g \<leftarrow> GetObject W (ko_Kind newObj) (ko_Key newObj);
        case g of
          Inr oldObj \<Rightarrow> patch_object W recorder newObj shouldUpdate oldObj
        | Inl err \<Rightarrow>
            if \<not> IsNotFound err then fail (Wrapped ''error getting'' err)
            else do {
              c \<leftarrow> CreateObject W newObj;
              case c of
                None \<Rightarrow> do { record_event recorder ''Normal'' ''CreateSucceeded'' ''Create'' None; ok }
              | Some err \<Rightarrow>
                  if IsAlreadyExists err
                  then do {
                    g \<leftarrow> GetObject W (ko_Kind newObj) (ko_Key newObj);
                    case g of
                      Inl err \<Rightarrow> fail (Wrapped ''error getting'' err)
                    | Inr oldObj \<Rightarrow> patch_object W recorder newObj shouldUpdate oldObj
                  }
                  else do {
                    record_event recorder ''Warning'' ''CreateFailed'' ''Create'' (Some err);
                    fail (Wrapped ''error creating'' err)
                  }
            }
      })"

section \<open>DeleteObject\<close>

definition DeleteObject :: "world \<Rightarrow> bool \<Rightarrow> kobject \<Rightarrow> error prog" where
  "DeleteObject W recorder newObj =
     (if ko_Kind newObj = OtherKind then fail (GoError ''unhandled object, this is a bug'')
      else do {
        g \<leftarrow> GetObject W (ko_Kind newObj) (ko_Key newObj);
        case g of
          Inl err \<Rightarrow> if \<not> IsNotFound err then fail (Wrapped ''error getting'' err) else ok
        | Inr oldObj \<Rightarrow>
            if being_deleted oldObj then ok
            else do {
              e \<leftarrow> DeleteObject_api W oldObj;
              case e of
                Some err \<Rightarrow> do {
                  record_event recorder ''Warning'' ''DeleteFailed'' ''Delete'' (Some err);
                  fail (Wrapped ''error deleting'' err)
                }
              | None \<Rightarrow> do { record_event recorder ''Normal'' ''DeleteSucceeded'' ''Delete'' None; ok }
            }
      })"

section \<open>What an update changes\<close>

lemma copy_fields_lookup: "copy_fields fs old new f = (if f \<in> set fs then new f else old f)"
  by (induction fs arbitrary: old) auto

text \<open>
  An update is the identity on an object that was updated before, so a sync that found nothing to do
  sends an empty patch.
\<close>

lemma updated_object_owner [simp]: "ko_OwnerReferences (updated_object old new) = ko_OwnerReferences new"
  and updated_object_key [simp]: "ko_Key (updated_object old new) = ko_Key old"
  and updated_object_kind [simp]: "ko_Kind (updated_object old new) = ko_Kind old"
  by (simp_all add: updated_object_def)

lemma mmake_MergeMaps [simp]: "MergeMaps [a, b] = mmake a ++ mmake b"
  by (cases a; cases b) (simp_all add: MergeMaps_def)

lemma updated_object_idem: "updated_object (updated_object old new) new = updated_object old new"
proof -
  have "copy_fields fs (copy_fields fs f g) g = copy_fields fs f g" for fs f g
    by (rule ext) (simp add: copy_fields_lookup)
  moreover have "a ++ b ++ b = a ++ b" for a b :: "string \<rightharpoonup> string"
    by (rule ext) (simp add: map_add_def split: option.split)
  ultimately show ?thesis
    by (simp add: updated_object_def)
qed

text \<open>A write of \<open>SyncObject\<close>: the creation of the new object, or the patch of the object just read.\<close>

definition syncs :: "kobject \<Rightarrow> bool \<Rightarrow> history \<Rightarrow> ev \<Rightarrow> bool" where
  "syncs newObj shouldUpdate h e \<longleftrightarrow> (case e of
     Wr (CreatedObject x r) \<Rightarrow> x = newObj \<and>
       (\<exists>err h'. h = Rd (GotObject (ko_Kind newObj) (ko_Key newObj) (Inl err)) # h' \<and> IsNotFound err)
   | Wr (PatchedObject x y r) \<Rightarrow> shouldUpdate \<and> x = updated_object y newObj \<and> \<not> being_deleted y \<and>
       \<not> (ko_Kind newObj \<in> {ConfigMap, Secret} \<and> ko_Immutable y = Some True) \<and>
       (\<exists>h'. h = Rd (GotObject (ko_Kind newObj) (ko_Key newObj) (Inr y)) # h')
   | Wr _ \<Rightarrow> False
   | _ \<Rightarrow> True)"

lemma syncs_simps [simp]:
  "syncs newObj shouldUpdate h (Rd x)" "syncs newObj shouldUpdate h (Ctl y)"
  by (simp_all add: syncs_def)

lemma patch_object_syncs:
  assumes "logs (syncs newObj shouldUpdate) s" and "log s = Rd (GotObject (ko_Kind newObj) (ko_Key newObj) (Inr oldObj)) # h"
  shows "logs (syncs newObj shouldUpdate) (snd (run_state (patch_object W recorder newObj shouldUpdate oldObj) s))"
  using assms
  by (auto simp: patch_object_def record_event_def call_defs logs_def syncs_def deref_def split: option.splits)

lemma SyncObject_syncs: "keeps (logs (syncs newObj shouldUpdate)) (SyncObject W recorder newObj shouldUpdate)"
proof (rule keepsI)
  fix s
  assume s: "logs (syncs newObj shouldUpdate) s"
  have "syncs newObj shouldUpdate (Rd (GotObject (ko_Kind newObj) (ko_Key newObj) (Inl err)) # h)
      (Wr (CreatedObject newObj r))" if "IsNotFound err" for err h r
    using that by (simp add: syncs_def)
  with s show "logs (syncs newObj shouldUpdate) (snd (run_state (SyncObject W recorder newObj shouldUpdate) s))"
    by (auto simp: SyncObject_def call_defs record_event_def logsD intro!: patch_object_syncs split: sum.split option.split)
qed

text \<open>
  \<open>SyncObject\<close> creates the object only right after it was not found, and changes only the object it
  just read: never one that is being deleted, never an immutable configuration or secret, never without
  the permission to update. It makes no other write.
\<close>

theorem SyncObject_writes: "keeps (logs (syncs newObj shouldUpdate)) (SyncObject W recorder newObj shouldUpdate)"
  by (rule SyncObject_syncs)

text \<open>
  What an update leaves behind: the owner and the copied fields of the new object, the labels and
  annotations of both (the new ones win), and every other field of the object as it was. Updating again
  changes nothing.
\<close>

theorem updated_object_contents:
  "ko_OwnerReferences (updated_object old new) = ko_OwnerReferences new \<and>
   ko_Labels (updated_object old new) = Some (mmake (ko_Labels old) ++ mmake (ko_Labels new)) \<and>
   ko_Annotations (updated_object old new) = Some (mmake (ko_Annotations old) ++ mmake (ko_Annotations new)) \<and>
   ko_Fields (updated_object old new) =
     (\<lambda>f. if f \<in> set (copied_fields (ko_Kind new)) then ko_Fields new f else ko_Fields old f) \<and>
   updated_object (updated_object old new) new = updated_object old new"
  by (simp add: updated_object_idem) (simp add: updated_object_def fun_eq_iff copy_fields_lookup)

end
