(* ===== verification/Builders.thy ===== *)
theory Builders
  imports SlurmConf ObjectSync
begin

text \<open>
  The common builder (\<^verbatim>\<open>internal/builder/common\<close>): configuration maps, secrets, services, disruption
  budgets, containers and pod templates, with the builders of metadata (\<^verbatim>\<open>internal/builder/metadata\<close>) and of
  labels (\<^verbatim>\<open>internal/builder/labels\<close>) and the checksums (\<^verbatim>\<open>internal/utils/crypto/hash.go\<close>). Strategic merge
  patches, owner references and SHA-256 are parameters of the world.
\<close>

section \<open>Labels\<close>

definition partOfLabel :: string where "partOfLabel = ''app.kubernetes.io/part-of''"
definition managedbyLabel :: string where "managedbyLabel = ''app.kubernetes.io/managed-by''"
definition ControllerApp :: string where "ControllerApp = ''slurmctld''"
definition ControllerComp :: string where "ControllerComp = ''controller''"
definition RestapiApp :: string where "RestapiApp = ''slurmrestd''"
definition RestapiComp :: string where "RestapiComp = ''restapi''"
definition AccountingApp :: string where "AccountingApp = ''slurmdbd''"
definition AccountingComp :: string where "AccountingComp = ''accounting''"
definition LoginApp :: string where "LoginApp = ''login''"
definition LoginComp :: string where "LoginComp = ''login''"

definition WithPartOf :: "string \<Rightarrow> label_builder \<Rightarrow> label_builder" where
  "WithPartOf inst b = b(partOfLabel \<mapsto> inst)"
definition WithManagedBy :: "string \<Rightarrow> label_builder \<Rightarrow> label_builder" where
  "WithManagedBy component b = b(managedbyLabel \<mapsto> component)"

definition WithControllerSelectorLabels :: "slurm_controller \<Rightarrow> label_builder \<Rightarrow> label_builder" where
  "WithControllerSelectorLabels obj b = WithInstance (ct_Name obj) (WithApp ControllerApp b)"
definition WithControllerLabels :: "slurm_controller \<Rightarrow> label_builder \<Rightarrow> label_builder" where
  "WithControllerLabels obj b = WithComponent ControllerComp (WithControllerSelectorLabels obj b)"
definition WithRestapiSelectorLabels :: "restapi \<Rightarrow> label_builder \<Rightarrow> label_builder" where
  "WithRestapiSelectorLabels obj b = WithInstance (ra_Name obj) (WithApp RestapiApp b)"
definition WithRestapiLabels :: "restapi \<Rightarrow> label_builder \<Rightarrow> label_builder" where
  "WithRestapiLabels obj b = WithComponent RestapiComp (WithRestapiSelectorLabels obj b)"
definition WithAccountingSelectorLabels :: "accounting \<Rightarrow> label_builder \<Rightarrow> label_builder" where
  "WithAccountingSelectorLabels obj b = WithInstance (ac_Name obj) (WithApp AccountingApp b)"
definition WithAccountingLabels :: "accounting \<Rightarrow> label_builder \<Rightarrow> label_builder" where
  "WithAccountingLabels obj b = WithComponent AccountingComp (WithAccountingSelectorLabels obj b)"
definition WithLoginSelectorLabels :: "loginset \<Rightarrow> label_builder \<Rightarrow> label_builder" where
  "WithLoginSelectorLabels obj b = WithInstance (ls_Name obj) (WithApp LoginApp b)"
definition WithLoginLabels :: "loginset \<Rightarrow> label_builder \<Rightarrow> label_builder" where
  "WithLoginLabels obj b = WithComponent LoginComp (WithLoginSelectorLabels obj b)"

section \<open>Metadata\<close>

text \<open>\<^verbatim>\<open>metadata.NewBuilder\<close>: the key is kept by the object that is built.\<close>

definition meta_NewBuilder :: metadata where
  "meta_NewBuilder = \<lparr>md_Annotations = Some Map.empty, md_Labels = Some Map.empty\<rparr>"

definition meta_WithAnnotations :: "strmap \<Rightarrow> metadata \<Rightarrow> metadata" where
  "meta_WithAnnotations annotations md = md\<lparr>md_Annotations := Some (mmake (md_Annotations md) ++ mmake annotations)\<rparr>"

definition meta_WithLabels :: "strmap \<Rightarrow> metadata \<Rightarrow> metadata" where
  "meta_WithLabels labels md = md\<lparr>md_Labels := Some (mmake (md_Labels md) ++ mmake labels)\<rparr>"

definition meta_WithMetadata :: "metadata \<Rightarrow> metadata \<Rightarrow> metadata" where
  "meta_WithMetadata meta md = meta_WithLabels (md_Labels meta) (meta_WithAnnotations (md_Annotations meta) md)"

text \<open>An object with given metadata, and the object of a resource as an owner.\<close>

definition new_object :: "kind \<Rightarrow> nsname \<Rightarrow> metadata \<Rightarrow> (string \<rightharpoonup> field_value) \<Rightarrow> kobject" where
  "new_object kd key md content =
     \<lparr>ko_Kind = kd, ko_Key = key, ko_UID = '''', ko_DeletionTimestamp = None, ko_Annotations = md_Annotations md,
      ko_Labels = md_Labels md, ko_OwnerReferences = [], ko_Immutable = None, ko_Fields = content, ko_StringData = None\<rparr>"

definition owner_object :: "kind \<Rightarrow> nsname \<Rightarrow> string \<Rightarrow> kobject" where
  "owner_object kd key uid = (new_object kd key no_metadata Map.empty)\<lparr>ko_UID := uid\<rparr>"

definition controller_owner :: "slurm_controller \<Rightarrow> kobject" where
  "controller_owner c = owner_object SlurmController (ct_key c) (ct_UID c)"
definition accounting_owner :: "accounting \<Rightarrow> kobject" where
  "accounting_owner a = owner_object Accounting (ac_key a) (ac_UID a)"
definition restapi_owner :: "restapi \<Rightarrow> kobject" where
  "restapi_owner r = owner_object RestApi (ra_key r) (ra_UID r)"
definition loginset_owner :: "loginset \<Rightarrow> kobject" where
  "loginset_owner l = owner_object LoginSet (LoginSet_Key l) (ls_UID l)"
definition nodeset_object :: "nodeset \<Rightarrow> kobject" where
  "nodeset_object ns = owner_object NodeSet (ns_Key ns) (ns_UID ns)"

definition set_owner :: "world \<Rightarrow> kobject \<Rightarrow> kobject \<Rightarrow> err + kobject" where
  "set_owner W owner out =
     (case w_SetControllerReference W owner out of
        Inl e \<Rightarrow> Inl (Wrapped ''failed to set owner controller'' e)
      | Inr refs \<Rightarrow> Inr (out\<lparr>ko_OwnerReferences := refs\<rparr>))"

section \<open>Objects\<close>

definition BuildConfigMap :: "world \<Rightarrow> nsname \<Rightarrow> metadata \<Rightarrow> (string \<rightharpoonup> string) \<Rightarrow> bool \<Rightarrow> kobject \<Rightarrow> err + kobject" where
  "BuildConfigMap W key meta cm_data immutable owner =
     set_owner W owner
       ((new_object ConfigMap key (meta_WithMetadata meta meta_NewBuilder) [''Data'' \<mapsto> StringMap cm_data])
          \<lparr>ko_Immutable := Some immutable\<rparr>)"

text \<open>\<open>secret_data\<close>: the bytes, nil when the secret is given as strings.\<close>

definition BuildSecret ::
  "world \<Rightarrow> nsname \<Rightarrow> metadata \<Rightarrow> strmap \<Rightarrow> strmap \<Rightarrow> bool \<Rightarrow> kobject \<Rightarrow> err + kobject" where
  "BuildSecret W key meta secret_data stringData immutable owner =
     (let out = (new_object Secret key (meta_WithMetadata meta meta_NewBuilder)
                  (case secret_data of None \<Rightarrow> Map.empty | Some d \<Rightarrow> [''Data'' \<mapsto> StringMap d]))
                  \<lparr>ko_StringData := stringData, ko_Immutable := Some immutable\<rparr>
      in if fst (ko_Key owner) = fst key then set_owner W owner out else Inr out)"

fun validateServicePorts :: "string set \<Rightarrow> int set \<Rightarrow> service_port list \<Rightarrow> error" where
  "validateServicePorts names numbers [] = None"
| "validateServicePorts names numbers (p # ports) =
     (if sp_Name p \<in> names then Some (GoError ''port name is already taken by another port'')
      else if sp_Port p \<in> numbers then Some (GoError ''port number is already taken by another port'')
      else validateServicePorts (insert (sp_Name p) names) (insert (sp_Port p) numbers) ports)"

definition ClusterIPNone :: string where "ClusterIPNone = ''None''"

definition BuildService ::
  "world \<Rightarrow> nsname \<Rightarrow> metadata \<Rightarrow> service_spec \<Rightarrow> strmap \<Rightarrow> bool \<Rightarrow> kobject \<Rightarrow> err + kobject" where
  "BuildService W key meta spec selector headless owner =
     (case (if 1 < length (ss_Ports spec) then validateServicePorts {} {} (ss_Ports spec) else None) of
        Some e \<Rightarrow> Inl (Wrapped ''error validating Ports'' e)
      | None \<Rightarrow>
          let spec = spec\<lparr>ss_Selector := Some (MergeMaps [ss_Selector spec, selector])\<rparr>;
              spec = (if headless then spec\<lparr>ss_ClusterIP := ClusterIPNone, ss_PublishNotReadyAddresses := True\<rparr> else spec)
          in set_owner W owner
               (new_object Service key (meta_WithMetadata meta meta_NewBuilder) [''Spec'' \<mapsto> ServiceSpecValue spec]))"

definition BuildPodDisruptionBudget ::
  "world \<Rightarrow> nsname \<Rightarrow> metadata \<Rightarrow> (string \<rightharpoonup> string) \<Rightarrow> int_or_string \<Rightarrow> kobject \<Rightarrow> err + kobject" where
  "BuildPodDisruptionBudget W key meta selector maxUnavailable owner =
     set_owner W owner
       (new_object PodDisruptionBudget key (meta_WithMetadata meta meta_NewBuilder)
          [''Spec.Selector'' \<mapsto> StringMap selector, ''Spec.MaxUnavailable'' \<mapsto> IntOrString maxUnavailable])"

section \<open>Containers and pod templates\<close>

text \<open>The handler of the user's probe replaces the one of the base, when both have the probe.\<close>

definition merge_probe :: "probe option \<Rightarrow> probe option \<Rightarrow> probe option" where
  "merge_probe base merge =
     (case (base, merge) of (Some b, Some m) \<Rightarrow> Some (b\<lparr>pr_Handler := pr_Handler m\<rparr>) | _ \<Rightarrow> base)"

definition BuildContainer :: "world \<Rightarrow> container \<Rightarrow> container \<Rightarrow> container" where
  "BuildContainer W base merge =
     w_MergeContainer W
       (base\<lparr>c_Args := MergeList [c_Args base, c_Args merge],
             c_LivenessProbe := merge_probe (c_LivenessProbe base) (c_LivenessProbe merge),
             c_ReadinessProbe := merge_probe (c_ReadinessProbe base) (c_ReadinessProbe merge),
             c_StartupProbe := merge_probe (c_StartupProbe base) (c_StartupProbe merge)\<rparr>)
       (merge\<lparr>c_Args := []\<rparr>)"

definition BuildPodTemplate :: "world \<Rightarrow> nsname \<Rightarrow> metadata \<Rightarrow> pod_spec \<Rightarrow> pod_spec \<Rightarrow> pod_template_spec" where
  "BuildPodTemplate W key meta base merge =
     w_MergeTemplate W
       \<lparr>pts_Key = key, pts_Metadata = meta_WithMetadata meta meta_NewBuilder,
        pts_Spec = base\<lparr>ps_Containers := MergeList [ps_Containers base, ps_Containers merge],
                        ps_InitContainers := MergeList [ps_InitContainers base, ps_InitContainers merge]\<rparr>\<rparr>
       \<lparr>pts_Key = ('''', ''''), pts_Metadata = no_metadata,
        pts_Spec = merge\<lparr>ps_Containers := [], ps_InitContainers := []\<rparr>\<rparr>"

section \<open>Parts shared by the workloads\<close>

definition ConfiglessArgs :: "slurm_controller \<Rightarrow> string list" where
  "ConfiglessArgs controller =
     (let host = (if ct_External controller then ct_ExternalHost controller else Controller_ServiceFQDNShort controller);
          port = (if ct_External controller then ct_ExternalPort controller else SlurmctldPort)
      in [''--conf-server'', host @ '':'' @ Itoa port])"

definition mount :: "string \<Rightarrow> string \<Rightarrow> bool \<Rightarrow> volume_mount" where
  "mount name path readOnly = \<lparr>vm_Name = name, vm_MountPath = path, vm_SubPath = '''', vm_ReadOnly = readOnly\<rparr>"

definition sub_mount :: "string \<Rightarrow> string \<Rightarrow> string \<Rightarrow> volume_mount" where
  "sub_mount name path subPath = \<lparr>vm_Name = name, vm_MountPath = path, vm_SubPath = subPath, vm_ReadOnly = True\<rparr>"

definition env :: "string \<Rightarrow> string \<Rightarrow> env_var" where
  "env name val = \<lparr>ev_Name = name, ev_Value = val, ev_ValueFrom = None\<rparr>"

definition tcp_port :: "string \<Rightarrow> int \<Rightarrow> container_port" where
  "tcp_port name port = \<lparr>cp_Name = name, cp_ContainerPort = port, cp_Protocol = ''TCP''\<rparr>"

definition LogfileContainer :: "world \<Rightarrow> container \<Rightarrow> string \<Rightarrow> container" where
  "LogfileContainer W merge logfilePath =
     BuildContainer W
       (empty_container\<lparr>c_Name := ''logfile'', c_Env := [env ''SOCKET'' logfilePath],
          c_Command := [''sh'', ''-c'', w_Script W ''logfile.sh''], c_RestartPolicy := Some ''Always'',
          c_VolumeMounts := [mount SlurmLogFileVolume SlurmLogFileDir False]\<rparr>)
       merge"

definition StorageMediumMemory :: string where "StorageMediumMemory = ''Memory''"

definition LogFileVolume :: pod_volume where
  "LogFileVolume = \<lparr>pv_Name = SlurmLogFileVolume, pv_Source = EmptyDir StorageMediumMemory\<rparr>"

definition PidfileVolume :: pod_volume where
  "PidfileVolume = \<lparr>pv_Name = SlurmPidFileVolume, pv_Source = EmptyDir StorageMediumMemory\<rparr>"

definition EtcSlurmVolume :: pod_volume where
  "EtcSlurmVolume = \<lparr>pv_Name = SlurmEtcVolume, pv_Source = EmptyDir StorageMediumMemory\<rparr>"

definition DefaultPort :: "int \<Rightarrow> int \<Rightarrow> int" where
  "DefaultPort port def = (if port = 0 then def else port)"

definition InitconfContainer :: "world \<Rightarrow> container \<Rightarrow> container" where
  "InitconfContainer W merge =
     BuildContainer W
       (empty_container\<lparr>c_Name := ''initconf'', c_Env := [env ''SLURM_USER'' SlurmUser],
          c_Command := [''sh'', ''-c'', w_Script W ''initconf.sh''],
          c_VolumeMounts := [mount SlurmEtcVolume SlurmEtcMountDir False, mount SlurmConfigVolume SlurmConfigDir True]\<rparr>)
       merge"

definition GetPodResourceLimits :: "pod_spec \<Rightarrow> int \<times> int" where
  "GetPodResourceLimits pod = (case ps_Limits pod of None \<Rightarrow> (0, 0) | Some (cpu, memory) \<Rightarrow> (cpu, memory))"

definition GetContainerResourceLimits :: "container \<Rightarrow> int \<times> int" where
  "GetContainerResourceLimits c = (case c_Limits c of None \<Rightarrow> (0, 0) | Some (cpu, memory) \<Rightarrow> (cpu, memory))"

definition JwtSecretProjection :: "secret_key_selector \<Rightarrow> string \<Rightarrow> projection" where
  "JwtSecretProjection secret path = SecretProjection (sks_Name secret) [(sks_Key secret, path, None)]"

definition JwksConfigProjection :: "secret_key_selector \<Rightarrow> string \<Rightarrow> projection" where
  "JwksConfigProjection configMap path = ConfigMapProjection (sks_Name configMap) [(sks_Key configMap, path, None)]"

definition SlurmClusterWorkerServiceName :: "string \<Rightarrow> string" where
  "SlurmClusterWorkerServiceName controllerName = ''slurm-'' @ (WorkerComp @ ''s'') @ ''-'' @ controllerName"

definition SlurmClusterWorkerService :: "world \<Rightarrow> string \<Rightarrow> string \<Rightarrow> string" where
  "SlurmClusterWorkerService W controllerName namespace =
     Fqdn W (SlurmClusterWorkerServiceName controllerName) namespace"

definition SlurmClusterWorkerPodDisruptionBudgetName :: "string \<Rightarrow> string" where
  "SlurmClusterWorkerPodDisruptionBudgetName controllerName = ''slurm-'' @ (WorkerComp @ ''s'') @ ''-pdb-'' @ controllerName"

section \<open>Environment variables\<close>

record env_values =
  en_Values :: "string list"
  en_ValueFrom :: "opaque option"

definition env_lookup :: "(string \<rightharpoonup> env_values) \<Rightarrow> string \<Rightarrow> env_values" where
  "env_lookup m name = deref (m name) \<lparr>en_Values = [], en_ValueFrom = None\<rparr>"

definition add_env :: "bool \<Rightarrow> env_var \<Rightarrow> (string \<rightharpoonup> env_values) \<Rightarrow> string \<rightharpoonup> env_values" where
  "add_env second e m =
     (let ev = env_lookup m (ev_Name e);
          ev = (if ev_Value e \<noteq> '''' then ev\<lparr>en_Values := en_Values ev @ [ev_Value e]\<rparr> else ev);
          ev = (if ev_ValueFrom e \<noteq> None
                then (if second then ev\<lparr>en_Values := []\<rparr> else ev)\<lparr>en_ValueFrom := ev_ValueFrom e\<rparr> else ev)
      in m(ev_Name e \<mapsto> ev))"

text \<open>The keys of the map are the names in the two lists.\<close>

definition MergeEnvVar :: "env_var list \<Rightarrow> env_var list \<Rightarrow> string \<Rightarrow> env_var list" where
  "MergeEnvVar envVarList1 envVarList2 sep =
     (let m = fold (add_env True) envVarList2 (fold (add_env False) envVarList1 Map.empty)
      in map (\<lambda>k. \<lparr>ev_Name = k, ev_Value = Join sep (en_Values (env_lookup m k)),
                   ev_ValueFrom = en_ValueFrom (env_lookup m k)\<rparr>)
           (sort (remdups (map ev_Name (envVarList1 @ envVarList2)))))"

section \<open>Checksums\<close>

definition CheckSum :: "world \<Rightarrow> string \<Rightarrow> string" where
  "CheckSum W b = w_CheckSum W b"

definition map_Keys :: "world \<Rightarrow> (string \<rightharpoonup> string) \<Rightarrow> string list" where
  "map_Keys W items = map fst (w_entries W items)"

definition CheckSumFromMap :: "world \<Rightarrow> (string \<rightharpoonup> string) \<Rightarrow> string" where
  "CheckSumFromMap W items =
     (let b = concat (map (\<lambda>k. deref (items k) '''') (sort (map_Keys W items)))
      in if b = '''' then '''' else CheckSum W b)"

end
