(* ===== verification/Workloads.thy ===== *)
theory Workloads
  imports Builders
begin

text \<open>
  The Controller builder (\<^verbatim>\<open>internal/builder/controllerbuilder\<close>): the StatefulSet with its pod template,
  containers and volumes, the configuration, the service and the service monitor; and the parts of a
  workload that all builders share.
\<close>

section \<open>Reading the configuration of a workload\<close>

text \<open>\<^verbatim>\<open>client.Get\<close> of a secret or a configuration map into an empty object, where not being found is no error.\<close>

definition read_or_empty :: "(err + (string \<rightharpoonup> string)) prog \<Rightarrow> (err + (string \<rightharpoonup> string)) prog" where
  "read_or_empty get = do {
     g \<leftarrow> get;
     State_Monad.return
       (case g of Inr d \<Rightarrow> Inr d | Inl e \<Rightarrow> if IsNotFound e then Inr Map.empty else Inl e)
   }"

definition AnnotationDefaultContainer :: string where
  "AnnotationDefaultContainer = ''kubectl.kubernetes.io/default-container''"
definition AnnotationAuthSlurmKeyHash :: string where "AnnotationAuthSlurmKeyHash = SlinkyPrefix @ ''slurm-key-hash''"
definition AnnotationAuthJwtKeyHash :: string where "AnnotationAuthJwtKeyHash = SlinkyPrefix @ ''jwt-key-hash''"
definition AnnotationSshdConfHash :: string where "AnnotationSshdConfHash = SlinkyPrefix @ ''sshd-conf-hash''"
definition AnnotationSssdConfHash :: string where "AnnotationSssdConfHash = SlinkyPrefix @ ''sssd-conf-hash''"
definition AnnotationSshHostKeysHash :: string where "AnnotationSshHostKeysHash = SlinkyPrefix @ ''ssh-host-keys-hash''"
definition annotationSlurmConfigHash :: string where "annotationSlurmConfigHash = SlinkyPrefix @ ''slurm-config-hash''"
definition annotationSlurmdbdConfHash :: string where "annotationSlurmdbdConfHash = SlinkyPrefix @ ''slurmdbd-conf-hash''"

definition auth_hashes :: "world \<Rightarrow> nsname \<Rightarrow> nsname \<Rightarrow> (err + (string \<rightharpoonup> string)) prog" where
  "auth_hashes W slurmKey jwtKey =
     with_result (read_or_empty (GetSecretData W slurmKey)) (\<lambda>authSlurm.
     with_result (read_or_empty (GetSecretData W jwtKey)) (\<lambda>authJwt.
       State_Monad.return (Inr
         [AnnotationAuthSlurmKeyHash \<mapsto> CheckSumFromMap W authSlurm,
          AnnotationAuthJwtKeyHash \<mapsto> CheckSumFromMap W authJwt])))"

definition controller_getAuthHashes :: "world \<Rightarrow> slurm_controller \<Rightarrow> (err + (string \<rightharpoonup> string)) prog" where
  "controller_getAuthHashes W controller = auth_hashes W (AuthSlurmKey controller) (AuthJwtKey controller)"

definition controller_getHashes :: "world \<Rightarrow> slurm_controller \<Rightarrow> (err + (string \<rightharpoonup> string)) prog" where
  "controller_getHashes W controller =
     with_result (controller_getAuthHashes W controller) (\<lambda>hashMap.
     with_result (read_or_empty (GetConfigMapData W (Controller_ConfigKey controller))) (\<lambda>config.
       State_Monad.return (Inr
         (MergeMaps [Some hashMap, Some [annotationSlurmConfigHash \<mapsto> CheckSumFromMap W config]]))))"

definition accounting_getAuthHashes :: "world \<Rightarrow> accounting \<Rightarrow> (err + (string \<rightharpoonup> string)) prog" where
  "accounting_getAuthHashes W accounting =
     auth_hashes W (Accounting_AuthSlurmKey accounting) (Accounting_AuthJwtKey accounting)"

definition accounting_getHashes :: "world \<Rightarrow> accounting \<Rightarrow> (err + (string \<rightharpoonup> string)) prog" where
  "accounting_getHashes W accounting =
     with_result (accounting_getAuthHashes W accounting) (\<lambda>hashMap.
     with_result (read_or_empty (GetSecretData W (Accounting_ConfigKey accounting))) (\<lambda>dbdConfig.
       State_Monad.return (Inr
         (MergeMaps [Some hashMap, Some [annotationSlurmdbdConfHash \<mapsto> CheckSumFromMap W dbdConfig]]))))"

section \<open>Pod templates\<close>

text \<open>The security context of a pod or container that runs as one user, not root.\<close>

definition run_as :: "int \<Rightarrow> int \<Rightarrow> security_context" where
  "run_as uid gid = \<lparr>sc_RunAsNonRoot = Some True, sc_RunAsUser = Some uid, sc_RunAsGroup = Some gid, sc_FSGroup = None,
     sc_Privileged = None, sc_AddCapabilities = [], sc_Rest = ''''\<rparr>"

definition probe_of :: "probe_handler \<Rightarrow> int \<Rightarrow> int \<Rightarrow> probe" where
  "probe_of handler failureThreshold periodSeconds =
     \<lparr>pr_Handler = handler, pr_FailureThreshold = failureThreshold, pr_PeriodSeconds = periodSeconds, pr_Rest = ''''\<rparr>"

text \<open>The metadata of a workload: the resource's, those of the template, the labels of the component.\<close>

definition workload_metadata :: "metadata \<Rightarrow> metadata \<Rightarrow> label_builder \<Rightarrow> metadata" where
  "workload_metadata resource template labels =
     meta_WithLabels (Some labels) (meta_WithMetadata template
       (meta_WithLabels (md_Labels resource) (meta_WithAnnotations (md_Annotations resource) meta_NewBuilder)))"

definition pod_metadata :: "metadata \<Rightarrow> strmap \<Rightarrow> string \<Rightarrow> metadata" where
  "pod_metadata md hashMap app =
     meta_WithAnnotations (Some [AnnotationDefaultContainer \<mapsto> app]) (meta_WithAnnotations hashMap md)"

definition auth_slurm_projection :: "secret_key_selector \<Rightarrow> projection" where
  "auth_slurm_projection ref = SecretProjection (sks_Name ref) [(sks_Key ref, SlurmKeyFile, None)]"

definition auth_jwt_projection :: "secret_key_selector \<Rightarrow> projection" where
  "auth_jwt_projection ref = SecretProjection (sks_Name ref) [(sks_Key ref, JwtKeyFile, None)]"

definition jwks_projections :: "secret_key_selector option \<Rightarrow> projection list" where
  "jwks_projections ref = (case ref of None \<Rightarrow> [] | Some r \<Rightarrow> [JwksConfigProjection r JwksKeyFile])"

subsection \<open>Controller\<close>

definition controllerVolumes :: "slurm_controller \<Rightarrow> string list \<Rightarrow> pod_volume list" where
  "controllerVolumes controller extra =
     [\<lparr>pv_Name = SlurmEtcVolume, pv_Source = Projected 392
         ([ConfigMapProjection (snd (Controller_ConfigKey controller)) [],
           auth_slurm_projection (AuthSlurmRef controller),
           auth_jwt_projection (AuthJwtRef controller)] @
          map (\<lambda>name. ConfigMapProjection name []) (sort extra) @
          jwks_projections (AuthJwksRef controller))\<rparr>,
      LogFileVolume, PidfileVolume,
      \<lparr>pv_Name = SlurmAuthSocketVolume, pv_Source = EmptyDir ''''\<rparr>]"

definition slurmctldContainer :: "world \<Rightarrow> container \<Rightarrow> string \<Rightarrow> container" where
  "slurmctldContainer W merge clusterName =
     BuildContainer W
       (empty_container\<lparr>c_Name := ControllerApp, c_Ports := [tcp_port ControllerApp SlurmctldPort],
          c_StartupProbe := Some (probe_of (HTTPGet SlurmLivez ControllerApp) 6 10),
          c_ReadinessProbe := Some (probe_of (HTTPGet SlurmReadyz ControllerApp) 0 0),
          c_LivenessProbe := Some (probe_of (HTTPGet SlurmLivez ControllerApp) 6 10),
          c_SecurityContext := Some (run_as SlurmUserUid SlurmUserGid),
          c_VolumeMounts := [mount SlurmEtcVolume SlurmEtcDir True, mount SlurmPidFileVolume SlurmPidFileDir False,
            mount SlurmctldStateSaveVolume (clusterSpoolDir clusterName) False,
            mount SlurmAuthSocketVolume SlurmctldAuthSocketDir False, mount SlurmLogFileVolume SlurmLogFileDir False]\<rparr>)
       merge"

definition reconfigureContainer :: "world \<Rightarrow> container \<Rightarrow> container" where
  "reconfigureContainer W merge =
     BuildContainer W
       (empty_container\<lparr>c_Name := ''reconfigure'',
          c_Command := [''tini'', ''-g'', ''--'', ''bash'', ''-c'', w_Script W ''reconfigure.sh''],
          c_RestartPolicy := Some ''Always'',
          c_VolumeMounts := [mount SlurmEtcVolume SlurmEtcDir True, mount SlurmAuthSocketVolume SlurmctldAuthSocketDir True]\<rparr>)
       merge"

definition controller_extra_configs :: "slurm_controller \<Rightarrow> string list" where
  "controller_extra_configs controller =
     map snd (ct_ConfigFileRefs controller) @ map snd (ct_PrologScriptRefs controller) @
     map snd (ct_EpilogScriptRefs controller) @ map snd (ct_PrologSlurmctldScriptRefs controller) @
     map snd (ct_EpilogSlurmctldScriptRefs controller)"

definition controller_metadata :: "slurm_controller \<Rightarrow> metadata" where
  "controller_metadata controller =
     workload_metadata (ct_Metadata controller) (pt_Metadata (ct_Template controller))
       (WithControllerLabels controller Map.empty)"

definition controllerPodTemplate :: "world \<Rightarrow> slurm_controller \<Rightarrow> (err + pod_template_spec) prog" where
  "controllerPodTemplate W controller =
     with_result (if ct_InplaceReconfigure controller then controller_getAuthHashes W controller
                  else controller_getHashes W controller) (\<lambda>hashMap.
       State_Monad.return (Inr (BuildPodTemplate W (Controller_Key controller)
         (pod_metadata (controller_metadata controller) (Some hashMap) ControllerApp)
         (empty_pod_spec\<lparr>ps_AutomountServiceAccountToken := Some False,
            ps_Containers := [slurmctldContainer W (ct_Slurmctld controller) (Controller_ClusterName controller)],
            ps_InitContainers :=
              (if ct_InplaceReconfigure controller then [reconfigureContainer W (ct_Reconfigure controller)] else []) @
              [LogfileContainer W (ct_LogFile controller) SlurmctldLogFilePath],
            ps_SecurityContext := Some ((run_as SlurmUserUid SlurmUserGid)\<lparr>sc_FSGroup := Some SlurmUserGid\<rparr>),
            ps_Volumes := controllerVolumes controller (controller_extra_configs controller)\<rparr>)
         (pt_PodSpec (ct_Template controller)))))"

definition add_volume :: "pod_template_spec \<Rightarrow> pod_volume \<Rightarrow> pod_template_spec" where
  "add_volume t v = t\<lparr>pts_Spec := (pts_Spec t)\<lparr>ps_Volumes := ps_Volumes (pts_Spec t) @ [v]\<rparr>\<rparr>"

text \<open>The volume with the state of \<^verbatim>\<open>slurmctld\<close>: a given claim, a claim template, or a directory that is lost with the pod.\<close>

definition statesave :: "slurm_controller \<Rightarrow> pod_template_spec \<Rightarrow> pod_template_spec \<times> pvc list" where
  "statesave controller podTemplate =
     (if deref (ct_PersistenceEnabled controller) DefaultControllerPersistenceEnabled \<and> ct_ExistingClaim controller \<noteq> ''''
      then (add_volume podTemplate \<lparr>pv_Name = SlurmctldStateSaveVolume, pv_Source = ClaimSource (ct_ExistingClaim controller)\<rparr>, [])
      else if deref (ct_PersistenceEnabled controller) DefaultControllerPersistenceEnabled
      then (podTemplate, [\<lparr>pvc_Namespace = fst (Controller_Key controller), pvc_Name = SlurmctldStateSaveVolume,
              pvc_Labels = None, pvc_OwnerReferences = [], pvc_DeletionTimestamp = None, pvc_Spec = ct_ClaimSpec controller\<rparr>])
      else (add_volume podTemplate \<lparr>pv_Name = SlurmctldStateSaveVolume, pv_Source = EmptyDir ''''\<rparr>, []))"

definition stateful_set ::
  "nsname \<Rightarrow> metadata \<Rightarrow> (string \<rightharpoonup> string) \<Rightarrow> string \<Rightarrow> pod_template_spec \<Rightarrow> pvc list \<Rightarrow> kobject" where
  "stateful_set key md selector serviceName podTemplate claims =
     new_object StatefulSet key md
       [''Spec.PodManagementPolicy'' \<mapsto> Text ''Parallel'', ''Spec.Replicas'' \<mapsto> Number (Some 1),
        ''Spec.RevisionHistoryLimit'' \<mapsto> Number (Some 0), ''Spec.Selector'' \<mapsto> StringMap selector,
        ''Spec.ServiceName'' \<mapsto> Text serviceName, ''Spec.Template'' \<mapsto> Template podTemplate,
        ''Spec.VolumeClaimTemplates'' \<mapsto> Claims claims]"

definition BuildController :: "world \<Rightarrow> slurm_controller \<Rightarrow> (err + kobject) prog" where
  "BuildController W controller = do {
     t \<leftarrow> controllerPodTemplate W controller;
     State_Monad.return
       (case t of
          Inl e \<Rightarrow> Inl (Wrapped ''failed to build pod template'' e)
        | Inr podTemplate \<Rightarrow>
            set_owner W (controller_owner controller)
              (stateful_set (Controller_Key controller) (controller_metadata controller)
                (WithControllerSelectorLabels controller Map.empty) (snd (Controller_ServiceKey controller))
                (fst (statesave controller podTemplate)) (snd (statesave controller podTemplate))))
   }"

definition service_port_for :: "string \<Rightarrow> int \<Rightarrow> int \<Rightarrow> service_port" where
  "service_port_for app port nodePort =
     \<lparr>sp_Name = app, sp_Protocol = ''TCP'', sp_Port = port, sp_TargetPort = app, sp_NodePort = nodePort\<rparr>"

text \<open>The service of a resource: the port of the component is added to those of the user's template.\<close>

definition resource_service ::
  "world \<Rightarrow> nsname \<Rightarrow> metadata \<Rightarrow> service_template \<Rightarrow> service_port \<Rightarrow> (string \<rightharpoonup> string) \<Rightarrow> kobject \<Rightarrow> err + kobject" where
  "resource_service W key md tmpl port selector owner =
     BuildService W key md ((st_Spec tmpl)\<lparr>ss_Ports := ss_Ports (st_Spec tmpl) @ [port]\<rparr>) (Some selector) False owner"

definition BuildControllerService :: "world \<Rightarrow> slurm_controller \<Rightarrow> err + kobject" where
  "BuildControllerService W controller =
     (let spec = ct_Service controller;
          labels = WithControllerLabels controller Map.empty
      in resource_service W (Controller_ServiceKey controller)
           \<lparr>md_Annotations = Some (MergeMaps [md_Annotations (ct_Metadata controller), md_Annotations (st_Metadata spec)]),
            md_Labels = Some (MergeMaps [Some (MergeMaps [md_Labels (ct_Metadata controller), md_Labels (st_Metadata spec), Some labels]),
              Some labels])\<rparr>
           spec (service_port_for ControllerApp (DefaultPort (wrap32 (st_Port spec)) SlurmctldPort) 0)
           (WithControllerSelectorLabels controller Map.empty) (controller_owner controller))"

subsection \<open>The service monitor of a Controller\<close>

definition UseNonZeroOrDefault :: "string \<Rightarrow> string \<Rightarrow> string" where
  "UseNonZeroOrDefault x d = (if x = '''' then d else x)"

definition monitor_endpoint :: "string \<Rightarrow> string \<Rightarrow> string \<Rightarrow> endpoint" where
  "monitor_endpoint path interval scrapeTimeout =
     \<lparr>ep_Path = path, ep_Port = ControllerApp, ep_Scheme = ''http'', ep_Interval = interval, ep_ScrapeTimeout = scrapeTimeout\<rparr>"

definition monitor_endpoints :: "metrics \<Rightarrow> endpoint list" where
  "monitor_endpoints mt =
     (if mt_Endpoints mt \<noteq> []
      then map (\<lambda>e. monitor_endpoint (me_Path e) (UseNonZeroOrDefault (me_Interval e) (mt_Interval mt))
                  (UseNonZeroOrDefault (me_ScrapeTimeout e) (mt_ScrapeTimeout mt))) (mt_Endpoints mt)
      else map (\<lambda>path. monitor_endpoint path (mt_Interval mt) (mt_ScrapeTimeout mt))
             [''/metrics/jobs'', ''/metrics/nodes'', ''/metrics/partitions'', ''/metrics/scheduler''])"

text \<open>The specification to merge is the zero value in every call: what is built is the base.\<close>

definition BuildServiceMonitor :: "world \<Rightarrow> nsname \<Rightarrow> metadata \<Rightarrow> (string \<rightharpoonup> field_value) \<Rightarrow> kobject \<Rightarrow> err + kobject" where
  "BuildServiceMonitor W key meta base owner =
     set_owner W owner (new_object ServiceMonitor key (meta_WithMetadata meta meta_NewBuilder) base)"

definition BuildControllerServiceMonitor :: "world \<Rightarrow> slurm_controller \<Rightarrow> err + kobject" where
  "BuildControllerServiceMonitor W controller =
     (let mt = ct_Metrics controller
      in BuildServiceMonitor W (Controller_Key controller)
           \<lparr>md_Annotations = Some (MergeMaps [md_Annotations (ct_Metadata controller), md_Annotations (mt_Metadata mt)]),
            md_Labels = Some (MergeMaps [md_Labels (ct_Metadata controller), md_Labels (mt_Metadata mt),
              Some (WithControllerLabels controller Map.empty)])\<rparr>
           [''Spec.Selector'' \<mapsto> StringMap (WithControllerSelectorLabels controller Map.empty),
            ''Spec.NamespaceSelector'' \<mapsto> Names [ct_Namespace controller],
            ''Spec.Endpoints'' \<mapsto> Endpoints (monitor_endpoints mt)]
           (controller_owner controller))"

subsection \<open>Configuration of a Controller\<close>

text \<open>The data of the configuration maps a list of references names, in order; the first error ends it.\<close>

fun read_configs :: "world \<Rightarrow> string \<Rightarrow> nsname list \<Rightarrow> (err + (string \<rightharpoonup> string) list) prog" where
  "read_configs W namespace [] = State_Monad.return (Inr [])"
| "read_configs W namespace (ref # refs) =
     with_result (GetConfigMapData W (namespace, snd ref)) (\<lambda>d.
     with_result (read_configs W namespace refs) (\<lambda>ds. State_Monad.return (Inr (d # ds))))"

definition read_scripts :: "world \<Rightarrow> string \<Rightarrow> nsname list \<Rightarrow> (err + string list) prog" where
  "read_scripts W namespace refs =
     with_result (read_configs W namespace refs) (\<lambda>ds.
       State_Monad.return (Inr (concat (map (\<lambda>d. sort (map_Keys W d)) ds))))"

text \<open>Whether a file is there, and whether control groups are enabled by the last \<^verbatim>\<open>cgroup.conf\<close>.\<close>

definition cgroup_enabled :: "(string \<rightharpoonup> string) list \<Rightarrow> bool" where
  "cgroup_enabled configs =
     foldl (\<lambda>enabled d. case d CgroupConfFile of Some contents \<Rightarrow> isCgroupEnabled contents | None \<Rightarrow> enabled) True configs"

definition has_file :: "string \<Rightarrow> (string \<rightharpoonup> string) list \<Rightarrow> bool" where
  "has_file name configs = list_ex (\<lambda>d. d name \<noteq> None) configs"

definition get_accounting :: "world \<Rightarrow> slurm_controller \<Rightarrow> (err + accounting option) prog" where
  "get_accounting W controller =
     (case ct_AccountingRef controller of
        None \<Rightarrow> State_Monad.return (Inr None)
      | Some ref \<Rightarrow> do {
          g \<leftarrow> GetAccounting W ref;
          State_Monad.return
            (case g of Inr a \<Rightarrow> Inr (Some a) | Inl e \<Rightarrow> if IsNotFound e then Inr None else Inl e)
        })"

definition controller_files ::
  "world \<Rightarrow> slurm_controller \<Rightarrow> accounting option \<Rightarrow> nodeset list \<Rightarrow> (string \<rightharpoonup> string) list \<Rightarrow>
   string list \<Rightarrow> string list \<Rightarrow> string list \<Rightarrow> string list \<Rightarrow> string \<rightharpoonup> string" where
  "controller_files W controller accounting nodesetList configs prologScripts epilogScripts
       prologSlurmctldScripts epilogSlurmctldScripts =
     (let files = [SlurmConfFile \<mapsto> buildSlurmConf W controller accounting nodesetList prologScripts epilogScripts
                     prologSlurmctldScripts epilogSlurmctldScripts (cgroup_enabled configs)];
          files = (if has_file CgroupConfFile configs then files else files(CgroupConfFile \<mapsto> buildCgroupConf))
      in if has_file GresConfFile configs then files else files(GresConfFile \<mapsto> buildGresConf))"

definition BuildControllerConfig :: "world \<Rightarrow> slurm_controller \<Rightarrow> (err + kobject) prog" where
  "BuildControllerConfig W controller =
     with_result (get_accounting W controller) (\<lambda>accounting.
     with_result (GetNodeSetsForController W (Some controller)) (\<lambda>nodesetList.
     with_result (read_configs W (ct_Namespace controller) (ct_ConfigFileRefs controller)) (\<lambda>configs.
     with_result (read_scripts W (ct_Namespace controller) (ct_PrologScriptRefs controller)) (\<lambda>prologScripts.
     with_result (read_scripts W (ct_Namespace controller) (ct_EpilogScriptRefs controller)) (\<lambda>epilogScripts.
     with_result (read_scripts W (ct_Namespace controller) (ct_PrologSlurmctldScriptRefs controller)) (\<lambda>prologSlurmctldScripts.
     with_result (read_scripts W (ct_Namespace controller) (ct_EpilogSlurmctldScriptRefs controller)) (\<lambda>epilogSlurmctldScripts.
       State_Monad.return
         (BuildConfigMap W (Controller_ConfigKey controller)
           \<lparr>md_Annotations = md_Annotations (ct_Metadata controller),
            md_Labels = Some (MergeMaps [md_Labels (ct_Metadata controller), Some (WithControllerLabels controller Map.empty)])\<rparr>
           (controller_files W controller accounting nodesetList configs prologScripts epilogScripts
              prologSlurmctldScripts epilogSlurmctldScripts)
           False (controller_owner controller)))))))))"

definition BuildControllerConfigExternal :: "world \<Rightarrow> slurm_controller \<Rightarrow> (err + kobject) prog" where
  "BuildControllerConfigExternal W controller =
     with_result (get_accounting W controller) (\<lambda>accounting.
       State_Monad.return
         (let md = pt_Metadata (ct_Template controller)
          in BuildConfigMap W (Controller_ConfigKey controller)
               (md\<lparr>md_Labels := Some (MergeMaps [md_Labels md, Some (WithControllerLabels controller Map.empty)])\<rparr>)
               [SlurmConfFile \<mapsto> buildSlurmConfMinimal controller accounting] False (controller_owner controller)))"

end
