(* ===== verification/KeyPair.thy ===== *)
theory KeyPair
  imports Machine
begin

text \<open>
  Key pairs for SSH (\<^verbatim>\<open>internal/utils/crypto/keypair.go\<close>): the options of a pair, its generation by type and
  the encodings of its halves. The generators of Go's crypto packages are calls of the world, since they
  are random; the encodings of packages ssh and pem are functions of it.
\<close>

definition KeyPairRsa :: string where "KeyPairRsa = ''rsa''"
definition KeyPairEcdsa :: string where "KeyPairEcdsa = ''ecdsa''"
definition KeyPairEd25519 :: string where "KeyPairEd25519 = ''ed25519''"

record keyPair =
  kp_keyType :: string
  kp_privateKey :: opaque
  kp_publicKey :: opaque
  kp_passphrase :: string
  kp_comment :: string
  kp_bitLength :: int
  kp_ellipticCurve :: "opaque option"

definition WithType :: "string \<Rightarrow> keyPair \<Rightarrow> keyPair" where
  "WithType keyPairType o' = o'\<lparr>kp_keyType := keyPairType\<rparr>"

definition WithPassphrase :: "string \<Rightarrow> keyPair \<Rightarrow> keyPair" where
  "WithPassphrase passphrase o' = o'\<lparr>kp_passphrase := passphrase\<rparr>"

definition WithComment :: "string \<Rightarrow> keyPair \<Rightarrow> keyPair" where
  "WithComment comment o' = o'\<lparr>kp_comment := comment\<rparr>"

definition WithRsaLength :: "int \<Rightarrow> keyPair \<Rightarrow> keyPair" where
  "WithRsaLength length' o' = o'\<lparr>kp_bitLength := length'\<rparr>"

definition WithEcdsaCurve :: "opaque option \<Rightarrow> keyPair \<Rightarrow> keyPair" where
  "WithEcdsaCurve curve o' = o'\<lparr>kp_ellipticCurve := curve\<rparr>"

section \<open>Generation\<close>

definition with_key :: "world \<Rightarrow> opaque \<Rightarrow> keyPair \<Rightarrow> keyPair" where
  "with_key W privateKey o' = o'\<lparr>kp_privateKey := privateKey, kp_publicKey := w_Public W privateKey\<rparr>"

definition generateRsa :: "world \<Rightarrow> keyPair \<Rightarrow> (err + keyPair) prog" where
  "generateRsa W o' = do {
     g \<leftarrow> GenerateKey W (RsaKey (kp_bitLength o'));
     State_Monad.return
       (case g of
          Inl e \<Rightarrow> Inl (Wrapped ''failed to generate RSA key pair'' e)
        | Inr privateKey \<Rightarrow> (case w_ValidateKey W privateKey of
            Some e \<Rightarrow> Inl e
          | None \<Rightarrow> Inr (with_key W privateKey o')))
   }"

definition generateEcdsa :: "world \<Rightarrow> keyPair \<Rightarrow> (err + keyPair) prog" where
  "generateEcdsa W o' =
     (case kp_ellipticCurve o' of
        None \<Rightarrow> State_Monad.return (Inl (GoError ''ECDSA curve is nil''))
      | Some curve \<Rightarrow> do {
          g \<leftarrow> GenerateKey W (EcdsaKey curve);
          State_Monad.return
            (case g of
               Inl e \<Rightarrow> Inl (Wrapped ''failed to generate ECDSA key pair'' e)
             | Inr privateKey \<Rightarrow> Inr (with_key W privateKey o'))
        })"

definition generateEd25519 :: "world \<Rightarrow> keyPair \<Rightarrow> (err + keyPair) prog" where
  "generateEd25519 W o' = do {
     g \<leftarrow> GenerateKey W Ed25519Key;
     State_Monad.return
       (case g of
          Inl e \<Rightarrow> Inl (Wrapped ''failed to generate ED25519 key pair'' e)
        | Inr privateKey \<Rightarrow> Inr (with_key W privateKey o'))
   }"

definition P256 :: opaque where "P256 = ''P-256''"

definition NewKeyPair :: "world \<Rightarrow> (keyPair \<Rightarrow> keyPair) list \<Rightarrow> (err + keyPair) prog" where
  "NewKeyPair W opts =
     (let o' = fold (\<lambda>opt. opt) opts
            \<lparr>kp_keyType = KeyPairEd25519, kp_privateKey = '''', kp_publicKey = '''', kp_passphrase = '''',
             kp_comment = '''', kp_bitLength = 1024, kp_ellipticCurve = Some P256\<rparr>
      in if kp_keyType o' = KeyPairRsa then generateRsa W o'
         else if kp_keyType o' = KeyPairEcdsa then generateEcdsa W o'
         else if kp_keyType o' = KeyPairEd25519 then generateEd25519 W o'
         else State_Monad.return (Inl (GoError (''unsupported key pair type: '' @ kp_keyType o'))))"

section \<open>Encoding\<close>

definition pemBlock :: "world \<Rightarrow> keyPair \<Rightarrow> err + opaque" where
  "pemBlock W o' =
     (if kp_passphrase o' \<noteq> ''''
      then w_MarshalPrivateKeyWithPassphrase W (kp_privateKey o') (kp_comment o') (kp_passphrase o')
      else w_MarshalPrivateKey W (kp_privateKey o') (kp_comment o'))"

definition kp_PrivateKey :: "world \<Rightarrow> keyPair \<Rightarrow> err + string" where
  "kp_PrivateKey W o' =
     (case pemBlock W o' of
        Inl e \<Rightarrow> Inl (Wrapped ''failed to create PEM block'' e)
      | Inr block \<Rightarrow> Inr (w_EncodeToMemory W block))"

definition kp_PublicKey :: "world \<Rightarrow> keyPair \<Rightarrow> err + string" where
  "kp_PublicKey W o' =
     (case w_NewPublicKey W (kp_publicKey o') of
        Inl e \<Rightarrow> Inl (Wrapped ''failed to create public key'' e)
      | Inr key \<Rightarrow> Inr (w_MarshalAuthorizedKey W key))"

section \<open>What a new pair is\<close>

lemma key_type_distinct [simp]:
  "KeyPairEcdsa \<noteq> KeyPairRsa" "KeyPairEd25519 \<noteq> KeyPairRsa" "KeyPairEd25519 \<noteq> KeyPairEcdsa"
  "KeyPairRsa \<noteq> KeyPairEcdsa" "KeyPairRsa \<noteq> KeyPairEd25519" "KeyPairEcdsa \<noteq> KeyPairEd25519"
  by (simp_all add: KeyPairRsa_def KeyPairEcdsa_def KeyPairEd25519_def)

text \<open>The request of a type that is made without further options.\<close>

definition default_request :: "string \<Rightarrow> key_request" where
  "default_request t =
     (if t = KeyPairRsa then RsaKey 1024 else if t = KeyPairEcdsa then EcdsaKey P256 else Ed25519Key)"

text \<open>A pair that was made holds a key just generated, its public half, and no passphrase.\<close>

lemma NewKeyPair_made:
  assumes "run_state (NewKeyPair W [WithType t]) s = (Inr kp, u)"
  shows "log u = Rd (MadeKeyPair (default_request t) (Inr (kp_privateKey kp))) # log s \<and>
    kp_publicKey kp = w_Public W (kp_privateKey kp) \<and> kp_passphrase kp = '''' \<and> kp_comment kp = '''' \<and>
    t \<in> {KeyPairRsa, KeyPairEcdsa, KeyPairEd25519}"
  using assms
  by (auto simp: NewKeyPair_def WithType_def generateRsa_def generateEcdsa_def generateEd25519_def with_key_def
      default_request_def call_defs Let_def split: if_splits sum.splits option.splits)

lemma keeps_NewKeyPair [keeps_intros]:
  assumes "\<And>t. keeps I (GenerateKey W t)"
  shows "keeps I (NewKeyPair W opts)"
  unfolding NewKeyPair_def generateRsa_def generateEcdsa_def generateEd25519_def Let_def
  by (intro keeps_intros assms)

end
