(* ===== verification/DaemonBuilders.thy ===== *)
theory DaemonBuilders
  imports Workloads KeyPair
begin

text \<open>
  The objects of Accountings, RestApis, LoginSets and NodeSets: \<^verbatim>\<open>accountingbuilder\<close>, \<^verbatim>\<open>restapibuilder\<close>,
  \<^verbatim>\<open>loginbuilder\<close> and \<^verbatim>\<open>workerbuilder\<close> of \<^verbatim>\<open>internal/builder\<close>.
\<close>

section \<open>Accounting\<close>

definition accountingVolumes :: "accounting \<Rightarrow> pod_volume list" where
  "accountingVolumes accounting =
     [\<lparr>pv_Name = SlurmEtcVolume, pv_Source = Projected 384
         ([SecretProjection (snd (Accounting_ConfigKey accounting)) [(SlurmdbdConfFile, SlurmdbdConfFile, None)],
           auth_slurm_projection (Accounting_AuthSlurmRef accounting),
           auth_jwt_projection (Accounting_AuthJwtRef accounting)] @
          jwks_projections (Accounting_AuthJwksRef accounting))\<rparr>,
      PidfileVolume]"

definition slurmdbdContainer :: "world \<Rightarrow> container \<Rightarrow> container" where
  "slurmdbdContainer W merge =
     BuildContainer W
       (empty_container\<lparr>c_Name := AccountingApp, c_Ports := [tcp_port AccountingApp SlurmdbdPort],
          c_ReadinessProbe := Some (probe_of (TCPSocket SlurmdbdPort) 0 0),
          c_SecurityContext := Some (run_as SlurmUserUid SlurmUserGid),
          c_VolumeMounts := [mount SlurmEtcVolume SlurmEtcDir True, mount SlurmPidFileVolume SlurmPidFileDir False]\<rparr>)
       merge"

text \<open>The pods do not get the metadata of the template.\<close>

definition accounting_pod_metadata :: "accounting \<Rightarrow> metadata" where
  "accounting_pod_metadata accounting =
     meta_WithLabels (Some (WithAccountingLabels accounting Map.empty))
       (meta_WithLabels (md_Labels (ac_Metadata accounting))
          (meta_WithAnnotations (md_Annotations (ac_Metadata accounting)) meta_NewBuilder))"

definition accountingPodTemplate :: "world \<Rightarrow> accounting \<Rightarrow> (err + pod_template_spec) prog" where
  "accountingPodTemplate W accounting =
     with_result (accounting_getHashes W accounting) (\<lambda>hashMap.
       State_Monad.return (Inr (BuildPodTemplate W (Accounting_Key accounting)
         (pod_metadata (accounting_pod_metadata accounting) (Some hashMap) AccountingApp)
         (empty_pod_spec\<lparr>ps_AutomountServiceAccountToken := Some False,
            ps_Containers := [slurmdbdContainer W (ac_Slurmdbd accounting)],
            ps_SecurityContext := Some ((run_as SlurmUserUid SlurmUserGid)\<lparr>sc_FSGroup := Some SlurmUserGid\<rparr>),
            ps_Volumes := accountingVolumes accounting\<rparr>)
         (pt_PodSpec (ac_Template accounting)))))"

definition BuildAccounting :: "world \<Rightarrow> accounting \<Rightarrow> (err + kobject) prog" where
  "BuildAccounting W accounting = do {
     t \<leftarrow> accountingPodTemplate W accounting;
     State_Monad.return
       (case t of
          Inl e \<Rightarrow> Inl (Wrapped ''failed to build pod template'' e)
        | Inr podTemplate \<Rightarrow>
            set_owner W (accounting_owner accounting)
              (stateful_set (Accounting_Key accounting)
                (workload_metadata (ac_Metadata accounting) (pt_Metadata (ac_Template accounting))
                  (WithAccountingLabels accounting Map.empty))
                (WithAccountingSelectorLabels accounting Map.empty) (snd (Accounting_ServiceKey accounting))
                podTemplate []))
   }"

definition BuildAccountingService :: "world \<Rightarrow> accounting \<Rightarrow> err + kobject" where
  "BuildAccountingService W accounting =
     (let spec = ac_Service accounting
      in resource_service W (Accounting_ServiceKey accounting)
           \<lparr>md_Annotations = Some (MergeMaps [md_Annotations (ac_Metadata accounting), md_Annotations (st_Metadata spec)]),
            md_Labels = Some (MergeMaps [md_Labels (ac_Metadata accounting), md_Labels (st_Metadata spec),
              Some (WithAccountingLabels accounting Map.empty)])\<rparr>
           spec (service_port_for AccountingApp (DefaultPort (wrap32 (st_Port spec)) SlurmdbdPort) 0)
           (WithAccountingSelectorLabels accounting Map.empty) (accounting_owner accounting))"

definition BuildAccountingConfig :: "world \<Rightarrow> accounting \<Rightarrow> (err + kobject) prog" where
  "BuildAccountingConfig W accounting =
     with_result (GetSecretKeyRef W (Accounting_AuthStorageRef accounting) (ac_Namespace accounting)) (\<lambda>storagePass.
       State_Monad.return
         (BuildSecret W (Accounting_ConfigKey accounting)
           \<lparr>md_Annotations = md_Annotations (ac_Metadata accounting),
            md_Labels = Some (MergeMaps [md_Labels (ac_Metadata accounting), Some (WithAccountingLabels accounting Map.empty)])\<rparr>
           None (Some [SlurmdbdConfFile \<mapsto> buildSlurmdbdConf accounting storagePass]) False (accounting_owner accounting)))"

section \<open>RestApi\<close>

definition SlurmrestdPort :: int where "SlurmrestdPort = 6820"
definition slurmrestdUserUid :: int where "slurmrestdUserUid = 65534"
definition slurmrestdUserGid :: int where "slurmrestdUserGid = slurmrestdUserUid"

definition deployment ::
  "nsname \<Rightarrow> metadata \<Rightarrow> int option \<Rightarrow> (string \<rightharpoonup> string) \<Rightarrow> pod_template_spec \<Rightarrow> kobject" where
  "deployment key md replicas selector podTemplate =
     new_object Deployment key md
       [''Spec.Replicas'' \<mapsto> Number replicas, ''Spec.RevisionHistoryLimit'' \<mapsto> Number (Some 0),
        ''Spec.Selector'' \<mapsto> StringMap selector, ''Spec.Template'' \<mapsto> Template podTemplate]"

definition restapiVolumes :: "slurm_controller \<Rightarrow> pod_volume list" where
  "restapiVolumes controller =
     [\<lparr>pv_Name = SlurmEtcVolume, pv_Source = Projected 384
         [ConfigMapProjection (snd (Controller_ConfigKey controller)) [(SlurmConfFile, SlurmConfFile, None)],
          auth_slurm_projection (AuthSlurmRef controller)]\<rparr>]"

definition slurmrestdArgs :: "bool \<Rightarrow> string list" where
  "slurmrestdArgs hasAccounting = (if \<not> hasAccounting then [''-s'', ''openapi/slurmctld''] else [])"

definition slurmrestdContainer :: "world \<Rightarrow> container \<Rightarrow> bool \<Rightarrow> container" where
  "slurmrestdContainer W merge hasAccounting =
     (let out = BuildContainer W
        (empty_container\<lparr>c_Name := RestapiApp,
           c_Env := [env ''SLURM_JWT'' ''daemon'',
                     env ''SLURMRESTD_SECURITY'' (Join '','' [''disable_unshare_files'', ''disable_unshare_sysv''])],
           c_Args := slurmrestdArgs hasAccounting,
           c_Ports := [tcp_port RestapiApp SlurmrestdPort],
           c_StartupProbe := Some (probe_of (TCPSocket SlurmrestdPort) 6 10),
           c_LivenessProbe := Some (probe_of (TCPSocket SlurmrestdPort) 6 10),
           c_ReadinessProbe := Some (probe_of (TCPSocket SlurmrestdPort) 0 0),
           c_SecurityContext := Some (run_as slurmrestdUserUid slurmrestdUserGid),
           c_VolumeMounts := [mount SlurmEtcVolume SlurmEtcDir True]\<rparr>)
        merge
      in out\<lparr>c_Args := c_Args out @ [''0.0.0.0:'' @ Itoa SlurmrestdPort]\<rparr>)"

definition restapi_metadata :: "restapi \<Rightarrow> metadata" where
  "restapi_metadata restapi =
     workload_metadata (ra_Metadata restapi) (pt_Metadata (ra_Template restapi)) (WithRestapiLabels restapi Map.empty)"

definition restapiPodTemplate :: "world \<Rightarrow> restapi \<Rightarrow> (err + pod_template_spec) prog" where
  "restapiPodTemplate W restapi =
     with_result (GetSlurmController W (ra_ControllerRef restapi)) (\<lambda>controller.
       let hasAccounting = (\<not> w_RefDeepEqual W (ct_AccountingRef controller) ('''', ''''))
       in State_Monad.return (Inr (BuildPodTemplate W (RestApi_Key restapi)
            (pod_metadata (restapi_metadata restapi) None RestapiApp)
            (empty_pod_spec\<lparr>ps_AutomountServiceAccountToken := Some False,
               ps_Containers := [slurmrestdContainer W (ra_Slurmrestd restapi) hasAccounting],
               ps_SecurityContext :=
                 Some ((run_as slurmrestdUserUid slurmrestdUserGid)\<lparr>sc_FSGroup := Some slurmrestdUserGid\<rparr>),
               ps_Volumes := restapiVolumes controller\<rparr>)
            (pt_PodSpec (ra_Template restapi)))))"

definition BuildRestapi :: "world \<Rightarrow> restapi \<Rightarrow> (err + kobject) prog" where
  "BuildRestapi W restapi = do {
     t \<leftarrow> restapiPodTemplate W restapi;
     State_Monad.return
       (case t of
          Inl e \<Rightarrow> Inl (Wrapped ''failed to build pod template'' e)
        | Inr podTemplate \<Rightarrow>
            set_owner W (restapi_owner restapi)
              (deployment (RestApi_Key restapi) (restapi_metadata restapi) (ra_Replicas restapi)
                (WithRestapiSelectorLabels restapi Map.empty) podTemplate))
   }"

definition BuildRestapiService :: "world \<Rightarrow> restapi \<Rightarrow> err + kobject" where
  "BuildRestapiService W restapi =
     (let spec = ra_Service restapi
      in resource_service W (RestApi_ServiceKey restapi)
           ((st_Metadata spec)\<lparr>md_Labels :=
              Some (MergeMaps [md_Labels (st_Metadata spec), Some (WithRestapiLabels restapi Map.empty)])\<rparr>)
           spec (service_port_for RestapiApp (DefaultPort (wrap32 (st_Port spec)) SlurmrestdPort) 0)
           (WithRestapiSelectorLabels restapi Map.empty) (restapi_owner restapi))"

section \<open>LoginSet\<close>

definition LoginPort :: int where "LoginPort = 22"
definition SackdVolume :: string where "SackdVolume = ''sackd-dir''"
definition SackdDir :: string where "SackdDir = ''/run/slurm''"
definition SackdSocketPath :: string where "SackdSocketPath = SackdDir @ ''/'' @ ''sack.socket''"
definition SshDir :: string where "SshDir = ''/etc/ssh''"
definition SshConfigVolume :: string where "SshConfigVolume = ''ssh-config''"
definition SshdConfigFile :: string where "SshdConfigFile = ''sshd_config''"
definition SshHostKeysVolume :: string where "SshHostKeysVolume = ''ssh-host-keys''"
definition SshHostRsaKeyFile :: string where "SshHostRsaKeyFile = ''ssh_host_rsa_key''"
definition SshHostEd25519KeyFile :: string where "SshHostEd25519KeyFile = ''ssh_host_ed25519_key''"
definition SshHostEcdsaKeyFile :: string where "SshHostEcdsaKeyFile = ''ssh_host_ecdsa_key''"
definition pub :: "string \<Rightarrow> string" where "pub keyFile = keyFile @ ''.pub''"
definition SssdConfVolume :: string where "SssdConfVolume = ''sssd-conf''"
definition SssdConfFile :: string where "SssdConfFile = ''sssd.conf''"
definition SssdConfFilePath :: string where "SssdConfFilePath = ''/etc/sssd'' @ ''/'' @ SssdConfFile"
definition authorizedKeysFile :: string where "authorizedKeysFile = ''authorized_keys''"
definition rootAuthorizedKeysFilePath :: string where "rootAuthorizedKeysFilePath = ''/root/.ssh/'' @ authorizedKeysFile"

text \<open>The file modes are octal 600 and 644.\<close>

definition host_key_items :: "string \<Rightarrow> (string \<times> string \<times> int option) list" where
  "host_key_items keyFile = [(keyFile, keyFile, Some 384), (pub keyFile, pub keyFile, Some 420)]"

definition loginVolumes :: "loginset \<Rightarrow> slurm_controller \<Rightarrow> pod_volume list" where
  "loginVolumes loginset controller =
     [EtcSlurmVolume,
      \<lparr>pv_Name = SackdVolume, pv_Source = EmptyDir StorageMediumMemory\<rparr>,
      \<lparr>pv_Name = SlurmConfigVolume, pv_Source = Projected 384 [auth_slurm_projection (AuthSlurmRef controller)]\<rparr>,
      \<lparr>pv_Name = SshHostKeysVolume, pv_Source = Projected 384
         [SecretProjection (snd (LoginSet_SshHostKeys loginset))
            (host_key_items SshHostRsaKeyFile @ host_key_items SshHostEd25519KeyFile @ host_key_items SshHostEcdsaKeyFile)]\<rparr>,
      \<lparr>pv_Name = SshConfigVolume, pv_Source = Projected 384
         [ConfigMapProjection (snd (LoginSet_SshConfigKey loginset))
            [(SshdConfigFile, SshdConfigFile, Some 384), (authorizedKeysFile, authorizedKeysFile, Some 384)]]\<rparr>,
      \<lparr>pv_Name = SssdConfVolume, pv_Source = Projected 384
         [SecretProjection (sks_Name (LoginSet_SssdSecretRef loginset))
            [(sks_Key (LoginSet_SssdSecretRef loginset), SssdConfFile, Some 384)]]\<rparr>]"

definition login_port :: "container_port list \<Rightarrow> int" where
  "login_port ports =
     foldl (\<lambda>sshPort port. if cp_Name port = LoginApp \<and> cp_ContainerPort port \<noteq> 0 then cp_ContainerPort port else sshPort)
       LoginPort ports"

definition host_key_mounts :: "string \<Rightarrow> volume_mount list" where
  "host_key_mounts keyFile =
     [sub_mount SshHostKeysVolume (SshDir @ ''/'' @ keyFile) keyFile,
      sub_mount SshHostKeysVolume (SshDir @ ''/'' @ pub keyFile) (pub keyFile)]"

definition loginContainer :: "world \<Rightarrow> container \<Rightarrow> slurm_controller \<Rightarrow> container" where
  "loginContainer W merge controller =
     BuildContainer W
       (empty_container\<lparr>c_Name := LoginApp, c_Env := [env ''SACKD_OPTIONS'' (Join '' '' (ConfiglessArgs controller))],
          c_Ports := [tcp_port LoginApp (login_port (c_Ports merge))],
          c_ReadinessProbe := Some (probe_of (ExecAction [''test'', ''-S'', SackdSocketPath]) 0 0),
          c_VolumeMounts := [mount SlurmEtcVolume SlurmEtcDir True, mount SackdVolume SackdDir False] @
            host_key_mounts SshHostRsaKeyFile @ host_key_mounts SshHostEd25519KeyFile @ host_key_mounts SshHostEcdsaKeyFile @
            [sub_mount SshConfigVolume (SshDir @ ''/'' @ SshdConfigFile) SshdConfigFile,
             sub_mount SshConfigVolume rootAuthorizedKeysFilePath authorizedKeysFile,
             sub_mount SssdConfVolume SssdConfFilePath SssdConfFile]\<rparr>)
       merge"

definition read_for_hash :: "(err + (string \<rightharpoonup> string)) prog \<Rightarrow> (err + (string \<rightharpoonup> string)) prog" where
  "read_for_hash get = do {
     g \<leftarrow> read_or_empty get;
     State_Monad.return (case g of Inl e \<Rightarrow> Inl (Wrapped ''failed to get object'' e) | Inr d \<Rightarrow> Inr d)
   }"

definition getLoginHashes :: "world \<Rightarrow> loginset \<Rightarrow> (err + (string \<rightharpoonup> string)) prog" where
  "getLoginHashes W loginset =
     with_result (read_for_hash (GetConfigMapData W (LoginSet_SshConfigKey loginset))) (\<lambda>sshConfig.
     with_result (read_for_hash (GetSecretData W (LoginSet_SshHostKeys loginset))) (\<lambda>sshHostKeys.
     with_result (read_for_hash (GetSecretData W (LoginSet_SssdSecretKey loginset))) (\<lambda>sssdSecret.
       State_Monad.return (Inr
         [AnnotationSshHostKeysHash \<mapsto> CheckSumFromMap W sshHostKeys,
          AnnotationSshdConfHash \<mapsto> CheckSum W (deref (sshConfig SshdConfigFile) ''''),
          AnnotationSssdConfHash \<mapsto> CheckSum W (deref (sssdSecret (sks_Key (LoginSet_SssdSecretRef loginset))) '''')]))))"

definition login_metadata :: "loginset \<Rightarrow> metadata" where
  "login_metadata loginset =
     workload_metadata (ls_Metadata loginset) (pt_Metadata (ls_Template loginset)) (WithLoginLabels loginset Map.empty)"

definition login_pod_spec :: "world \<Rightarrow> loginset \<Rightarrow> slurm_controller \<Rightarrow> pod_spec" where
  "login_pod_spec W loginset controller =
     empty_pod_spec\<lparr>ps_AutomountServiceAccountToken := Some False, ps_EnableServiceLinks := Some False,
       ps_Containers := [loginContainer W (ls_Login loginset) controller],
       ps_InitContainers := [InitconfContainer W (ls_InitConf loginset)],
       ps_DNSSearches := [SlurmClusterWorkerService W (snd (ls_ControllerRef loginset)) (ls_Namespace loginset)],
       ps_Volumes := loginVolumes loginset controller\<rparr>"

definition loginPodTemplate :: "world \<Rightarrow> loginset \<Rightarrow> (err + pod_template_spec) prog" where
  "loginPodTemplate W loginset =
     with_result (GetSlurmController W (ls_ControllerRef loginset)) (\<lambda>controller.
     with_result (getLoginHashes W loginset) (\<lambda>hashMap.
       State_Monad.return (Inr (BuildPodTemplate W (LoginSet_Key loginset)
         (pod_metadata (login_metadata loginset) (Some hashMap) LoginApp)
         (login_pod_spec W loginset controller)
         (pt_PodSpec (ls_Template loginset))))))"

definition BuildLogin :: "world \<Rightarrow> loginset \<Rightarrow> (err + kobject) prog" where
  "BuildLogin W loginset = do {
     t \<leftarrow> loginPodTemplate W loginset;
     State_Monad.return
       (case t of
          Inl e \<Rightarrow> Inl (Wrapped ''failed to build pod template'' e)
        | Inr podTemplate \<Rightarrow>
            (let d = deployment (LoginSet_Key loginset) (login_metadata loginset) (ls_Replicas loginset)
                       (WithLoginSelectorLabels loginset Map.empty) podTemplate
             in set_owner W (loginset_owner loginset)
                  (d\<lparr>ko_Fields := (ko_Fields d)(''Spec.Strategy'' \<mapsto> Raw (ls_Strategy loginset))\<rparr>)))
   }"

definition login_child_metadata :: "loginset \<Rightarrow> metadata" where
  "login_child_metadata loginset =
     \<lparr>md_Annotations = md_Annotations (ls_Metadata loginset),
      md_Labels = Some (MergeMaps [md_Labels (ls_Metadata loginset), Some (WithLoginLabels loginset Map.empty)])\<rparr>"

definition BuildLoginSshConfig :: "world \<Rightarrow> loginset \<Rightarrow> err + kobject" where
  "BuildLoginSshConfig W loginset =
     BuildConfigMap W (LoginSet_SshConfigKey loginset) (login_child_metadata loginset)
       [authorizedKeysFile \<mapsto> buildAuthorizedKeys (ls_RootSshAuthorizedKeys loginset),
        SshdConfigFile \<mapsto> buildSshdConfig (ls_ExtraSshdConfig loginset)]
       False (loginset_owner loginset)"

text \<open>The two halves of a key pair, encoded; and a new pair of a type.\<close>

definition encode_pair :: "world \<Rightarrow> keyPair \<Rightarrow> err + string \<times> string" where
  "encode_pair W kp =
     (case kp_PrivateKey W kp of
        Inl e \<Rightarrow> Inl (Wrapped ''failed to encode private key'' e)
      | Inr priv \<Rightarrow> (case kp_PublicKey W kp of
          Inl e \<Rightarrow> Inl (Wrapped ''failed to encode public key'' e)
        | Inr publ \<Rightarrow> Inr (priv, publ)))"

definition new_pair :: "world \<Rightarrow> string \<Rightarrow> (err + keyPair) prog" where
  "new_pair W keyType = do {
     k \<leftarrow> NewKeyPair W [WithType keyType];
     State_Monad.return (case k of Inl e \<Rightarrow> Inl (Wrapped ''failed to create key pair'' e) | Inr kp \<Rightarrow> Inr kp)
   }"

definition BuildLoginSshHostKeys :: "world \<Rightarrow> loginset \<Rightarrow> (err + kobject) prog" where
  "BuildLoginSshHostKeys W loginset =
     with_result (new_pair W KeyPairRsa) (\<lambda>keyPairRsa.
     with_result (new_pair W KeyPairEd25519) (\<lambda>keyPairEd25519.
     with_result (new_pair W KeyPairEcdsa) (\<lambda>keyPairEcdsa.
     with_result (State_Monad.return (encode_pair W keyPairEcdsa)) (\<lambda>ecdsa.
     with_result (State_Monad.return (encode_pair W keyPairEd25519)) (\<lambda>ed25519.
     with_result (State_Monad.return (encode_pair W keyPairRsa)) (\<lambda>rsa.
       State_Monad.return
         (BuildSecret W (LoginSet_SshHostKeys loginset)
           ((login_child_metadata loginset)\<lparr>md_Labels := Some (MergeMaps
              [md_Labels (login_child_metadata loginset), Some (WithLoginLabels loginset Map.empty)])\<rparr>)
           (Some [SshHostEcdsaKeyFile \<mapsto> fst ecdsa, pub SshHostEcdsaKeyFile \<mapsto> snd ecdsa,
                  SshHostEd25519KeyFile \<mapsto> fst ed25519, pub SshHostEd25519KeyFile \<mapsto> snd ed25519,
                  SshHostRsaKeyFile \<mapsto> fst rsa, pub SshHostRsaKeyFile \<mapsto> snd rsa])
           None True (loginset_owner loginset))))))))"

definition BuildLoginService :: "world \<Rightarrow> loginset \<Rightarrow> err + kobject" where
  "BuildLoginService W loginset =
     (let spec = ls_Service loginset;
          labels = WithLoginLabels loginset Map.empty
      in resource_service W (LoginSet_ServiceKey loginset)
           \<lparr>md_Annotations = Some (MergeMaps [md_Annotations (ls_Metadata loginset), md_Annotations (st_Metadata spec)]),
            md_Labels = Some (MergeMaps [Some (MergeMaps [md_Labels (ls_Metadata loginset), md_Labels (st_Metadata spec), Some labels]),
              Some labels])\<rparr>
           spec (service_port_for LoginApp (DefaultPort (wrap32 (st_Port spec)) LoginPort) (wrap32 (st_NodePort spec)))
           (WithLoginSelectorLabels loginset Map.empty) (loginset_owner loginset))"

section \<open>Workers\<close>

definition BuildWorkerSshConfig :: "world \<Rightarrow> nodeset \<Rightarrow> err + kobject" where
  "BuildWorkerSshConfig W ns =
     BuildConfigMap W (NodeSet_SshConfigKey ns)
       \<lparr>md_Annotations = ns_Annotations ns,
        md_Labels = Some (MergeMaps [ns_Labels ns, Some (WithWorkerLabels ns Map.empty)])\<rparr>
       [SshdConfigFile \<mapsto> buildWorkerSshdConfig (spec_SshExtraSshdConfig (ns_Spec ns))] False (nodeset_object ns)"

text \<open>No NodeSet is the controller of the service and the budget of the cluster.\<close>

definition uncontrolled :: "world \<Rightarrow> nodeset \<Rightarrow> err + kobject \<Rightarrow> err + kobject" where
  "uncontrolled W ns b =
     (case b of
        Inl e \<Rightarrow> Inl e
      | Inr out \<Rightarrow> (case w_RemoveControllerReference W (nodeset_object ns) out of
          Inl e \<Rightarrow> Inl (Wrapped ''failed to remove owner controller'' e)
        | Inr refs \<Rightarrow> Inr (out\<lparr>ko_OwnerReferences := refs\<rparr>)))"

definition BuildClusterWorkerService :: "world \<Rightarrow> nodeset \<Rightarrow> err + kobject" where
  "BuildClusterWorkerService W ns =
     (let cluster = snd (spec_ControllerRef (ns_Spec ns))
      in uncontrolled W ns
           (BuildService W (ns_Namespace ns, SlurmClusterWorkerServiceName cluster) no_metadata
             (empty_service_spec\<lparr>ss_Ports := [service_port_for WorkerApp SlurmdPort 0]\<rparr>)
             (Some (WithCluster cluster (WithApp WorkerApp Map.empty))) True (nodeset_object ns)))"

definition BuildClusterWorkerPodDisruptionBudget :: "world \<Rightarrow> nodeset \<Rightarrow> err + kobject" where
  "BuildClusterWorkerPodDisruptionBudget W ns =
     (let cluster = snd (spec_ControllerRef (ns_Spec ns))
      in uncontrolled W ns
           (BuildPodDisruptionBudget W (ns_Namespace ns, SlurmClusterWorkerPodDisruptionBudgetName cluster) no_metadata
             (WithCluster cluster (WithPodProtect Map.empty)) (IntVal 0) (nodeset_object ns)))"

definition nodesetVolumes :: "nodeset \<Rightarrow> slurm_controller \<Rightarrow> pod_volume list" where
  "nodesetVolumes ns controller =
     [\<lparr>pv_Name = SlurmEtcVolume, pv_Source = Projected 384 [auth_slurm_projection (AuthSlurmRef controller)]\<rparr>,
      LogFileVolume] @
     (if spec_SshEnabled (ns_Spec ns)
      then [\<lparr>pv_Name = SshConfigVolume, pv_Source = Projected 384
               [ConfigMapProjection (snd (NodeSet_SshConfigKey ns)) [(SshdConfigFile, SshdConfigFile, Some 384)]]\<rparr>,
            \<lparr>pv_Name = SssdConfVolume, pv_Source = Projected 384
               [SecretProjection (sks_Name (NodeSet_SssdSecretRef ns))
                  [(sks_Key (NodeSet_SssdSecretRef ns), SssdConfFile, Some 384)]]\<rparr>]
      else [])"

text \<open>
  The items of the extra configuration become one \<^verbatim>\<open>--conf\<close> argument; an item without \<open>=\<close> panics. A Go map
  is an association list; it is sorted before it is used.
\<close>

definition SplitN2 :: "char \<Rightarrow> string \<Rightarrow> string list" where
  "SplitN2 c s = (case Cut c s of None \<Rightarrow> [s] | Some (a, b) \<Rightarrow> [a, b])"

fun conf_items :: "world \<Rightarrow> string list \<Rightarrow> (string \<times> string) list \<Rightarrow> err + (string \<times> string) list" where
  "conf_items W [] confMap = Inr confMap"
| "conf_items W (item # items) confMap =
     (case SplitN2 (CHR ''='') item of
        [k, val] \<Rightarrow>
          let key = w_Title W k;
              key = (if key = ''Features'' \<or> key = ''Feature'' then ''Features'' else key)
          in conf_items W items (case map_of confMap key of
               None \<Rightarrow> AList.update key val confMap
             | Some ret \<Rightarrow> AList.update key (ret @ '','' @ val) confMap)
      | _ \<Rightarrow> Inl (Panic ''malformed --conf item''))"

definition slurmdConfArgs :: "world \<Rightarrow> nodeset \<Rightarrow> err + string list" where
  "slurmdConfArgs W ns =
     (let extraConf = (if spec_ExtraConf (ns_Spec ns) \<noteq> '''' then Split (CHR '' '') (spec_ExtraConf (ns_Spec ns)) else [])
      in case conf_items W extraConf [(''Features'', nodeset_feature ns)] of
           Inl e \<Rightarrow> Inl e
         | Inr confMap \<Rightarrow>
             Inr [''--conf'', [CHR 0x27] @ Join '' '' (sort (map (\<lambda>(k, v). k @ ''='' @ v) confMap)) @ [CHR 0x27]])"

definition slurmdArgs :: "world \<Rightarrow> nodeset \<Rightarrow> slurm_controller \<Rightarrow> err + string list" where
  "slurmdArgs W ns controller =
     (case slurmdConfArgs W ns of Inl e \<Rightarrow> Inl e | Inr confArgs \<Rightarrow> Inr ([''-Z''] @ ConfiglessArgs controller @ confArgs))"

definition getResourceLimits :: "nodeset \<Rightarrow> int \<times> int" where
  "getResourceLimits ns =
     (let (cpus, memory) = GetPodResourceLimits (pt_PodSpec (spec_Template (ns_Spec ns)));
          (containerCpus, containerMemory) = GetContainerResourceLimits (spec_Slurmd (ns_Spec ns));
          cpus = (if containerCpus \<noteq> 0 then containerCpus else cpus);
          memory = (if containerMemory \<noteq> 0 then containerMemory else memory)
      in (cpus, if 0 \<le> memory then memory div 1024 div 1024 else - ((- memory) div 1024 div 1024)))"

definition slurmd_base :: "nodeset \<Rightarrow> string list \<Rightarrow> container" where
  "slurmd_base ns args =
     empty_container\<lparr>c_Name := WorkerApp, c_Args := args,
       c_Env := [\<lparr>ev_Name = ''POD_TOPOLOGY'', ev_Value = '''', ev_ValueFrom =
                    Some (''metadata.annotations['' @ [CHR 0x27] @ AnnotationNodeTopologySpec @ [CHR 0x27] @ '']'')\<rparr>,
                 env ''POD_CPUS'' (Itoa (fst (getResourceLimits ns))),
                 env ''POD_MEMORY'' (Itoa (snd (getResourceLimits ns)))],
       c_Ports := [tcp_port WorkerApp SlurmdPort] @ (if spec_SshEnabled (ns_Spec ns) then [tcp_port ''ssh'' SshPort] else []),
       c_StartupProbe := Some (probe_of (HTTPGet SlurmLivez WorkerApp) 6 10),
       c_LivenessProbe := Some (probe_of (HTTPGet SlurmLivez WorkerApp) 6 10),
       c_ReadinessProbe := Some (probe_of (HTTPGet SlurmReadyz WorkerApp) 0 0),
       c_SecurityContext := Some \<lparr>sc_RunAsNonRoot = None, sc_RunAsUser = None, sc_RunAsGroup = None, sc_FSGroup = None,
         sc_Privileged = Some True, sc_AddCapabilities = [''BPF'', ''NET_ADMIN'', ''SYS_ADMIN'', ''SYS_NICE''], sc_Rest = ''''\<rparr>,
       c_PreStop := Some [''/usr/bin/sh'', ''-c'',
         ''scontrol update nodename=$(hostname) state=down reason='' @ [CHR 0x27] @ ''Pod is terminating'' @ [CHR 0x27] @ '';''],
       c_VolumeMounts := [mount SlurmEtcVolume SlurmEtcDir True, mount SlurmLogFileVolume SlurmLogFileDir False] @
         (if spec_SshEnabled (ns_Spec ns)
          then [sub_mount SshConfigVolume (SshDir @ ''/'' @ SshdConfigFile) SshdConfigFile,
                sub_mount SssdConfVolume SssdConfFilePath SssdConfFile]
          else [])\<rparr>"

definition slurmdContainer :: "world \<Rightarrow> nodeset \<Rightarrow> slurm_controller \<Rightarrow> err + container" where
  "slurmdContainer W ns controller =
     (case slurmdArgs W ns controller of
        Inl e \<Rightarrow> Inl e
      | Inr args \<Rightarrow> Inr (BuildContainer W (slurmd_base ns args) (spec_Slurmd (ns_Spec ns))))"

definition getWorkerHashes :: "world \<Rightarrow> nodeset \<Rightarrow> (err + (string \<rightharpoonup> string)) prog" where
  "getWorkerHashes W ns =
     with_result (read_for_hash (GetConfigMapData W (NodeSet_SshConfigKey ns))) (\<lambda>sshConfig.
     with_result (read_for_hash (GetSecretData W (NodeSet_SssdSecretKey ns))) (\<lambda>sssdSecret.
       State_Monad.return (Inr
         [AnnotationSshdConfHash \<mapsto> CheckSum W (deref (sshConfig SshdConfigFile) ''''),
          AnnotationSssdConfHash \<mapsto> CheckSum W (deref (sssdSecret (sks_Key (NodeSet_SssdSecretRef ns))) '''')])))"

definition TolerationWorkerNode :: toleration where
  "TolerationWorkerNode = \<lparr>tol_Key = NodeSetPrefix @ ''worker'', tol_Operator = ''Equal'', tol_Value = '''', tol_Effect = ''NoExecute''\<rparr>"

definition worker_pod_spec :: "world \<Rightarrow> nodeset \<Rightarrow> slurm_controller \<Rightarrow> container \<Rightarrow> pod_spec" where
  "worker_pod_spec W ns controller slurmd =
     empty_pod_spec\<lparr>ps_AutomountServiceAccountToken := Some False, ps_EnableServiceLinks := Some False,
       ps_Containers := [slurmd],
       ps_Subdomain := SlurmClusterWorkerServiceName (snd (spec_ControllerRef (ns_Spec ns))),
       ps_DNSSearches := [SlurmClusterWorkerService W (snd (spec_ControllerRef (ns_Spec ns))) (ns_Namespace ns)],
       ps_InitContainers := [LogfileContainer W (spec_LogFile (ns_Spec ns)) SlurmdLogFilePath],
       ps_Volumes := nodesetVolumes ns controller,
       ps_Tolerations := [TolerationWorkerNode]\<rparr>"

text \<open>The error of a read is dropped: the template is empty then. The error that remains is a panic.\<close>

definition BuildWorkerPodTemplate :: "world \<Rightarrow> nodeset \<Rightarrow> slurm_controller \<Rightarrow> (err + pod_template_spec) prog" where
  "BuildWorkerPodTemplate W ns controller = do {
     h \<leftarrow> getWorkerHashes W ns;
     case h of
       Inl _ \<Rightarrow> State_Monad.return (Inr empty_template_spec)
     | Inr hashMap \<Rightarrow> (case slurmdContainer W ns controller of
           Inl e \<Rightarrow> do { crash MalformedConf; State_Monad.return (Inl e) }
         | Inr slurmd \<Rightarrow> State_Monad.return (Inr (BuildPodTemplate W (ns_Key ns)
             (pod_metadata (workload_metadata \<lparr>md_Annotations = ns_Annotations ns, md_Labels = ns_Labels ns\<rparr>
                (pt_Metadata (spec_Template (ns_Spec ns))) (WithWorkerLabels ns Map.empty)) (Some hashMap) WorkerApp)
             (worker_pod_spec W ns controller slurmd)
             (pt_PodSpec (spec_Template (ns_Spec ns))))))
   }"

end
