(* ===== verification/NewPods.thy ===== *)
theory NewPods
  imports PodControl DaemonBuilders
begin

text \<open>
  New pods of a NodeSet (\<^verbatim>\<open>NewNodeSetStatefulSetPod\<close>, \<^verbatim>\<open>NewNodeSetDaemonSetPod\<close> and \<^verbatim>\<open>NewNodeSetSimulatedPod\<close> of
  \<^verbatim>\<open>internal/controller/nodeset/utils/utils.go\<close>): the worker builder makes the pod template, Kubernetes
  makes a pod of it, and the code gives the pod its name, identity, storage and revision. The builder
  reads the objects whose checksums the template records, and panics on malformed extra configuration; such
  a panic is the result of every function here.
\<close>

section \<open>Making a pod\<close>

definition pinPodToNode :: "world \<Rightarrow> strmap \<Rightarrow> pod \<Rightarrow> int \<Rightarrow> pod prog" where
  "pinPodToNode W ordinalToNode p ordinal =
     (case mlookup ordinalToNode (Itoa ordinal) of
        None \<Rightarrow> State_Monad.return p
      | Some nodeName \<Rightarrow> do {
          r \<leftarrow> GetNode W nodeName;
          case r of
            Inl _ \<Rightarrow> State_Monad.return p
          | Inr node \<Rightarrow>
              State_Monad.return
                (if \<not> fst (PodShouldRunOnNode W p node) then p
                 else p\<lparr>pod_Affinity := w_ReplaceNodeAffinity W (pod_Affinity p) nodeName\<rparr>)
        })"

definition NewNodeSetStatefulSetPod ::
  "world \<Rightarrow> nodeset \<Rightarrow> slurm_controller \<Rightarrow> int \<Rightarrow> string \<Rightarrow> (err + pod) prog" where
  "NewNodeSetStatefulSetPod W ns controller ordinal revisionHash =
     with_result (BuildWorkerPodTemplate W ns controller) (\<lambda>podTemplate.
       let p = w_GetPodFromTemplate W podTemplate ns;
           p = p\<lparr>pod_Name := GetOrdinalPodName ns ordinal\<rparr>;
           p = initIdentity ns p;
           p = UpdateStorage W ns p;
           p = (if revisionHash \<noteq> '''' then p\<lparr>pod_Labels := SetRevision (pod_Labels p) revisionHash\<rparr> else p);
           p = p\<lparr>pod_Affinity := updateNodeSetPodAntiAffinity (pod_Affinity p)\<rparr>
       in do {
            p \<leftarrow> (if spec_PinToNode (ns_Spec ns)
                 then pinPodToNode W (status_OrdinalToNode (ns_Status ns)) p ordinal
                 else State_Monad.return p);
            State_Monad.return (Inr (p\<lparr>pod_NodeName := ''''\<rparr>))
          })"

definition NewNodeSetDaemonSetPod ::
  "world \<Rightarrow> nodeset \<Rightarrow> slurm_controller \<Rightarrow> string \<Rightarrow> string \<Rightarrow> string \<Rightarrow> (err + pod) prog" where
  "NewNodeSetDaemonSetPod W ns controller nodeName hostnameOverride revisionHash =
     with_result (BuildWorkerPodTemplate W ns controller) (\<lambda>podTemplate.
       let p = w_GetPodFromTemplate W podTemplate ns;
           p = p\<lparr>pod_Hostname := GetDaemonSetPodHostname nodeName hostnameOverride,
                 pod_Labels := Some (mmake (pod_Labels p))\<rparr>;
           p = initIdentity ns p;
           p = UpdateStorage W ns p;
           p = (if revisionHash \<noteq> '''' then p\<lparr>pod_Labels := SetRevision (pod_Labels p) revisionHash\<rparr> else p);
           p = p\<lparr>pod_Affinity := updateNodeSetPodAntiAffinity (pod_Affinity p)\<rparr>;
           p = p\<lparr>pod_NodeName := ''''\<rparr>
       in State_Monad.return (Inr (p\<lparr>pod_GenerateName := ns_Name ns @ ''-'',
            pod_Name := '''',
            pod_Affinity := w_ReplaceNodeAffinity W (pod_Affinity p) nodeName\<rparr>)))"

definition NewNodeSetSimulatedPod :: "world \<Rightarrow> nodeset \<Rightarrow> slurm_controller \<Rightarrow> string \<Rightarrow> (err + pod) prog" where
  "NewNodeSetSimulatedPod W ns controller nodeName =
     with_result (BuildWorkerPodTemplate W ns controller) (\<lambda>podTemplate.
       State_Monad.return (Inr ((w_GetPodFromTemplate W podTemplate ns)\<lparr>pod_NodeName := nodeName\<rparr>)))"

section \<open>What making a pod does\<close>

text \<open>
  It only reads: the SSH configuration and the SSSD secret for the checksums, and the node of a pin. With a
  malformed extra configuration it panics.
\<close>

lemma keeps_BuildWorkerPodTemplate:
  assumes "\<And>k. keeps I (GetConfigMapData W k)" "\<And>k. keeps I (GetSecretData W k)"
    and "\<And>e. slurmdConfArgs W ns = Inl e \<Longrightarrow> keeps I (crash MalformedConf)"
  shows "keeps I (BuildWorkerPodTemplate W ns c)"
proof (cases "slurmdContainer W ns c")
  case (Inl e)
  then have "slurmdConfArgs W ns = Inl e"
    by (auto simp: slurmdContainer_def slurmdArgs_def split: sum.splits)
  then show ?thesis
    unfolding BuildWorkerPodTemplate_def getWorkerHashes_def read_for_hash_def read_or_empty_def Inl sum.case
    by (intro keeps_intros assms)
next
  case (Inr k)
  show ?thesis
    unfolding BuildWorkerPodTemplate_def getWorkerHashes_def read_for_hash_def read_or_empty_def Inr sum.case
    by (intro keeps_intros assms)
qed

lemma keeps_pinPodToNode:
  "(\<And>n. keeps I (GetNode W n)) \<Longrightarrow> keeps I (pinPodToNode W m p i)"
  unfolding pinPodToNode_def by (auto intro!: keeps_intros)

lemma keeps_new_pod:
  assumes "\<And>k. keeps I (GetConfigMapData W k)" "\<And>k. keeps I (GetSecretData W k)" "\<And>n. keeps I (GetNode W n)"
    and "\<And>e. slurmdConfArgs W ns = Inl e \<Longrightarrow> keeps I (crash MalformedConf)"
  shows "keeps I (NewNodeSetStatefulSetPod W ns c i h)" "keeps I (NewNodeSetDaemonSetPod W ns c n u h)"
    "keeps I (NewNodeSetSimulatedPod W ns c n)"
  unfolding NewNodeSetStatefulSetPod_def NewNodeSetDaemonSetPod_def NewNodeSetSimulatedPod_def Let_def
  by (intro keeps_intros keeps_BuildWorkerPodTemplate keeps_pinPodToNode assms; assumption)+

lemma keeps_logs_new_pod [keeps_intros]:
  assumes "permits Q reads"
  shows "keeps (logs Q) (NewNodeSetStatefulSetPod W ns c i h)" "keeps (logs Q) (NewNodeSetDaemonSetPod W ns c n u h)"
    "keeps (logs Q) (NewNodeSetSimulatedPod W ns c n)"
  by (intro keeps_new_pod keeps_intros assms)+

lemma heap_kept: "keeps (\<lambda>s. heap s = hp) (NewNodeSetSimulatedPod W ns c n)"
  by (intro keeps_new_pod) (rule keepsI, simp add: call_defs)+

text \<open>The template is made unless the extra configuration of slurmd is malformed.\<close>

lemma BuildWorkerPodTemplate_returns:
  "slurmdConfArgs W ns = Inr args \<Longrightarrow> \<exists>t u. run_state (BuildWorkerPodTemplate W ns c) s = (Inr t, u)"
  unfolding BuildWorkerPodTemplate_def
  by (cases "run_state (getWorkerHashes W ns) s")
    (auto simp: slurmdContainer_def slurmdArgs_def split: sum.split)

lemma NewNodeSetStatefulSetPod_returns:
  assumes "slurmdConfArgs W ns = Inr args"
  obtains p where "fst (run_state (NewNodeSetStatefulSetPod W ns c i h) s) = Inr p"
proof -
  obtain t u where "run_state (BuildWorkerPodTemplate W ns c) s = (Inr t, u)"
    using BuildWorkerPodTemplate_returns [OF assms] by blast
  then show thesis
    using that by (simp add: NewNodeSetStatefulSetPod_def Let_def split_beta)
qed

text \<open>Pinning changes the affinity only.\<close>

lemma pinPodToNode_result:
  "\<exists>a. fst (run_state (pinPodToNode W m p i) s) = p\<lparr>pod_Affinity := a\<rparr>"
proof -
  have self: "\<exists>a. p = p\<lparr>pod_Affinity := a\<rparr>"
    by (rule exI [of _ "pod_Affinity p"]) simp
  moreover have "\<exists>a. p\<lparr>pod_Affinity := b\<rparr> = p\<lparr>pod_Affinity := a\<rparr>" for b
    by blast
  ultimately show ?thesis
    by (simp add: pinPodToNode_def call_defs split: option.split sum.split)
qed

text \<open>The pod of an ordinal before scheduling constraints, made from the pod that Kubernetes returns.\<close>

definition stateful_base :: "world \<Rightarrow> nodeset \<Rightarrow> pod \<Rightarrow> int \<Rightarrow> string \<Rightarrow> pod" where
  "stateful_base W ns b ordinal revisionHash =
     (let p = UpdateStorage W ns (initIdentity ns (b\<lparr>pod_Name := GetOrdinalPodName ns ordinal\<rparr>))
      in if revisionHash \<noteq> '''' then p\<lparr>pod_Labels := SetRevision (pod_Labels p) revisionHash\<rparr> else p)"

lemma NewNodeSetStatefulSetPod_result:
  assumes "fst (run_state (NewNodeSetStatefulSetPod W ns c i h) s) = Inr p"
  obtains t a where "fst (run_state (BuildWorkerPodTemplate W ns c) s) = Inr t"
    and "p = (stateful_base W ns (w_GetPodFromTemplate W t ns) i h)\<lparr>pod_Affinity := a, pod_NodeName := ''''\<rparr>"
proof -
  obtain r u where r: "run_state (BuildWorkerPodTemplate W ns c) s = (r, u)"
    by fastforce
  with assms obtain t where t: "r = Inr t"
    by (cases r) (simp_all add: NewNodeSetStatefulSetPod_def)
  define q where "q = (stateful_base W ns (w_GetPodFromTemplate W t ns) i h)\<lparr>pod_Affinity :=
    updateNodeSetPodAntiAffinity (pod_Affinity (stateful_base W ns (w_GetPodFromTemplate W t ns) i h))\<rparr>"
  have self: "\<exists>a. q\<lparr>pod_NodeName := ''''\<rparr> = q\<lparr>pod_Affinity := a, pod_NodeName := ''''\<rparr>"
    by (rule exI [of _ "pod_Affinity q"]) simp
  have "run_state (NewNodeSetStatefulSetPod W ns c i h) s = run_state (do {
      p \<leftarrow> (if spec_PinToNode (ns_Spec ns) then pinPodToNode W (status_OrdinalToNode (ns_Status ns)) q i
           else State_Monad.return q);
      State_Monad.return (Inr (p\<lparr>pod_NodeName := ''''\<rparr>)) }) u"
    by (simp add: NewNodeSetStatefulSetPod_def Let_def q_def stateful_base_def r t)
  moreover obtain a where "fst (run_state (pinPodToNode W (status_OrdinalToNode (ns_Status ns)) q i) u) = q\<lparr>pod_Affinity := a\<rparr>"
    using pinPodToNode_result by blast
  ultimately have "\<exists>a. p = q\<lparr>pod_Affinity := a, pod_NodeName := ''''\<rparr>"
    using assms self by (cases "spec_PinToNode (ns_Spec ns)") (auto simp: split_beta)
  then have "\<exists>a. p = (stateful_base W ns (w_GetPodFromTemplate W t ns) i h)\<lparr>pod_Affinity := a, pod_NodeName := ''''\<rparr>"
    by (simp add: q_def)
  with that r t show thesis by auto
qed

section \<open>A new pod conforms\<close>

text \<open>What the two checks depend on.\<close>

lemma match_cong:
  assumes "pod_Name p = pod_Name q" and "pod_Namespace p = pod_Namespace q"
    and "pod_GenerateName p = pod_GenerateName q" and "pod_Volumes p = pod_Volumes q"
    and "mget (pod_Labels p) LabelNodeSetPodName = mget (pod_Labels q) LabelNodeSetPodName"
    and "mget (pod_Labels p) LabelNodeSetPodHostname = mget (pod_Labels q) LabelNodeSetPodHostname"
  shows "IsIdentityMatch ns p = IsIdentityMatch ns q" and "IsStorageMatch ns p = IsStorageMatch ns q"
    and "GetOrdinal p = GetOrdinal q"
  using assms by (simp_all add: IsIdentityMatch_def IsStorageMatch_def claims_mounted_iff claim_name_def
      GetOrdinal_def GetParentNameAndOrdinal_def)

lemma match_affinity [simp]:
  "IsIdentityMatch ns (p\<lparr>pod_Affinity := a, pod_NodeName := n\<rparr>) = IsIdentityMatch ns p"
  "IsStorageMatch ns (p\<lparr>pod_Affinity := a, pod_NodeName := n\<rparr>) = IsStorageMatch ns p"
  "GetOrdinal (p\<lparr>pod_Affinity := a, pod_NodeName := n\<rparr>) = GetOrdinal p"
  by (rule match_cong; simp)+

lemma match_revision [simp]:
  "IsIdentityMatch ns (p\<lparr>pod_Labels := SetRevision (pod_Labels p) h\<rparr>) = IsIdentityMatch ns p"
  "IsStorageMatch ns (p\<lparr>pod_Labels := SetRevision (pod_Labels p) h\<rparr>) = IsStorageMatch ns p"
  "GetOrdinal (p\<lparr>pod_Labels := SetRevision (pod_Labels p) h\<rparr>) = GetOrdinal p"
  by (rule match_cong; simp)+

lemma initIdentity_hostname:
  assumes "is_statefulset ns" and "\<not> pod_HostNetwork p"
  shows "mget (pod_Labels (initIdentity ns p)) LabelNodeSetPodHostname = pod_Hostname (initIdentity ns p)"
    and "pod_Hostname (initIdentity ns p) \<noteq> ''''"
  using assms by (auto simp: initIdentity_def Let_def GetSlurmNodeName_def GetOrdinalPodName_def)

lemma initIdentity_match:
  assumes "is_statefulset ns" and "nameable ns" and "int32_ordinal i" and "pod_Name p = GetOrdinalPodName ns i"
  shows "IsIdentityMatch ns (initIdentity ns p)" and "GetOrdinal (initIdentity ns p) = i"
    and "pod_Labels (initIdentity ns p) \<noteq> None"
proof -
  have i: "GetOrdinal p = i"
    using GetParentNameAndOrdinal_padded [OF assms(2-4)] by (simp add: GetOrdinal_def)
  then have "GetParentNameAndOrdinal (initIdentity ns p) = (ns_Name ns, i)"
    using assms by (intro GetParentNameAndOrdinal_padded) simp_all
  with assms i show "IsIdentityMatch ns (initIdentity ns p)" and "GetOrdinal (initIdentity ns p) = i"
    by (simp_all add: IsIdentityMatch_def GetOrdinal_def int32_ordinal_def)
  show "pod_Labels (initIdentity ns p) \<noteq> None"
    by (simp add: initIdentity_def Let_def)
qed

lemma UpdateStorage_identity [simp]: "IsIdentityMatch ns (UpdateStorage W ns p) = IsIdentityMatch ns p"
  by (simp add: IsIdentityMatch_def)

lemma stateful_base_conforms:
  fixes b :: pod
  assumes "is_statefulset ns" and "nameable ns" and "int32_ordinal i" and "fair_range W" and "h \<noteq> ''''"
  defines "q \<equiv> stateful_base W ns b i h"
  shows "GetOrdinal q = i \<and> IsIdentityMatch ns q \<and> IsStorageMatch ns q \<and> GetRevision (pod_Labels q) = h \<and>
         (\<not> pod_HostNetwork q \<longrightarrow> mget (pod_Labels q) LabelNodeSetPodHostname = pod_Hostname q \<and> pod_Hostname q \<noteq> '''') \<and>
         mget (pod_Labels q) LabelNodeSetScalingMode = ScalingModeStatefulset"
proof -
  define t where "t = initIdentity ns (b\<lparr>pod_Name := GetOrdinalPodName ns i\<rparr>)"
  have t: "IsIdentityMatch ns t" "GetOrdinal t = i" "pod_Labels t \<noteq> None"
    unfolding t_def using assms by (simp_all add: initIdentity_match)
  have host: "mget (pod_Labels t) LabelNodeSetPodHostname = pod_Hostname t \<and> pod_Hostname t \<noteq> ''''"
    if "\<not> pod_HostNetwork t"
    using that assms(1) initIdentity_hostname unfolding t_def by simp
  have mode: "mget (pod_Labels t) LabelNodeSetScalingMode = ScalingModeStatefulset"
    using assms(1) by (simp add: t_def is_statefulset_def)
  have q: "q = (UpdateStorage W ns t)\<lparr>pod_Labels := SetRevision (pod_Labels (UpdateStorage W ns t)) h\<rparr>"
    using assms(5) by (simp add: q_def stateful_base_def t_def Let_def)
  have "IsStorageMatch ns (UpdateStorage W ns t)"
    using assms t by (intro UpdateStorage_match) (simp_all add: int32_ordinal_def)
  with t host mode assms(5) show ?thesis
    unfolding q match_revision by (simp add: GetRevision_SetRevision)
qed

lemma stateful_base_name:
  assumes "is_statefulset ns" "nameable ns" "int32_ordinal i"
  shows "pod_Name (stateful_base W ns b i h) = GetOrdinalPodName ns i"
  using assms GetParentNameAndOrdinal_padded [OF assms(2,3)] by (simp add: stateful_base_def Let_def GetOrdinal_def)

text \<open>
  C32. The pod \<open>NewNodeSetStatefulSetPod\<close> makes for an ordinal has that ordinal, passes both
  membership checks of its own NodeSet (identity and storage, so the controller never rewrites a
  pod it just made), carries the revision it was made from, is left to the scheduler, and is
  registered in Slurm under the name its hostname label shows. A pod is made unless the extra configuration
  of slurmd is malformed.
\<close>

theorem new_statefulset_pod_conforms:
  assumes "is_statefulset ns" and "nameable ns" and "int32_ordinal i" and "fair_range W" and "h \<noteq> ''''"
    and "slurmdConfArgs W ns = Inr args"
  shows "\<exists>p. fst (run_state (NewNodeSetStatefulSetPod W ns c i h) s) = Inr p \<and>
         GetOrdinal p = i \<and> IsIdentityMatch ns p \<and> IsStorageMatch ns p \<and>
         GetRevision (pod_Labels p) = h \<and> pod_NodeName p = '''' \<and>
         (\<not> pod_HostNetwork p \<longrightarrow> mget (pod_Labels p) LabelNodeSetPodHostname = GetSlurmNodeName p)"
proof -
  obtain p where made: "fst (run_state (NewNodeSetStatefulSetPod W ns c i h) s) = Inr p"
    using NewNodeSetStatefulSetPod_returns [OF assms(6)] by blast
  then obtain b a where p: "p = (stateful_base W ns b i h)\<lparr>pod_Affinity := a, pod_NodeName := ''''\<rparr>"
    by (rule NewNodeSetStatefulSetPod_result)
  show ?thesis
    unfolding made using stateful_base_conforms [OF assms(1-5), of b] by (auto simp: p GetSlurmNodeName_def)
qed

lemma no_extra_conf: "spec_ExtraConf (ns_Spec ns) = '''' \<Longrightarrow> \<exists>args. slurmdConfArgs W ns = Inr args"
  by (simp add: slurmdConfArgs_def)

lemma sample_no_extra_conf [simp]: "spec_ExtraConf (ns_Spec sample_nodeset) = ''''"
  by (simp add: sample_nodeset_def SetNodeSetDefaults_spec_def Let_def empty_nodeset_spec_def)

theorem new_statefulset_pod_conforms_witness:
  "\<exists>p. fst (run_state (NewNodeSetStatefulSetPod quiet_world sample_nodeset empty_controller 3 ''h'') st_init) = Inr p \<and>
     GetOrdinal p = 3"
proof -
  obtain args where "slurmdConfArgs quiet_world sample_nodeset = Inr args"
    using no_extra_conf sample_no_extra_conf by blast
  then show ?thesis
    using new_statefulset_pod_conforms [of sample_nodeset 3 quiet_world "''h''" args empty_controller st_init]
    by (auto simp: int32_ordinal_def)
qed

end
