(* ===== verification/SlurmControl.thy ===== *)
theory SlurmControl
  imports Naming
begin

text \<open>
  The Slurm side of the NodeSet controller:
  \<^verbatim>\<open>internal/controller/nodeset/slurmcontrol/slurmcontrol.go\<close>.

  Every operation looks up the client of the NodeSet's cluster, reads the Slurm node of a Pod (or
  lists nodes or jobs) and possibly sends an update. Without a client, and when Slurm reports
  that there is no such node, an operation does nothing. The REST client is a parameter of the
  model; so are the JSON encoding of \<open>PodInfo\<close> and the expansion of host lists.
\<close>

section \<open>Errors\<close>

text \<open>
  \<^verbatim>\<open>tolerateError\<close> compares the text of an error with the texts of HTTP status 404 and 204.
  An aggregate of one error has the text of that error.
\<close>

fun tolerateError :: "err \<Rightarrow> bool" where
  "tolerateError (GoError t) = (t = ''Not Found'' \<or> t = ''No Content'')"
| "tolerateError (Aggregate [e]) = tolerateError e"
| "tolerateError _ = False"

section \<open>Operations on one node\<close>

definition lookupClient :: "world \<Rightarrow> nodeset \<Rightarrow> client option prog" where
  "lookupClient W ns = LookupClient W (spec_ControllerRef (ns_Spec ns))"

text \<open>
  The common prologue: \<open>absent\<close> is returned when there is no client or the node is not found,
  \<open>failed e\<close> when it cannot be read.
\<close>

definition slurm_node_op ::
  "world \<Rightarrow> nodeset \<Rightarrow> pod \<Rightarrow> 'a \<Rightarrow> (err \<Rightarrow> 'a) \<Rightarrow> (client \<Rightarrow> slurm_node \<Rightarrow> 'a prog) \<Rightarrow> 'a prog" where
  "slurm_node_op W ns p absent failed k = do {
     slurmClient \<leftarrow> lookupClient W ns;
     case slurmClient of
       None \<Rightarrow> State_Monad.return absent
     | Some c \<Rightarrow> do {
         r \<leftarrow> SlurmGet W c (GetSlurmNodeName p);
         case r of
           Inl e \<Rightarrow> State_Monad.return (if tolerateError e then absent else failed e)
         | Inr slurmNode \<Rightarrow> k c slurmNode
       }
   }"

text \<open>\<^verbatim>\<open>if err := slurmClient.Update(...); err != nil { if tolerateError(err) { return nil }; return err }; return nil\<close>\<close>

definition send_update :: "world \<Rightarrow> client \<Rightarrow> slurm_node \<Rightarrow> node_msg \<Rightarrow> error prog" where
  "send_update W c n req = do {
     r \<leftarrow> SlurmUpdate W c n req;
     State_Monad.return (case r of Some e \<Rightarrow> if tolerateError e then None else Some e | None \<Rightarrow> None)
   }"

definition RefreshNodeCache :: "world \<Rightarrow> nodeset \<Rightarrow> error prog" where
  "RefreshNodeCache W ns = do {
     slurmClient \<leftarrow> lookupClient W ns;
     case slurmClient of
       None \<Rightarrow> ok
     | Some c \<Rightarrow> do {
         r \<leftarrow> SlurmListNodes W c True;
         case r of Inl e \<Rightarrow> fail e | Inr _ \<Rightarrow> ok
       }
   }"

definition podInfo_of :: "nodeset \<Rightarrow> pod \<Rightarrow> pod_info" where
  "podInfo_of ns p = \<lparr>pi_Namespace = pod_Namespace p, pi_PodName = pod_Name p, pi_Node = pod_NodeName p,
     pi_NodeSetName = ns_Name ns, pi_NodeSetUID = ns_UID ns\<rparr>"

definition ParseIntoPodInfo :: "world \<Rightarrow> string option \<Rightarrow> pod_info \<times> error" where
  "ParseIntoPodInfo W str = w_UnmarshalPodInfo W (deref str '''')"

definition PodInfo_Equal :: "world \<Rightarrow> pod_info \<Rightarrow> pod_info \<Rightarrow> bool" where
  "PodInfo_Equal W a b \<longleftrightarrow> w_MarshalPodInfo W a = w_MarshalPodInfo W b"

definition UpdateNodeWithPodInfo :: "world \<Rightarrow> nodeset \<Rightarrow> pod \<Rightarrow> error prog" where
  "UpdateNodeWithPodInfo W ns p =
     slurm_node_op W ns p None Some (\<lambda>c slurmNode.
       let podInfo = podInfo_of ns p;
           podInfoOld = fst (ParseIntoPodInfo W (sn_Comment slurmNode))
       in if PodInfo_Equal W podInfoOld podInfo then ok
          else do {
            r \<leftarrow> SlurmUpdate W c slurmNode (empty_msg\<lparr>um_Comment := Some (w_MarshalPodInfo W podInfo)\<rparr>);
            case r of
              Some e \<Rightarrow>
                if \<not> tolerateError e then fail e
                else if pi_Node podInfoOld \<noteq> ''''
                then send_update W c slurmNode (empty_msg\<lparr>um_State := Some [IDLE]\<rparr>)
                else ok
            | None \<Rightarrow>
                if pi_Node podInfoOld \<noteq> ''''
                then send_update W c slurmNode (empty_msg\<lparr>um_State := Some [IDLE]\<rparr>)
                else ok
          })"

definition UpdateNodeTopology :: "world \<Rightarrow> nodeset \<Rightarrow> pod \<Rightarrow> string \<Rightarrow> error prog" where
  "UpdateNodeTopology W ns p topologySpec =
     slurm_node_op W ns p None Some (\<lambda>c slurmNode.
       if deref (sn_Topology slurmNode) '''' = topologySpec then ok
       else send_update W c slurmNode (empty_msg\<lparr>um_TopologyStr := Some topologySpec\<rparr>))"

definition nodeReasonPrefix :: string where
  "nodeReasonPrefix = ''slurm-operator:''"

definition prefixedReason :: "string \<Rightarrow> string" where
  "prefixedReason reason = (if reason \<noteq> '''' then nodeReasonPrefix @ '' '' @ reason else '''')"

definition MakeNodeDrain :: "world \<Rightarrow> nodeset \<Rightarrow> pod \<Rightarrow> string \<Rightarrow> error prog" where
  "MakeNodeDrain W ns p reason =
     slurm_node_op W ns p None Some (\<lambda>c slurmNode.
       if has_state slurmNode DRAIN \<and> deref (sn_Reason slurmNode) '''' = prefixedReason reason then ok
       else send_update W c slurmNode
              (empty_msg\<lparr>um_State := Some [DRAIN], um_Reason := Some (prefixedReason reason)\<rparr>))"

definition MakeNodeUndrain :: "world \<Rightarrow> nodeset \<Rightarrow> pod \<Rightarrow> string \<Rightarrow> error prog" where
  "MakeNodeUndrain W ns p reason =
     slurm_node_op W ns p None Some (\<lambda>c slurmNode.
       if \<not> has_state slurmNode DRAIN \<or> has_state slurmNode UNDRAIN then ok
       else send_update W c slurmNode
              (empty_msg\<lparr>um_State := Some [UNDRAIN], um_Reason := Some (prefixedReason reason)\<rparr>))"

text \<open>The queries return a truth value and an error; without a node the answer is \<open>True\<close>.\<close>

definition slurm_query ::
  "world \<Rightarrow> nodeset \<Rightarrow> pod \<Rightarrow> (slurm_node \<Rightarrow> bool) \<Rightarrow> (bool \<times> error) prog" where
  "slurm_query W ns p test =
     slurm_node_op W ns p (True, None) (\<lambda>e. (False, Some e)) (\<lambda>c n. State_Monad.return (test n, None))"

definition IsNodeDrain :: "world \<Rightarrow> nodeset \<Rightarrow> pod \<Rightarrow> (bool \<times> error) prog" where
  "IsNodeDrain W ns p = slurm_query W ns p (\<lambda>n. has_state n DRAIN)"

definition node_drained :: "slurm_node \<Rightarrow> bool" where
  "node_drained n =
     (let isBusy = has_state n ALLOCATED \<or> has_state n MIXED \<or> has_state n COMPLETING;
          isDrain = has_state n DRAIN \<and> \<not> has_state n UNDRAIN
      in isDrain \<and> \<not> isBusy)"

definition IsNodeDrained :: "world \<Rightarrow> nodeset \<Rightarrow> pod \<Rightarrow> (bool \<times> error) prog" where
  "IsNodeDrained W ns p = slurm_query W ns p node_drained"

definition IsNodeDownForUnresponsive :: "world \<Rightarrow> nodeset \<Rightarrow> pod \<Rightarrow> (bool \<times> error) prog" where
  "IsNodeDownForUnresponsive W ns p = slurm_query W ns p (\<lambda>n.
     has_state n DOWN \<and> str_contains ''Not responding'' (deref (sn_Reason n) ''''))"

definition reason_ours :: "slurm_node \<Rightarrow> bool" where
  "reason_ours n =
     (let nodeReason = deref (sn_Reason n) ''''
      in \<not> (nodeReason \<noteq> '''' \<and> \<not> prefix nodeReasonPrefix nodeReason))"

definition IsNodeReasonOurs :: "world \<Rightarrow> nodeset \<Rightarrow> pod \<Rightarrow> (bool \<times> error) prog" where
  "IsNodeReasonOurs W ns p = slurm_query W ns p reason_ours"

definition DeleteNode :: "world \<Rightarrow> nodeset \<Rightarrow> string \<Rightarrow> error prog" where
  "DeleteNode W ns nodeName = do {
     slurmClient \<leftarrow> lookupClient W ns;
     case slurmClient of
       None \<Rightarrow> ok
     | Some c \<Rightarrow> do {
         r \<leftarrow> SlurmDelete W c nodeName;
         State_Monad.return (case r of Some e \<Rightarrow> if \<not> tolerateError e then Some e else None | None \<Rightarrow> None)
       }
   }"

section \<open>Their effects\<close>

lemma keeps_lookupClient [keeps_intros]: "permits Q reads \<Longrightarrow> keeps (logs Q) (lookupClient W ns)"
  unfolding lookupClient_def by (intro keeps_intros)

lemma keeps_slurm_node_op:
  assumes "permits Q reads" and "\<And>c n. keeps (logs Q) (k c n)"
  shows "keeps (logs Q) (slurm_node_op W ns p a f k)"
  unfolding slurm_node_op_def by (intro keeps_intros assms)

lemma keeps_send_update [keeps_intros]: "permits Q slurm_writes \<Longrightarrow> keeps (logs Q) (send_update W c n m)"
  unfolding send_update_def by (intro keeps_intros)

text \<open>What every client of the interface relies on: queries only read, updates only touch Slurm.\<close>

lemma keeps_slurm_queries [keeps_intros]:
  assumes "permits Q reads"
  shows "keeps (logs Q) (IsNodeDrain W ns p)" "keeps (logs Q) (IsNodeDrained W ns p)"
    "keeps (logs Q) (IsNodeDownForUnresponsive W ns p)" "keeps (logs Q) (IsNodeReasonOurs W ns p)"
    "keeps (logs Q) (RefreshNodeCache W ns)"
  unfolding IsNodeDrain_def IsNodeDrained_def IsNodeDownForUnresponsive_def IsNodeReasonOurs_def
    RefreshNodeCache_def slurm_query_def
  by (intro keeps_intros keeps_slurm_node_op assms)+

lemma keeps_slurm_updates [keeps_intros]:
  assumes "permits Q reads" and "permits Q slurm_writes"
  shows "keeps (logs Q) (MakeNodeDrain W ns p r)" "keeps (logs Q) (MakeNodeUndrain W ns p r)"
    "keeps (logs Q) (UpdateNodeTopology W ns p t)" "keeps (logs Q) (UpdateNodeWithPodInfo W ns p)"
    "keeps (logs Q) (DeleteNode W ns n)"
  unfolding MakeNodeDrain_def MakeNodeUndrain_def UpdateNodeTopology_def UpdateNodeWithPodInfo_def
    DeleteNode_def Let_def
  by (intro keeps_intros keeps_slurm_node_op assms)+

section \<open>What an answer means\<close>

text \<open>
  The history right after a query about the node of pod \<open>p\<close> that found no client, found that
  Slurm has no such node, or read a node that passes the test.
\<close>

definition answered :: "(slurm_node \<Rightarrow> bool) \<Rightarrow> nodeset \<Rightarrow> pod \<Rightarrow> history \<Rightarrow> bool" where
  "answered test ns p h \<longleftrightarrow>
     (\<exists>h'. h = Rd (LookedUpClient (spec_ControllerRef (ns_Spec ns)) None) # h') \<or>
     (\<exists>c r h'. h = Rd (GotSlurmNode c (GetSlurmNodeName p) r) #
        Rd (LookedUpClient (spec_ControllerRef (ns_Spec ns)) (Some c)) # h' \<and>
        (case r of Inl e \<Rightarrow> tolerateError e | Inr n \<Rightarrow> test n))"

lemma run_slurm_query:
  "\<exists>b e h. run_state (slurm_query W ns p test) s = ((b, e), s\<lparr>log := h @ log s\<rparr>) \<and>
     (b \<longleftrightarrow> answered test ns p (h @ log s)) \<and> (b \<longrightarrow> e = None) \<and> list_all reads h"
proof -
  let ?k = "spec_ControllerRef (ns_Spec ns)" and ?n = "GetSlurmNodeName p"
  let ?look = "\<lambda>x. Rd (LookedUpClient ?k x)"
  show ?thesis
  proof (cases "cm_Get (w_ClientMap W (log s)) ?k")
    case None
    then show ?thesis
      by (intro exI [of _ True] exI [of _ None] exI [of _ "[?look None]"])
        (simp add: slurm_query_def slurm_node_op_def lookupClient_def call_defs answered_def)
  next
    case (Some c)
    let ?r = "w_SlurmGet W (?look (Some c) # log s) c ?n"
    let ?h = "[Rd (GotSlurmNode c ?n ?r), ?look (Some c)]"
    have run: "run_state (slurm_query W ns p test) s =
      ((case ?r of Inl e \<Rightarrow> if tolerateError e then (True, None) else (False, Some e)
        | Inr n \<Rightarrow> (test n, None)), s\<lparr>log := ?h @ log s\<rparr>)"
      using Some by (simp add: slurm_query_def slurm_node_op_def lookupClient_def call_defs split: sum.split)
    show ?thesis
    proof (cases ?r)
      case (Inl e)
      with run show ?thesis
        by (intro exI [of _ "tolerateError e"] exI [of _ "if tolerateError e then None else Some e"] exI [of _ ?h])
          (auto simp: answered_def)
    next
      case (Inr n)
      with run show ?thesis
        by (intro exI [of _ "test n"] exI [of _ None] exI [of _ ?h]) (auto simp: answered_def)
    qed
  qed
qed

lemma triple_slurm_query:
  assumes "\<And>s h. P s \<Longrightarrow> list_all reads h \<Longrightarrow> P' (s\<lparr>log := h @ log s\<rparr>)"
  shows "triple P (slurm_query W ns p test)
    (\<lambda>r s. P' s \<and> (fst r \<longrightarrow> snd r = None \<and> answered test ns p (log s)))"
proof (rule tripleI)
  fix s assume "P s"
  obtain b e h where "run_state (slurm_query W ns p test) s = ((b, e), s\<lparr>log := h @ log s\<rparr>)"
    "b \<longrightarrow> e = None \<and> answered test ns p (h @ log s)" "list_all reads h"
    using run_slurm_query [of W ns p test s] by blast
  with assms [OF \<open>P s\<close>, of h] show "P' (snd (run_state (slurm_query W ns p test) s)) \<and>
      (fst (fst (run_state (slurm_query W ns p test) s)) \<longrightarrow>
        snd (fst (run_state (slurm_query W ns p test) s)) = None \<and>
        answered test ns p (log (snd (run_state (slurm_query W ns p test) s))))"
    by simp
qed

text \<open>
  \<open>IsNodeDrained\<close> answers true without an error exactly when there is no Slurm client, Slurm
  has no such node, or the node read last has DRAIN without UNDRAIN and is neither allocated, mixed
  nor completing. A positive answer never comes with an error, and nothing but the history of reads
  changes.
\<close>

theorem IsNodeDrained_answer:
  "\<exists>b e h. run_state (IsNodeDrained W ns p) s = ((b, e), s\<lparr>log := h @ log s\<rparr>) \<and>
     (b \<longleftrightarrow> answered (\<lambda>n. has_state n DRAIN \<and> \<not> has_state n UNDRAIN \<and> \<not> has_state n ALLOCATED \<and>
                          \<not> has_state n MIXED \<and> \<not> has_state n COMPLETING) ns p (h @ log s)) \<and>
     \<not> (b \<and> e \<noteq> None) \<and> list_all reads h"
proof -
  have eq: "node_drained = (\<lambda>n. has_state n DRAIN \<and> \<not> has_state n UNDRAIN \<and> \<not> has_state n ALLOCATED \<and>
                          \<not> has_state n MIXED \<and> \<not> has_state n COMPLETING)"
    by (auto simp: node_drained_def Let_def fun_eq_iff)
  show ?thesis
    unfolding eq [symmetric] IsNodeDrained_def
    using run_slurm_query [of W ns p node_drained s] by auto
qed

definition own_reasons :: "history \<Rightarrow> ev \<Rightarrow> bool" where
  "own_reasons h e \<longleftrightarrow> (\<forall>c n m r t. e = Wr (UpdatedSlurmNode c n m r) \<longrightarrow> um_Reason m = Some t \<longrightarrow>
     reason_ours (n\<lparr>sn_Reason := Some t\<rparr>))"

lemma reason_ours_prefixed: "reason_ours (n\<lparr>sn_Reason := Some (prefixedReason r)\<rparr>)"
  by (simp add: reason_ours_def prefixedReason_def Let_def)

lemma own_reasons_permits [simp]: "permits own_reasons reads"
  by (rule permitsI) (auto simp: own_reasons_def)

lemma keeps_own_send_update:
  "(\<And>t. um_Reason m = Some t \<Longrightarrow> reason_ours (n\<lparr>sn_Reason := Some t\<rparr>)) \<Longrightarrow>
   keeps (logs own_reasons) (send_update W c n m)"
  unfolding send_update_def call_defs by (intro keeps_intros keeps_logs_call) (auto simp: own_reasons_def)

text \<open>
  The operator only ever writes node reasons that are empty or start with its own prefix, and
  a node with such a reason is one whose reason \<open>IsNodeReasonOurs\<close> recognises: draining or
  undraining never makes the operator treat its own reason as a foreign one.
\<close>

theorem node_reasons_ours:
  "keeps (logs own_reasons) (MakeNodeDrain W ns p r) \<and> keeps (logs own_reasons) (MakeNodeUndrain W ns p r) \<and>
   keeps (logs own_reasons) (UpdateNodeTopology W ns p r) \<and> keeps (logs own_reasons) (UpdateNodeWithPodInfo W ns p)"
  unfolding MakeNodeDrain_def MakeNodeUndrain_def UpdateNodeTopology_def UpdateNodeWithPodInfo_def Let_def SlurmUpdate_def
  by (intro conjI keeps_slurm_node_op own_reasons_permits)
    (auto intro!: keeps_intros keeps_own_send_update keeps_logs_call
      simp: reason_ours_prefixed empty_msg_def own_reasons_def)

section \<open>Node status\<close>

definition StatePrefix :: string where "StatePrefix = ''SlurmNodeState''"

fun condition_of :: "node_state \<Rightarrow> string" where
  "condition_of ALLOCATED = StatePrefix @ ''Allocated''"
| "condition_of DOWN = StatePrefix @ ''Down''"
| "condition_of ERROR = StatePrefix @ ''Error''"
| "condition_of FUTURE = StatePrefix @ ''Future''"
| "condition_of IDLE = StatePrefix @ ''Idle''"
| "condition_of MIXED = StatePrefix @ ''Mixed''"
| "condition_of UNKNOWN = StatePrefix @ ''Unknown''"
| "condition_of COMPLETING = StatePrefix @ ''Completing''"
| "condition_of DRAIN = StatePrefix @ ''Drain''"
| "condition_of FAIL = StatePrefix @ ''Fail''"
| "condition_of INVALID = StatePrefix @ ''Invalid''"
| "condition_of INVALIDREG = StatePrefix @ ''InvalidReg''"
| "condition_of MAINTENANCE = StatePrefix @ ''Maintenance''"
| "condition_of NOTRESPONDING = StatePrefix @ ''NotResponding''"
| "condition_of UNDRAIN = StatePrefix @ ''Undrain''"
| "condition_of (OtherNodeState x) = StatePrefix @ x"

record slurm_node_status =
  ss_Total :: int
  ss_Allocated :: int
  ss_Down :: int
  ss_Error :: int
  ss_Future :: int
  ss_Idle :: int
  ss_Mixed :: int
  ss_Unknown :: int
  ss_Completing :: int
  ss_Drain :: int
  ss_Fail :: int
  ss_Invalid :: int
  ss_InvalidReg :: int
  ss_Maintenance :: int
  ss_NotResponding :: int
  ss_Undrain :: int
  ss_NodeStates :: "string \<rightharpoonup> pod_condition list"

definition empty_status :: slurm_node_status where
  "empty_status = \<lparr>ss_Total = 0, ss_Allocated = 0, ss_Down = 0, ss_Error = 0, ss_Future = 0, ss_Idle = 0,
     ss_Mixed = 0, ss_Unknown = 0, ss_Completing = 0, ss_Drain = 0, ss_Fail = 0, ss_Invalid = 0,
     ss_InvalidReg = 0, ss_Maintenance = 0, ss_NotResponding = 0, ss_Undrain = 0,
     ss_NodeStates = Map.empty\<rparr>"

definition nodeState :: "slurm_node \<Rightarrow> string \<Rightarrow> pod_condition" where
  "nodeState n condType = \<lparr>pc_Type = condType, pc_Status = ''True'', pc_Message = deref (sn_Reason n) '''',
     pc_LastTransitionTime = 0\<rparr>"

text \<open>The switch over base states takes the first that is set; each flag is tested on its own.\<close>

definition base_states :: "node_state list" where
  "base_states = [ALLOCATED, DOWN, ERROR, FUTURE, IDLE, MIXED, UNKNOWN]"

definition flag_states :: "node_state list" where
  "flag_states = [COMPLETING, DRAIN, FAIL, INVALID, INVALIDREG, MAINTENANCE, NOTRESPONDING, UNDRAIN]"

definition base_state :: "slurm_node \<Rightarrow> node_state option" where
  "base_state n = List.find (has_state n) base_states"

definition counted_states :: "slurm_node \<Rightarrow> node_state list" where
  "counted_states n =
     (case base_state n of Some b \<Rightarrow> [b] | None \<Rightarrow> []) @ filter (has_state n) flag_states"

definition bump :: "slurm_node \<Rightarrow> node_state \<Rightarrow> int \<Rightarrow> int" where
  "bump n x k = (if x \<in> set (counted_states n) then k + 1 else k)"

definition append_states :: "slurm_node \<Rightarrow> string \<Rightarrow> (string \<rightharpoonup> pod_condition list) \<Rightarrow> string \<rightharpoonup> pod_condition list" where
  "append_states n nodeName m =
     (if counted_states n = [] then m
      else m(nodeName \<mapsto> (case m nodeName of Some cs \<Rightarrow> cs | None \<Rightarrow> []) @
             map (\<lambda>x. nodeState n (condition_of x)) (counted_states n)))"

definition count_node :: "string set \<Rightarrow> slurm_node_status \<Rightarrow> slurm_node \<Rightarrow> slurm_node_status" where
  "count_node podNodeNameSet s n =
     (let nodeName = deref (sn_Name n) ''''
      in if nodeName \<notin> podNodeNameSet then s
         else s\<lparr>ss_Total := ss_Total s + 1,
                ss_Allocated := bump n ALLOCATED (ss_Allocated s), ss_Down := bump n DOWN (ss_Down s),
                ss_Error := bump n ERROR (ss_Error s), ss_Future := bump n FUTURE (ss_Future s),
                ss_Idle := bump n IDLE (ss_Idle s), ss_Mixed := bump n MIXED (ss_Mixed s),
                ss_Unknown := bump n UNKNOWN (ss_Unknown s),
                ss_Completing := bump n COMPLETING (ss_Completing s), ss_Drain := bump n DRAIN (ss_Drain s),
                ss_Fail := bump n FAIL (ss_Fail s), ss_Invalid := bump n INVALID (ss_Invalid s),
                ss_InvalidReg := bump n INVALIDREG (ss_InvalidReg s),
                ss_Maintenance := bump n MAINTENANCE (ss_Maintenance s),
                ss_NotResponding := bump n NOTRESPONDING (ss_NotResponding s),
                ss_Undrain := bump n UNDRAIN (ss_Undrain s),
                ss_NodeStates := append_states n nodeName (ss_NodeStates s)\<rparr>)"

definition count_nodes :: "pod list \<Rightarrow> slurm_node list \<Rightarrow> slurm_node_status" where
  "count_nodes pods nodes = foldl (count_node (GetSlurmNodeName ` set pods)) empty_status nodes"

definition CalculateNodeStatus :: "world \<Rightarrow> nodeset \<Rightarrow> pod list \<Rightarrow> (slurm_node_status \<times> error) prog" where
  "CalculateNodeStatus W ns pods = do {
     slurmClient \<leftarrow> lookupClient W ns;
     case slurmClient of
       None \<Rightarrow> State_Monad.return (empty_status, None)
     | Some c \<Rightarrow> do {
         r \<leftarrow> SlurmListNodes W c False;
         State_Monad.return
           (case r of
              Inl e \<Rightarrow> (empty_status, if tolerateError e then None else Some e)
            | Inr nodes \<Rightarrow> (count_nodes pods nodes, None))
       }
   }"

definition members :: "pod list \<Rightarrow> slurm_node list \<Rightarrow> slurm_node list" where
  "members pods nodes = filter (\<lambda>n. deref (sn_Name n) '''' \<in> GetSlurmNodeName ` set pods) nodes"

definition cnt :: "node_state \<Rightarrow> slurm_node list \<Rightarrow> int" where
  "cnt x ns = int (length (filter (\<lambda>n. x \<in> set (counted_states n)) ns))"

lemma cnt_snoc: "cnt x (ns @ [n]) = bump n x (cnt x ns)"
  by (simp add: cnt_def bump_def)

lemma count_nodes_counters:
  "ss_Total (count_nodes pods nodes) = int (length (members pods nodes))"
  "ss_Allocated (count_nodes pods nodes) = cnt ALLOCATED (members pods nodes)"
  "ss_Down (count_nodes pods nodes) = cnt DOWN (members pods nodes)"
  "ss_Error (count_nodes pods nodes) = cnt ERROR (members pods nodes)"
  "ss_Future (count_nodes pods nodes) = cnt FUTURE (members pods nodes)"
  "ss_Idle (count_nodes pods nodes) = cnt IDLE (members pods nodes)"
  "ss_Mixed (count_nodes pods nodes) = cnt MIXED (members pods nodes)"
  "ss_Unknown (count_nodes pods nodes) = cnt UNKNOWN (members pods nodes)"
  "ss_Drain (count_nodes pods nodes) = cnt DRAIN (members pods nodes)"
  by (induction nodes rule: rev_induct)
    (auto simp: count_nodes_def members_def empty_status_def count_node_def Let_def cnt_snoc cnt_def [of _ "[]"])

lemma base_state_in: "base_state n = Some x \<Longrightarrow> x \<in> set base_states"
  by (auto simp: base_state_def find_Some_iff)

lemma base_not_flag: "set base_states \<inter> set flag_states = {}"
  by (simp add: base_states_def flag_states_def)

lemma counted_base:
  assumes "x \<in> set base_states"
  shows "x \<in> set (counted_states n) \<longleftrightarrow> base_state n = Some x"
proof -
  have "x \<notin> set flag_states" using assms base_not_flag by blast
  then show ?thesis by (cases "base_state n") (auto simp: counted_states_def)
qed

lemma counted_flag:
  assumes "x \<in> set flag_states"
  shows "x \<in> set (counted_states n) \<longleftrightarrow> has_state n x"
proof -
  have "base_state n \<noteq> Some x" using assms base_not_flag base_state_in by blast
  with assms show ?thesis by (cases "base_state n") (auto simp: counted_states_def)
qed

lemma sum_base_states:
  "(\<Sum>x \<leftarrow> base_states. cnt x ns) = int (length (filter (\<lambda>n. base_state n \<noteq> None) ns))"
proof (induction ns rule: rev_induct)
  case Nil
  then show ?case by (simp add: cnt_def)
next
  case (snoc n ns)
  have "(\<Sum>x \<leftarrow> base_states. bump n x (cnt x ns)) = (\<Sum>x \<leftarrow> base_states. cnt x ns) + (if base_state n \<noteq> None then 1 else 0)"
  proof (cases "base_state n")
    case None
    then have "bump n x k = k" if "x \<in> set base_states" for x k
      using counted_base [OF that, of n] by (simp add: bump_def)
    with None show ?thesis by (simp cong: map_cong)
  next
    case (Some b)
    then have "bump n x k = k + (if x = b then 1 else 0)" if "x \<in> set base_states" for x k
      using counted_base [OF that, of n] by (simp add: bump_def)
    then have "(\<Sum>x \<leftarrow> base_states. bump n x (cnt x ns)) =
        (\<Sum>x \<leftarrow> base_states. cnt x ns) + (\<Sum>x \<leftarrow> base_states. if x = b then 1 else 0)"
      by (simp add: sum_list_addf cong: map_cong)
    moreover have "(\<Sum>x \<leftarrow> base_states. if x = b then 1 else 0 :: int) = 1"
      using base_state_in [OF Some] by (auto simp: base_states_def)
    ultimately show ?thesis using Some by simp
  qed
  with snoc show ?case by (simp add: cnt_snoc)
qed

text \<open>
  When Slurm lists its nodes, the totals \<open>CalculateNodeStatus\<close> returns cover exactly the listed
  nodes that belong to the given pods: each node with a base state is counted under exactly one base
  state, so the base counters add up to the number of such nodes, never more than the total; and the
  drain counter is the number of nodes with the DRAIN flag.
\<close>

theorem CalculateNodeStatus_counts:
  assumes "run_state (CalculateNodeStatus W ns pods) s = ((st, None), t)"
    and "log t = Rd (ListedSlurmNodes c False (Inr nodes)) # h"
  shows "let mine = filter (\<lambda>n. deref (sn_Name n) '''' \<in> GetSlurmNodeName ` set pods) nodes in
     ss_Total st = int (length mine) \<and>
     ss_Allocated st + ss_Down st + ss_Error st + ss_Future st + ss_Idle st + ss_Mixed st + ss_Unknown st =
       int (length (filter (\<lambda>n. \<exists>x \<in> set base_states. has_state n x) mine)) \<and>
     ss_Drain st = int (length (filter (\<lambda>n. has_state n DRAIN) mine)) \<and>
     ss_Idle st = int (length (filter (\<lambda>n. has_state n IDLE \<and> \<not> has_state n ALLOCATED \<and> \<not> has_state n DOWN \<and>
       \<not> has_state n ERROR \<and> \<not> has_state n FUTURE) mine))"
proof -
  have st: "st = count_nodes pods nodes"
    using assms by (auto simp: CalculateNodeStatus_def lookupClient_def call_defs split: option.splits sum.splits)
  have "base_state n \<noteq> None \<longleftrightarrow> (\<exists>x \<in> set base_states. has_state n x)" for n
    by (auto simp: base_state_def find_None_iff)
  then have base: "(\<Sum>x \<leftarrow> base_states. cnt x (members pods nodes)) =
      int (length (filter (\<lambda>n. \<exists>x \<in> set base_states. has_state n x) (members pods nodes)))"
    using sum_base_states by simp
  have idle: "IDLE \<in> set (counted_states n) \<longleftrightarrow> has_state n IDLE \<and> \<not> has_state n ALLOCATED \<and> \<not> has_state n DOWN \<and>
       \<not> has_state n ERROR \<and> \<not> has_state n FUTURE" for n
    by (subst counted_base) (simp_all add: base_states_def base_state_def)
  have drain: "DRAIN \<in> set (counted_states n) \<longleftrightarrow> has_state n DRAIN" for n
    by (rule counted_flag) (simp add: flag_states_def)
  show ?thesis
    using base unfolding st Let_def members_def [symmetric]
    by (simp add: count_nodes_counters base_states_def) (simp add: cnt_def idle drain)
qed

definition one_client_world :: world where
  "one_client_world = quiet_world\<lparr>w_ClientMap := (\<lambda>h. snd (cm_Add NewClientMap ('''', '''') 1)),
     w_SlurmListNodes := (\<lambda>h c b. Inr [\<lparr>sn_Name = Some ''gpu-0'', sn_State = [IDLE, DRAIN], sn_Reason = None,
        sn_Comment = None, sn_Topology = None\<rparr>])\<rparr>"

lemma one_client_found:
  "cm_Get (w_ClientMap one_client_world h) (spec_ControllerRef (ns_Spec sample_nodeset)) = Some 1"
  by (simp add: one_client_world_def sample_nodeset_def SetNodeSetDefaults_spec_def empty_nodeset_spec_def
      Let_def cm_defs NewClientMap_def nsname_String_def)

theorem CalculateNodeStatus_counts_witness:
  "ss_Drain (fst (fst (run_state (CalculateNodeStatus one_client_world sample_nodeset
     [empty_pod\<lparr>pod_Hostname := ''gpu-0''\<rparr>]) st_init))) = 1"
proof -
  let ?nodes = "[\<lparr>sn_Name = Some ''gpu-0'', sn_State = [IDLE, DRAIN], sn_Reason = None,
        sn_Comment = None, sn_Topology = None\<rparr>]"
  let ?p = "empty_pod\<lparr>pod_Hostname := ''gpu-0''\<rparr>"
  let ?look = "Rd (LookedUpClient (spec_ControllerRef (ns_Spec sample_nodeset)) (Some 1))"
  have run: "run_state (CalculateNodeStatus one_client_world sample_nodeset [?p]) st_init =
    ((count_nodes [?p] ?nodes, None), st_init\<lparr>log := [Rd (ListedSlurmNodes 1 False (Inr ?nodes)), ?look]\<rparr>)"
    using one_client_found by (simp add: CalculateNodeStatus_def lookupClient_def call_defs)
      (simp add: one_client_world_def)
  have "GetSlurmNodeName ?p = ''gpu-0''"
    by (simp add: GetSlurmNodeName_def empty_pod_def ScalingModeStatefulset_def)
  then show ?thesis
    using CalculateNodeStatus_counts [OF run, of 1 ?nodes "[?look]"] by (simp add: run Let_def has_state_def)
qed

section \<open>Deadlines of running jobs\<close>

text \<open>
  Seconds of the Unix epoch, counted from Go's zero time; a number of minutes as a 64-bit
  \<^verbatim>\<open>time.Duration\<close>, whose multiplication wraps around.
\<close>

definition unixEpoch :: int where "unixEpoch = 62135596800"

definition wrap64 :: "int \<Rightarrow> int" where
  "wrap64 x = (x + 2 ^ 63) mod 2 ^ 64 - 2 ^ 63"

definition infiniteDuration :: duration where "infiniteDuration = 2 ^ 63 - 1"

definition job_start :: "job \<Rightarrow> time" where
  "job_start j = (unixEpoch + deref (deref (job_StartTime j) None) 0) * Second"

definition job_limit :: "job \<Rightarrow> duration" where
  "job_limit j =
     (let (number, infinite) = deref (job_TimeLimit j) (None, None)
      in if deref infinite False then infiniteDuration else wrap64 (deref number 0 * Minute))"

definition job_deadline :: "job \<Rightarrow> time" where
  "job_deadline j = job_start j + job_limit j"

definition job_running :: "job \<Rightarrow> bool" where
  "job_running j \<longleftrightarrow> ''RUNNING'' \<in> set (job_State j)"

fun push_deadlines :: "world \<Rightarrow> string set \<Rightarrow> job list \<Rightarrow> time_store \<Rightarrow> err + time_store" where
  "push_deadlines W names [] ts = Inr ts"
| "push_deadlines W names (j # jobs) ts =
     (if \<not> job_running j then push_deadlines W names jobs ts
      else case w_Expand W (deref (job_Nodes j) '''') of
             Inl e \<Rightarrow> Inl e
           | Inr slurmNodeNames \<Rightarrow>
               if set slurmNodeNames \<inter> names = {} then push_deadlines W names jobs ts
               else push_deadlines W names jobs
                      (foldl (\<lambda>ts n. time_Push time_Greater ts n (job_deadline j)) ts slurmNodeNames))"

definition GetNodeDeadlines :: "world \<Rightarrow> nodeset \<Rightarrow> pod list \<Rightarrow> (err + time_store) prog" where
  "GetNodeDeadlines W ns pods = do {
     slurmClient \<leftarrow> lookupClient W ns;
     case slurmClient of
       None \<Rightarrow> State_Monad.return (Inr NewTimeStore)
     | Some c \<Rightarrow> do {
         r \<leftarrow> SlurmListJobs W c;
         State_Monad.return
           (case r of
              Inl e \<Rightarrow> Inl e
            | Inr jobs \<Rightarrow> push_deadlines W (GetSlurmNodeName ` set pods) jobs NewTimeStore)
       }
   }"

definition job_nodes :: "world \<Rightarrow> job \<Rightarrow> string list" where
  "job_nodes W j = (case w_Expand W (deref (job_Nodes j) '''') of Inl _ \<Rightarrow> [] | Inr names \<Rightarrow> names)"

definition deadline_pushes :: "world \<Rightarrow> string set \<Rightarrow> job list \<Rightarrow> (string \<times> time) list" where
  "deadline_pushes W names jobs =
     concat (map (\<lambda>j. map (\<lambda>n. (n, job_deadline j)) (job_nodes W j))
       (filter (\<lambda>j. job_running j \<and> set (job_nodes W j) \<inter> names \<noteq> {}) jobs))"

lemma push_deadlines_all:
  "push_deadlines W names jobs ts = Inr ts' \<Longrightarrow> ts' = latest.push_all ts (deadline_pushes W names jobs)"
proof (induction W names jobs ts rule: push_deadlines.induct)
  case (2 W names j jobs ts)
  have "foldl (\<lambda>ts n. time_Push time_Greater ts n (job_deadline j)) ts xs =
        latest.push_all ts (map (\<lambda>n. (n, job_deadline j)) xs)" for ts xs
    by (induction xs arbitrary: ts) (simp_all add: latest.push_all_def)
  with 2 show ?case
    by (auto simp: deadline_pushes_def job_nodes_def latest.push_all_def split: if_splits sum.splits)
qed (simp add: deadline_pushes_def latest.push_all_def)

lemma deadline_pushes_of:
  assumes "n \<in> names"
  shows "{t. (n, t) \<in> set (deadline_pushes W names jobs)} =
         job_deadline ` {j \<in> set jobs. job_running j \<and> n \<in> set (job_nodes W j)}"
  using assms by (auto simp: deadline_pushes_def)

text \<open>
  The deadline \<open>GetNodeDeadlines\<close> reports for the node of one of the pods is the latest end
  (start time plus time limit) of the running jobs that have the node, and the zero time when no
  running job has it.
\<close>

theorem GetNodeDeadlines_latest:
  assumes "run_state (GetNodeDeadlines W ns pods) s = (Inr ts, t)"
    and "log t = Rd (ListedSlurmJobs c (Inr jobs)) # h" and "p \<in> set pods"
  shows "time_Peek ts (GetSlurmNodeName p) =
    (let J = {j \<in> set jobs. job_running j \<and> GetSlurmNodeName p \<in> set (job_nodes W j)}
     in if J = {} then 0 else Max (job_deadline ` J))"
proof -
  let ?n = "GetSlurmNodeName p" and ?names = "GetSlurmNodeName ` set pods"
  let ?ps = "deadline_pushes W ?names jobs"
  have "push_deadlines W ?names jobs NewTimeStore = Inr ts"
    using assms by (auto simp: GetNodeDeadlines_def lookupClient_def call_defs split: option.splits sum.splits)
  then have ts: "ts = latest.push_all NewTimeStore ?ps"
    by (rule push_deadlines_all)
  have J: "{v. (?n, v) \<in> set ?ps} = job_deadline ` {j \<in> set jobs. job_running j \<and> ?n \<in> set (job_nodes W j)}"
    using assms(3) by (intro deadline_pushes_of) simp
  have fin: "finite (job_deadline ` {j \<in> set jobs. job_running j \<and> ?n \<in> set (job_nodes W j)})"
    by simp
  have empty: "cell_view NewTimeStore ?n = None"
    by (simp add: cell_view_def NewTimeStore_def)
  from latest.view_push_all [OF empty, of ?ps] show ?thesis
    unfolding ts J latest_is_Max [OF fin] by (auto simp: latest.peek_value Let_def split: option.splits)
qed

theorem GetNodeDeadlines_latest_witness:
  "time_Peek (case fst (run_state (GetNodeDeadlines
      (one_client_world\<lparr>w_SlurmListJobs := (\<lambda>h c. Inr [\<lparr>job_State = [''RUNNING''], job_Nodes = Some ''gpu-0'',
         job_StartTime = Some (Some 100), job_TimeLimit = Some (Some 2, None)\<rparr>])\<rparr>) sample_nodeset
      [empty_pod\<lparr>pod_Hostname := ''gpu-0''\<rparr>]) st_init) of Inr ts \<Rightarrow> ts | Inl _ \<Rightarrow> NewTimeStore) ''gpu-0'' =
   (unixEpoch + 220) * Second"
proof -
  let ?j = "\<lparr>job_State = [''RUNNING''], job_Nodes = Some ''gpu-0'', job_StartTime = Some (Some 100),
     job_TimeLimit = Some (Some 2, None)\<rparr>"
  let ?p = "empty_pod\<lparr>pod_Hostname := ''gpu-0''\<rparr>"
  let ?look = "Rd (LookedUpClient (spec_ControllerRef (ns_Spec sample_nodeset)) (Some 1))"
  define W where "W = one_client_world\<lparr>w_SlurmListJobs := (\<lambda>h c. Inr [?j])\<rparr>"
  have n: "GetSlurmNodeName ?p = ''gpu-0''"
    by (simp add: GetSlurmNodeName_def empty_pod_def ScalingModeStatefulset_def)
  have w: "w_Expand W = (\<lambda>s. Inr [s])" "w_SlurmListJobs W = (\<lambda>h c. Inr [?j])"
      "cm_Get (w_ClientMap W h) (spec_ControllerRef (ns_Spec sample_nodeset)) = Some 1" for h
    by (simp add: W_def one_client_world_def quiet_world_def, simp add: W_def,
        simp add: W_def one_client_found)
  define ts where "ts = time_Push time_Greater NewTimeStore ''gpu-0'' (job_deadline ?j)"
  have run: "run_state (GetNodeDeadlines W sample_nodeset [?p]) st_init =
    (Inr ts, st_init\<lparr>log := [Rd (ListedSlurmJobs 1 (Inr [?j])), ?look]\<rparr>)"
    by (simp add: GetNodeDeadlines_def lookupClient_def call_defs job_running_def w n ts_def)
  define j where "j = ?j"
  have "job_running j" "''gpu-0'' \<in> set (job_nodes W j)"
    by (simp_all add: j_def job_running_def job_nodes_def w)
  then have J: "{i \<in> set [j]. job_running i \<and> ''gpu-0'' \<in> set (job_nodes W i)} = {j}"
    by auto
  have "time_Peek ts ''gpu-0'' = job_deadline ?j"
    using GetNodeDeadlines_latest [OF run, of 1 "[?j]" "[?look]" ?p]
    unfolding j_def [symmetric] n J by simp
  moreover have "job_deadline ?j = (unixEpoch + 220) * Second"
    by (simp add: job_deadline_def job_start_def job_limit_def wrap64_def Minute_def Second_def)
  ultimately show ?thesis
    using run by (simp add: W_def)
qed

lemma wrap64_id: "- (2 ^ 63) \<le> x \<Longrightarrow> x < 2 ^ 63 \<Longrightarrow> wrap64 x = x"
  by (simp add: wrap64_def)

lemma wrap64_over: "2 ^ 63 \<le> x \<Longrightarrow> x < 2 ^ 64 \<Longrightarrow> wrap64 x = x - 2 ^ 64"
  unfolding wrap64_def by (subst mod_pos_geq) simp_all

text \<open>
  Up to 153,722,867 minutes the deadline of a job is its start plus its time limit. From
  153,722,868 minutes (292 years, well within the 32-bit limits Slurm accepts) the conversion to
  nanoseconds overflows and the deadline lies before the start of the job.
\<close>

theorem job_deadline_limit:
  assumes "job_TimeLimit j = Some (Some m, inf_flag)" and "inf_flag \<noteq> Some True" and "0 \<le> m"
  shows "(m \<le> 153722867 \<longrightarrow> job_deadline j = job_start j + m * 60 * 1000000000) \<and>
         (153722868 \<le> m \<and> m \<le> 307445734 \<longrightarrow> job_deadline j < job_start j)"
proof -
  have d: "job_deadline j = job_start j + wrap64 (m * 60000000000)"
    using assms(1,2) by (cases inf_flag) (auto simp: job_deadline_def job_limit_def Minute_def Second_def)
  show ?thesis
    using assms(3) by (auto simp: d wrap64_id wrap64_over)
qed

theorem job_deadline_limit_witness:
  "job_deadline \<lparr>job_State = [''RUNNING''], job_Nodes = Some ''gpu-0'', job_StartTime = Some (Some 0),
     job_TimeLimit = Some (Some 153722868, None)\<rparr> < unixEpoch * Second"
  using job_deadline_limit [of "\<lparr>job_State = [''RUNNING''], job_Nodes = Some ''gpu-0'', job_StartTime = Some (Some 0),
     job_TimeLimit = Some (Some 153722868, None)\<rparr>" 153722868 None]
  by (simp add: job_start_def)

section \<open>Nodes of a NodeSet\<close>

text \<open>The result: names, whether there is a client, error.\<close>

definition GetNodesForPods :: "world \<Rightarrow> nodeset \<Rightarrow> pod list \<Rightarrow> (string list \<times> bool \<times> error) prog" where
  "GetNodesForPods W ns pods = do {
     slurmClient \<leftarrow> lookupClient W ns;
     case slurmClient of
       None \<Rightarrow> State_Monad.return ([], False, None)
     | Some c \<Rightarrow> do {
         r \<leftarrow> SlurmListNodes W c False;
         State_Monad.return
           (case r of
              Inl e \<Rightarrow> ([], True, Some e)
            | Inr nodes \<Rightarrow> (filter (\<lambda>n. n \<in> GetSlurmNodeName ` set pods) (map (\<lambda>n. deref (sn_Name n) '''') nodes),
                           True, None))
       }
   }"

record defunct_node =
  dn_Name :: string
  dn_PodInfo :: pod_info

definition defunct_of :: "world \<Rightarrow> nodeset \<Rightarrow> slurm_node \<Rightarrow> defunct_node option" where
  "defunct_of W ns n =
     (if \<not> (has_state n DOWN \<and> has_state n NOTRESPONDING) then None
      else let (info, err) = ParseIntoPodInfo W (sn_Comment n)
           in if err \<noteq> None then None
              else if pi_Namespace info \<noteq> ns_Namespace ns \<or> pi_PodName info = '''' \<or>
                      pi_NodeSetName info \<noteq> ns_Name ns \<or> pi_NodeSetUID info = '''' \<or>
                      pi_NodeSetUID info \<noteq> ns_UID ns then None
              else let nodeName = deref (sn_Name n) ''''
                   in if nodeName = '''' then None
                      else Some \<lparr>dn_Name = nodeName, dn_PodInfo = info\<rparr>)"

definition GetDefunctNodesForNodeSet ::
  "world \<Rightarrow> nodeset \<Rightarrow> (defunct_node list \<times> bool \<times> error) prog" where
  "GetDefunctNodesForNodeSet W ns = do {
     slurmClient \<leftarrow> lookupClient W ns;
     case slurmClient of
       None \<Rightarrow> State_Monad.return ([], False, None)
     | Some c \<Rightarrow> do {
         r \<leftarrow> SlurmListNodes W c False;
         State_Monad.return
           (case r of
              Inl e \<Rightarrow> ([], True, Some e)
            | Inr nodes \<Rightarrow> (List.map_filter (defunct_of W ns) nodes, True, None))
       }
   }"

lemma keeps_slurm_lists [keeps_intros]:
  assumes "permits Q reads"
  shows "keeps (logs Q) (CalculateNodeStatus W ns pods)" "keeps (logs Q) (GetNodeDeadlines W ns pods)"
    "keeps (logs Q) (GetNodesForPods W ns pods)" "keeps (logs Q) (GetDefunctNodesForNodeSet W ns)"
  unfolding CalculateNodeStatus_def GetNodeDeadlines_def GetNodesForPods_def GetDefunctNodesForNodeSet_def
  by (intro keeps_intros assms)+

lemma defunct_ofD:
  assumes "defunct_of W ns n = Some d"
  shows "has_state n DOWN" "has_state n NOTRESPONDING" "sn_Name n = Some (dn_Name d)" "dn_Name d \<noteq> ''''"
    "pi_NodeSetUID (dn_PodInfo d) = ns_UID ns" "pi_Namespace (dn_PodInfo d) = ns_Namespace ns"
    "pi_PodName (dn_PodInfo d) \<noteq> ''''"
  using assms by (cases "sn_Name n"; auto simp: defunct_of_def Let_def split: if_splits prod.splits)+

section \<open>The interface to the scaling logic\<close>

text \<open>
  What removing a pod relies on: a query that only reads and whose positive answer comes with
  evidence in the history, and a drain request that only writes to Slurm. A deletion that follows
  a positive answer happens at a moment when the evidence is the newest part of the history.
\<close>

locale drain_control =
  fixes is_drained :: "nodeset \<Rightarrow> pod \<Rightarrow> (bool \<times> error) prog"
    and drain :: "nodeset \<Rightarrow> pod \<Rightarrow> string \<Rightarrow> error prog"
    and evidence :: "nodeset \<Rightarrow> pod \<Rightarrow> history \<Rightarrow> bool"
  assumes is_drained_run: "\<exists>b e h. run_state (is_drained ns p) s = ((b, e), s\<lparr>log := h @ log s\<rparr>) \<and>
      (b \<longrightarrow> e = None \<and> evidence ns p (h @ log s)) \<and> list_all reads h"
    and drain_effect: "permits Q reads \<Longrightarrow> permits Q slurm_writes \<Longrightarrow> keeps (logs Q) (drain ns p r)"
begin

lemma is_drained_keeps: "permits Q reads \<Longrightarrow> keeps (logs Q) (is_drained ns p)"
proof (rule keepsI)
  fix s assume Q: "permits Q reads" "logs Q s"
  obtain b e h where "run_state (is_drained ns p) s = ((b, e), s\<lparr>log := h @ log s\<rparr>)" "list_all reads h"
    using is_drained_run [of ns p s] by blast
  with Q show "logs Q (snd (run_state (is_drained ns p) s))"
    by (simp add: logs_def ok_log_reads)
qed

lemma guarded:
  assumes "permits Q reads"
    and "\<And>b e. \<not> b \<or> e \<noteq> None \<Longrightarrow> keeps (logs Q) (k (b, e))"
    and "\<And>h. list_all reads h \<Longrightarrow> evidence ns p (h @ g) \<Longrightarrow>
      triple (\<lambda>s. logs Q s \<and> log s = h @ g) (k (True, None)) (\<lambda>_. logs Q)"
  shows "triple (\<lambda>s. logs Q s \<and> log s = g) (State_Monad.bind (is_drained ns p) k) (\<lambda>_. logs Q)"
proof (rule tripleI)
  fix s assume s: "logs Q s \<and> log s = g"
  obtain b e h where r: "run_state (is_drained ns p) s = ((b, e), s\<lparr>log := h @ g\<rparr>)"
    and ev: "b \<longrightarrow> e = None \<and> evidence ns p (h @ g)" and h: "list_all reads h"
    using is_drained_run [of ns p s] s by blast
  have Q: "logs Q (s\<lparr>log := h @ g\<rparr>)"
    using s h assms(1) by (auto simp: logs_def ok_log_reads)
  show "logs Q (snd (run_state (State_Monad.bind (is_drained ns p) k) s))"
  proof (cases b)
    case True
    then show ?thesis
      using ev h Q tripleD [OF assms(3) [OF h], of "s\<lparr>log := h @ g\<rparr>"] by (simp add: r)
  next
    case False
    then show ?thesis
      using keepsD [OF assms(2) Q, of b e] by (simp add: r)
  qed
qed

end

interpretation slurm: drain_control "IsNodeDrained W" "MakeNodeDrain W" "answered node_drained" for W
proof
  show "\<exists>b e h. run_state (IsNodeDrained W ns p) s = ((b, e), s\<lparr>log := h @ log s\<rparr>) \<and>
      (b \<longrightarrow> e = None \<and> answered node_drained ns p (h @ log s)) \<and> list_all reads h" for ns p s
    unfolding IsNodeDrained_def using run_slurm_query [of W ns p node_drained s] by blast
qed (rule keeps_slurm_updates)

end
