(* ===== verification/Batch.thy ===== *)
theory Batch
  imports Machine
begin

text \<open>
  The control-flow helpers of \<^verbatim>\<open>internal/utils/tools.go\<close> (\<open>SlowStartBatch\<close>),
  \<^verbatim>\<open>internal/utils/mathutils/math.go\<close> (\<open>Clamp\<close>, \<open>GetScaledValueFromIntOrPercent\<close>) and
  \<^verbatim>\<open>internal/syncsteps/syncsteps.go\<close> (\<open>Sync_steps\<close>), over which every reconcile step of the
  operator runs.

  The goroutines of one batch run to completion one after the other, in an order that the
  parameter \<open>sched\<close> chooses for the indices of the batch; their errors arrive on the channel in
  that order. Nothing but that the order lists each index once is assumed of it, and only where
  a lemma says so (\<open>fair_sched\<close>).
\<close>

section \<open>mathutils\<close>

definition Clamp :: "'a::linorder \<Rightarrow> 'a \<Rightarrow> 'a \<Rightarrow> 'a" where
  "Clamp val a b = (let lower = min a b; upper = max a b in min (max val lower) upper)"

lemma Clamp_bounds: "min a b \<le> Clamp v a b" "Clamp v a b \<le> max a b"
  by (auto simp: Clamp_def Let_def min_def max_def)

lemma Clamp_id: "min a b \<le> v \<Longrightarrow> v \<le> max a b \<Longrightarrow> Clamp v a b = v"
  by (simp add: Clamp_def Let_def max_absorb1 min_absorb1)

lemma Clamp_zero: "0 \<le> b \<Longrightarrow> Clamp v 0 b = min (max v 0) (b :: int)"
  by (simp add: Clamp_def Let_def)

lemma Clamp_nat [simp]: "Clamp n 0 m = min n (m :: nat)"
  by (simp add: Clamp_def Let_def)

definition GetScaledValueFromIntOrPercent ::
  "world \<Rightarrow> int_or_string option \<Rightarrow> int \<Rightarrow> bool \<Rightarrow> int \<Rightarrow> int" where
  "GetScaledValueFromIntOrPercent W v n roundUp defaultValue =
     (case w_GetScaledValue W v n roundUp of Inl _ \<Rightarrow> defaultValue | Inr x \<Rightarrow> x)"

section \<open>SlowStartBatch\<close>

text \<open>One batch: the errors of the calls, in the order in which they arrive.\<close>

fun run_batch :: "(nat \<Rightarrow> ('s, error) state) \<Rightarrow> nat list \<Rightarrow> ('s, err list) state" where
  "run_batch fn [] = State_Monad.return []"
| "run_batch fn (i # is) = do {
     e \<leftarrow> fn i;
     es \<leftarrow> run_batch fn is;
     State_Monad.return (case e of None \<Rightarrow> es | Some x \<Rightarrow> x # es)
   }"

function slow_start_loop ::
  "(nat list \<Rightarrow> nat list) \<Rightarrow> (nat \<Rightarrow> ('s, error) state) \<Rightarrow>
   nat \<Rightarrow> nat \<Rightarrow> nat \<Rightarrow> nat \<Rightarrow> ('s, nat \<times> error) state" where
  "slow_start_loop sched fn remaining successes index batchSize =
     (if batchSize = 0 then State_Monad.return (successes, None)
      else do {
        errCh \<leftarrow> run_batch fn (sched [index ..< index + batchSize]);
        let curSuccesses = batchSize - length errCh;
            successes' = successes + curSuccesses
        in case errCh of
             e # _ \<Rightarrow> State_Monad.return (successes', Some e)
           | [] \<Rightarrow> slow_start_loop sched fn (remaining - batchSize) successes' (index + batchSize)
                     (min (2 * batchSize) (remaining - batchSize))
      })"
  by pat_completeness auto
termination
  by (relation "measures [\<lambda>(sched, fn, r, s, i, b). r, \<lambda>(sched, fn, r, s, i, b). b]") auto

declare slow_start_loop.simps [simp del]

definition SlowStartInitialBatchSize :: nat where
  "SlowStartInitialBatchSize = 1"

definition SlowStartBatch ::
  "(nat list \<Rightarrow> nat list) \<Rightarrow> nat \<Rightarrow> nat \<Rightarrow> (nat \<Rightarrow> ('s, error) state) \<Rightarrow> ('s, nat \<times> error) state" where
  "SlowStartBatch sched n initialBatchSize fn =
     slow_start_loop sched fn n 0 0 (min n initialBatchSize)"

text \<open>Callers that drop the count.\<close>

definition SlowStart ::
  "world \<Rightarrow> nat \<Rightarrow> (nat \<Rightarrow> error prog) \<Rightarrow> error prog" where
  "SlowStart W n fn =
     do { r \<leftarrow> SlowStartBatch (w_sched W) n SlowStartInitialBatchSize fn;
          State_Monad.return (snd r) }"

definition fair_sched :: "(nat list \<Rightarrow> nat list) \<Rightarrow> bool" where
  "fair_sched sched \<longleftrightarrow> (\<forall>xs. mset (sched xs) = mset xs)"

lemma fair_sched_set: "fair_sched sched \<Longrightarrow> set (sched xs) = set xs"
  by (metis fair_sched_def set_mset_mset)

subsection \<open>Invariants of a batch\<close>

lemma keeps_run_batch [keeps_intros]:
  "(\<And>i. keeps I (fn i)) \<Longrightarrow> keeps I (run_batch fn is)"
  by (induction "is") (auto intro!: keeps_intros)

lemma keeps_slow_start_loop:
  "(\<And>i. keeps I (fn i)) \<Longrightarrow> keeps I (slow_start_loop sched fn r s i b)"
proof (induction sched fn r s i b rule: slow_start_loop.induct)
  case (1 sched fn r s i b)
  have "keeps I (slow_start_loop sched fn (r - b) (s + b) (i + b) (min (2 * b) (r - b)))" if "b \<noteq> 0"
    by (rule "1.IH") (use that "1.prems" in auto)
  then show ?case
    unfolding slow_start_loop.simps [of sched fn r s i b]
    using "1.prems" by (auto intro!: keeps_intros split: list.split)
qed

lemma keeps_SlowStartBatch [keeps_intros]:
  "(\<And>i. keeps I (fn i)) \<Longrightarrow> keeps I (SlowStartBatch sched n b fn)"
  unfolding SlowStartBatch_def by (rule keeps_slow_start_loop)

lemma keeps_SlowStart [keeps_intros]:
  "(\<And>i. keeps I (fn i)) \<Longrightarrow> keeps I (SlowStart W n fn)"
  unfolding SlowStart_def by (intro keeps_intros)

subsection \<open>The reference: consecutive chunks of doubling size\<close>

function chunks :: "nat \<Rightarrow> nat \<Rightarrow> nat \<Rightarrow> nat list list" where
  "chunks remaining index batchSize =
     (if batchSize = 0 then []
      else [index ..< index + batchSize] #
           chunks (remaining - batchSize) (index + batchSize)
             (min (2 * batchSize) (remaining - batchSize)))"
  by pat_completeness auto
termination
  by (relation "measures [\<lambda>(r, i, b). r, \<lambda>(r, i, b). b]") auto

declare chunks.simps [simp del]

lemma chunks_0 [simp]: "chunks r i 0 = []"
  by (simp add: chunks.simps)

fun run_chunks :: "(nat \<Rightarrow> ('s, error) state) \<Rightarrow> nat \<Rightarrow> nat list list \<Rightarrow> ('s, nat \<times> error) state" where
  "run_chunks fn n [] = State_Monad.return (n, None)"
| "run_chunks fn n (c # cs) = do {
     es \<leftarrow> run_batch fn c;
     case es of
       e # _ \<Rightarrow> State_Monad.return (n + (length c - length es), Some e)
     | [] \<Rightarrow> run_chunks fn (n + length c) cs
   }"

lemma slow_start_loop_chunks:
  assumes "fair_sched sched"
  shows "slow_start_loop sched fn r s i b = run_chunks fn s (map sched (chunks r i b))"
proof (induction r i b arbitrary: s rule: chunks.induct)
  case (1 r i b)
  have len: "length (sched [i ..< i + b]) = b"
    using assms by (metis add_diff_cancel_left' fair_sched_def length_upt size_mset)
  show ?case
  proof (cases "b = 0")
    case True
    then show ?thesis by (simp add: slow_start_loop.simps)
  next
    case False
    have "(case es of e # _ \<Rightarrow> State_Monad.return (s + (b - length es), Some e)
             | [] \<Rightarrow> slow_start_loop sched fn (r - b) (s + (b - length es)) (i + b) (min (2 * b) (r - b))) =
          (case es of e # _ \<Rightarrow> State_Monad.return (s + (b - length es), Some e)
             | [] \<Rightarrow> run_chunks fn (s + b) (map sched (chunks (r - b) (i + b) (min (2 * b) (r - b)))))"
      for es :: "err list"
      using False by (simp add: 1 split: list.split)
    then show ?thesis
      using False by (simp add: len slow_start_loop.simps [of sched fn r s i b] chunks.simps [of r i b]
          Let_def cong: list.case_cong)
  qed
qed

text \<open>The chunks cut \<open>0, 1, \<dots>\<close> into consecutive intervals that together cover the whole range.\<close>

lemma concat_chunks:
  "b \<le> r \<Longrightarrow> (0 < r \<longrightarrow> 0 < b) \<Longrightarrow> concat (chunks r i b) = [i ..< i + r]"
proof (induction r i b rule: chunks.induct)
  case (1 r i b)
  show ?case
  proof (cases "b = 0")
    case True
    with "1.prems" show ?thesis by simp
  next
    case False
    have "concat (chunks (r - b) (i + b) (min (2 * b) (r - b))) = [i + b ..< i + b + (r - b)]"
      using False by (intro "1.IH") auto
    moreover have "[i ..< i + r] = [i ..< i + b] @ [i + b ..< i + b + (r - b)]"
      using "1.prems"(1) upt_add_eq_append [of i "i + b" "r - b"] by simp
    ultimately show ?thesis
      using False by (simp add: chunks.simps [of r i b])
  qed
qed

text \<open>Each chunk is at most twice as long as the one before, and one longer than what came before it.\<close>

lemma chunks_end_bound:
  assumes "b \<le> r" and "b \<le> i + 1" and "c \<in> set (chunks r i b)" and "j \<in> set c"
  shows "\<forall>k \<in> set c. k \<le> 2 * j"
  using assms
proof (induction r i b rule: chunks.induct)
  case (1 r i b)
  show ?case
  proof (cases "b = 0")
    case True
    with "1.prems" show ?thesis by simp
  next
    case False
    with "1.prems"(3) consider "c = [i ..< i + b]"
      | "c \<in> set (chunks (r - b) (i + b) (min (2 * b) (r - b)))"
      by (auto simp: chunks.simps [of r i b])
    then show ?thesis
    proof cases
      case 1
      with "1.prems" show ?thesis by auto
    next
      case 2
      with False "1.prems" "1.IH" show ?thesis by auto
    qed
  qed
qed

lemma keeps_run_batch_in:
  "(\<And>i. i \<in> set is \<Longrightarrow> keeps I (fn i)) \<Longrightarrow> keeps I (run_batch fn is)"
  by (induction "is") (auto intro!: keeps_intros)

lemma keeps_run_chunks:
  "(\<And>i c. c \<in> set cs \<Longrightarrow> i \<in> set c \<Longrightarrow> keeps I (fn i)) \<Longrightarrow> keeps I (run_chunks fn n cs)"
proof (induction cs arbitrary: n)
  case (Cons c cs)
  have "keeps I (run_batch fn c)"
    by (rule keeps_run_batch_in) (rule Cons.prems, simp_all)
  moreover have "keeps I (run_chunks fn m cs)" for m
    by (rule Cons.IH) (rule Cons.prems, simp_all)
  ultimately show ?case
    by (simp, intro keeps_bind) (auto intro: keeps_return split: list.split)
qed (auto intro!: keeps_intros)

text \<open>Only the indices of the range are called.\<close>

lemma keeps_SlowStart_in:
  assumes "fair_sched (w_sched W)" and "\<And>i. i < n \<Longrightarrow> keeps I (fn i)"
  shows "keeps I (SlowStart W n fn)"
    and "keeps I (SlowStartBatch (w_sched W) n SlowStartInitialBatchSize fn)"
proof -
  have "i < n" if "c \<in> set (map (w_sched W) (chunks n 0 (min n 1)))" "i \<in> set c" for c i
  proof -
    have "i \<in> set (concat (chunks n 0 (min n 1)))"
      using that fair_sched_set [OF assms(1)] by auto
    then show ?thesis by (simp add: concat_chunks)
  qed
  then show "keeps I (SlowStartBatch (w_sched W) n SlowStartInitialBatchSize fn)"
    unfolding SlowStartBatch_def SlowStartInitialBatchSize_def slow_start_loop_chunks [OF assms(1)]
    using assms(2) by (intro keeps_run_chunks) blast
  then show "keeps I (SlowStart W n fn)"
    unfolding SlowStart_def by (rule keeps_bind) (rule keeps_return)
qed

subsection \<open>The calls of a slow start\<close>

text \<open>A function that fails as \<open>f\<close> says and records the indices it is called with.\<close>

definition recorded :: "(nat \<Rightarrow> error) \<Rightarrow> nat \<Rightarrow> (nat list, error) state" where
  "recorded f i = State (\<lambda>calls. (f i, i # calls))"

lemma run_recorded [simp]: "run_state (recorded f i) l = (f i, i # l)"
  by (simp add: recorded_def)

lemma run_batch_recorded:
  "run_state (run_batch (recorded f) is) l = (List.map_filter f is, rev is @ l)"
  by (induction "is" arbitrary: l) (auto simp: List.map_filter_simps split: option.split)

lemma length_map_filter: "length (List.map_filter f xs) = length (filter (\<lambda>x. f x \<noteq> None) xs)"
  by (simp add: List.map_filter_def)

lemma map_filter_eq_Nil: "List.map_filter f xs = [] \<longleftrightarrow> (\<forall>x \<in> set xs. f x = None)"
  by (auto simp: List.map_filter_def filter_empty_conv)

lemma hd_map_filter: "List.map_filter f xs = e # es \<Longrightarrow> \<exists>x \<in> set xs. f x = Some e"
  by (induction xs) (auto simp: List.map_filter_simps split: option.splits)

lemma ok_count: "length xs - length (List.map_filter f xs) = length (filter (\<lambda>x. f x = None) xs)"
  using sum_length_filter_compl [of "\<lambda>x. f x = None" xs] by (simp add: length_map_filter)

text \<open>The outcome of the chunks \<open>cs\<close>: how many are run, what is counted, which error comes back.\<close>

definition chunk_outcome ::
  "(nat \<Rightarrow> error) \<Rightarrow> nat list list \<Rightarrow> nat \<Rightarrow> nat list \<Rightarrow> nat \<Rightarrow> error \<Rightarrow> bool" where
  "chunk_outcome f cs n run m e \<longleftrightarrow>
     m = n + length (filter (\<lambda>x. f x = None) run) \<and>
     (e = None \<longrightarrow> run = concat cs \<and> (\<forall>x \<in> set run. f x = None)) \<and>
     (\<forall>x. e = Some x \<longrightarrow> (\<exists>i \<in> set run. f i = e) \<and>
       (\<exists>pre c post. cs = pre @ c # post \<and> run = concat pre @ c \<and>
         (\<forall>i \<in> set (concat pre). f i = None)))"

lemma chunk_outcome_Cons:
  assumes "\<forall>x \<in> set c. f x = None" and "chunk_outcome f cs (n + length c) run m e"
  shows "chunk_outcome f (c # cs) n (c @ run) m e"
proof -
  have "filter (\<lambda>x. f x = None) c = c"
    using assms(1) by (simp add: filter_id_conv)
  moreover have "\<exists>pre' c' post. c # cs = pre' @ c' # post \<and> c @ run = concat pre' @ c' \<and>
      (\<forall>i \<in> set (concat pre'). f i = None)"
    if "cs = pre @ d # post" and "run = concat pre @ d" and "\<forall>i \<in> set (concat pre). f i = None"
    for pre d post
    using that assms(1) by (intro exI [of _ "c # pre"] exI [of _ d] exI [of _ post]) auto
  ultimately show ?thesis
    using assms unfolding chunk_outcome_def by (auto; blast)
qed

lemma run_chunks_recorded:
  "\<exists>run m e. run_state (run_chunks (recorded f) n cs) l = ((m, e), rev run @ l) \<and>
     chunk_outcome f cs n run m e"
proof (induction cs arbitrary: n l)
  case Nil
  then show ?case by (simp add: chunk_outcome_def)
next
  case (Cons c cs)
  show ?case
  proof (cases "List.map_filter f c")
    case Nil
    from Cons.IH [of "n + length c" "rev c @ l"] obtain run m e where
      "run_state (run_chunks (recorded f) (n + length c) cs) (rev c @ l) = ((m, e), rev run @ rev c @ l)"
      and "chunk_outcome f cs (n + length c) run m e"
      by blast
    moreover from Nil have "\<forall>x \<in> set c. f x = None"
      by (simp add: map_filter_eq_Nil)
    ultimately show ?thesis
      using Nil by (intro exI [of _ "c @ run"] exI [of _ m] exI [of _ e])
        (simp add: run_batch_recorded chunk_outcome_Cons)
  next
    case (Cons e es)
    have "\<exists>pre d post. c # cs = pre @ d # post \<and> c = concat pre @ d \<and> (\<forall>i \<in> set (concat pre). f i = None)"
      by (intro exI [of _ "[]"] exI [of _ c] exI [of _ cs]) simp
    then have "chunk_outcome f (c # cs) n c (n + length (filter (\<lambda>x. f x = None) c)) (Some e)"
      using hd_map_filter [OF Cons] unfolding chunk_outcome_def by blast
    with Cons ok_count [of c f] show ?thesis
      by (intro exI) (auto simp: run_batch_recorded)
  qed
qed

lemma mset_concat_map_sched: "fair_sched sched \<Longrightarrow> mset (concat (map sched cs)) = mset (concat cs)"
  by (induction cs) (simp_all add: fair_sched_def)

lemma prefix_upt: "xs @ ys = [0 ..< n] \<Longrightarrow> xs = [0 ..< length xs] \<and> length xs \<le> n"
  by (metis add_0 append_eq_conv_conj le_add1 length_append length_upt minus_nat.diff_0 take_upt)

lemma chunk_outcome_failed:
  assumes "chunk_outcome f (map sched cs) n run m e" and "e \<noteq> None"
  obtains pre c post where "cs = pre @ c # post" and "run = concat (map sched pre) @ sched c"
    and "\<forall>i \<in> set (concat (map sched pre)). f i = None" and "\<exists>i \<in> set run. f i = e"
proof -
  from assms obtain ds d es where "map sched cs = ds @ d # es" and "run = concat ds @ d"
    and "\<forall>i \<in> set (concat ds). f i = None" and "\<exists>i \<in> set run. f i = e"
    unfolding chunk_outcome_def by blast
  with that show ?thesis
    unfolding map_eq_append_conv map_eq_Cons_conv by blast
qed

text \<open>What the calls \<open>run\<close> of a slow start of \<open>n\<close> calls are: a prefix of the range.\<close>

definition slow_started :: "(nat \<Rightarrow> error) \<Rightarrow> nat \<Rightarrow> nat list \<Rightarrow> error \<Rightarrow> nat \<Rightarrow> bool" where
  "slow_started f n run e k \<longleftrightarrow>
     k \<le> n \<and> mset run = mset [0 ..< k] \<and>
     (e = None \<longleftrightarrow> (\<forall>i < k. f i = None)) \<and> (e = None \<longrightarrow> k = n) \<and>
     (e \<noteq> None \<longrightarrow> (\<exists>i < k. f i = e)) \<and>
     (\<forall>i < k. f i \<noteq> None \<longrightarrow> k \<le> 2 * i + 1)"

lemma slow_startedI:
  assumes "k \<le> n" and "mset run = mset [0 ..< k]" and "e = None \<longleftrightarrow> (\<forall>i \<in> set run. f i = None)"
    and "e = None \<Longrightarrow> k = n" and "e \<noteq> None \<Longrightarrow> \<exists>i \<in> set run. f i = e"
    and "\<And>i. i \<in> set run \<Longrightarrow> f i \<noteq> None \<Longrightarrow> k \<le> 2 * i + 1"
  shows "slow_started f n run e k"
proof -
  have "i \<in> set run \<longleftrightarrow> i < k" for i
    using assms(2) by (metis atLeast0LessThan lessThan_iff set_mset_mset set_upt)
  with assms show ?thesis
    unfolding slow_started_def Ball_def Bex_def by metis
qed

lemma last_chunk_bound:
  assumes "pre @ c = [0 ..< k]" and "i \<in> set c" and "\<And>j. j \<in> set c \<Longrightarrow> j \<le> 2 * i"
  shows "k \<le> 2 * i + 1"
proof -
  have "c \<noteq> []" using assms(2) by auto
  then have "last c = last [0 ..< k]" and "[0 ..< k] \<noteq> []"
    using assms(1) by (metis last_appendR, metis append_is_Nil_conv)
  with \<open>c \<noteq> []\<close> have "k - 1 \<in> set c"
    by (metis last_in_set last_upt upt_eq_Nil_conv not_le le_eq_less_or_eq)
  with assms(3) have "k - 1 \<le> 2 * i" by blast
  then show ?thesis by simp
qed

lemma slow_started_chunks:
  assumes fair: "fair_sched sched" and out: "chunk_outcome f (map sched (chunks n 0 (min n 1))) 0 run m e"
  shows "\<exists>k. slow_started f n run e k"
proof (cases "e = None")
  case True
  with out have "run = concat (map sched (chunks n 0 (min n 1)))" and "\<forall>i \<in> set run. f i = None"
    unfolding chunk_outcome_def by blast+
  with True show ?thesis
    by (intro exI [of _ n] slow_startedI) (auto simp: mset_concat_map_sched [OF fair] concat_chunks)
next
  case False
  with out obtain pre c post where cs: "chunks n 0 (min n 1) = pre @ c # post"
    and run: "run = concat (map sched pre) @ sched c"
    and pre: "\<forall>i \<in> set (concat (map sched pre)). f i = None" and bad: "\<exists>i \<in> set run. f i = e"
    by (rule chunk_outcome_failed)
  define k where "k = length (concat pre @ c)"
  have "(concat pre @ c) @ concat post = [0 ..< n]"
    using concat_chunks [of "min n 1" n 0] cs by simp
  then have k: "concat pre @ c = [0 ..< k]" "k \<le> n"
    using prefix_upt unfolding k_def by blast+
  have "mset run = mset (concat pre @ c)"
    using mset_concat_map_sched [OF fair, of pre] fair by (simp add: run fair_sched_def)
  then have ms: "mset run = mset [0 ..< k]"
    unfolding k(1) .
  have "k \<le> 2 * i + 1" if "i \<in> set run" "f i \<noteq> None" for i
  proof (rule last_chunk_bound [OF k(1)])
    show "i \<in> set c"
      using that run pre fair_sched_set [OF fair] by auto
    then show "j \<in> set c \<Longrightarrow> j \<le> 2 * i" for j
      using chunks_end_bound [of "min n 1" n 0 c i] cs by auto
  qed
  with ms k(2) bad False show ?thesis
    by (intro exI [of _ k] slow_startedI) (auto simp del: One_nat_def)
qed

text \<open>
  C9. \<open>SlowStartBatch(count, 1, fn)\<close> calls \<open>fn\<close> with the indices \<open>0, \<dots>, k - 1\<close>, each
  once, whatever the order in which the goroutines of a batch run. The count it returns is
  the number of those calls that succeeded; it returns nil exactly when no call failed, and then
  every index was called; otherwise the error is that of a call that failed, and at most as many
  calls were made after the failing index as before it.
\<close>

theorem SlowStartBatch_calls:
  assumes "fair_sched sched"
  shows "\<exists>k e calls.
    run_state (SlowStartBatch sched n SlowStartInitialBatchSize (recorded f)) [] =
      ((length (filter (\<lambda>i. f i = None) [0 ..< k]), e), calls) \<and>
    k \<le> n \<and> mset calls = mset [0 ..< k] \<and>
    (e = None \<longleftrightarrow> (\<forall>i < k. f i = None)) \<and> (e = None \<longrightarrow> k = n) \<and>
    (e \<noteq> None \<longrightarrow> (\<exists>i < k. f i = e)) \<and>
    (\<forall>i < k. f i \<noteq> None \<longrightarrow> k \<le> 2 * i + 1)"
proof -
  from run_chunks_recorded [of f 0 "map sched (chunks n 0 (min n 1))" "[]"] obtain run m e where
    r: "run_state (run_chunks (recorded f) 0 (map sched (chunks n 0 (min n 1)))) [] = ((m, e), rev run)"
    and out: "chunk_outcome f (map sched (chunks n 0 (min n 1))) 0 run m e"
    by auto
  from slow_started_chunks [OF assms out] obtain k where k: "slow_started f n run e k" ..
  then have ms: "mset run = mset [0 ..< k]"
    unfolding slow_started_def by blast
  have "m = length (filter (\<lambda>i. f i = None) [0 ..< k])"
    using out ms unfolding chunk_outcome_def by (metis add_0 mset_filter size_mset)
  moreover have "run_state (SlowStartBatch sched n SlowStartInitialBatchSize (recorded f)) [] = ((m, e), rev run)"
    unfolding SlowStartBatch_def SlowStartInitialBatchSize_def
    using r by (simp add: slow_start_loop_chunks [OF assms])
  ultimately show ?thesis
    using k unfolding slow_started_def
    by (intro exI [of _ k] exI [of _ e] exI [of _ "rev run"] conjI) (elim conjE; simp only: mset_rev)+
qed

theorem SlowStartBatch_calls_witness:
  "fair_sched rev \<and> (\<exists>k e calls.
    run_state (SlowStartBatch rev 9 SlowStartInitialBatchSize
      (recorded (\<lambda>i. if i = 2 then Some (GoError ''x'') else None))) [] =
      ((length (filter (\<lambda>i. (if i = 2 then Some (GoError ''x'') else None) = None) [0 ..< k]), e), calls) \<and>
    k \<le> 9)"
proof -
  have "fair_sched rev" by (simp add: fair_sched_def)
  from SlowStartBatch_calls [OF this, of 9 "\<lambda>i. if i = 2 then Some (GoError ''x'') else None"] this
  show ?thesis by blast
qed

section \<open>Steps of a reconcile\<close>

record step =
  step_Name :: string
  step_SyncFn :: "error prog"
  step_StopOnError :: bool

definition step_of :: "string \<Rightarrow> error prog \<Rightarrow> step" where
  "step_of name fn = \<lparr>step_Name = name, step_SyncFn = fn, step_StopOnError = False\<rparr>"

definition syncAction :: string where "syncAction = ''Sync''"
definition failedReason :: string where "failedReason = ''SyncFailed''"

fun Sync_loop :: "step list \<Rightarrow> err list \<Rightarrow> err list prog" where
  "Sync_loop [] errs = State_Monad.return errs"
| "Sync_loop (s # steps) errs = do {
     r \<leftarrow> step_SyncFn s;
     case r of
       None \<Rightarrow> Sync_loop steps errs
     | Some err \<Rightarrow> do {
         emit (Eventf ''Warning'' failedReason syncAction (Some (Wrapped (step_Name s) err)));
         let errs' = errs @ [Wrapped (step_Name s) err]
         in if step_StopOnError s then State_Monad.return errs' else Sync_loop steps errs'
       }
   }"

definition Sync_steps :: "step list \<Rightarrow> error prog" where
  "Sync_steps steps = do { errs \<leftarrow> Sync_loop steps []; State_Monad.return (NewAggregate errs) }"

lemma keeps_Sync_loop:
  assumes "\<And>s. s \<in> set steps \<Longrightarrow> keeps I (step_SyncFn s)"
    and "\<And>e. keeps I (emit (Eventf ''Warning'' failedReason syncAction e))"
  shows "keeps I (Sync_loop steps errs)"
  using assms by (induction steps arbitrary: errs) (auto intro!: keeps_intros)

lemma keeps_Sync_steps:
  assumes "\<And>s. s \<in> set steps \<Longrightarrow> keeps I (step_SyncFn s)"
    and "\<And>e. keeps I (emit (Eventf ''Warning'' failedReason syncAction e))"
  shows "keeps I (Sync_steps steps)"
  unfolding Sync_steps_def by (intro keeps_intros keeps_Sync_loop assms)

text \<open>
  The reference semantics of a list of steps: whether each step ran, in sequence, and with which
  error; the run ends after a failing \<open>StopOnError\<close> step.
\<close>

inductive steps_run :: "step list \<Rightarrow> st \<Rightarrow> (string \<times> err) list \<Rightarrow> st \<Rightarrow> bool" where
  finished: "steps_run [] s [] s"
| passed: "run_state (step_SyncFn a) s = (None, t) \<Longrightarrow> steps_run as t es u \<Longrightarrow>
    steps_run (a # as) s es u"
| failed: "run_state (step_SyncFn a) s = (Some e, t) \<Longrightarrow> \<not> step_StopOnError a \<Longrightarrow>
    steps_run as (t\<lparr>log := Ctl (Eventf ''Warning'' failedReason syncAction
      (Some (Wrapped (step_Name a) e))) # log t\<rparr>) es u \<Longrightarrow>
    steps_run (a # as) s ((step_Name a, e) # es) u"
| stopped: "run_state (step_SyncFn a) s = (Some e, t) \<Longrightarrow> step_StopOnError a \<Longrightarrow>
    steps_run (a # as) s [(step_Name a, e)] (t\<lparr>log := Ctl (Eventf ''Warning'' failedReason syncAction
      (Some (Wrapped (step_Name a) e))) # log t\<rparr>)"

inductive_cases steps_run_ConsE: "steps_run (a # as) s es u"

lemma Sync_loop_steps_run:
  "\<exists>es. steps_run steps s es (snd (run_state (Sync_loop steps errs) s)) \<and>
     fst (run_state (Sync_loop steps errs) s) = errs @ map (\<lambda>(n, e). Wrapped n e) es"
proof (induction steps arbitrary: errs s)
  case Nil
  then show ?case by (auto intro: steps_run.intros)
next
  case (Cons a steps)
  obtain r t where rt: "run_state (step_SyncFn a) s = (r, t)" by fastforce
  show ?case
  proof (cases r)
    case None
    with rt Cons.IH [of t errs] show ?thesis by (auto intro: steps_run.passed)
  next
    case (Some e)
    let ?t = "t\<lparr>log := Ctl (Eventf ''Warning'' failedReason syncAction (Some (Wrapped (step_Name a) e))) # log t\<rparr>"
    show ?thesis
    proof (cases "step_StopOnError a")
      case True
      with rt Some show ?thesis
        by (intro exI [of _ "[(step_Name a, e)]"]) (auto intro: steps_run.stopped)
    next
      case False
      from Cons.IH [of ?t "errs @ [Wrapped (step_Name a) e]"] obtain es where
        "steps_run steps ?t es (snd (run_state (Sync_loop steps (errs @ [Wrapped (step_Name a) e])) ?t))"
        "fst (run_state (Sync_loop steps (errs @ [Wrapped (step_Name a) e])) ?t) =
           (errs @ [Wrapped (step_Name a) e]) @ map (\<lambda>(n, e). Wrapped n e) es"
        by blast
      with rt Some False show ?thesis
        by (intro exI [of _ "(step_Name a, e) # es"]) (auto simp: Let_def intro: steps_run.failed)
    qed
  qed
qed

text \<open>
  \<open>Sync\<close> runs the steps in order: a failing step is recorded as a warning event, the ones
  after it still run unless it has \<open>StopOnError\<close>, in which case none of them does; the result
  is nil exactly when no step that ran failed, and otherwise the aggregate of the wrapped errors
  of the failed steps, in order.
\<close>

theorem Sync_steps_run:
  "\<exists>es. steps_run steps s es (snd (run_state (Sync_steps steps) s)) \<and>
     fst (run_state (Sync_steps steps) s) =
       (if es = [] then None else Some (Aggregate (map (\<lambda>(n, e). Wrapped n e) es)))"
proof -
  from Sync_loop_steps_run [of steps s "[]"] obtain es where
    "steps_run steps s es (snd (run_state (Sync_loop steps []) s))"
    "fst (run_state (Sync_loop steps []) s) = map (\<lambda>(n, e). Wrapped n e) es"
    by auto
  then show ?thesis
    by (intro exI [of _ es]) (simp add: Sync_steps_def NewAggregate_def split_beta)
qed

end
