(* ===== verification/Cordon.thy ===== *)
theory Cordon
  imports SlurmControl Batch
begin

text \<open>
  Cordoning of pods and draining of their Slurm nodes: the part of
  \<^verbatim>\<open>internal/controller/nodeset/nodeset_sync.go\<close> that keeps the Kubernetes and the Slurm view of a
  node in step (\<open>syncCordon\<close>, \<open>syncPodUncordon\<close>, \<open>makePodCordonAndDrain\<close> and the functions
  below them).

  Pods are shared by pointer, so the functions take references; a \<^verbatim>\<open>r.Get(ctx, key, pod)\<close> into a
  shared pod overwrites it. \<^verbatim>\<open>r.Patch\<close> sends the difference between the new object and the
  old one; the history records both.
\<close>

text \<open>\<^verbatim>\<open>klog.KObj(pod).String()\<close>\<close>

definition KObj :: "pod \<Rightarrow> string" where
  "KObj p = (if pod_Namespace p \<noteq> '''' then nsname_String (pod_key p) else pod_Name p)"

section \<open>One pod\<close>

text \<open>\<^verbatim>\<open>r.Get(ctx, client.ObjectKeyFromObject(pod), pod)\<close>\<close>

definition refresh_pod :: "world \<Rightarrow> ref \<Rightarrow> pod \<Rightarrow> error prog" where
  "refresh_pod W r p = do {
     g \<leftarrow> GetPod W (pod_key p);
     case g of
       Inl e \<Rightarrow> fail e
     | Inr p' \<Rightarrow> do { store r p'; ok }
   }"

definition makePodCordon :: "world \<Rightarrow> ref \<Rightarrow> error prog" where
  "makePodCordon W r = do {
     p \<leftarrow> load r;
     if IsPodCordon p then ok
     else andthen
       (PatchPod W (p\<lparr>pod_Annotations := Some ((mmake (pod_Annotations p))(AnnotationPodCordon \<mapsto> ''true''))\<rparr>) p)
       (refresh_pod W r p)
   }"

definition makePodUncordon :: "world \<Rightarrow> ref \<Rightarrow> error prog" where
  "makePodUncordon W r = do {
     p \<leftarrow> load r;
     if \<not> IsPodCordon p then ok
     else andthen
       (PatchPod W (p\<lparr>pod_Annotations := mdel (pod_Annotations p) AnnotationPodCordon\<rparr>) p)
       (refresh_pod W r p)
   }"

definition syncSlurmNodeDrain :: "world \<Rightarrow> nodeset \<Rightarrow> ref \<Rightarrow> string \<Rightarrow> error prog" where
  "syncSlurmNodeDrain W ns r message = do {
     p \<leftarrow> load r;
     MakeNodeDrain W ns p
       (if message \<noteq> '''' then message else ''Pod ('' @ KObj p @ '') has been cordoned'')
   }"

definition makePodCordonAndDrain :: "world \<Rightarrow> nodeset \<Rightarrow> ref \<Rightarrow> string \<Rightarrow> error prog" where
  "makePodCordonAndDrain W ns r reason =
     andthen (makePodCordon W r) (syncSlurmNodeDrain W ns r reason)"

definition syncSlurmNodeUndrain :: "world \<Rightarrow> nodeset \<Rightarrow> ref \<Rightarrow> string \<Rightarrow> error prog" where
  "syncSlurmNodeUndrain W ns r message = do {
     p \<leftarrow> load r;
     d \<leftarrow> IsNodeDrain W ns p;
     case d of
       (_, Some e) \<Rightarrow> fail e
     | (isDrain, None) \<Rightarrow>
         if \<not> isDrain then ok
         else MakeNodeUndrain W ns p
           (if message \<noteq> '''' then message else ''Pod ('' @ KObj p @ '') has been uncordoned'')
   }"

definition makePodUncordonAndUndrain :: "world \<Rightarrow> nodeset \<Rightarrow> ref \<Rightarrow> string \<Rightarrow> error prog" where
  "makePodUncordonAndUndrain W ns r reason =
     andthen (makePodUncordon W r) (syncSlurmNodeUndrain W ns r reason)"

definition isNodeCordoned :: "world \<Rightarrow> pod \<Rightarrow> bool prog" where
  "isNodeCordoned W p = do {
     g \<leftarrow> GetNode W (pod_NodeName p);
     State_Monad.return (case g of Inl _ \<Rightarrow> False | Inr n \<Rightarrow> node_Unschedulable n)
   }"

definition syncPodUncordon :: "world \<Rightarrow> nodeset \<Rightarrow> ref \<Rightarrow> error prog" where
  "syncPodUncordon W ns r = do {
     p \<leftarrow> load r;
     cordoned \<leftarrow> isNodeCordoned W p;
     if cordoned then ok
     else do {
       q \<leftarrow> IsNodeReasonOurs W ns p;
       case q of
         (_, Some e) \<Rightarrow> fail e
       | (ours, None) \<Rightarrow> if \<not> ours then ok else makePodUncordonAndUndrain W ns r ''''
     }
   }"

section \<open>syncCordon\<close>

definition NodeCordonReason :: string where "NodeCordonReason = ''NodeCordon''"

text \<open>\<^verbatim>\<open>strings.Join\<close>\<close>

fun Join :: "string list \<Rightarrow> string \<Rightarrow> string" where
  "Join [] sep = ''''"
| "Join [s] sep = s"
| "Join (s # ss) sep = s @ sep @ Join ss sep"

text \<open>The reasons of the propagated conditions that hold on the node, in the order of the configuration.\<close>

definition condition_reasons :: "string list \<Rightarrow> node \<Rightarrow> string list" where
  "condition_reasons propagated n =
     concat (map (\<lambda>condType.
       map (\<lambda>c. ''('' @ nc_Reason c @ '': '' @ nc_Message c @ '')'')
         (filter (\<lambda>c. nc_Type c = condType \<and> nc_Status c = ''True'') (node_Conditions n))) propagated)"

definition cordon_reason :: "string list \<Rightarrow> pod \<Rightarrow> node \<Rightarrow> string" where
  "cordon_reason propagated p n =
     (case mlookup (node_Annotations n) AnnotationNodeCordonReason of
        Some v \<Rightarrow> v
      | None \<Rightarrow>
          (let reasons = condition_reasons propagated n
           in if length reasons > 0 then Join reasons ''; ''
              else ''Node ('' @ pod_NodeName p @ '') was cordoned, Pod ('' @ KObj p @ '') must be cordoned''))"

definition syncCordonFn :: "world \<Rightarrow> string list \<Rightarrow> nodeset \<Rightarrow> ref \<Rightarrow> error prog" where
  "syncCordonFn W propagated ns r = do {
     p \<leftarrow> load r;
     g \<leftarrow> GetNode W (pod_NodeName p);
     case g of
       Inl e \<Rightarrow> if IsNotFound e then ok else fail e
     | Inr node \<Rightarrow> do {
         let nodeIsCordoned = node_Unschedulable node;
         let podIsCordoned = IsPodCordon p;
         u \<leftarrow> IsNodeDownForUnresponsive W ns p;
         case u of
           (_, Some e) \<Rightarrow> fail e
         | (slurmNodeIsUnresponsive, None) \<Rightarrow> do {
             q \<leftarrow> IsNodeReasonOurs W ns p;
             case q of
               (_, Some e) \<Rightarrow> fail e
             | (ourReason, None) \<Rightarrow>
                 if \<not> ourReason \<or> slurmNodeIsUnresponsive then ok
                 else if nodeIsCordoned
                 then do {
                   g \<leftarrow> GetNode W (pod_NodeName p);
                   case g of
                     Inl e \<Rightarrow> fail (Wrapped ''failed to get node'' e)
                   | Inr node \<Rightarrow> do {
                       emit (Eventf ''Normal'' NodeCordonReason ''Cordon'' None);
                       makePodCordonAndDrain W ns r (cordon_reason propagated p node)
                     }
                 }
                 else if podIsCordoned
                 then MakeNodeDrain W ns p (''Pod ('' @ KObj p @ '') was cordoned'')
                 else MakeNodeUndrain W ns p (''Pod ('' @ KObj p @ '') was uncordoned'')
           }
       }
   }"

definition syncCordon :: "world \<Rightarrow> string list \<Rightarrow> nodeset \<Rightarrow> ref list \<Rightarrow> error prog" where
  "syncCordon W propagated ns pods = SlowStart W (length pods) (\<lambda>i. syncCordonFn W propagated ns (pods ! i))"

section \<open>Effects\<close>

lemma keeps_refresh_pod [keeps_intros]: "permits Q reads \<Longrightarrow> keeps (logs Q) (refresh_pod W r p)"
  unfolding refresh_pod_def by (intro keeps_intros)

lemma keeps_cordon_pod [keeps_intros]:
  assumes "permits Q reads" "permits Q pod_updates"
  shows "keeps (logs Q) (makePodCordon W r)" "keeps (logs Q) (makePodUncordon W r)"
  unfolding makePodCordon_def makePodUncordon_def by (intro keeps_intros assms)+

lemma keeps_drain [keeps_intros]:
  assumes "permits Q reads" "permits Q slurm_writes"
  shows "keeps (logs Q) (syncSlurmNodeDrain W ns r m)" "keeps (logs Q) (syncSlurmNodeUndrain W ns r m)"
  unfolding syncSlurmNodeDrain_def syncSlurmNodeUndrain_def by (intro keeps_intros assms)+

lemma keeps_cordon_and_drain [keeps_intros]:
  assumes "permits Q reads" "permits Q slurm_writes" "permits Q pod_updates"
  shows "keeps (logs Q) (makePodCordonAndDrain W ns r m)" "keeps (logs Q) (makePodUncordonAndUndrain W ns r m)"
  unfolding makePodCordonAndDrain_def makePodUncordonAndUndrain_def by (intro keeps_intros assms)+

lemma keeps_isNodeCordoned [keeps_intros]: "permits Q reads \<Longrightarrow> keeps (logs Q) (isNodeCordoned W p)"
  unfolding isNodeCordoned_def by (intro keeps_intros)

lemma keeps_syncPodUncordon [keeps_intros]:
  assumes "permits Q reads" "permits Q slurm_writes" "permits Q pod_updates"
  shows "keeps (logs Q) (syncPodUncordon W ns r)"
  unfolding syncPodUncordon_def by (intro keeps_intros assms)

lemma keeps_syncCordon [keeps_intros]:
  assumes "permits Q reads" "permits Q controls" "permits Q slurm_writes" "permits Q pod_updates"
  shows "keeps (logs Q) (syncCordon W propagated ns pods)"
  unfolding syncCordon_def syncCordonFn_def Let_def by (intro keeps_intros assms)

section \<open>Nodes set by others are left alone\<close>

text \<open>Slurm constantly reports the node of pod \<open>p\<close> with a reason that is not the operator's.\<close>

definition foreign_reason :: "world \<Rightarrow> nodeset \<Rightarrow> pod \<Rightarrow> bool" where
  "foreign_reason W ns p \<longleftrightarrow>
     (\<exists>c n. (\<forall>h. cm_Get (w_ClientMap W h) (spec_ControllerRef (ns_Spec ns)) = Some c) \<and>
            (\<forall>h. w_SlurmGet W h c (GetSlurmNodeName p) = Inr n) \<and> \<not> reason_ours n)"

text \<open>The state shows no effect: only reads were added to the history, and the pods are unchanged.\<close>

definition untouched :: "st \<Rightarrow> st \<Rightarrow> bool" where
  "untouched s t \<longleftrightarrow> heap t = heap s \<and> (\<exists>h. list_all reads h \<and> log t = h @ log s)"

lemma untouched_refl [simp]: "untouched s s"
  by (auto simp: untouched_def intro: exI [of _ "[]"])

lemma untouched_read: "untouched s t \<Longrightarrow> untouched s (t\<lparr>log := Rd e # log t\<rparr>)"
  unfolding untouched_def by (auto intro: exI [of _ "Rd e # h" for h])

lemma run_slurm_query_foreign:
  assumes "\<forall>h. cm_Get (w_ClientMap W h) (spec_ControllerRef (ns_Spec ns)) = Some c"
    and "\<forall>h. w_SlurmGet W h c (GetSlurmNodeName p) = Inr n"
  shows "\<exists>a b. run_state (slurm_query W ns p test) s = ((test n, None), s\<lparr>log := Rd a # Rd b # log s\<rparr>)"
  using assms by (auto simp: slurm_query_def slurm_node_op_def lookupClient_def call_defs)

lemma untouched_syncCordonFn:
  assumes "foreign_reason W ns (heap s r)"
  shows "untouched s (snd (run_state (syncCordonFn W propagated ns r) s))"
    and "untouched s (snd (run_state (syncPodUncordon W ns r) s))"
proof -
  let ?p = "heap s r"
  obtain c n where c: "\<forall>h. cm_Get (w_ClientMap W h) (spec_ControllerRef (ns_Spec ns)) = Some c"
    and n: "\<forall>h. w_SlurmGet W h c (GetSlurmNodeName ?p) = Inr n" and f: "\<not> reason_ours n"
    using assms unfolding foreign_reason_def by blast
  let ?t = "s\<lparr>log := Rd (GotNode (pod_NodeName ?p) (w_GetNode W (log s) (pod_NodeName ?p))) # log s\<rparr>"
  obtain a b where 1: "run_state (IsNodeDownForUnresponsive W ns ?p) ?t =
      ((has_state n DOWN \<and> str_contains ''Not responding'' (deref (sn_Reason n) ''''), None),
        ?t\<lparr>log := Rd a # Rd b # log ?t\<rparr>)"
    using run_slurm_query_foreign [OF c n] unfolding IsNodeDownForUnresponsive_def by blast
  obtain d e where 2: "run_state (IsNodeReasonOurs W ns ?p) (?t\<lparr>log := Rd a # Rd b # log ?t\<rparr>) =
      ((False, None), ?t\<lparr>log := Rd d # Rd e # Rd a # Rd b # log ?t\<rparr>)"
    using run_slurm_query_foreign [OF c n, of reason_ours "?t\<lparr>log := Rd a # Rd b # log ?t\<rparr>"] f
    unfolding IsNodeReasonOurs_def by auto
  obtain i j where 3: "run_state (IsNodeReasonOurs W ns ?p) ?t = ((False, None), ?t\<lparr>log := Rd i # Rd j # log ?t\<rparr>)"
    using run_slurm_query_foreign [OF c n, of reason_ours ?t] f unfolding IsNodeReasonOurs_def by auto
  have reads: "untouched s (s\<lparr>log := h @ log s\<rparr>)" if "list_all reads h" for h
    using that by (auto simp: untouched_def)
  show "untouched s (snd (run_state (syncCordonFn W propagated ns r) s))"
    using 1 2 reads [of "[Rd d, Rd e, Rd a, Rd b, Rd (GotNode (pod_NodeName ?p) (w_GetNode W (log s) (pod_NodeName ?p)))]"]
      reads [of "[Rd (GotNode (pod_NodeName ?p) (w_GetNode W (log s) (pod_NodeName ?p)))]"]
    by (auto simp: syncCordonFn_def GetNode_def split: sum.split)
  show "untouched s (snd (run_state (syncPodUncordon W ns r) s))"
    using 3 reads [of "[Rd i, Rd j, Rd (GotNode (pod_NodeName ?p) (w_GetNode W (log s) (pod_NodeName ?p)))]"]
      reads [of "[Rd (GotNode (pod_NodeName ?p) (w_GetNode W (log s) (pod_NodeName ?p)))]"]
    by (auto simp: syncPodUncordon_def isNodeCordoned_def GetNode_def split: sum.split)
qed

text \<open>
  C29. When Slurm reports, for the node of each of the pods, a reason that is not the operator's (an
  administrator drained it, say), \<open>syncCordon\<close> changes nothing: it neither drains nor undrains a
  node, and does not cordon a pod, whatever the state of the Kubernetes nodes and the pods.
\<close>

theorem syncCordon_leaves_foreign_nodes:
  assumes "fair_sched (w_sched W)" and "\<forall>r \<in> set pods. foreign_reason W ns (heap s r)"
  shows "untouched s (snd (run_state (syncCordon W propagated ns pods) s))"
proof -
  have trans: "untouched s u" if "untouched s t" "untouched t u" for t u
    using that unfolding untouched_def by (auto intro: exI [of _ "g @ h" for g h])
  have "keeps (untouched s) (syncCordonFn W propagated ns (pods ! i))" if "i < length pods" for i
  proof (rule keepsI)
    fix t assume t: "untouched s t"
    then have "foreign_reason W ns (heap t (pods ! i))"
      using assms(2) that by (simp add: untouched_def)
    then show "untouched s (snd (run_state (syncCordonFn W propagated ns (pods ! i)) t))"
      using untouched_syncCordonFn trans t by blast
  qed
  then have "keeps (untouched s) (syncCordon W propagated ns pods)"
    unfolding syncCordon_def by (intro keeps_SlowStart_in assms(1)) blast
  then show ?thesis
    by (rule keepsD) simp
qed

definition admin_world :: world where
  "admin_world = one_client_world\<lparr>w_SlurmGet := (\<lambda>h c n. Inr \<lparr>sn_Name = Some n, sn_State = [IDLE, DRAIN],
     sn_Reason = Some ''bad memory'', sn_Comment = None, sn_Topology = None\<rparr>)\<rparr>"

lemma foreign_reason_admin: "foreign_reason admin_world sample_nodeset p"
proof -
  have "w_ClientMap admin_world = w_ClientMap one_client_world"
    by (simp add: admin_world_def)
  moreover have "\<not> reason_ours \<lparr>sn_Name = Some (GetSlurmNodeName p), sn_State = [IDLE, DRAIN],
     sn_Reason = Some ''bad memory'', sn_Comment = None, sn_Topology = None\<rparr>"
    by (simp add: reason_ours_def nodeReasonPrefix_def)
  ultimately show ?thesis
    unfolding foreign_reason_def using one_client_found by (auto simp: admin_world_def)
qed

lemma fair_sched_worlds [simp]:
  "fair_sched (w_sched quiet_world)" "fair_sched (w_sched one_client_world)" "fair_sched (w_sched admin_world)"
  by (simp_all add: fair_sched_def admin_world_def one_client_world_def quiet_world_def)

theorem syncCordon_leaves_foreign_nodes_witness:
  "untouched st_init (snd (run_state (syncCordon admin_world [] sample_nodeset [3, 5]) st_init))"
  using syncCordon_leaves_foreign_nodes [of admin_world "[3, 5]" sample_nodeset st_init "[]"]
  by (simp add: foreign_reason_admin)

text \<open>
  \<open>syncPodUncordon\<close> does nothing to a pod whose Kubernetes node is cordoned: it only reads the
  node.
\<close>

theorem syncPodUncordon_respects_node_cordon:
  assumes "w_GetNode W (log s) (pod_NodeName (heap s r)) = Inr node" and "node_Unschedulable node"
  shows "run_state (syncPodUncordon W ns r) s =
    (None, s\<lparr>log := Rd (GotNode (pod_NodeName (heap s r)) (Inr node)) # log s\<rparr>)"
  using assms by (simp add: syncPodUncordon_def isNodeCordoned_def GetNode_def)

theorem syncPodUncordon_respects_node_cordon_witness:
  "fst (run_state (syncPodUncordon (quiet_world\<lparr>w_GetNode := (\<lambda>h n. Inr (empty_node\<lparr>node_Unschedulable := True\<rparr>))\<rparr>)
     sample_nodeset 3) st_init) = None"
  using syncPodUncordon_respects_node_cordon
    [of "quiet_world\<lparr>w_GetNode := (\<lambda>h n. Inr (empty_node\<lparr>node_Unschedulable := True\<rparr>))\<rparr>" st_init 3]
  by simp

end
