(* ===== verification/PodSort.thy ===== *)
theory PodSort
  imports Naming Batch "HOL-Library.Product_Lexorder" "HOL-Library.List_Lexorder" "HOL-Library.Char_ord"
begin

text \<open>
  The orders by which pods are picked for deletion and update
  (\<^verbatim>\<open>internal/controller/nodeset/utils/sort.go\<close>).

  Slices of Pod pointers are lists of references; a comparison reads the Pods from the heap.
  \<^verbatim>\<open>sort.Sort\<close> is the parameter \<open>w_sort\<close>; what its callers rely on is the locale
  \<open>go_sort\<close>: the result is a permutation, and in order when the comparison is a strict weak
  order. It is interpreted on the insertion sort that Go uses for slices of up to twelve elements.
\<close>

section \<open>sort.Sort\<close>

definition strict_weak :: "('a \<Rightarrow> 'a \<Rightarrow> bool) \<Rightarrow> 'a set \<Rightarrow> bool" where
  "strict_weak lt S \<longleftrightarrow>
     (\<forall>a \<in> S. \<not> lt a a) \<and>
     (\<forall>a \<in> S. \<forall>b \<in> S. \<forall>c \<in> S. lt a b \<longrightarrow> lt b c \<longrightarrow> lt a c) \<and>
     (\<forall>a \<in> S. \<forall>b \<in> S. \<forall>c \<in> S. \<not> lt a b \<longrightarrow> \<not> lt b c \<longrightarrow> \<not> lt a c)"

lemma strict_weakD:
  assumes "strict_weak lt S" and "a \<in> S" and "b \<in> S"
  shows "\<not> lt a a" and "lt a b \<Longrightarrow> \<not> lt b a"
    and "c \<in> S \<Longrightarrow> \<not> lt a b \<Longrightarrow> \<not> lt b c \<Longrightarrow> \<not> lt a c"
  using assms unfolding strict_weak_def by blast+

lemma strict_weak_subset: "strict_weak lt S \<Longrightarrow> T \<subseteq> S \<Longrightarrow> strict_weak lt T"
  unfolding strict_weak_def by blast

lemma strict_weak_key:
  fixes key :: "'a \<Rightarrow> 'k::linorder"
  assumes "\<And>a b. a \<in> S \<Longrightarrow> b \<in> S \<Longrightarrow> lt a b \<longleftrightarrow> key a < key b"
  shows "strict_weak lt S"
  using assms by (auto simp: strict_weak_def)

locale go_sort =
  fixes sort :: "('a \<Rightarrow> 'a \<Rightarrow> bool) \<Rightarrow> 'a list \<Rightarrow> 'a list"
  assumes permutes: "mset (sort lt xs) = mset xs"
    and orders: "strict_weak lt (set xs) \<Longrightarrow> sorted_wrt (\<lambda>a b. \<not> lt b a) (sort lt xs)"
begin

lemma set_sort [simp]: "set (sort lt xs) = set xs"
  by (metis permutes set_mset_mset)

lemma length_sort [simp]: "length (sort lt xs) = length xs"
  by (metis permutes size_mset)

lemma distinct_sort [simp]: "distinct (sort lt xs) = distinct xs"
  by (metis permutes mset_eq_imp_distinct_iff)

text \<open>Cutting a sorted slice: both parts together are the slice, and no element of the second part precedes one of the first.\<close>

lemma cut_mset: "mset (take n (sort lt xs)) + mset (drop n (sort lt xs)) = mset xs"
  by (metis append_take_drop_id mset_append permutes)

lemma cut_disjoint: "distinct xs \<Longrightarrow> set (take n (sort lt xs)) \<inter> set (drop n (sort lt xs)) = {}"
  by (metis append_take_drop_id distinct_append distinct_sort)

lemma cut_order:
  assumes "strict_weak lt (set xs)" and "a \<in> set (take n (sort lt xs))" and "b \<in> set (drop n (sort lt xs))"
  shows "\<not> lt b a"
  using orders [OF assms(1)] assms(2,3)
  by (metis append_take_drop_id sorted_wrt_append)

end

text \<open>Go's \<^verbatim>\<open>insertionSort\<close>: each element moves left past the elements it precedes.\<close>

fun insert_left :: "('a \<Rightarrow> 'a \<Rightarrow> bool) \<Rightarrow> 'a \<Rightarrow> 'a list \<Rightarrow> 'a list" where
  "insert_left lt x [] = [x]"
| "insert_left lt x (y # ys) = (if lt x y then y # insert_left lt x ys else x # y # ys)"

definition insertionSort :: "('a \<Rightarrow> 'a \<Rightarrow> bool) \<Rightarrow> 'a list \<Rightarrow> 'a list" where
  "insertionSort lt xs = rev (foldl (\<lambda>prefix x. insert_left lt x prefix) [] xs)"

lemma mset_insert_left: "mset (insert_left lt x ys) = add_mset x (mset ys)"
  by (induction ys) simp_all

lemma set_insert_left: "set (insert_left lt x ys) = insert x (set ys)"
  using mset_insert_left [of lt x ys] by (metis set_mset_add_mset_insert set_mset_mset)

lemma mset_insertion: "mset (foldl (\<lambda>prefix x. insert_left lt x prefix) acc xs) = mset acc + mset xs"
  by (induction xs arbitrary: acc) (simp_all add: mset_insert_left)

lemma sorted_insert_left:
  assumes "strict_weak lt (insert x (set ys))" and "sorted_wrt (\<lambda>a b. \<not> lt a b) ys"
  shows "sorted_wrt (\<lambda>a b. \<not> lt a b) (insert_left lt x ys)"
  using assms
proof (induction ys)
  case (Cons y ys)
  have sw: "strict_weak lt (insert x (set ys))"
    using Cons.prems(1) by (rule strict_weak_subset) auto
  show ?case
  proof (cases "lt x y")
    case True
    then have "\<not> lt y x"
      using strict_weakD(2) [OF Cons.prems(1), of x y] by simp
    moreover have "sorted_wrt (\<lambda>a b. \<not> lt a b) (insert_left lt x ys)"
      using Cons.IH [OF sw] Cons.prems(2) by simp
    ultimately show ?thesis
      using True Cons.prems(2) by (simp add: set_insert_left)
  next
    case False
    have "\<not> lt x z" if "z \<in> set ys" for z
      using False that Cons.prems(2) strict_weakD(3) [OF Cons.prems(1), of x y z] by simp
    with False Cons.prems show ?thesis by simp
  qed
qed simp

lemma sorted_insertion:
  assumes "strict_weak lt (set acc \<union> set xs)" and "sorted_wrt (\<lambda>a b. \<not> lt a b) acc"
  shows "sorted_wrt (\<lambda>a b. \<not> lt a b) (foldl (\<lambda>prefix x. insert_left lt x prefix) acc xs)"
  using assms
proof (induction xs arbitrary: acc)
  case (Cons x xs)
  have "sorted_wrt (\<lambda>a b. \<not> lt a b) (insert_left lt x acc)"
    using Cons.prems by (intro sorted_insert_left) (auto elim: strict_weak_subset)
  moreover have "set (insert_left lt x acc) \<union> set xs = set acc \<union> set (x # xs)"
    by (auto simp: set_insert_left)
  ultimately show ?case
    using Cons.IH [of "insert_left lt x acc"] Cons.prems(1) by simp
qed simp

interpretation insertion: go_sort insertionSort
proof unfold_locales
  fix lt :: "'a \<Rightarrow> 'a \<Rightarrow> bool" and xs :: "'a list"
  show "mset (insertionSort lt xs) = mset xs"
    by (simp add: insertionSort_def mset_insertion)
  show "sorted_wrt (\<lambda>a b. \<not> lt b a) (insertionSort lt xs)" if "strict_weak lt (set xs)"
    using sorted_insertion [of lt "[]" xs] that
    by (simp add: insertionSort_def sorted_wrt_rev)
qed

lemma go_sort_insertionSort: "go_sort insertionSort"
  by (rule insertion.go_sort_axioms)

section \<open>ActivePods\<close>

definition PodReady :: string where "PodReady = ''Ready''"

definition podPhaseToWeight :: "string \<Rightarrow> nat" where
  "podPhaseToWeight ph =
     (if ph = PodPending then 0 else if ph = PodUnknown then 1 else if ph = PodRunning then 2 else 0)"

definition podReadyTime :: "world \<Rightarrow> pod \<Rightarrow> time" where
  "podReadyTime W p =
     (if w_IsPodReady W p
      then case List.find (\<lambda>c. pc_Type c = PodReady \<and> pc_Status c = ''True'') (pod_Conditions p) of
             Some c \<Rightarrow> pc_LastTransitionTime c
           | None \<Rightarrow> 0
      else 0)"

definition afterOrZero :: "time \<Rightarrow> time \<Rightarrow> bool" where
  "afterOrZero t1 t2 = (if t1 = 0 \<or> t2 = 0 then t1 = 0 else t1 > t2)"

definition deletion_cost :: "pod \<Rightarrow> int" where
  "deletion_cost p = fst (GetNumberFromAnnotations (pod_Annotations p) AnnotationPodDeletionCost)"

definition pod_deadline :: "world \<Rightarrow> pod \<Rightarrow> time" where
  "pod_deadline W p = fst (GetTimeFromAnnotations W (pod_Annotations p) AnnotationPodDeadline)"

definition cordon_annotation :: "pod \<Rightarrow> bool" where
  "cordon_annotation p = fst (GetBoolFromAnnotations (pod_Annotations p) AnnotationPodCordon)"

definition ActivePods_Less :: "world \<Rightarrow> pod \<Rightarrow> pod \<Rightarrow> bool" where
  "ActivePods_Less W pod1 pod2 =
     (if pod_NodeName pod1 \<noteq> pod_NodeName pod2 \<and> (length (pod_NodeName pod1) = 0 \<or> length (pod_NodeName pod2) = 0)
      then length (pod_NodeName pod1) = 0
      else if podPhaseToWeight (pod_Phase pod1) \<noteq> podPhaseToWeight (pod_Phase pod2)
      then podPhaseToWeight (pod_Phase pod1) < podPhaseToWeight (pod_Phase pod2)
      else if w_IsPodReady W pod1 \<noteq> w_IsPodReady W pod2
      then \<not> w_IsPodReady W pod1
      else if deletion_cost pod1 \<noteq> deletion_cost pod2
      then deletion_cost pod1 < deletion_cost pod2
      else if pod_deadline W pod1 \<noteq> pod_deadline W pod2
      then pod_deadline W pod1 < pod_deadline W pod2
      else if cordon_annotation pod1 \<or> cordon_annotation pod2
      then cordon_annotation pod1
      else if GetOrdinal pod1 \<noteq> GetOrdinal pod2
      then GetOrdinal pod1 > GetOrdinal pod2
      else if w_IsPodReady W pod1 \<and> w_IsPodReady W pod2 \<and> podReadyTime W pod1 \<noteq> podReadyTime W pod2
      then afterOrZero (podReadyTime W pod1) (podReadyTime W pod2)
      else if pod_CreationTimestamp pod1 \<noteq> pod_CreationTimestamp pod2
      then afterOrZero (pod_CreationTimestamp pod1) (pod_CreationTimestamp pod2)
      else False)"

text \<open>
  The key of which the comparison is the lexicographic order: unassigned first, then by phase,
  not ready first, low deletion cost, early deadline, high ordinal, most recently ready, most
  recently created (a missing time counts as most recent).
\<close>

definition recency :: "time \<Rightarrow> bool \<times> int" where
  "recency t = (t \<noteq> 0, - t)"

definition deletion_key :: "world \<Rightarrow> pod \<Rightarrow>
    bool \<times> nat \<times> bool \<times> int \<times> int \<times> int \<times> (bool \<times> int) \<times> (bool \<times> int)" where
  "deletion_key W p =
     (pod_NodeName p \<noteq> '''', podPhaseToWeight (pod_Phase p), w_IsPodReady W p, deletion_cost p,
      pod_deadline W p, - GetOrdinal p,
      (if w_IsPodReady W p then recency (podReadyTime W p) else recency 0),
      recency (pod_CreationTimestamp p))"

lemma recency_less: "recency t < recency u \<longleftrightarrow> t \<noteq> u \<and> afterOrZero t u"
  by (auto simp: recency_def afterOrZero_def less_bool_def)

lemma recency_eq [simp]: "recency t = recency u \<longleftrightarrow> t = u"
  by (auto simp: recency_def)

lemma lex_if: "(x, y) < (x', y') \<longleftrightarrow> (if x \<noteq> x' then x < x' else y < y')"
  for x x' :: "'a::linorder" and y y' :: "'b::linorder"
  by auto

lemma lex_last: "x < y \<longleftrightarrow> (if x \<noteq> y then x < y else False)" for x y :: "'a::linorder"
  by auto

lemma assigned_first:
  "(if m \<noteq> n \<and> (length m = 0 \<or> length n = 0) then length m = 0 else R) =
   (if (m \<noteq> []) \<noteq> (n \<noteq> []) then (m \<noteq> []) < (n \<noteq> []) else R)"
  by (auto simp: less_bool_def)

lemma not_first: "(if a \<noteq> b then \<not> a else R) = (if a \<noteq> b then a < b else R)"
  by (auto simp: less_bool_def)

lemma ActivePods_Less_key:
  assumes "\<not> cordon_annotation p" and "\<not> cordon_annotation q"
  shows "ActivePods_Less W p q \<longleftrightarrow> deletion_key W p < deletion_key W q"
proof -
  let ?r = "\<lambda>p. if w_IsPodReady W p then recency (podReadyTime W p) else recency 0"
  let ?tail = "if pod_CreationTimestamp p \<noteq> pod_CreationTimestamp q
     then afterOrZero (pod_CreationTimestamp p) (pod_CreationTimestamp q) else False"
  have tail: "?tail = (recency (pod_CreationTimestamp p) < recency (pod_CreationTimestamp q))"
    by (simp add: recency_less)
  have ready: "(if w_IsPodReady W p \<and> w_IsPodReady W q \<and> podReadyTime W p \<noteq> podReadyTime W q
       then afterOrZero (podReadyTime W p) (podReadyTime W q) else R) =
      (if ?r p \<noteq> ?r q then ?r p < ?r q else R)" if "w_IsPodReady W p = w_IsPodReady W q" for R
    using that by (simp add: recency_less)
  show ?thesis
  proof (cases "w_IsPodReady W p = w_IsPodReady W q")
    case True
    then show ?thesis
      unfolding ActivePods_Less_def deletion_key_def lex_if ready [OF True] tail assigned_first not_first
      using assms by simp
  next
    case False
    then show ?thesis
      unfolding ActivePods_Less_def deletion_key_def lex_if assigned_first not_first
      by (simp only: if_True simp_thms)
  qed
qed

text \<open>
  C35. Among pods that are not cordoned, the order in which \<open>ActivePods\<close> picks pods for deletion
  is the lexicographic order of: unassigned, phase, not ready, deletion cost, deadline,
  descending ordinal, readiness and creation recency. So it is a strict weak order, and sorting
  by it is meaningful.
\<close>

theorem ActivePods_Less_strict_weak:
  assumes "\<forall>r \<in> S. \<not> cordon_annotation (hp r)"
  shows "strict_weak (\<lambda>a b. ActivePods_Less W (hp a) (hp b)) S \<and>
         (\<forall>a \<in> S. \<forall>b \<in> S. ActivePods_Less W (hp a) (hp b) \<longleftrightarrow> deletion_key W (hp a) < deletion_key W (hp b))"
  using assms by (auto intro!: strict_weak_key [where key = "\<lambda>r. deletion_key W (hp r)"] simp: ActivePods_Less_key)

theorem ActivePods_Less_strict_weak_witness:
  "strict_weak (\<lambda>a b. ActivePods_Less quiet_world (heap st_init a) (heap st_init b)) {0, 1}"
  using ActivePods_Less_strict_weak [of "{0, 1}" "heap st_init" quiet_world]
  by (simp add: st_init_def empty_pod_def cordon_annotation_def GetBoolFromAnnotations_def)

text \<open>
  The order is not a strict weak order once two cordoned pods agree up to their deadline:
  each is then less than the other, and less than itself.
\<close>

theorem ActivePods_Less_cordoned:
  assumes "cordon_annotation p" and "cordon_annotation q"
    and "pod_NodeName p = pod_NodeName q" and "pod_Phase p = pod_Phase q"
    and "w_IsPodReady W p = w_IsPodReady W q" and "deletion_cost p = deletion_cost q"
    and "pod_deadline W p = pod_deadline W q"
  shows "ActivePods_Less W p q \<and> ActivePods_Less W q p \<and> ActivePods_Less W p p"
  using assms by (simp add: ActivePods_Less_def)

theorem ActivePods_Less_cordoned_witness:
  "ActivePods_Less quiet_world
     (empty_pod\<lparr>pod_Name := ''gpu-0'', pod_Annotations := Some [AnnotationPodCordon \<mapsto> ''true'']\<rparr>)
     (empty_pod\<lparr>pod_Name := ''gpu-1'', pod_Annotations := Some [AnnotationPodCordon \<mapsto> ''true'']\<rparr>)"
  using ActivePods_Less_cordoned
    [of "empty_pod\<lparr>pod_Name := ''gpu-0'', pod_Annotations := Some [AnnotationPodCordon \<mapsto> ''true'']\<rparr>"
        "empty_pod\<lparr>pod_Name := ''gpu-1'', pod_Annotations := Some [AnnotationPodCordon \<mapsto> ''true'']\<rparr>"
        quiet_world]
  by (simp add: cordon_annotation_def GetBoolFromAnnotations_def ParseBool_def quiet_world_def
      empty_pod_def deletion_cost_def GetNumberFromAnnotations_def pod_deadline_def
      GetTimeFromAnnotations_def key_defs)

section \<open>Splitting slices of pods\<close>

definition SplitActivePods ::
  "world \<Rightarrow> (ref \<Rightarrow> pod) \<Rightarrow> ref list \<Rightarrow> int \<Rightarrow> ref list \<times> ref list" where
  "SplitActivePods W hp pods at =
     (let pivot = nat (Clamp at 0 (int (length pods)));
          sorted = w_sort W (\<lambda>a b. ActivePods_Less W (hp a) (hp b)) pods
      in (take pivot sorted, drop pivot sorted))"

definition ExcludePods :: "(ref \<Rightarrow> pod) \<Rightarrow> ref list \<Rightarrow> ref list \<Rightarrow> ref list" where
  "ExcludePods hp pods exclude =
     (if length exclude = 0 then pods
      else let excludeSet = (\<lambda>r. pod_UID (hp r)) ` set exclude
           in filter (\<lambda>r. pod_UID (hp r) \<notin> excludeSet) pods)"

definition PodsByCreationTimestamp_Less :: "pod \<Rightarrow> pod \<Rightarrow> bool" where
  "PodsByCreationTimestamp_Less p q =
     (if pod_CreationTimestamp p = pod_CreationTimestamp q then pod_Name p < pod_Name q
      else pod_CreationTimestamp p < pod_CreationTimestamp q)"

definition SplitUnhealthyPods ::
  "world \<Rightarrow> (ref \<Rightarrow> pod) \<Rightarrow> ref list \<Rightarrow> ref list \<times> ref list" where
  "SplitUnhealthyPods W hp pods =
     (let numUnhealthy = length (filter (\<lambda>r. \<not> IsHealthy W (hp r)) pods);
          sorted = w_sort W (\<lambda>a b. PodsByCreationTimestamp_Less (hp a) (hp b)) pods
      in (take numUnhealthy sorted, drop numUnhealthy sorted))"

lemma length_SplitActivePods:
  assumes "go_sort (w_sort W)"
  shows "int (length (fst (SplitActivePods W hp pods n))) = Clamp n 0 (int (length pods))"
    and "length (fst (SplitActivePods W hp pods n)) + length (snd (SplitActivePods W hp pods n)) = length pods"
  using Clamp_bounds [where v = n and a = 0 and b = "int (length pods)"]
  by (auto simp: SplitActivePods_def Let_def go_sort.length_sort [OF assms])

lemma SplitActivePods_sets:
  assumes "go_sort (w_sort W)"
  shows "set (fst (SplitActivePods W hp pods n)) \<union> set (snd (SplitActivePods W hp pods n)) = set pods"
    and "mset (fst (SplitActivePods W hp pods n)) + mset (snd (SplitActivePods W hp pods n)) = mset pods"
    and "distinct pods \<Longrightarrow> distinct (fst (SplitActivePods W hp pods n)) \<and> distinct (snd (SplitActivePods W hp pods n)) \<and>
      set (fst (SplitActivePods W hp pods n)) \<inter> set (snd (SplitActivePods W hp pods n)) = {}"
proof -
  show ms: "mset (fst (SplitActivePods W hp pods n)) + mset (snd (SplitActivePods W hp pods n)) = mset pods"
    by (simp add: SplitActivePods_def Let_def go_sort.cut_mset [OF assms])
  then show "set (fst (SplitActivePods W hp pods n)) \<union> set (snd (SplitActivePods W hp pods n)) = set pods"
    by (metis set_mset_mset set_mset_union)
  show "distinct (fst (SplitActivePods W hp pods n)) \<and> distinct (snd (SplitActivePods W hp pods n)) \<and>
      set (fst (SplitActivePods W hp pods n)) \<inter> set (snd (SplitActivePods W hp pods n)) = {}" if "distinct pods"
    using that go_sort.cut_disjoint [OF assms that]
    by (simp add: SplitActivePods_def Let_def go_sort.distinct_sort [OF assms])
qed

text \<open>
  \<open>SplitActivePods\<close> cuts the pods in two: the first part has the requested number of pods
  (clamped to what there is), both parts together are exactly the given pods, and, when no pod is
  cordoned, no pod kept precedes a pod picked in the deletion order.
\<close>

theorem SplitActivePods_picks:
  assumes "go_sort (w_sort W)" and "SplitActivePods W hp pods n = (picked, kept)"
  shows "int (length picked) = Clamp n 0 (int (length pods)) \<and> mset picked + mset kept = mset pods \<and>
         ((\<forall>r \<in> set pods. \<not> cordon_annotation (hp r)) \<longrightarrow>
            (\<forall>a \<in> set picked. \<forall>b \<in> set kept. \<not> deletion_key W (hp b) < deletion_key W (hp a)))"
proof (intro conjI impI ballI)
  show "int (length picked) = Clamp n 0 (int (length pods))" and "mset picked + mset kept = mset pods"
    using length_SplitActivePods(1) [OF assms(1), of hp pods n] SplitActivePods_sets(2) [OF assms(1), of hp pods n]
    by (simp_all add: assms(2))
next
  fix a b assume nc: "\<forall>r \<in> set pods. \<not> cordon_annotation (hp r)" and ab: "a \<in> set picked" "b \<in> set kept"
  let ?lt = "\<lambda>a b. ActivePods_Less W (hp a) (hp b)"
  have sw: "strict_weak ?lt (set pods)"
    using nc by (intro strict_weak_key [where key = "\<lambda>r. deletion_key W (hp r)"]) (simp add: ActivePods_Less_key)
  have "a \<in> set pods" "b \<in> set pods"
    using ab SplitActivePods_sets(1) [OF assms(1), of hp pods n] by (auto simp: assms(2))
  moreover have "\<not> ?lt b a"
    using go_sort.cut_order [OF assms(1) sw, of a _ b] ab assms(2)
    unfolding SplitActivePods_def Let_def prod.inject by blast
  ultimately show "\<not> deletion_key W (hp b) < deletion_key W (hp a)"
    using nc by (simp add: ActivePods_Less_key)
qed

definition sorting_world :: world where
  "sorting_world = quiet_world\<lparr>w_sort := insertionSort\<rparr>"

lemma go_sort_sorting_world [simp]: "go_sort (w_sort sorting_world)"
  by (simp add: sorting_world_def go_sort_insertionSort)

theorem SplitActivePods_picks_witness:
  "mset (fst (SplitActivePods sorting_world (heap st_init) [4, 7, 9] 2)) +
   mset (snd (SplitActivePods sorting_world (heap st_init) [4, 7, 9] 2)) = mset [4, 7, 9]"
  using SplitActivePods_picks [of sorting_world "heap st_init" "[4, 7, 9]" 2
      "fst (SplitActivePods sorting_world (heap st_init) [4, 7, 9] 2)"
      "snd (SplitActivePods sorting_world (heap st_init) [4, 7, 9] 2)"]
  by simp

lemma ExcludePods_set: "set (ExcludePods hp pods exclude) =
    {r \<in> set pods. \<forall>x \<in> set exclude. pod_UID (hp x) \<noteq> pod_UID (hp r)}"
  unfolding ExcludePods_def Let_def by (auto simp: rev_image_eqI)

lemma SplitUnhealthyPods_mset:
  assumes "go_sort (w_sort W)"
  shows "mset (fst (SplitUnhealthyPods W hp pods)) + mset (snd (SplitUnhealthyPods W hp pods)) = mset pods"
    and "length (fst (SplitUnhealthyPods W hp pods)) = length (filter (\<lambda>r. \<not> IsHealthy W (hp r)) pods)"
  using length_filter_le [of "\<lambda>r. \<not> IsHealthy W (hp r)" pods]
  by (auto simp: SplitUnhealthyPods_def Let_def go_sort.cut_mset [OF assms] go_sort.length_sort [OF assms])

text \<open>
  \<open>SplitUnhealthyPods\<close> returns as many pods as are unhealthy, but picks them by age: no pod
  it calls healthy is older than one it calls unhealthy. An old healthy pod is therefore returned
  as unhealthy in place of a young unhealthy one.
\<close>

theorem SplitUnhealthyPods_by_age:
  assumes "go_sort (w_sort W)" and "SplitUnhealthyPods W hp pods = (unhealthy, healthy)"
  shows "length unhealthy = length (filter (\<lambda>r. \<not> IsHealthy W (hp r)) pods) \<and>
         mset unhealthy + mset healthy = mset pods \<and>
         (\<forall>a \<in> set unhealthy. \<forall>b \<in> set healthy. pod_CreationTimestamp (hp a) \<le> pod_CreationTimestamp (hp b))"
proof (intro conjI ballI)
  show "length unhealthy = length (filter (\<lambda>r. \<not> IsHealthy W (hp r)) pods)"
    and "mset unhealthy + mset healthy = mset pods"
    using SplitUnhealthyPods_mset [OF assms(1), of hp pods] by (simp_all add: assms(2))
next
  fix a b assume ab: "a \<in> set unhealthy" "b \<in> set healthy"
  let ?lt = "\<lambda>a b. PodsByCreationTimestamp_Less (hp a) (hp b)"
  have "strict_weak ?lt (set pods)"
    by (intro strict_weak_key [where key = "\<lambda>r. (pod_CreationTimestamp (hp r), pod_Name (hp r))"])
      (auto simp: PodsByCreationTimestamp_Less_def)
  then have "\<not> ?lt b a"
    using go_sort.cut_order [OF assms(1), of ?lt pods a _ b] ab assms(2)
    unfolding SplitUnhealthyPods_def Let_def prod.inject by blast
  then show "pod_CreationTimestamp (hp a) \<le> pod_CreationTimestamp (hp b)"
    by (auto simp: PodsByCreationTimestamp_Less_def split: if_splits)
qed

text \<open>The witness: of an old healthy and a young failed pod, the healthy one is returned as unhealthy.\<close>

theorem SplitUnhealthyPods_by_age_witness:
  "let hp = (\<lambda>r. if r = 0 then empty_pod\<lparr>pod_Name := ''gpu-0'', pod_Phase := PodRunning, pod_CreationTimestamp := 1\<rparr>
                 else empty_pod\<lparr>pod_Name := ''gpu-1'', pod_Phase := PodFailed, pod_CreationTimestamp := 2\<rparr>)
   in SplitUnhealthyPods sorting_world hp [0, 1] = ([0], [1]) \<and>
      IsHealthy sorting_world (hp 0) \<and> \<not> IsHealthy sorting_world (hp 1) \<and>
      pod_CreationTimestamp (hp 0) \<le> pod_CreationTimestamp (hp 1)"
proof -
  define hp :: "nat \<Rightarrow> pod" where "hp = (\<lambda>r. if r = 0 then empty_pod\<lparr>pod_Name := ''gpu-0'', pod_Phase := PodRunning, pod_CreationTimestamp := 1\<rparr>
     else empty_pod\<lparr>pod_Name := ''gpu-1'', pod_Phase := PodFailed, pod_CreationTimestamp := 2\<rparr>)"
  have h: "IsHealthy sorting_world (hp 0)" "\<not> IsHealthy sorting_world (hp 1)"
    by (simp_all add: hp_def IsHealthy_def IsRunningAndReady_def IsRunning_def IsTerminating_def
        sorting_world_def quiet_world_def phase_defs empty_pod_def)
  have "SplitUnhealthyPods sorting_world hp [0, 1] = ([0], [1])"
    using h by (simp add: SplitUnhealthyPods_def Let_def)
      (simp add: sorting_world_def insertionSort_def PodsByCreationTimestamp_Less_def hp_def empty_pod_def)
  with h SplitUnhealthyPods_by_age [OF go_sort_sorting_world this] show ?thesis
    unfolding hp_def by (simp add: Let_def)
qed

end
