(* ===== verification/Scaling.thy ===== *)
theory Scaling
  imports NewPods Cordon PodSort
begin

text \<open>
  Scaling, pod processing and rolling updates of a NodeSet: the part of
  \<^verbatim>\<open>internal/controller/nodeset/nodeset_sync.go\<close> that creates and deletes pods
  (\<open>syncNodeSetPods\<close>, \<open>doPodScale\<close>, \<open>processCondemned\<close>, \<open>doPodProcessing\<close>,
  \<open>syncRollingUpdate\<close>).

  Pods that exist are references into the heap; pods to be created are values. A pod that is to be
  removed is first drained; it is deleted in a later reconcile, once Slurm reports that the node
  does no more work.
\<close>

section \<open>New pods\<close>

definition ControllerRefFailedReason :: string where "ControllerRefFailedReason = ''ControllerRefFailed''"

definition newNodeSetPodDaemon :: "world \<Rightarrow> nodeset \<Rightarrow> string \<Rightarrow> string \<Rightarrow> (err + pod) prog" where
  "newNodeSetPodDaemon W ns nodeName revisionHash = do {
     g \<leftarrow> GetSlurmController W (spec_ControllerRef (ns_Spec ns));
     case g of
       Inl e \<Rightarrow> do {
         emit (Eventf ''Warning'' ControllerRefFailedReason ''Info'' (Some e));
         State_Monad.return (Inl e)
       }
     | Inr controller \<Rightarrow>
         if nodeName = '''' then State_Monad.return (Inl (GoError ''nodeName must not be empty''))
         else with_result (GetNode W nodeName) (\<lambda>node.
           NewNodeSetDaemonSetPod W ns controller nodeName
             (mget (node_Annotations node) AnnotationNodeHostnameOverride) revisionHash)
   }"

definition newSimulatedDaemonPod :: "world \<Rightarrow> nodeset \<Rightarrow> string \<Rightarrow> (err + pod) prog" where
  "newSimulatedDaemonPod W ns nodeName =
     with_result (GetSlurmController W (spec_ControllerRef (ns_Spec ns))) (\<lambda>controller.
       if nodeName = '''' then State_Monad.return (Inl (GoError ''nodeName must not be empty''))
       else NewNodeSetSimulatedPod W ns controller nodeName)"

definition newNodeSetPodOrdinal :: "world \<Rightarrow> nodeset \<Rightarrow> int \<Rightarrow> string \<Rightarrow> (err + pod) prog" where
  "newNodeSetPodOrdinal W ns ordinal revisionHash = do {
     g \<leftarrow> GetSlurmController W (spec_ControllerRef (ns_Spec ns));
     case g of
       Inl e \<Rightarrow> do {
         emit (Eventf ''Warning'' ControllerRefFailedReason ''Info'' (Some e));
         State_Monad.return (Inl e)
       }
     | Inr controller \<Rightarrow> NewNodeSetStatefulSetPod W ns controller ordinal revisionHash
   }"

section \<open>Condemned pods\<close>

text \<open>\<^verbatim>\<open>kubecontroller.PodKey\<close>\<close>

definition PodKey :: "pod \<Rightarrow> string" where
  "PodKey p = pod_Namespace p @ ''/'' @ pod_Name p"

definition getPodKeys :: "(ref \<Rightarrow> pod) \<Rightarrow> ref list \<Rightarrow> string list" where
  "getPodKeys hp pods = map (\<lambda>r. PodKey (hp r)) pods"

text \<open>Deletion is the last step of \<open>processCondemned\<close>, reached only with a positive answer.\<close>

definition condemned_drained :: "world \<Rightarrow> nodeset \<Rightarrow> ref \<Rightarrow> pod \<Rightarrow> bool \<times> error \<Rightarrow> error prog" where
  "condemned_drained W ns r p d =
     (case d of
        (_, Some e) \<Rightarrow> fail e
      | (isDrained, None) \<Rightarrow>
          if \<not> isDrained
          then do {
            durationStore_Push (KeyFunc ns) (30 * Second);
            emit (DeletionObserved (KeyFunc ns) (PodKey p));
            makePodCordonAndDrain W ns r (''Pod ('' @ KObj p @ '') was cordoned pending termination'')
          }
          else do {
            e \<leftarrow> DeleteNodeSetPod W p;
            State_Monad.return (case e of Some x \<Rightarrow> if \<not> IsNotFound x then Some x else None | None \<Rightarrow> None)
          })"

definition processCondemned :: "world \<Rightarrow> nodeset \<Rightarrow> ref \<Rightarrow> error prog" where
  "processCondemned W ns r = do {
     p0 \<leftarrow> load r;
     g \<leftarrow> GetPod W (pod_key p0);
     case g of
       Inl e \<Rightarrow> fail e
     | Inr p \<Rightarrow> do {
         store r p;
         if IsTerminating p then ok
         else State_Monad.bind (IsNodeDrained W ns p) (condemned_drained W ns r p)
       }
   }"

text \<open>The function both callers run per condemned pod.\<close>

definition deletePodFn :: "world \<Rightarrow> nodeset \<Rightarrow> ref \<Rightarrow> error prog" where
  "deletePodFn W ns r = do {
     p \<leftarrow> load r;
     e \<leftarrow> processCondemned W ns r;
     case e of
       None \<Rightarrow> ok
     | Some x \<Rightarrow> do {
         emit (DeletionObserved (KeyFunc ns) (PodKey p));
         State_Monad.return (if \<not> IsNotFound x then Some x else None)
       }
   }"

section \<open>doPodScale\<close>

definition burstReplicas :: int where "burstReplicas = 250"

definition createPodFn :: "world \<Rightarrow> nodeset \<Rightarrow> pod \<Rightarrow> error prog" where
  "createPodFn W ns p = do {
     e \<leftarrow> CreateNodeSetPod W ns p;
     State_Monad.return (case e of Some x \<Rightarrow> if IsNamespaceTerminating x then None else Some x | None \<Rightarrow> None)
   }"

definition fixPodPVCsFn :: "world \<Rightarrow> nodeset \<Rightarrow> ref \<Rightarrow> error prog" where
  "fixPodPVCsFn W ns r = do {
     p \<leftarrow> load r;
     m \<leftarrow> PodPVCsMatchRetentionPolicy W ns p;
     case m of
       (_, Some e) \<Rightarrow> fail e
     | (matchPolicy, None) \<Rightarrow> if \<not> matchPolicy then UpdatePodPVCsForRetentionPolicy W ns p else ok
   }"

text \<open>\<^verbatim>\<open>for range skippedPods { r.expectations.CreationObserved(logger, key) }\<close>\<close>

fun observe_creations :: "string \<Rightarrow> nat \<Rightarrow> unit prog" where
  "observe_creations key 0 = State_Monad.return ()"
| "observe_creations key (Suc n) = do { emit (CreationObserved key); observe_creations key n }"

definition doPodScale :: "world \<Rightarrow> nodeset \<Rightarrow> ref list \<Rightarrow> ref list \<Rightarrow> pod list \<Rightarrow> error prog" where
  "doPodScale W ns podsToKeep podsToDelete podsToCreate = do {
     hp \<leftarrow> load_heap;
     let podsToKeep = ExcludePods hp podsToKeep podsToDelete;
     let key = KeyFunc ns;
     let numDelete = nat (Clamp (int (length podsToDelete)) 0 burstReplicas);
     let numCreate = nat (Clamp (int (length podsToCreate)) 0 burstReplicas);
     andthen (ExpectDeletions W key (getPodKeys hp (take numDelete podsToDelete))) (do {
       emit (RaisedExpectations key (length (take numCreate podsToCreate)) 0);
       andthen (SlowStart W (length podsToKeep) (\<lambda>i. syncPodUncordon W ns (podsToKeep ! i))) (do {
         c \<leftarrow> SlowStartBatch (w_sched W) numCreate SlowStartInitialBatchSize
                (\<lambda>i. createPodFn W ns (podsToCreate ! i));
         let (successfulCreations, createErr) = c;
         observe_creations key (numCreate - successfulCreations);
         pvcErr \<leftarrow> SlowStart W (length podsToDelete) (\<lambda>i. fixPodPVCsFn W ns (podsToDelete ! i));
         delErr \<leftarrow> SlowStart W numDelete (\<lambda>i. deletePodFn W ns (podsToDelete ! i));
         State_Monad.return (NewAggregate (List.map_filter id [createErr, pvcErr, delErr]))
       })
     })
   }"

section \<open>Revisions\<close>

definition findUpdatedPods :: "(ref \<Rightarrow> pod) \<Rightarrow> ref list \<Rightarrow> string \<Rightarrow> ref list \<times> ref list" where
  "findUpdatedPods hp pods hash =
     (let live = filter (\<lambda>r. \<not> IsTerminating (hp r)) pods
      in (filter (\<lambda>r. GetRevision (pod_Labels (hp r)) = hash) live,
          filter (\<lambda>r. GetRevision (pod_Labels (hp r)) \<noteq> hash) live))"

definition splitUpdatePods :: "world \<Rightarrow> nodeset \<Rightarrow> ref list \<Rightarrow> string \<Rightarrow> (ref list \<times> ref list) prog" where
  "splitUpdatePods W ns pods hash =
     (if spec_UpdateStrategyType (ns_Spec ns) = OnDeleteType then State_Monad.return ([], [])
      else do {
        hp \<leftarrow> load_heap;
        let (newPods, oldPods) = findUpdatedPods hp pods hash;
        now \<leftarrow> Now W;
        let numUnavailable = int (length (filter (\<lambda>r.
              \<not> w_IsPodAvailable W (hp r) (spec_MinReadySeconds (ns_Spec ns)) now) newPods));
        let totalPods = (if is_daemonset ns then int (length pods)
                         else deref (spec_Replicas (ns_Spec ns)) DefaultNodeSetReplicas);
        let maxUnavailable = GetScaledValueFromIntOrPercent W (spec_MaxUnavailable (ns_Spec ns)) totalPods True 1;
        let remainingUnavailable = Clamp (maxUnavailable - numUnavailable) 0 maxUnavailable;
        let (podsToDelete, remainingOldPods) = SplitActivePods W hp oldPods remainingUnavailable;
        State_Monad.return (podsToDelete, newPods @ remainingOldPods)
      })"

section \<open>Processing\<close>

definition processNodeSetPod :: "world \<Rightarrow> nodeset \<Rightarrow> ref \<Rightarrow> error prog" where
  "processNodeSetPod W ns r = do {
     p \<leftarrow> load r;
     if IsFailed p \<or> IsSucceeded p
     then if \<not> IsTerminating p then DeleteNodeSetPod W p else ok
     else UpdateNodeSetPod W ns r
   }"

definition doPodProcessing :: "world \<Rightarrow> nodeset \<Rightarrow> ref list \<Rightarrow> ref list \<Rightarrow> string \<Rightarrow> error prog" where
  "doPodProcessing W ns pods podsToDelete hash =
     andthen (SetExpectations W (KeyFunc ns) 0 0) (do {
       split \<leftarrow> splitUpdatePods W ns pods hash;
       let podsToKeep = snd split;
       keepErr \<leftarrow> SlowStart W (length podsToKeep) (\<lambda>i. syncPodUncordon W ns (podsToKeep ! i));
       delErr \<leftarrow> SlowStart W (length podsToDelete) (\<lambda>i. deletePodFn W ns (podsToDelete ! i));
       procErr \<leftarrow> SlowStart W (length pods) (\<lambda>i. processNodeSetPod W ns (pods ! i));
       State_Monad.return (NewAggregate (List.map_filter id [keepErr, delErr, procErr]))
     })"

section \<open>Rolling updates\<close>

definition RollingUpdateReason :: string where "RollingUpdateReason = ''RollingUpdate''"

definition syncRollingUpdate :: "world \<Rightarrow> nodeset \<Rightarrow> ref list \<Rightarrow> string \<Rightarrow> error prog" where
  "syncRollingUpdate W ns pods hash = do {
     hp \<leftarrow> load_heap;
     let (newPods, oldPods) = findUpdatedPods hp pods hash;
     let (unhealthyPods, healthyPods) = SplitUnhealthyPods W hp oldPods;
     andthen
       (if length unhealthyPods > 0
        then do {
          emit (Eventf ''Normal'' RollingUpdateReason ''RollingUpdate'' None);
          doPodScale W ns [] unhealthyPods []
        }
        else ok)
       (do {
          split \<leftarrow> splitUpdatePods W ns healthyPods hash;
          let podsToDelete = fst split;
          if length podsToDelete > 0
          then do {
            emit (Eventf ''Normal'' RollingUpdateReason ''RollingUpdate'' None);
            doPodScale W ns [] podsToDelete []
          }
          else ok
        })
   }"

definition syncUpdate :: "world \<Rightarrow> nodeset \<Rightarrow> ref list \<Rightarrow> string \<Rightarrow> error prog" where
  "syncUpdate W ns pods hash =
     (if spec_UpdateStrategyType (ns_Spec ns) = OnDeleteType then ok
      else syncRollingUpdate W ns pods hash)"

section \<open>DaemonSet mode\<close>

text \<open>An error counts as a node that no pod may run on; a panic of the builder ends the sync.\<close>

definition NodeShouldRunDaemonPod :: "world \<Rightarrow> node \<Rightarrow> nodeset \<Rightarrow> (err + bool \<times> bool) prog" where
  "NodeShouldRunDaemonPod W node ns = do {
     g \<leftarrow> newSimulatedDaemonPod W ns (node_Name node);
     State_Monad.return
       (case g of
          Inl (Panic m) \<Rightarrow> Inl (Panic m)
        | Inl _ \<Rightarrow> Inr (False, False)
        | Inr p \<Rightarrow> Inr (PodShouldRunOnNode W p node))
   }"

fun count_nodes_for :: "world \<Rightarrow> nodeset \<Rightarrow> node list \<Rightarrow> int \<Rightarrow> (err + int) prog" where
  "count_nodes_for W ns [] k = State_Monad.return (Inr k)"
| "count_nodes_for W ns (n # nodes) k =
     with_result (NodeShouldRunDaemonPod W n ns) (\<lambda>r.
       count_nodes_for W ns nodes (if fst r then k + 1 else k))"

definition getDesiredNodeCountForDaemonSet :: "world \<Rightarrow> nodeset \<Rightarrow> (err + int) prog" where
  "getDesiredNodeCountForDaemonSet W ns =
     with_result (ListNodes W) (\<lambda>nodes. count_nodes_for W ns nodes 0)"

text \<open>The pods of each node, in the order of the list; pods without a target node are skipped.\<close>

definition getNodesToDaemonPods ::
  "world \<Rightarrow> (ref \<Rightarrow> pod) \<Rightarrow> ref list \<Rightarrow> bool \<Rightarrow> string \<rightharpoonup> ref list" where
  "getNodesToDaemonPods W hp pods includeDeletedTerminal =
     foldl (\<lambda>m r.
       if \<not> includeDeletedTerminal \<and> w_IsPodTerminal W (hp r) \<and> IsTerminating (hp r) then m
       else case w_GetTargetNodeName W (hp r) of
              None \<Rightarrow> m
            | Some nodeName \<Rightarrow> m(nodeName \<mapsto> (case m nodeName of Some rs \<Rightarrow> rs | None \<Rightarrow> []) @ [r]))
       Map.empty pods"

definition failedPodsBackoffKey :: "nodeset \<Rightarrow> string \<Rightarrow> string" where
  "failedPodsBackoffKey ns nodeName =
     ns_UID ns @ ''/'' @ Itoa (status_ObservedGeneration (ns_Status ns)) @ ''/'' @ nodeName"

definition FailedDaemonPodReason :: string where "FailedDaemonPodReason = ''FailedDaemonPod''"
definition SucceededDaemonPodReason :: string where "SucceededDaemonPodReason = ''SucceededDaemonPod''"

definition EnqueueNodeSetAfter :: "nodeset \<Rightarrow> duration \<Rightarrow> unit prog" where
  "EnqueueNodeSetAfter ns after = durationStore_Push (KeyFunc ns) after"

text \<open>The loop over the pods of a node: pods that run, pods to delete.\<close>

fun sort_out_daemon_pods ::
  "world \<Rightarrow> nodeset \<Rightarrow> node \<Rightarrow> ref list \<Rightarrow> ref list \<Rightarrow> ref list \<Rightarrow> (ref list \<times> ref list) prog" where
  "sort_out_daemon_pods W ns node [] running toDelete = State_Monad.return (running, toDelete)"
| "sort_out_daemon_pods W ns node (r # rs) running toDelete = do {
     p \<leftarrow> load r;
     if pod_DeletionTimestamp p \<noteq> None then sort_out_daemon_pods W ns node rs running toDelete
     else if pod_Phase p = PodFailed
     then do {
       let backoffKey = failedPodsBackoffKey ns (node_Name node);
       now \<leftarrow> Now W;
       inBackoff \<leftarrow> IsInBackOff W backoffKey;
       if inBackoff
       then do {
         delay \<leftarrow> BackOffGet W backoffKey;
         EnqueueNodeSetAfter ns delay;
         sort_out_daemon_pods W ns node rs running toDelete
       }
       else do {
         emit (BackOffNext backoffKey);
         emit (Eventf ''Warning'' FailedDaemonPodReason ''Info'' None);
         sort_out_daemon_pods W ns node rs running (toDelete @ [r])
       }
     }
     else if pod_Phase p = PodSucceeded
     then do {
       emit (Eventf ''Normal'' SucceededDaemonPodReason ''Info'' None);
       sort_out_daemon_pods W ns node rs running (toDelete @ [r])
     }
     else if mget (pod_Labels p) LabelNodeSetPodHostname \<noteq>
             GetDaemonSetPodHostname (node_Name node) (mget (node_Annotations node) AnnotationNodeHostnameOverride)
     then do {
       emit (Eventf ''Normal'' ''HostnameMismatch'' ''Info'' None);
       sort_out_daemon_pods W ns node rs running (toDelete @ [r])
     }
     else sort_out_daemon_pods W ns node rs (running @ [r]) toDelete
   }"

definition podsShouldBeOnNode ::
  "world \<Rightarrow> node \<Rightarrow> (string \<rightharpoonup> ref list) \<Rightarrow> nodeset \<Rightarrow> (err + string list \<times> ref list) prog" where
  "podsShouldBeOnNode W node nodeToDaemonPods ns =
     with_result (NodeShouldRunDaemonPod W node ns) (\<lambda>(shouldRun, shouldContinueRunning).
       case nodeToDaemonPods (node_Name node) of
         None \<Rightarrow> State_Monad.return (Inr (if shouldRun then [node_Name node] else [], []))
       | Some daemonPods \<Rightarrow>
           if shouldContinueRunning
           then do {
             s \<leftarrow> sort_out_daemon_pods W ns node daemonPods [] [];
             let (running, toDelete) = s;
             hp \<leftarrow> load_heap;
             State_Monad.return (Inr ([],
               if length running \<le> 1 then toDelete
               else toDelete @ drop 1 (w_sort W (\<lambda>a b. ActivePods_Less W (hp a) (hp b)) running)))
           }
           else do {
             hp \<leftarrow> load_heap;
             State_Monad.return (Inr ([], filter (\<lambda>r. pod_DeletionTimestamp (hp r) = None) daemonPods))
           })"

fun visit_nodes ::
  "world \<Rightarrow> nodeset \<Rightarrow> (string \<rightharpoonup> ref list) \<Rightarrow> node list \<Rightarrow> string list \<Rightarrow> ref list \<Rightarrow>
   (err + string list \<times> ref list) prog" where
  "visit_nodes W ns m [] needing toDelete = State_Monad.return (Inr (needing, toDelete))"
| "visit_nodes W ns m (n # nodes) needing toDelete =
     with_result (podsShouldBeOnNode W n m ns) (\<lambda>x.
       visit_nodes W ns m nodes (needing @ fst x) (toDelete @ snd x))"

fun daemon_pods :: "world \<Rightarrow> nodeset \<Rightarrow> string \<Rightarrow> string list \<Rightarrow> pod list \<Rightarrow> (err + pod list) prog" where
  "daemon_pods W ns hash [] acc = State_Monad.return (Inr acc)"
| "daemon_pods W ns hash (n # names) acc = do {
     r \<leftarrow> newNodeSetPodDaemon W ns n hash;
     case r of
       Inl e \<Rightarrow> State_Monad.return (Inl e)
     | Inr p \<Rightarrow> daemon_pods W ns hash names (acc @ [p])
   }"

section \<open>StatefulSet mode\<close>

text \<open>\<^verbatim>\<open>for usedOrdinals.Has(ordinal) { ordinal++ }\<close>\<close>

function next_unused :: "int list \<Rightarrow> int \<Rightarrow> int" where
  "next_unused used ordinal = (if ordinal \<in> set used then next_unused used (ordinal + 1) else ordinal)"
  by pat_completeness auto
termination
proof (relation "measure (\<lambda>(used, o'). card {x \<in> set used. o' \<le> x})")
  fix used :: "int list" and ordinal :: int
  assume "ordinal \<in> set used"
  then have "ordinal \<in> {x \<in> set used. ordinal \<le> x} - {x \<in> set used. ordinal + 1 \<le> x}" by simp
  moreover have "{x \<in> set used. ordinal + 1 \<le> x} \<subseteq> {x \<in> set used. ordinal \<le> x}" by auto
  ultimately have "{x \<in> set used. ordinal + 1 \<le> x} \<subset> {x \<in> set used. ordinal \<le> x}" by blast
  then show "((used, ordinal + 1), (used, ordinal)) \<in> measure (\<lambda>(used, o'). card {x \<in> set used. o' \<le> x})"
    by (simp add: psubset_card_mono)
qed simp

declare next_unused.simps [simp del]

fun ordinal_pods ::
  "world \<Rightarrow> nodeset \<Rightarrow> string \<Rightarrow> nat \<Rightarrow> int list \<Rightarrow> int \<Rightarrow> pod list \<Rightarrow> (err + pod list) prog" where
  "ordinal_pods W ns hash 0 used ordinal acc = State_Monad.return (Inr acc)"
| "ordinal_pods W ns hash (Suc n) used ordinal acc =
     (let ordinal' = next_unused used ordinal in do {
        r \<leftarrow> newNodeSetPodOrdinal W ns ordinal' hash;
        case r of
          Inl e \<Rightarrow> State_Monad.return (Inl e)
        | Inr p \<Rightarrow> ordinal_pods W ns hash n (ordinal' # used) ordinal' (acc @ [p])
      })"

section \<open>syncNodeSetPods\<close>

definition ScalingUpReason :: string where "ScalingUpReason = ''ScalingUp''"
definition ScalingDownReason :: string where "ScalingDownReason = ''ScalingDown''"

definition only_if :: "bool \<Rightarrow> unit prog \<Rightarrow> unit prog" where
  "only_if b m = (if b then m else State_Monad.return ())"

definition scale_daemonset ::
  "world \<Rightarrow> nodeset \<Rightarrow> ref list \<Rightarrow> ref list \<Rightarrow> string \<Rightarrow> error prog" where
  "scale_daemonset W ns podsNewScaling podsOldScaling hash = do {
     g \<leftarrow> ListNodes W;
     case g of
       Inl e \<Rightarrow> fail e
     | Inr nodes \<Rightarrow> do {
         hp \<leftarrow> load_heap;
         let nodeToDaemonPods = getNodesToDaemonPods W hp podsNewScaling False;
         with_value (visit_nodes W ns nodeToDaemonPods nodes [] []) (\<lambda>(needing, podsToDelete).
         with_value (daemon_pods W ns hash needing []) (\<lambda>podsToCreate.
           if length podsToDelete > 0 \<or> length podsToCreate > 0
           then do {
             only_if (length podsToCreate > 0) (emit (Eventf ''Normal'' ScalingUpReason ''ScaleUp'' None));
             only_if (length podsToDelete > 0) (emit (Eventf ''Normal'' ScalingDownReason ''ScaleDown'' None));
             doPodScale W ns podsNewScaling podsToDelete podsToCreate
           }
           else doPodProcessing W ns podsNewScaling podsOldScaling hash))
       }
   }"

definition scale_statefulset ::
  "world \<Rightarrow> nodeset \<Rightarrow> ref list \<Rightarrow> ref list \<Rightarrow> ref list \<Rightarrow> string \<Rightarrow> error prog" where
  "scale_statefulset W ns pods podsNewScaling podsOldScaling hash = do {
     hp \<leftarrow> load_heap;
     let replicaCount = deref (spec_Replicas (ns_Spec ns)) DefaultNodeSetReplicas;
     let diff = int (length podsNewScaling) - replicaCount;
     if diff < 0
     then with_value (ordinal_pods W ns hash (nat (- diff)) (map (\<lambda>r. GetOrdinal (hp r)) pods) 0 []) (\<lambda>podsToCreate. do {
            emit (Eventf ''Normal'' ScalingUpReason ''ScaleUp'' None);
            doPodScale W ns podsNewScaling [] podsToCreate
          })
     else if diff > 0
     then do {
       emit (Eventf ''Normal'' ScalingDownReason ''ScaleDown'' None);
       let (podsToDelete, podsToKeep) = SplitActivePods W hp podsNewScaling diff;
       doPodScale W ns podsToKeep podsToDelete []
     }
     else doPodProcessing W ns podsNewScaling podsOldScaling hash
   }"

definition syncNodeSetPods :: "world \<Rightarrow> nodeset \<Rightarrow> ref list \<Rightarrow> string \<Rightarrow> error prog" where
  "syncNodeSetPods W ns pods hash = do {
     hp \<leftarrow> load_heap;
     let same = (\<lambda>r. mget (pod_Labels (hp r)) LabelNodeSetScalingMode = spec_ScalingMode (ns_Spec ns));
     let podsOldScaling = filter (\<lambda>r. \<not> same r) pods;
     let podsNewScaling = filter same pods;
     if is_daemonset ns then scale_daemonset W ns podsNewScaling podsOldScaling hash
     else scale_statefulset W ns pods podsNewScaling podsOldScaling hash
   }"

section \<open>Effects\<close>

lemma keeps_new_pods [keeps_intros]:
  assumes "permits Q reads" "permits Q controls"
  shows "keeps (logs Q) (newNodeSetPodDaemon W ns n h)" "keeps (logs Q) (newNodeSetPodOrdinal W ns i h)"
    "keeps (logs Q) (newSimulatedDaemonPod W ns n)" "keeps (logs Q) (NodeShouldRunDaemonPod W node ns)"
  unfolding newNodeSetPodDaemon_def newNodeSetPodOrdinal_def newSimulatedDaemonPod_def NodeShouldRunDaemonPod_def
  by (intro keeps_intros assms)+

lemma keeps_ordinal_pods [keeps_intros]:
  assumes "permits Q reads" "permits Q controls"
  shows "keeps (logs Q) (ordinal_pods W ns hash n used i acc)"
  by (induction n arbitrary: used i acc) (auto simp: Let_def intro!: keeps_intros assms)

lemma keeps_daemon_pods [keeps_intros]:
  assumes "permits Q reads" "permits Q controls"
  shows "keeps (logs Q) (daemon_pods W ns hash names acc)"
  by (induction names arbitrary: acc) (auto intro!: keeps_intros assms)

lemma keeps_EnqueueNodeSetAfter [keeps_intros]: "keeps (logs Q) (EnqueueNodeSetAfter ns d)"
  unfolding EnqueueNodeSetAfter_def by (intro keeps_intros)

lemma keeps_sort_out_daemon_pods [keeps_intros]:
  assumes "permits Q reads" "permits Q controls"
  shows "keeps (logs Q) (sort_out_daemon_pods W ns node rs running toDelete)"
  by (induction rs arbitrary: running toDelete) (auto simp: Let_def intro!: keeps_intros assms)

lemma keeps_podsShouldBeOnNode [keeps_intros]:
  assumes "permits Q reads" "permits Q controls"
  shows "keeps (logs Q) (podsShouldBeOnNode W node m ns)"
  unfolding podsShouldBeOnNode_def Let_def by (intro keeps_intros assms)

lemma keeps_visit_nodes [keeps_intros]:
  assumes "permits Q reads" "permits Q controls"
  shows "keeps (logs Q) (visit_nodes W ns m nodes needing toDelete)"
  by (induction nodes arbitrary: needing toDelete) (auto intro!: keeps_intros assms)

lemma keeps_observe_creations [keeps_intros]:
  "permits Q controls \<Longrightarrow> keeps (logs Q) (observe_creations key n)"
  by (induction n) (auto intro!: keeps_intros)

lemma keeps_only_if [keeps_intros]: "keeps I m \<Longrightarrow> keeps I (only_if b m)"
  by (simp add: only_if_def keeps_return)

lemma keeps_splitUpdatePods [keeps_intros]:
  "permits Q reads \<Longrightarrow> keeps (logs Q) (splitUpdatePods W ns pods hash)"
  unfolding splitUpdatePods_def Let_def by (intro keeps_intros)

lemma keeps_fixPodPVCsFn [keeps_intros]:
  assumes "permits Q reads" "permits Q controls" "permits Q claim_writes"
  shows "keeps (logs Q) (fixPodPVCsFn W ns r)"
  unfolding fixPodPVCsFn_def by (intro keeps_intros assms)

section \<open>Pods are drained before they are deleted\<close>

text \<open>
  A pod deletion is preceded, with nothing but reads in between, by a read of the pod that shows it
  is not terminating, and directly by an answer about its Slurm node that counts as drained.
\<close>

definition drained_first :: "nodeset \<Rightarrow> history \<Rightarrow> ev \<Rightarrow> bool" where
  "drained_first ns h e \<longleftrightarrow> (\<forall>k x. e = Wr (DeletedPod k x) \<longrightarrow>
     (\<exists>p k0 h1 h0. h = h1 @ Rd (GotPod k0 (Inr p)) # h0 \<and> list_all reads h1 \<and>
        k = pod_key p \<and> \<not> IsTerminating p \<and> answered node_drained ns p h))"

lemma drained_first_permits [simp]:
  "permits (drained_first ns) reads" "permits (drained_first ns) controls"
  "permits (drained_first ns) slurm_writes" "permits (drained_first ns) claim_writes"
  "permits (drained_first ns) pod_updates" "permits (drained_first ns) pod_creates"
  by (auto simp: permits_def drained_first_def)

lemma drained_first_condemned:
  assumes "\<not> IsTerminating p" and "list_all reads h" and "answered node_drained ns p (h @ Rd (GotPod k0 (Inr p)) # g)"
  shows "triple (\<lambda>s. logs (drained_first ns) s \<and> log s = h @ Rd (GotPod k0 (Inr p)) # g)
    (condemned_drained W ns r p (True, None)) (\<lambda>_. logs (drained_first ns))"
proof -
  let ?P = "\<lambda>s. logs (drained_first ns) s \<and> log s = h @ Rd (GotPod k0 (Inr p)) # g"
  have "drained_first ns (h @ Rd (GotPod k0 (Inr p)) # g) (Wr (DeletedPod (pod_key p) x))" for x
    unfolding drained_first_def using assms by blast
  then have "triple ?P (DeletePod_api W (pod_key p)) (\<lambda>_. logs (drained_first ns))"
    unfolding call_defs by (intro triple_call) (auto simp: logs_def)
  then have "triple ?P (DeleteNodeSetPod W p) (\<lambda>_. logs (drained_first ns))"
    unfolding DeleteNodeSetPod_def DeletePod_def by (elim triple_first) (intro keeps_intros drained_first_permits)
  then show ?thesis
    unfolding condemned_drained_def
    by (simp, elim triple_first) (intro keeps_intros)
qed

lemma keeps_drained_first_processCondemned:
  "keeps (logs (drained_first ns)) (processCondemned W ns r)"
proof (rule keepsI)
  fix s assume s: "logs (drained_first ns) s"
  let ?k = "pod_key (heap s r)"
  show "logs (drained_first ns) (snd (run_state (processCondemned W ns r) s))"
  proof (cases "w_GetPod W (log s) ?k")
    case (Inl e)
    then show ?thesis
      using s by (simp add: processCondemned_def call_defs drained_first_def logsD)
  next
    case (Inr p)
    let ?g = "Rd (GotPod ?k (Inr p)) # log s"
    let ?t = "s\<lparr>log := ?g, heap := (heap s)(r := p)\<rparr>"
    have t: "logs (drained_first ns) ?t \<and> log ?t = ?g"
      using s by (simp add: drained_first_def logsD)
    have "triple (\<lambda>s. logs (drained_first ns) s \<and> log s = ?g)
        (State_Monad.bind (IsNodeDrained W ns p) (condemned_drained W ns r p)) (\<lambda>_. logs (drained_first ns))"
      if "\<not> IsTerminating p"
    proof (rule slurm.guarded)
      show "keeps (logs (drained_first ns)) (condemned_drained W ns r p (b, e))" if "\<not> b \<or> e \<noteq> None" for b e
        using that unfolding condemned_drained_def
        by (cases e) (auto intro!: keeps_intros)
    qed (simp_all add: drained_first_condemned that)
    from tripleD [OF this t] t show ?thesis
      by (simp add: processCondemned_def call_defs Inr)
  qed
qed

lemma keeps_drained_first_deletePodFn: "keeps (logs (drained_first ns)) (deletePodFn W ns r)"
  unfolding deletePodFn_def by (intro keeps_intros keeps_drained_first_processCondemned drained_first_permits)

lemma keeps_drained_first_doPodScale:
  "keeps (logs (drained_first ns)) (doPodScale W ns podsToKeep podsToDelete podsToCreate)"
  unfolding doPodScale_def createPodFn_def Let_def
  by (intro keeps_intros keeps_drained_first_deletePodFn drained_first_permits)


text \<open>
  C1. Neither scaling nor a rolling update deletes a pod whose Slurm node may still do work:
  every pod deletion they ask for comes right after an answer that the pod's Slurm node is drained
  (or does not exist, or that the cluster has no client), and after a read of the pod that shows it
  is not terminating already. This holds for every answer the API server and Slurm may give, and
  for every scheduling of the goroutines.
\<close>

theorem pods_drained_before_deletion:
  "keeps (logs (drained_first ns)) (doPodScale W ns podsToKeep podsToDelete podsToCreate) \<and>
   keeps (logs (drained_first ns)) (syncUpdate W ns pods hash)"
  unfolding syncUpdate_def syncRollingUpdate_def Let_def
  by (intro conjI keeps_intros keeps_drained_first_doPodScale drained_first_permits)

section \<open>Rolling updates\<close>

lemma findUpdatedPods_old:
  "findUpdatedPods hp (snd (findUpdatedPods hp pods hash)) hash = ([], snd (findUpdatedPods hp pods hash))"
  by (auto simp: findUpdatedPods_def Let_def filter_empty_conv intro: filter_cong)

lemma run_bind_load_heap: "run_state (State_Monad.bind load_heap f) s = run_state (f (heap s)) s"
  by simp

text \<open>
  A rolling update looks at the pods of old revisions only: it does the same as if there were
  no updated pods. In particular its budget is not reduced by updated pods that are not available yet,
  although \<open>splitUpdatePods\<close> counts them.
\<close>

theorem syncRollingUpdate_ignores_updated_pods:
  "run_state (syncRollingUpdate W ns pods hash) s =
   run_state (syncRollingUpdate W ns (snd (findUpdatedPods (heap s) pods hash)) hash) s"
  unfolding syncRollingUpdate_def run_bind_load_heap Let_def split_beta findUpdatedPods_old snd_conv by (rule refl)

lemma mset_filter_split: "mset (filter P xs) + mset (filter (\<lambda>x. \<not> P x) xs) = mset xs"
  by (induction xs) auto

text \<open>The number of updated pods that are not available at the time the clock shows.\<close>

definition unavailable_pods :: "world \<Rightarrow> nodeset \<Rightarrow> st \<Rightarrow> ref list \<Rightarrow> string \<Rightarrow> int" where
  "unavailable_pods W ns s pods hash =
     int (length (filter (\<lambda>r. \<not> w_IsPodAvailable W (heap s r) (spec_MinReadySeconds (ns_Spec ns)) (w_Now W (log s)))
       (fst (findUpdatedPods (heap s) pods hash))))"

definition update_budget :: "world \<Rightarrow> nodeset \<Rightarrow> ref list \<Rightarrow> int" where
  "update_budget W ns pods =
     GetScaledValueFromIntOrPercent W (spec_MaxUnavailable (ns_Spec ns))
       (if is_daemonset ns then int (length pods) else deref (spec_Replicas (ns_Spec ns)) DefaultNodeSetReplicas) True 1"

text \<open>
  C10. \<open>splitUpdatePods\<close> splits the pods that are not terminating into pods to replace and pods to keep.
  It picks only pods of an old revision, and only so many that they and the updated pods that are
  not available together stay within the budget \<^verbatim>\<open>maxUnavailable\<close> (it picks none if the latter
  exceed it alone); if any old pod is kept, the budget is used up.
\<close>

theorem splitUpdatePods_within_budget:
  assumes "go_sort (w_sort W)" and "spec_UpdateStrategyType (ns_Spec ns) \<noteq> OnDeleteType"
    and "0 \<le> update_budget W ns pods"
    and "run_state (splitUpdatePods W ns pods hash) s = ((toDelete, toKeep), t)"
  shows "mset toDelete + mset toKeep = mset (filter (\<lambda>r. \<not> IsTerminating (heap s r)) pods) \<and>
    (\<forall>r \<in> set toDelete. GetRevision (pod_Labels (heap s r)) \<noteq> hash) \<and>
    (toDelete = [] \<or> int (length toDelete) + unavailable_pods W ns s pods hash \<le> update_budget W ns pods) \<and>
    ((\<exists>r \<in> set toKeep. GetRevision (pod_Labels (heap s r)) \<noteq> hash) \<longrightarrow>
       update_budget W ns pods \<le> int (length toDelete) + unavailable_pods W ns s pods hash)"
proof -
  let ?new = "fst (findUpdatedPods (heap s) pods hash)" and ?old = "snd (findUpdatedPods (heap s) pods hash)"
  let ?u = "unavailable_pods W ns s pods hash" and ?m = "update_budget W ns pods"
  let ?s = "SplitActivePods W (heap s) ?old (Clamp (?m - ?u) 0 ?m)"
  have r: "toDelete = fst ?s" "toKeep = ?new @ snd ?s"
    using assms(2,4) unfolding splitUpdatePods_def
    by (simp_all add: call_defs Let_def split_beta unavailable_pods_def update_budget_def)
  have parts: "mset (fst ?s) + mset (snd ?s) = mset ?old" "set (fst ?s) \<union> set (snd ?s) = set ?old"
    using SplitActivePods_sets(1,2) [OF assms(1)] by blast+
  have old: "GetRevision (pod_Labels (heap s r)) \<noteq> hash" if "r \<in> set ?old" for r
    using that by (simp add: findUpdatedPods_def Let_def)
  have new: "GetRevision (pod_Labels (heap s r)) = hash" if "r \<in> set ?new" for r
    using that by (simp add: findUpdatedPods_def Let_def)
  have "mset ?new + mset ?old = mset (filter (\<lambda>r. \<not> IsTerminating (heap s r)) pods)"
    unfolding findUpdatedPods_def Let_def fst_conv snd_conv by (rule mset_filter_split)
  then have 1: "mset toDelete + mset toKeep = mset (filter (\<lambda>r. \<not> IsTerminating (heap s r)) pods)"
    using parts(1) by (simp add: r add.assoc add.left_commute)
  have 2: "\<forall>r \<in> set toDelete. GetRevision (pod_Labels (heap s r)) \<noteq> hash"
    using old parts(2) by (auto simp: r)
  have u: "0 \<le> ?u"
    by (simp add: unavailable_pods_def)
  have len: "int (length toDelete) = min (max (?m - ?u) 0) (int (length ?old))"
    using length_SplitActivePods(1) [OF assms(1), of "heap s" ?old "Clamp (?m - ?u) 0 ?m"] assms(3) u
    by (simp add: r Clamp_zero)
  then have 3: "toDelete = [] \<or> int (length toDelete) + ?u \<le> ?m"
    by (cases "?m - ?u \<le> 0") (simp_all add: min_def split: if_splits)
  have 4: "?m \<le> int (length toDelete) + ?u" if "\<exists>r \<in> set toKeep. GetRevision (pod_Labels (heap s r)) \<noteq> hash"
  proof -
    have "snd ?s \<noteq> []"
      using that new by (auto simp: r)
    then have "length (fst ?s) < length ?old"
      using length_SplitActivePods(2) [OF assms(1), of "heap s" ?old "Clamp (?m - ?u) 0 ?m"]
      by (cases "snd ?s") simp_all
    with len show ?thesis
      by (simp add: r(1) [symmetric] min_def split: if_splits)
  qed
  from 1 2 3 4 show ?thesis by blast
qed


theorem splitUpdatePods_within_budget_witness:
  "case run_state (splitUpdatePods sorting_world sample_nodeset [4, 7] ''h1'') st_init of ((toDelete, toKeep), t) \<Rightarrow>
     update_budget sorting_world sample_nodeset [4, 7] = 1 \<and> mset toDelete + mset toKeep = mset [4, 7] \<and> length toDelete = 1"
proof -
  obtain toDelete toKeep t where r: "run_state (splitUpdatePods sorting_world sample_nodeset [4, 7] ''h1'') st_init = ((toDelete, toKeep), t)"
    by (metis prod.collapse)
  have b: "update_budget sorting_world sample_nodeset [4, 7] = 1"
    by (simp add: update_budget_def GetScaledValueFromIntOrPercent_def sorting_world_def quiet_world_def)
  have u: "spec_UpdateStrategyType (ns_Spec sample_nodeset) \<noteq> OnDeleteType"
    by (simp add: sample_nodeset_def SetNodeSetDefaults_spec_def default_string_def empty_nodeset_spec_def
        OnDeleteType_def RollingUpdateType_def Let_def)
  have old: "GetRevision (pod_Labels (heap st_init i)) \<noteq> ''h1''" "unavailable_pods sorting_world sample_nodeset st_init [4, 7] ''h1'' = 0"
    "filter (\<lambda>i. \<not> IsTerminating (heap st_init i)) [4, 7] = [4, 7]" for i
    by (simp_all add: st_init_def empty_pod_def IsTerminating_def unavailable_pods_def findUpdatedPods_def GetRevision_def)
  note split = splitUpdatePods_within_budget [OF go_sort_sorting_world u _ r, unfolded b old(3), simplified old(1,2), simplified]
  then have parts: "mset toDelete + mset toKeep = mset [4, 7]" "length toDelete \<le> 1" "toKeep \<noteq> [] \<longrightarrow> 1 \<le> length toDelete"
    by (auto simp: neq_Nil_conv)
  have "length toDelete + length toKeep = 2"
    using arg_cong [OF parts(1), of size] by simp
  with parts b show ?thesis
    by (cases "toKeep = []") (simp_all add: r)
qed

section \<open>Ordinals of new pods\<close>

lemma next_unused_fresh: "next_unused used i \<notin> set used" and next_unused_ge: "i \<le> next_unused used i"
  and next_unused_least: "i \<le> j \<Longrightarrow> j < next_unused used i \<Longrightarrow> j \<in> set used"
proof (induction used i rule: next_unused.induct)
  case (1 used i)
  { case 1
    then show ?case using "1.IH"(1) by (simp add: next_unused.simps [of used i]) }
  { case 2
    then show ?case using "1.IH"(2) by (cases "i \<in> set used") (auto simp: next_unused.simps [of used i]) }
  { case 3
    then show ?case using "1.IH"(3) next_unused.simps [of used i] by (cases "i = j") (auto split: if_splits) }
qed

text \<open>The ordinals the loop of \<open>syncNodeSetPods\<close> goes through.\<close>

fun fresh_ordinals :: "nat \<Rightarrow> int list \<Rightarrow> int \<Rightarrow> int list" where
  "fresh_ordinals 0 used i = []"
| "fresh_ordinals (Suc n) used i =
     (let k = next_unused used i in k # fresh_ordinals n (k # used) k)"

definition lowest_unused :: "int set \<Rightarrow> int list \<Rightarrow> bool" where
  "lowest_unused used ks \<longleftrightarrow> sorted_wrt (<) ks \<and> set ks \<inter> used = {} \<and> (\<forall>k \<in> set ks. 0 \<le> k) \<and>
     (\<forall>k \<in> set ks. \<forall>j. 0 \<le> j \<and> j < k \<longrightarrow> j \<in> used \<union> set ks)"

lemma fresh_ordinals_length [simp]: "length (fresh_ordinals n used i) = n"
  by (induction n used i rule: fresh_ordinals.induct) (simp_all add: Let_def)

lemma fresh_ordinals_lowest:
  "0 \<le> i \<Longrightarrow> (\<And>j. 0 \<le> j \<Longrightarrow> j < i \<Longrightarrow> j \<in> set used) \<Longrightarrow> lowest_unused (set used) (fresh_ordinals n used i)"
proof (induction n used i rule: fresh_ordinals.induct)
  case (1 used i)
  then show ?case by (simp add: lowest_unused_def)
next
  case (2 n used i)
  let ?k = "next_unused used i"
  let ?ks = "fresh_ordinals n (?k # used) ?k"
  have below: "j \<in> set used" if "0 \<le> j" "j < ?k" for j
    using that "2.prems"(2) next_unused_least [of i j used] by (cases "j < i") auto
  have k: "0 \<le> ?k" "?k \<notin> set used"
    using next_unused_ge [of i used] next_unused_fresh "2.prems"(1) by auto
  have IH: "lowest_unused (set (?k # used)) ?ks"
    by (rule "2.IH") (use k below in auto)
  have "?k < j" if "j \<in> set ?ks" for j
    using IH that below [of j] unfolding lowest_unused_def by (cases j ?k rule: linorder_cases) auto
  with IH k below show ?case
    by (auto simp: lowest_unused_def Let_def)
qed


lemma fresh_ordinals_bound:
  assumes "k \<in> set (fresh_ordinals n used 0)"
  shows "k < int (length used) + int n"
proof -
  let ?ks = "fresh_ordinals n used 0"
  have low: "lowest_unused (set used) ?ks"
    by (rule fresh_ordinals_lowest) simp_all
  then have "j \<in> set used \<union> set ?ks" if "0 \<le> j" "j < k" for j
    using assms that unfolding lowest_unused_def by blast
  then have "{0..<k} \<subseteq> set used \<union> (set ?ks - {k})"
    by fastforce
  then have "card {0..<k} \<le> card (set used \<union> (set ?ks - {k}))"
    by (rule card_mono [rotated]) simp
  also have "\<dots> \<le> card (set used) + card (set ?ks - {k})"
    by (rule card_Un_le)
  also have "\<dots> \<le> length used + (card (set ?ks) - 1)"
    using assms by (simp add: card_length)
  also have "card (set ?ks) \<le> n"
    using card_length [of ?ks] by simp
  finally have "nat k \<le> length used + (n - 1)" by simp
  moreover have "0 < n" using assms by (cases n) simp_all
  ultimately show ?thesis by simp
qed

lemma ordinal_pods_result:
  "run_state (ordinal_pods W ns hash n used i acc) s = (Inr ps, t) \<Longrightarrow>
   \<exists>qs. ps = acc @ qs \<and> list_all2 (\<lambda>p k. \<exists>b a. p = (stateful_base W ns b k hash)\<lparr>pod_Affinity := a, pod_NodeName := ''''\<rparr>)
     qs (fresh_ordinals n used i)"
proof (induction n arbitrary: used i acc s)
  case 0
  then show ?case by simp
next
  case (Suc n)
  let ?k = "next_unused used i"
  obtain r u where r: "run_state (newNodeSetPodOrdinal W ns ?k hash) s = (r, u)" by fastforce
  with Suc.prems obtain p where p: "r = Inr p"
    by (cases r) (simp_all add: Let_def)
  then obtain c v where "fst (run_state (NewNodeSetStatefulSetPod W ns c ?k hash) v) = Inr p"
    using r by (auto simp: newNodeSetPodOrdinal_def call_defs split: sum.splits) (metis fst_conv)
  then have made: "\<exists>b a. p = (stateful_base W ns b ?k hash)\<lparr>pod_Affinity := a, pod_NodeName := ''''\<rparr>"
    by (rule NewNodeSetStatefulSetPod_result) blast
  have "run_state (ordinal_pods W ns hash n (?k # used) ?k (acc @ [p])) u = (Inr ps, t)"
    using Suc.prems r p by (simp add: Let_def)
  from Suc.IH [OF this] made show ?case
    by (auto simp: Let_def)
qed

text \<open>
  C7. On scale-up in StatefulSet mode, the pods to create get the lowest non-negative ordinals that no
  existing pod of the NodeSet has (pods of another scaling mode included), in ascending order and
  each once, so every gap is filled before the NodeSet grows and no two pods share a name.
\<close>

theorem scale_up_ordinals:
  assumes "is_statefulset ns" and "nameable ns" and "length used + n \<le> 2 ^ 31"
    and "run_state (ordinal_pods W ns hash n used 0 []) s = (Inr ps, t)"
  shows "length ps = n \<and> lowest_unused (set used) (map GetOrdinal ps) \<and> distinct (map pod_Name ps) \<and>
    map pod_Name ps = map (GetOrdinalPodName ns) (map GetOrdinal ps)"
proof -
  let ?ks = "fresh_ordinals n used 0"
  have low: "lowest_unused (set used) ?ks"
    by (rule fresh_ordinals_lowest) simp_all
  have ord: "int32_ordinal k" if "k \<in> set ?ks" for k
    using that low fresh_ordinals_bound [OF that] assms(3) by (auto simp: int32_ordinal_def lowest_unused_def)
  have made: "GetOrdinal p = k \<and> pod_Name p = GetOrdinalPodName ns k"
    if p: "\<exists>b a. p = (stateful_base W ns b k hash)\<lparr>pod_Affinity := a, pod_NodeName := ''''\<rparr>" and k: "k \<in> set ?ks" for p k
  proof -
    have "pod_Name p = GetOrdinalPodName ns k"
      using p stateful_base_name [OF assms(1,2) ord [OF k]] by auto
    with GetParentNameAndOrdinal_padded [OF assms(2) ord [OF k] this] show ?thesis
      by (simp add: GetOrdinal_def)
  qed
  have "list_all2 (\<lambda>p k. \<exists>b a. p = (stateful_base W ns b k hash)\<lparr>pod_Affinity := a, pod_NodeName := ''''\<rparr>) ps ?ks"
    using ordinal_pods_result [OF assms(4)] by simp
  then have "list_all2 (\<lambda>p k. GetOrdinal p = k \<and> pod_Name p = GetOrdinalPodName ns k) ps ?ks"
    by (rule list.rel_mono_strong) (use made in blast)
  then have eq: "map GetOrdinal ps = ?ks" "map pod_Name ps = map (GetOrdinalPodName ns) ?ks"
    by (induction rule: list_all2_induct) auto
  have "distinct (map (GetOrdinalPodName ns) ?ks)"
    using low GetOrdinalPodName_inject [OF assms(2)] ord
    by (auto simp: distinct_map inj_on_def lowest_unused_def strict_sorted_iff)
  with eq low show ?thesis
    by (metis fresh_ordinals_length length_map)
qed


definition controlled_world :: world where
  "controlled_world = quiet_world\<lparr>w_GetSlurmController := (\<lambda>h k. Inr empty_controller)\<rparr>"

lemma newNodeSetPodOrdinal_returns:
  assumes "\<And>h k. w_GetSlurmController W h k = Inr c" "spec_ExtraConf (ns_Spec ns) = ''''"
  shows "\<exists>p t. run_state (newNodeSetPodOrdinal W ns i hash) s = (Inr p, t)"
proof -
  obtain args where "slurmdConfArgs W ns = Inr args"
    using no_extra_conf [OF assms(2)] by blast
  then obtain p where "fst (run_state (NewNodeSetStatefulSetPod W ns c i hash)
      (s\<lparr>log := Rd (GotSlurmController (spec_ControllerRef (ns_Spec ns)) (Inr c)) # log s\<rparr>)) = Inr p"
    by (rule NewNodeSetStatefulSetPod_returns)
  then show ?thesis
    by (simp add: newNodeSetPodOrdinal_def call_defs assms(1)) (metis prod.collapse)
qed

theorem scale_up_ordinals_witness:
  "\<exists>ps t. run_state (ordinal_pods controlled_world sample_nodeset ''h'' 2 [0, 2] 0 []) st_init = (Inr ps, t) \<and>
    lowest_unused {0, 2} (map GetOrdinal ps)"
proof -
  have made: "\<exists>p t. run_state (newNodeSetPodOrdinal controlled_world sample_nodeset i ''h'') s = (Inr p, t)" for i s
    by (rule newNodeSetPodOrdinal_returns [of _ empty_controller]) (simp_all add: controlled_world_def)
  have "\<exists>ps t. run_state (ordinal_pods controlled_world sample_nodeset ''h'' n used i acc) s = (Inr ps, t)" for n used i acc s
  proof (induction n arbitrary: used i acc s)
    case (Suc n)
    then show ?case using made [of "next_unused used i" s] by (auto simp: Let_def)
  qed simp
  then obtain ps t where "run_state (ordinal_pods controlled_world sample_nodeset ''h'' 2 [0, 2] 0 []) st_init = (Inr ps, t)"
    by blast
  from this scale_up_ordinals [OF sample_nodeset_stateful sample_nodeset_nameable _ this] show ?thesis
    by auto
qed

end
