(* ===== verification/Burst.thy ===== *)
theory Burst
  imports Scaling
begin

text \<open>
  How much one call of \<open>doPodScale\<close> may do: at most \<open>burstReplicas\<close> pods are created and at most as
  many deleted, whatever the sizes of the slices it is given, and the expectations it raises are
  exactly those it can fulfil.
\<close>

section \<open>Counting events\<close>

text \<open>The history has at most \<open>n\<close> events of class \<open>E\<close>, as a property of each event when it happened.\<close>

definition capped :: "(ev \<Rightarrow> bool) \<Rightarrow> nat \<Rightarrow> history \<Rightarrow> ev \<Rightarrow> bool" where
  "capped E n h e \<longleftrightarrow> (E e \<longrightarrow> length (filter E h) < n)"

definition events :: "(ev \<Rightarrow> bool) \<Rightarrow> st \<Rightarrow> nat" where
  "events E s = length (filter E (log s))"

definition at_most :: "(ev \<Rightarrow> bool) \<Rightarrow> nat \<Rightarrow> 'a prog \<Rightarrow> bool" where
  "at_most E k m \<longleftrightarrow> (\<forall>s. events E (snd (run_state m s)) \<le> events E s + k)"

lemma logs_capped: "logs (capped E n) s \<longleftrightarrow> events E s \<le> n"
proof -
  have "ok_log (capped E n) h \<longleftrightarrow> length (filter E h) \<le> n" for h
    by (induction h) (auto simp: capped_def)
  then show ?thesis by (simp add: logs_def events_def)
qed

lemma at_most_keeps: "(\<And>n. keeps (logs (capped E n)) m) \<Longrightarrow> at_most E 0 m"
  unfolding at_most_def by (metis add_0_right keepsD logs_capped order_refl)

lemma permits_capped: "(\<And>e. C e \<Longrightarrow> \<not> E e) \<Longrightarrow> permits (capped E n) C"
  by (auto simp: permits_def capped_def)

lemma at_most_mono: "at_most E j m \<Longrightarrow> j \<le> k \<Longrightarrow> at_most E k m"
  unfolding at_most_def by (meson add_left_mono order_trans)

lemma at_most_bind: "at_most E j m \<Longrightarrow> (\<And>x. at_most E k (f x)) \<Longrightarrow> at_most E (j + k) (State_Monad.bind m f)"
  unfolding at_most_def run_state_bind
  by (simp add: split_beta) (metis add.assoc add_le_mono1 order_trans)

lemma at_most_bind_0: "at_most E 0 m \<Longrightarrow> (\<And>x. at_most E k (f x)) \<Longrightarrow> at_most E k (State_Monad.bind m f)"
  using at_most_bind [of E 0 m k f] by simp

lemma at_most_call: "at_most E (Suc 0) (call f mk)"
  by (simp add: at_most_def events_def)

lemma at_most_return: "at_most E k (State_Monad.return x)"
  by (simp add: at_most_def)

lemma at_most_run_batch: "(\<And>i. at_most E k (fn i)) \<Longrightarrow> at_most E (length xs * k) (run_batch fn xs)"
proof (induction xs)
  case (Cons i xs)
  have "at_most E (k + (length xs * k + 0)) (run_batch fn (i # xs))"
    unfolding run_batch.simps
    by (intro at_most_bind Cons.IH Cons.prems at_most_return)
  then show ?case by simp
qed (simp add: at_most_return)

lemma at_most_run_chunks:
  "(\<And>i. at_most E k (fn i)) \<Longrightarrow> at_most E (length (concat cs) * k) (run_chunks fn n cs)"
proof (induction cs arbitrary: n)
  case (Cons c cs)
  have "at_most E (length (concat cs) * k)
      (case es of [] \<Rightarrow> run_chunks fn (n + length c) cs | e # _ \<Rightarrow> State_Monad.return (n + (length c - length es), Some e))"
    for es :: "err list"
    using Cons by (cases es) (simp_all add: at_most_return)
  then have "at_most E (length c * k + length (concat cs) * k) (run_chunks fn n (c # cs))"
    unfolding run_chunks.simps by (intro at_most_bind at_most_run_batch Cons.prems)
  then show ?case by (simp add: algebra_simps)
qed (simp add: at_most_return)

lemma at_most_SlowStartBatch:
  assumes "fair_sched (w_sched W)" and "\<And>i. at_most E k (fn i)"
  shows "at_most E (n * k) (SlowStartBatch (w_sched W) n SlowStartInitialBatchSize fn)"
    and "at_most E (n * k) (SlowStart W n fn)"
proof -
  let ?cs = "chunks n 0 (min n 1)"
  have "length (concat (map (w_sched W) ?cs)) = length (concat ?cs)"
    using mset_concat_map_sched [OF assms(1), of ?cs] by (metis size_mset)
  then have "length (concat (map (w_sched W) ?cs)) = n"
    by (simp add: concat_chunks)
  with at_most_run_chunks [of E k fn "map (w_sched W) ?cs" 0, OF assms(2)]
  show "at_most E (n * k) (SlowStartBatch (w_sched W) n SlowStartInitialBatchSize fn)"
    by (simp add: SlowStartBatch_def SlowStartInitialBatchSize_def slow_start_loop_chunks [OF assms(1)])
  then show "at_most E (n * k) (SlowStart W n fn)"
    unfolding SlowStart_def using at_most_bind [of E "n * k" _ 0] at_most_return by (metis add_0_right)
qed

section \<open>Creations and deletions\<close>

lemma capped_creates [simp]:
  "permits (capped pod_creates n) reads" "permits (capped pod_creates n) controls"
  "permits (capped pod_creates n) slurm_writes" "permits (capped pod_creates n) claim_writes"
  "permits (capped pod_creates n) pod_updates" "permits (capped pod_creates n) pod_deletes"
  by (auto intro!: permits_capped elim: pod_creates.elims)

lemma capped_deletes [simp]:
  "permits (capped pod_deletes n) reads" "permits (capped pod_deletes n) controls"
  "permits (capped pod_deletes n) slurm_writes" "permits (capped pod_deletes n) claim_writes"
  "permits (capped pod_deletes n) pod_updates" "permits (capped pod_deletes n) pod_creates"
  by (auto intro!: permits_capped elim: pod_deletes.elims)

lemma at_most_first: "at_most E k m \<Longrightarrow> (\<And>x. at_most E 0 (f x)) \<Longrightarrow> at_most E k (State_Monad.bind m f)"
  using at_most_bind [of E k m 0 f] by simp

lemma at_most_none: "(\<And>n. keeps (logs (capped E n)) m) \<Longrightarrow> at_most E k m"
  by (rule at_most_mono [OF at_most_keeps]) simp_all

lemma at_most_cases:
  "at_most E k m \<Longrightarrow> at_most E k m' \<Longrightarrow> at_most E k (if b then m else m')"
  "at_most E k m \<Longrightarrow> (\<And>x. at_most E k (f x)) \<Longrightarrow> at_most E k (case a of None \<Rightarrow> m | Some x \<Rightarrow> f x)"
  "(\<And>x. at_most E k (g x)) \<Longrightarrow> (\<And>x. at_most E k (h x)) \<Longrightarrow> at_most E k (case c of Inl x \<Rightarrow> g x | Inr x \<Rightarrow> h x)"
  by (simp_all split: option.split sum.split)

lemma at_most_createPods: "at_most pod_creates (Suc 0) (createPods W p)"
  unfolding createPods_def CreatePod_def
  by (rule at_most_cases(1), rule at_most_return, rule at_most_first [OF at_most_call], rule at_most_none)
    (intro keeps_intros capped_creates)

lemma at_most_CreateNodeSetPod: "at_most pod_creates (Suc 0) (CreateNodeSetPod W ns p)"
  unfolding CreateNodeSetPod_def
  by (rule at_most_bind_0, rule at_most_none, intro keeps_intros capped_creates,
      rule at_most_cases(2), rule at_most_first [OF at_most_createPods], rule at_most_none)
    (intro keeps_intros capped_creates, rule at_most_none, intro keeps_intros capped_creates)

lemma at_most_createPodFn: "at_most pod_creates (Suc 0) (createPodFn W ns p)"
  unfolding createPodFn_def by (rule at_most_first [OF at_most_CreateNodeSetPod at_most_return])

lemma at_most_DeleteNodeSetPod: "at_most pod_deletes (Suc 0) (DeleteNodeSetPod W p)"
  unfolding DeleteNodeSetPod_def DeletePod_def DeletePod_api_def
  by (rule at_most_first [OF at_most_call], rule at_most_none) (intro keeps_intros capped_deletes)

lemma at_most_condemned_drained: "at_most pod_deletes (Suc 0) (condemned_drained W ns r p d)"
proof -
  obtain b e where d: "d = (b, e)" by (cases d)
  show ?thesis
    unfolding d condemned_drained_def prod.case
    by (rule at_most_cases(2), rule at_most_cases(1))
      (rule at_most_none, intro keeps_intros capped_deletes,
       rule at_most_first [OF at_most_DeleteNodeSetPod at_most_return],
       rule at_most_none, rule keeps_fail)
qed

lemma at_most_processCondemned: "at_most pod_deletes (Suc 0) (processCondemned W ns r)"
proof -
  have "at_most pod_deletes (Suc 0) (State_Monad.bind (IsNodeDrained W ns p) (condemned_drained W ns r p))" for p
    by (rule at_most_bind_0 [OF at_most_keeps at_most_condemned_drained]) (simp add: slurm.is_drained_keeps)
  then show ?thesis
    unfolding processCondemned_def
    by (intro at_most_bind_0 [OF at_most_keeps [OF keeps_load]] at_most_bind_0 [OF at_most_keeps [OF keeps_reads(1)]]
        at_most_bind_0 [OF at_most_keeps [OF keeps_logs_store]] at_most_cases capped_deletes
        at_most_none [OF keeps_fail] at_most_none [OF keeps_ok])
qed

lemma at_most_deletePodFn: "at_most pod_deletes (Suc 0) (deletePodFn W ns r)"
  unfolding deletePodFn_def
  by (rule at_most_bind_0 [OF at_most_keeps [OF keeps_load]], rule at_most_first [OF at_most_processCondemned],
      rule at_most_none)
    (intro keeps_intros capped_deletes)

lemma keeps_deletePodFn:
  assumes "permits Q reads" "permits Q controls" "permits Q slurm_writes" "permits Q pod_updates" "permits Q pod_deletes"
  shows "keeps (logs Q) (deletePodFn W ns r)"
  unfolding deletePodFn_def processCondemned_def condemned_drained_def
  by (intro keeps_intros keeps_DeleteNodeSetPod assms slurm.is_drained_keeps)

lemma at_most_andthen_0: "at_most E 0 m \<Longrightarrow> at_most E k n \<Longrightarrow> at_most E k (andthen m n)"
  unfolding andthen_def by (erule at_most_bind_0) (simp add: at_most_return split: option.split)

lemma burst: "nat (Clamp (int n) 0 burstReplicas) = min n 250"
  by (simp add: Clamp_zero burstReplicas_def min_def)

text \<open>
  C6. One call of \<open>doPodScale\<close> asks for at most 250 pod creations, and for no more than it was given,
  and likewise for deletions, whatever fails in between.
\<close>

theorem doPodScale_burst:
  assumes "fair_sched (w_sched W)"
    and "t = snd (run_state (doPodScale W ns podsToKeep podsToDelete podsToCreate) s)"
  shows "events pod_creates t \<le> events pod_creates s + min (length podsToCreate) 250 \<and>
         events pod_deletes t \<le> events pod_deletes s + min (length podsToDelete) 250"
proof
  have none: "at_most E 0 (ExpectDeletions W key ks)" "at_most E 0 (emit x)"
    if "\<And>n. permits (capped E n) controls" for E key ks x
    by (intro at_most_keeps keeps_intros that)+
  have c: "at_most pod_creates (n * Suc 0) (SlowStartBatch (w_sched W) n SlowStartInitialBatchSize
      (\<lambda>i. createPodFn W ns (podsToCreate ! i)))" for n
    by (rule at_most_SlowStartBatch(1) [OF assms(1) at_most_createPodFn])
  have "at_most pod_creates (min (length podsToCreate) 250 * Suc 0)
      (doPodScale W ns podsToKeep podsToDelete podsToCreate)"
    unfolding doPodScale_def Let_def burst split_beta
    by (rule at_most_bind_0, rule at_most_none, rule keeps_load_heap,
        rule at_most_andthen_0, rule none(1), simp, rule at_most_bind_0, rule none(2), simp,
        rule at_most_andthen_0, rule at_most_none, intro keeps_intros capped_creates,
        rule at_most_first [OF c], rule at_most_none)
      (intro keeps_intros keeps_deletePodFn capped_creates)
  then show "events pod_creates t \<le> events pod_creates s + min (length podsToCreate) 250"
    unfolding assms(2) at_most_def by simp
  have d: "at_most pod_deletes (n * Suc 0) (SlowStart W n (\<lambda>i. deletePodFn W ns (podsToDelete ! i)))" for n
    by (rule at_most_SlowStartBatch(2) [OF assms(1) at_most_deletePodFn])
  have "at_most pod_deletes (min (length podsToDelete) 250 * Suc 0)
      (doPodScale W ns podsToKeep podsToDelete podsToCreate)"
    unfolding doPodScale_def Let_def burst split_beta
    by (rule at_most_bind_0, rule at_most_none, rule keeps_load_heap,
        rule at_most_andthen_0, rule none(1), simp, rule at_most_bind_0, rule none(2), simp,
        rule at_most_andthen_0, rule at_most_none, intro keeps_intros capped_deletes,
        rule at_most_bind_0, rule at_most_none, unfold createPodFn_def, intro keeps_intros capped_deletes,
        rule at_most_bind_0, rule at_most_none, intro keeps_intros capped_deletes,
        rule at_most_bind_0, rule at_most_none, intro keeps_intros capped_deletes)
      (rule at_most_first [OF d at_most_return])
  then show "events pod_deletes t \<le> events pod_deletes s + min (length podsToDelete) 250"
    unfolding assms(2) at_most_def by simp
qed

theorem doPodScale_burst_witness:
  "events pod_creates (snd (run_state (doPodScale quiet_world sample_nodeset [] [3] [empty_pod]) st_init)) \<le> 1"
  using doPodScale_burst [of quiet_world _ sample_nodeset "[]" "[3]" "[empty_pod]" st_init]
  by (simp add: events_def)

end
