(* ===== verification/DaemonMode.thy ===== *)
theory DaemonMode
  imports Scaling
begin

text \<open>
  What \<open>podsShouldBeOnNode\<close> decides for one Kubernetes node in DaemonSet mode: whether the node
  needs a pod, and which of its pods are deleted.
\<close>

text \<open>A pod of the node that runs under the hostname the node calls for.\<close>

definition daemon_running :: "(ref \<Rightarrow> pod) \<Rightarrow> node \<Rightarrow> ref \<Rightarrow> bool" where
  "daemon_running hp node r \<longleftrightarrow>
     pod_DeletionTimestamp (hp r) = None \<and> pod_Phase (hp r) \<noteq> PodFailed \<and> pod_Phase (hp r) \<noteq> PodSucceeded \<and>
     mget (pod_Labels (hp r)) LabelNodeSetPodHostname =
       GetDaemonSetPodHostname (node_Name node) (mget (node_Annotations node) AnnotationNodeHostnameOverride)"

lemma sort_out_daemon_pods_result:
  "run_state (sort_out_daemon_pods W ns node rs running toDelete) s = ((running', toDelete'), t) \<Longrightarrow>
   heap t = heap s \<and> running' = running @ filter (daemon_running (heap s) node) rs \<and>
   (\<exists>ds. toDelete' = toDelete @ ds \<and>
      (\<forall>r \<in> set ds. r \<in> set rs \<and> pod_DeletionTimestamp (heap s r) = None \<and> \<not> daemon_running (heap s) node r))"
proof (induction rs arbitrary: running toDelete s)
  case Nil
  then show ?case by auto
next
  case (Cons r rs)
  let ?p = "heap s r" and ?key = "failedPodsBackoffKey ns (node_Name node)"
  have step: ?case
    if "run_state (sort_out_daemon_pods W ns node rs (running @ filter (daemon_running (heap s) node) [r])
         (toDelete @ d)) u = ((running', toDelete'), t)" and "heap u = heap s"
      and "d = [] \<or> d = [r] \<and> pod_DeletionTimestamp ?p = None \<and> \<not> daemon_running (heap s) node r" for d u
    using Cons.IH [OF that(1)] that(2,3) by auto
  consider (gone) "pod_DeletionTimestamp ?p \<noteq> None"
    | (failed) "pod_DeletionTimestamp ?p = None" "pod_Phase ?p = PodFailed"
    | (succeeded) "pod_DeletionTimestamp ?p = None" "pod_Phase ?p \<noteq> PodFailed" "pod_Phase ?p = PodSucceeded"
    | (renamed) "pod_DeletionTimestamp ?p = None" "pod_Phase ?p \<noteq> PodFailed" "pod_Phase ?p \<noteq> PodSucceeded"
        "\<not> daemon_running (heap s) node r"
    | (running) "daemon_running (heap s) node r"
    by blast
  then show ?case
  proof cases
    case gone
    then show ?thesis using Cons.prems by (intro step [of "[]" s]) (auto simp: daemon_running_def)
  next
    case failed
    let ?h = "Rd (Clock (w_Now W (log s))) # log s"
    let ?b = "w_InBackOff W ?h ?key"
    let ?h' = "Rd (InBackOff ?key ?b) # ?h"
    show ?thesis
    proof (cases ?b)
      case True
      with failed Cons.prems show ?thesis
        by (intro step [of "[]" "s\<lparr>log := Rd (BackOffDelay ?key (w_BackOffGet W ?h' ?key)) # ?h',
            durs := dur_Push dur_Greater (durs s) (KeyFunc ns) (w_BackOffGet W ?h' ?key)\<rparr>"])
          (simp_all add: daemon_running_def call_defs Let_def EnqueueNodeSetAfter_def)
    next
      case False
      with failed Cons.prems show ?thesis
        by (intro step [of "[r]" "s\<lparr>log := Ctl (Eventf ''Warning'' FailedDaemonPodReason ''Info'' None) #
            Ctl (BackOffNext ?key) # ?h'\<rparr>"])
          (simp_all add: daemon_running_def call_defs Let_def)
    qed
  next
    case succeeded
    then show ?thesis using Cons.prems
      by (intro step [of "[r]" "s\<lparr>log := Ctl (Eventf ''Normal'' SucceededDaemonPodReason ''Info'' None) # log s\<rparr>"])
        (simp_all add: daemon_running_def)
  next
    case renamed
    then show ?thesis using Cons.prems
      by (intro step [of "[r]" "s\<lparr>log := Ctl (Eventf ''Normal'' ''HostnameMismatch'' ''Info'' None) # log s\<rparr>"])
        (simp_all add: daemon_running_def)
  next
    case running
    then show ?thesis using Cons.prems
      by (intro step [of "[]" s]) (simp_all add: daemon_running_def)
  qed
qed

lemma NodeShouldRunDaemonPod_heap:
  "heap (snd (run_state (NodeShouldRunDaemonPod W node ns) s)) = heap s"
proof -
  have "keeps (\<lambda>t. heap t = heap s) (NodeShouldRunDaemonPod W node ns)"
    unfolding NodeShouldRunDaemonPod_def newSimulatedDaemonPod_def
    by (intro keeps_intros heap_kept) (rule keepsI, simp add: call_defs)
  from keepsD [OF this, of s] show ?thesis by simp
qed

text \<open>
  For a node that may keep its pods, \<open>podsShouldBeOnNode\<close> asks for no new pod while the node has
  one, and deletes only pods of that node that are not terminating. Of the pods that run under the
  right hostname it keeps exactly one (if there is any); if none of them is cordoned this is one that
  comes first in the order in which scale-in picks pods for deletion (not ready before ready,
  young before old), although the comment in the source says that the oldest is kept.
\<close>

theorem podsShouldBeOnNode_keeps_one:
  assumes "go_sort (w_sort W)" and "nodeToDaemonPods (node_Name node) = Some pods" and "distinct pods"
    and "fst (run_state (NodeShouldRunDaemonPod W node ns) s) = Inr (shouldRun, True)"
    and "run_state (podsShouldBeOnNode W node nodeToDaemonPods ns) s = (Inr (needing, toDelete), t)"
    and "running = filter (daemon_running (heap s) node) pods"
  shows "needing = [] \<and> (\<forall>r \<in> set toDelete. r \<in> set pods \<and> pod_DeletionTimestamp (heap s r) = None) \<and>
    (running \<noteq> [] \<longrightarrow> (\<exists>k. set running - set toDelete = {k} \<and>
       ((\<forall>r \<in> set running. \<not> cordon_annotation (heap s r)) \<longrightarrow>
          (\<forall>r \<in> set running. deletion_key W (heap s k) \<le> deletion_key W (heap s r)))))"
proof -
  let ?lt = "\<lambda>a b. ActivePods_Less W (heap s a) (heap s b)"
  let ?u = "snd (run_state (NodeShouldRunDaemonPod W node ns) s)"
  let ?x = "run_state (sort_out_daemon_pods W ns node pods [] []) ?u"
  let ?sorted = "w_sort W ?lt running"
  note heap = NodeShouldRunDaemonPod_heap [of W node ns s]
  obtain ds v where ds: "?x = ((running, ds), v)" "heap v = heap s"
    and dead: "\<forall>r \<in> set ds. r \<in> set pods \<and> pod_DeletionTimestamp (heap s r) = None \<and> \<not> daemon_running (heap s) node r"
    using sort_out_daemon_pods_result [of W ns node pods "[]" "[]" ?u "fst (fst ?x)" "snd (fst ?x)" "snd ?x"]
    by (metis append_Nil assms(6) heap prod.collapse)
  have res: "needing = []" "toDelete = (if length running \<le> 1 then ds else ds @ drop 1 ?sorted)"
    using assms(2,4,5) ds unfolding podsShouldBeOnNode_def
    by (cases "run_state (NodeShouldRunDaemonPod W node ns) s"; auto split: if_splits)+
  have run: "r \<in> set pods \<and> daemon_running (heap s) node r \<and> pod_DeletionTimestamp (heap s r) = None"
    if "r \<in> set running" for r
    using that by (auto simp: assms(6) daemon_running_def)
  have sorted: "set ?sorted = set running" "distinct ?sorted" "length ?sorted = length running"
    using go_sort.set_sort [OF assms(1)] go_sort.distinct_sort [OF assms(1)] go_sort.length_sort [OF assms(1)]
      assms(3) by (auto simp: assms(6))
  have del: "r \<in> set pods \<and> pod_DeletionTimestamp (heap s r) = None" if "r \<in> set toDelete" for r
    using that dead run sorted(1) by (auto simp: res(2) split: if_splits dest: in_set_dropD)
  have kept: "\<exists>k. set running - set toDelete = {k} \<and>
       ((\<forall>r \<in> set running. \<not> cordon_annotation (heap s r)) \<longrightarrow>
          (\<forall>r \<in> set running. deletion_key W (heap s k) \<le> deletion_key W (heap s r)))" if ne: "running \<noteq> []"
  proof -
    obtain k ks where cut: "?sorted = k # ks"
      using ne sorted(3) by (cases ?sorted) auto
    have k: "k \<in> set running" "set running = insert k (set ks)" "k \<notin> set ks"
      using sorted(1,2) by (auto simp: cut)
    have "ks = []" if "length running \<le> 1"
      using that sorted(3) by (cases ks) (simp_all add: cut)
    then have "set running \<inter> set toDelete = set ks"
      using dead run sorted(1) by (auto simp: res(2) cut split: if_splits)
    then have "set running - set toDelete = {k}"
      using k by blast
    moreover have "deletion_key W (heap s k) \<le> deletion_key W (heap s r)"
      if nc: "\<forall>r \<in> set running. \<not> cordon_annotation (heap s r)" and r: "r \<in> set running" for r
    proof -
      have "strict_weak ?lt (set running)"
        using nc by (intro strict_weak_key [where key = "\<lambda>r. deletion_key W (heap s r)"]) (simp add: ActivePods_Less_key)
      then have "\<not> ?lt r k" if "r \<in> set ks"
        using go_sort.cut_order [OF assms(1), of ?lt running k 1 r] that by (simp add: cut)
      then show ?thesis
        using nc r k by (auto simp: ActivePods_Less_key)
    qed
    ultimately show ?thesis by blast
  qed
  from res(1) del kept show ?thesis by blast
qed

text \<open>The witness: of an old and a young pod on the node, the young one is kept.\<close>

definition daemon_world :: world where
  "daemon_world = sorting_world\<lparr>w_GetSlurmController := (\<lambda>h k. Inr empty_controller)\<rparr>"

lemma simulated_pod_returns:
  assumes "w_GetSlurmController W (log s) (spec_ControllerRef (ns_Spec ns)) = Inr c" "slurmdConfArgs W ns = Inr args" "n \<noteq> ''''"
  obtains t where "fst (run_state (newSimulatedDaemonPod W ns n) s) = Inr ((w_GetPodFromTemplate W t ns)\<lparr>pod_NodeName := n\<rparr>)"
proof -
  let ?s = "s\<lparr>log := Rd (GotSlurmController (spec_ControllerRef (ns_Spec ns)) (Inr c)) # log s\<rparr>"
  obtain t u where "run_state (BuildWorkerPodTemplate W ns c) ?s = (Inr t, u)"
    using BuildWorkerPodTemplate_returns [OF assms(2)] by blast
  then show thesis
    using that assms(1,3) by (simp add: newSimulatedDaemonPod_def call_defs NewNodeSetSimulatedPod_def)
qed

definition two_pods :: "ref \<Rightarrow> pod" where
  "two_pods r = empty_pod\<lparr>pod_Phase := PodRunning, pod_CreationTimestamp := int r,
     pod_Labels := Some [LabelNodeSetPodHostname \<mapsto> ''n'']\<rparr>"

theorem podsShouldBeOnNode_keeps_one_witness:
  "\<exists>toDelete. fst (run_state (podsShouldBeOnNode daemon_world (empty_node\<lparr>node_Name := ''n''\<rparr>)
       [''n'' \<mapsto> [1, 2]] sample_nodeset) (st_init\<lparr>heap := two_pods\<rparr>)) = Inr ([], toDelete) \<and>
     set [1, 2] - set toDelete = {2}"
proof -
  let ?n = "empty_node\<lparr>node_Name := ''n''\<rparr>" and ?s = "st_init\<lparr>heap := two_pods\<rparr>"
  let ?r = "run_state (podsShouldBeOnNode daemon_world ?n [''n'' \<mapsto> [1, 2]] sample_nodeset) ?s"
  let ?key = "\<lambda>r. deletion_key daemon_world (two_pods r)"
  have f: "[1, 2] = filter (daemon_running (heap ?s) ?n) [1, 2]"
    by (simp add: daemon_running_def two_pods_def empty_pod_def empty_node_def phase_defs GetDaemonSetPodHostname_def)
  obtain args where args: "slurmdConfArgs daemon_world sample_nodeset = Inr args"
    using no_extra_conf sample_no_extra_conf by blast
  obtain t where "fst (run_state (newSimulatedDaemonPod daemon_world sample_nodeset ''n'') ?s) =
      Inr ((w_GetPodFromTemplate daemon_world t sample_nodeset)\<lparr>pod_NodeName := ''n''\<rparr>)"
    by (rule simulated_pod_returns [OF _ args, of ?s empty_controller "''n''"]) (simp_all add: daemon_world_def)
  then have c: "fst (run_state (NodeShouldRunDaemonPod daemon_world ?n sample_nodeset) ?s) = Inr (True, True)"
    by (simp add: NodeShouldRunDaemonPod_def split_beta empty_node_def PodShouldRunOnNode_def predicates_def
        daemon_world_def sorting_world_def quiet_world_def Let_def empty_pod_def)
  have nc: "\<not> cordon_annotation (two_pods r)" for r
    by (simp add: two_pods_def empty_pod_def cordon_annotation_def GetBoolFromAnnotations_def)
  have less: "?key 2 < ?key 1"
    by (simp add: deletion_key_def two_pods_def empty_pod_def recency_def deletion_cost_def pod_deadline_def
        GetNumberFromAnnotations_def GetTimeFromAnnotations_def podReadyTime_def GetOrdinal_def
        GetParentNameAndOrdinal_def daemon_world_def sorting_world_def quiet_world_def)
  have sort: "go_sort (w_sort daemon_world)"
    using go_sort_sorting_world by (simp add: daemon_world_def)
  obtain needing toDelete where r: "?r = (Inr (needing, toDelete), snd ?r)"
    using c by (cases "run_state (NodeShouldRunDaemonPod daemon_world ?n sample_nodeset) ?s")
      (fastforce simp: podsShouldBeOnNode_def split_beta empty_node_def)
  then obtain k where "needing = []" "set [1, 2] - set toDelete = {k}" "\<forall>r \<in> set [1, 2]. ?key k \<le> ?key r"
    using podsShouldBeOnNode_keeps_one [OF sort, of "[''n'' \<mapsto> [1, 2]]" ?n "[1, 2]" sample_nodeset ?s True
        needing toDelete "snd ?r" "[1, 2]", OF _ _ c _ f] nc by auto
  moreover from this less have "k = 2"
    by (metis empty_iff insert_iff insertI1 Diff_iff empty_set list.simps(15) linorder_not_less)
  ultimately show ?thesis
    using r by (metis fst_conv)
qed

section \<open>A Controller that cannot be read\<close>

lemma unreadable_controller_node:
  assumes "w_GetSlurmController W (log s) (spec_ControllerRef (ns_Spec ns)) = Inl e" "\<forall>m. e \<noteq> Panic m"
  shows "run_state (podsShouldBeOnNode W node pods ns) s =
    (Inr ([], filter (\<lambda>r. pod_DeletionTimestamp (heap s r) = None) (case pods (node_Name node) of None \<Rightarrow> [] | Some rs \<Rightarrow> rs)),
     s\<lparr>log := Rd (GotSlurmController (spec_ControllerRef (ns_Spec ns)) (Inl e)) # log s\<rparr>)"
  using assms
  by (cases e) (simp_all add: podsShouldBeOnNode_def NodeShouldRunDaemonPod_def newSimulatedDaemonPod_def call_defs
      split: option.split)

lemma unreadable_controller_visit:
  assumes "\<forall>h. w_GetSlurmController W h (spec_ControllerRef (ns_Spec ns)) = Inl e" "\<forall>m. e \<noteq> Panic m"
  shows "fst (run_state (visit_nodes W ns pods nodes needing toDelete) s) =
    Inr (needing, toDelete @ concat (map (\<lambda>node. filter (\<lambda>r. pod_DeletionTimestamp (heap s r) = None)
      (case pods (node_Name node) of None \<Rightarrow> [] | Some rs \<Rightarrow> rs)) nodes))"
proof (induction nodes arbitrary: needing toDelete s)
  case (Cons node nodes)
  then show ?case
    by (simp add: unreadable_controller_node [OF spec [OF assms(1)] assms(2)])
qed simp

text \<open>
  C12. When the Controller that a NodeSet names cannot be read, for whatever reason, DaemonSet mode
  condemns every pod of the NodeSet that is on a listed node and not terminating yet, and asks for no new
  pod: the error counts as a node that the pods must leave.
\<close>

theorem unreadable_controller_condemns_pods:
  assumes "\<forall>h. w_GetSlurmController W h (spec_ControllerRef (ns_Spec ns)) = Inl e" "\<forall>m. e \<noteq> Panic m"
  shows "\<exists>toDelete. fst (run_state (visit_nodes W ns (getNodesToDaemonPods W (heap s) refs False) nodes [] []) s) =
      Inr ([], toDelete) \<and>
    set toDelete = {r \<in> set refs. pod_DeletionTimestamp (heap s r) = None \<and>
      (\<exists>node \<in> set nodes. w_GetTargetNodeName W (heap s r) = Some (node_Name node))}"
proof -
  have pods: "set (case getNodesToDaemonPods W (heap s) refs False n of None \<Rightarrow> [] | Some rs \<Rightarrow> rs) =
      {r \<in> set refs. \<not> (w_IsPodTerminal W (heap s r) \<and> IsTerminating (heap s r)) \<and> w_GetTargetNodeName W (heap s r) = Some n}" for n
    unfolding getNodesToDaemonPods_def
    by (induction refs rule: rev_induct) (auto split: option.splits if_splits)
  show ?thesis
    unfolding unreadable_controller_visit [OF assms(1,2)]
    by (auto simp: pods IsTerminating_def)
qed

theorem unreadable_controller_condemns_pods_witness:
  "\<exists>toDelete. fst (run_state (visit_nodes (quiet_world\<lparr>w_GetTargetNodeName := (\<lambda>p. Some ''n'')\<rparr>) sample_nodeset
       (getNodesToDaemonPods (quiet_world\<lparr>w_GetTargetNodeName := (\<lambda>p. Some ''n'')\<rparr>) (heap st_init) [4, 7] False)
       [empty_node\<lparr>node_Name := ''n''\<rparr>] [] []) st_init) = Inr ([], toDelete) \<and> set toDelete = {4, 7}"
  using unreadable_controller_condemns_pods [of "quiet_world\<lparr>w_GetTargetNodeName := (\<lambda>p. Some ''n'')\<rparr>" sample_nodeset
      "StatusError NotFound" st_init "[4, 7]" "[empty_node\<lparr>node_Name := ''n''\<rparr>]"]
  by (auto simp: quiet_world_def st_init_def empty_pod_def empty_node_def)

end
