(* ===== verification/ClusterObjects.thy ===== *)
theory ClusterObjects
  imports DaemonBuilders
begin

text \<open>
  The objects a NodeSet keeps up to date beside its pods: the service and the disruption budget that all
  NodeSets of a cluster share, and the SSH configuration (the first three steps of \<^verbatim>\<open>sync\<close> in
  \<^verbatim>\<open>internal/controller/nodeset/nodeset_sync.go\<close>), with the owner references of the shared ones
  (\<^verbatim>\<open>internal/controller/nodeset/utils/utils.go\<close>).
\<close>

section \<open>Calls of SyncObject and invariants of the history\<close>

lemma keeps_record_event [keeps_intros]:
  assumes "permits Q controls"
  shows "keeps (logs Q) (record_event recorder typ reason action e)"
  unfolding record_event_def by (intro keeps_intros assms)

lemma keeps_patch_object [keeps_intros]:
  assumes "permits Q controls" "permits Q kube_writes"
  shows "keeps (logs Q) (patch_object W recorder newObj shouldUpdate oldObj)"
  unfolding patch_object_def by (intro keeps_intros assms)

lemma keeps_SyncObject [keeps_intros]:
  assumes "permits Q reads" "permits Q controls" "permits Q kube_writes"
  shows "keeps (logs Q) (SyncObject W recorder newObj shouldUpdate)"
  unfolding SyncObject_def by (intro keeps_intros assms)

text \<open>The error of a call, wrapped: \<^verbatim>\<open>return fmt.Errorf("...: %w", err)\<close>.\<close>

definition failing_with :: "string \<Rightarrow> error prog \<Rightarrow> error prog" where
  "failing_with failure m = do {
     r \<leftarrow> m;
     case r of None \<Rightarrow> ok | Some e \<Rightarrow> fail (Wrapped failure e)
   }"

lemma failing_with_run [simp]:
  "snd (run_state (failing_with failure m) s) = snd (run_state m s)"
  "fst (run_state (failing_with failure m) s) = map_option (Wrapped failure) (fst (run_state m s))"
  by (auto simp: failing_with_def ok_def fail_def split: option.split prod.split)

lemma keeps_failing_with [keeps_intros]: "keeps I m \<Longrightarrow> keeps I (failing_with failure m)"
  unfolding failing_with_def by (intro keeps_intros)

section \<open>Owners of the shared objects\<close>

text \<open>Every NodeSet that names a controller of this name, in any namespace, becomes an owner; the first failure ends the loop.\<close>

fun set_owner_references :: "world \<Rightarrow> string \<Rightarrow> nodeset list \<Rightarrow> kobject \<Rightarrow> err + kobject" where
  "set_owner_references W clusterName [] object = Inr object"
| "set_owner_references W clusterName (ns # nodesets) object =
     (if snd (spec_ControllerRef (ns_Spec ns)) \<noteq> clusterName
      then set_owner_references W clusterName nodesets object
      else case w_SetOwnerReference W (nodeset_object ns) object of
             Inl e \<Rightarrow> Inl (Wrapped ''failed to set owner'' e)
           | Inr refs \<Rightarrow> set_owner_references W clusterName nodesets (object\<lparr>ko_OwnerReferences := refs\<rparr>))"

definition SetOwnerReferences :: "world \<Rightarrow> kobject \<Rightarrow> string \<Rightarrow> (err + kobject) prog" where
  "SetOwnerReferences W object clusterName =
     with_result (ListNodeSets W) (\<lambda>nodesets.
       State_Monad.return (set_owner_references W clusterName (w_SortNodeSets W nodesets) object))"

section \<open>Steps\<close>

text \<open>
  The object that is stored, when there is one, is read over the object that was built: what is applied
  is the stored object with the owners of now.
\<close>

definition sync_shared :: "world \<Rightarrow> string \<Rightarrow> nodeset \<Rightarrow> kobject \<Rightarrow> error prog" where
  "sync_shared W failure ns built = do {
     g \<leftarrow> GetObject W (ko_Kind built) (ko_Key built);
     case (case g of Inr stored \<Rightarrow> Inr stored | Inl e \<Rightarrow> if IsNotFound e then Inr built else Inl e) of
       Inl e \<Rightarrow> fail e
     | Inr object \<Rightarrow> with_value (SetOwnerReferences W object (snd (spec_ControllerRef (ns_Spec ns)))) (\<lambda>object.
         failing_with failure (SyncObject W False object True))
   }"

definition syncClusterWorkerService :: "world \<Rightarrow> nodeset \<Rightarrow> error prog" where
  "syncClusterWorkerService W ns =
     (case BuildClusterWorkerService W ns of
        Inl e \<Rightarrow> fail (Wrapped ''failed to build cluster worker service'' e)
      | Inr service \<Rightarrow> sync_shared W ''failed to sync service'' ns service)"

definition syncClusterWorkerPDB :: "world \<Rightarrow> nodeset \<Rightarrow> error prog" where
  "syncClusterWorkerPDB W ns =
     (case BuildClusterWorkerPodDisruptionBudget W ns of
        Inl e \<Rightarrow> fail (Wrapped ''failed to build cluster worker PDB'' e)
      | Inr podDisruptionBudget \<Rightarrow> sync_shared W ''failed to sync object'' ns podDisruptionBudget)"

definition syncSshConfig :: "world \<Rightarrow> nodeset \<Rightarrow> error prog" where
  "syncSshConfig W ns =
     (if \<not> spec_SshEnabled (ns_Spec ns) then ok
      else case BuildWorkerSshConfig W ns of
             Inl e \<Rightarrow> fail (Wrapped ''failed to build SSH config'' e)
           | Inr config \<Rightarrow> failing_with ''failed to sync SSH config'' (SyncObject W True config True))"

lemma keeps_sync_shared [keeps_intros]:
  assumes "permits Q reads" "permits Q controls" "permits Q kube_writes"
  shows "keeps (logs Q) (sync_shared W failure ns built)"
  unfolding sync_shared_def SetOwnerReferences_def by (intro keeps_intros assms)

lemma keeps_object_steps [keeps_intros]:
  assumes "permits Q reads" "permits Q controls" "permits Q kube_writes"
  shows "keeps (logs Q) (syncClusterWorkerService W ns)" "keeps (logs Q) (syncClusterWorkerPDB W ns)"
    "keeps (logs Q) (syncSshConfig W ns)"
  unfolding syncClusterWorkerService_def syncClusterWorkerPDB_def syncSshConfig_def
  by (intro keeps_intros assms)+

section \<open>A NodeSet of another namespace\<close>

text \<open>
  What the code relies on: an owner of another namespace is refused, sorting keeps the NodeSets, and the
  API server answers a read with the object of the key.
\<close>

definition refuses_foreign_owners :: "world \<Rightarrow> bool" where
  "refuses_foreign_owners W \<longleftrightarrow>
     (\<forall>owner obj. fst (ko_Key owner) \<noteq> fst (ko_Key obj) \<longrightarrow> (\<exists>e. w_SetOwnerReference W owner obj = Inl e)) \<and>
     (\<forall>l. set (w_SortNodeSets W l) = set l) \<and>
     (\<forall>h kd k x. w_GetObject W h kd k = Inr x \<longrightarrow> ko_Key x = k)"

lemma set_owner_references_foreign:
  assumes "refuses_foreign_owners W" "other \<in> set nodesets" "snd (spec_ControllerRef (ns_Spec other)) = clusterName"
    and "ns_Namespace other \<noteq> fst (ko_Key object)"
  shows "\<exists>e. set_owner_references W clusterName nodesets object = Inl e"
  using assms(2,4)
proof (induction nodesets arbitrary: object)
  case (Cons ns nodesets)
  have "\<exists>e. w_SetOwnerReference W (nodeset_object other) object = Inl e"
    using assms(1) Cons.prems(2)
    by (simp add: refuses_foreign_owners_def nodeset_object_def owner_object_def new_object_def ns_Key_def)
  then show ?case
    using Cons.IH [of object] Cons.IH [of "object\<lparr>ko_OwnerReferences := refs\<rparr>" for refs] Cons.prems assms(3)
    by (cases "ns = other") (auto split: sum.split)
qed simp

lemma sync_shared_foreign:
  assumes "refuses_foreign_owners W" "snd (spec_ControllerRef (ns_Spec other)) = snd (spec_ControllerRef (ns_Spec ns))"
    and "ns_Namespace other \<noteq> fst (ko_Key built)" and "\<forall>h. \<exists>l. w_ListNodeSets W h = Inr l \<and> other \<in> set l"
    and "logs (\<lambda>h e. reads e) s"
  shows "fst (run_state (sync_shared W failure ns built) s) \<noteq> None \<and>
    logs (\<lambda>h e. reads e) (snd (run_state (sync_shared W failure ns built) s))"
proof -
  let ?g = "w_GetObject W (log s) (ko_Kind built) (ko_Key built)"
  let ?h = "Rd (GotObject (ko_Kind built) (ko_Key built) ?g) # log s"
  obtain l where l: "w_ListNodeSets W ?h = Inr l" "other \<in> set l" using assms(4) by blast
  have "\<exists>e. set_owner_references W (snd (spec_ControllerRef (ns_Spec ns))) (w_SortNodeSets W l) object = Inl e"
    if "ko_Key object = ko_Key built" for object
    using set_owner_references_foreign [OF assms(1) _ assms(2)] l assms(1,3) that
    by (simp add: refuses_foreign_owners_def)
  moreover have "ko_Key stored = ko_Key built" if "?g = Inr stored" for stored
    using assms(1) that unfolding refuses_foreign_owners_def by blast
  ultimately have "\<exists>e. set_owner_references W (snd (spec_ControllerRef (ns_Spec ns))) (w_SortNodeSets W l) object = Inl e"
    if "?g = Inr object \<or> object = built" for object
    using that by auto
  then show ?thesis
    using l assms(5)
    by (fastforce simp: sync_shared_def SetOwnerReferences_def call_defs logs_def with_value_def with_result_def
        split: sum.splits)
qed

lemma built_shared_keys:
  "BuildClusterWorkerService W ns = Inr b \<Longrightarrow> ko_Kind b = Service \<and> fst (ko_Key b) = ns_Namespace ns"
  "BuildClusterWorkerPodDisruptionBudget W ns = Inr b \<Longrightarrow> ko_Kind b = PodDisruptionBudget \<and> fst (ko_Key b) = ns_Namespace ns"
  by (auto simp: BuildClusterWorkerService_def BuildClusterWorkerPodDisruptionBudget_def uncontrolled_def BuildService_def
      BuildPodDisruptionBudget_def set_owner_def new_object_def Let_def split: sum.splits option.splits if_splits)

lemma all_events: "ok_log (\<lambda>h. P) l \<longleftrightarrow> (\<forall>e \<in> set l. P e)"
  by (induction l) auto

text \<open>
  C27. When any NodeSet of another namespace names a controller of the same name, the service and the
  disruption budget of the cluster are never applied: both steps return an error and only read.
\<close>

theorem foreign_nodeset_blocks_shared_objects:
  assumes "refuses_foreign_owners W" "\<forall>h. \<exists>l. w_ListNodeSets W h = Inr l \<and> other \<in> set l"
    and "snd (spec_ControllerRef (ns_Spec other)) = snd (spec_ControllerRef (ns_Spec ns))"
    and "ns_Namespace other \<noteq> ns_Namespace ns" and "step \<in> {syncClusterWorkerService W ns, syncClusterWorkerPDB W ns}"
    and "log s = []"
  shows "fst (run_state step s) \<noteq> None \<and> (\<forall>e \<in> set (log (snd (run_state step s))). reads e)"
proof -
  have s: "logs (\<lambda>h e. reads e) s" using assms(6) by (simp add: logs_def)
  note shared = sync_shared_foreign [OF assms(1,3) _ assms(2) s]
  have "fst (run_state step s) \<noteq> None \<and> logs (\<lambda>h e. reads e) (snd (run_state step s))"
    using assms(4,5) s
    by (auto simp: syncClusterWorkerService_def syncClusterWorkerPDB_def built_shared_keys fail_def
        intro!: shared [THEN conjunct1, simplified] shared [THEN conjunct2, simplified] split: sum.splits)
  then show ?thesis
    by (simp add: logs_def all_events)
qed

definition two_namespaces :: world where
  "two_namespaces = quiet_world\<lparr>w_ListNodeSets := (\<lambda>h. Inr [sample_nodeset, sample_nodeset\<lparr>ns_Namespace := ''other''\<rparr>]),
     w_SetOwnerReference := (\<lambda>owner obj. if fst (ko_Key owner) = fst (ko_Key obj) then Inr (ko_OwnerReferences obj)
       else Inl (GoError ''cross-namespace owner references are disallowed''))\<rparr>"

theorem foreign_nodeset_blocks_shared_objects_witness:
  "fst (run_state (syncClusterWorkerService two_namespaces sample_nodeset) st_init) \<noteq> None"
proof -
  have "refuses_foreign_owners two_namespaces"
    by (simp add: refuses_foreign_owners_def two_namespaces_def quiet_world_def)
  then show ?thesis
    using foreign_nodeset_blocks_shared_objects [of two_namespaces "sample_nodeset\<lparr>ns_Namespace := ''other''\<rparr>"
        sample_nodeset "syncClusterWorkerService two_namespaces sample_nodeset" st_init]
    by (simp add: two_namespaces_def sample_nodeset_def st_init_def)
qed

lemma set_owner_references_only_owners:
  "set_owner_references W c l object = Inr obj \<Longrightarrow> \<exists>refs. obj = object\<lparr>ko_OwnerReferences := refs\<rparr>"
proof (induction l arbitrary: object)
  case Nil
  then have "obj = object\<lparr>ko_OwnerReferences := ko_OwnerReferences object\<rparr>" by simp
  then show ?case ..
next
  case (Cons ns l)
  then show ?case by (fastforce split: if_splits sum.splits)
qed

text \<open>The same object but for its owners; a nil map of labels or annotations becomes an empty one.\<close>

definition only_owners_changed :: "kobject \<Rightarrow> kobject \<Rightarrow> bool" where
  "only_owners_changed old new \<longleftrightarrow>
     (\<exists>refs. new = old\<lparr>ko_OwnerReferences := refs, ko_Labels := Some (mmake (ko_Labels old)),
        ko_Annotations := Some (mmake (ko_Annotations old))\<rparr>)"

lemma updated_only_owners: "only_owners_changed old (updated_object old (old\<lparr>ko_OwnerReferences := refs\<rparr>))"
proof -
  have "copy_fields ks (ko_Fields old) (ko_Fields old) = ko_Fields old" for ks
    by (simp add: copy_fields_lookup fun_eq_iff)
  moreover have "m ++ m = m" for m :: "string \<rightharpoonup> string"
    by (simp add: map_add_def fun_eq_iff split: option.split)
  ultimately have "updated_object old (old\<lparr>ko_OwnerReferences := refs\<rparr>) =
      old\<lparr>ko_OwnerReferences := refs, ko_Labels := Some (mmake (ko_Labels old)), ko_Annotations := Some (mmake (ko_Annotations old))\<rparr>"
    by (cases old) (simp add: updated_object_def MergeMaps_def)
  then show ?thesis unfolding only_owners_changed_def by blast
qed

text \<open>
  C28. An existing service or disruption budget of the cluster never gets the contents that the operator
  builds: as long as the API server answers with the same object, what is patched is that object, and the
  patch changes nothing of it but its owners: no field, label, annotation or other part.
\<close>

theorem shared_contents_never_updated:
  assumes "\<forall>h. w_GetObject W h (ko_Kind built) (ko_Key built) = Inr stored"
    and "ko_Kind stored = ko_Kind built" "ko_Key stored = ko_Key built" "log s = []"
    and "Wr (PatchedObject x y r) \<in> set (log (snd (run_state (sync_shared W failure ns built) s)))"
  shows "y = stored \<and> only_owners_changed stored x"
proof -
  define Q where "Q = (\<lambda>e. \<forall>x y r. e = Wr (PatchedObject x y r) \<longrightarrow> y = stored \<and> only_owners_changed stored x)"
  have Q: "Q (Rd a)" "Q (Ctl b)" "Q (Wr (PatchedObject x y r)) \<longleftrightarrow> y = stored \<and> only_owners_changed stored x" for a b x y r
    by (auto simp: Q_def)
  let ?h = "Rd (GotObject (ko_Kind built) (ko_Key built) (Inr stored)) # log s"
  have sync: "logs (\<lambda>h. Q) (snd (run_state (SyncObject W False obj True) t))"
    if "obj = stored\<lparr>ko_OwnerReferences := refs\<rparr>" "logs (\<lambda>h. Q) t" for obj refs t
    using that assms(1-3)
    by (auto simp: Q updated_only_owners SyncObject_def patch_object_def record_event_def call_defs logs_def split: option.split)
  have "logs (\<lambda>h. Q) (snd (run_state (sync_shared W failure ns built) s))"
  proof (cases "w_ListNodeSets W ?h")
    case (Inl e)
    then show ?thesis
      using assms(1,4) by (simp add: Q sync_shared_def SetOwnerReferences_def call_defs logs_def)
  next
    case (Inr l)
    then show ?thesis
      using assms(1,4)
      by (auto simp: sync_shared_def SetOwnerReferences_def call_defs dest!: set_owner_references_only_owners
          intro!: sync split: sum.split option.split) (auto simp: Q logs_def)
  qed
  with assms(5) show ?thesis
    using Q(3) unfolding logs_def all_events by blast
qed

definition stored_service :: kobject where
  "stored_service = new_object Service (''slurm'', ''workers'') no_metadata [''Spec'' \<mapsto> Text ''old'']"

definition stored_world :: world where
  "stored_world = quiet_world\<lparr>w_GetObject := (\<lambda>h kd k. Inr stored_service)\<rparr>"

theorem shared_contents_never_updated_witness:
  "\<exists>x y r. Wr (PatchedObject x y r) \<in> set (log (snd (run_state (sync_shared stored_world ''failed'' sample_nodeset
       (stored_service\<lparr>ko_Fields := [''Spec'' \<mapsto> Text ''new'']\<rparr>)) st_init))) \<and> y = stored_service \<and> only_owners_changed stored_service x"
proof -
  let ?b = "stored_service\<lparr>ko_Fields := [''Spec'' \<mapsto> Text ''new'']\<rparr>"
  have "\<exists>x y r. Wr (PatchedObject x y r) \<in> set (log (snd (run_state (sync_shared stored_world ''failed'' sample_nodeset ?b) st_init)))"
    by (simp add: sync_shared_def SetOwnerReferences_def SyncObject_def patch_object_def stored_world_def quiet_world_def
        stored_service_def new_object_def being_deleted_def call_defs)
  moreover have same: "\<forall>h. w_GetObject stored_world h (ko_Kind ?b) (ko_Key ?b) = Inr stored_service"
    "ko_Kind stored_service = ko_Kind ?b" "ko_Key stored_service = ko_Key ?b" "log st_init = []"
    by (simp_all add: stored_world_def st_init_def)
  ultimately show ?thesis
    using shared_contents_never_updated [OF same] by blast
qed

end
