(* ===== verification/NodeSetSync.thy ===== *)
theory NodeSetSync
  imports Scaling ClusterObjects
begin

text \<open>
  The other steps of a reconcile and their order: node taints, deadlines, pruning of Slurm node
  records, repair of nodes that Slurm lost, topology, and \<open>sync\<close> itself
  (\<^verbatim>\<open>internal/controller/nodeset/nodeset_sync.go\<close>).

  The steps that apply objects of the cluster are in \<open>ClusterObjects\<close>. A write to a nil
  annotation map is recorded as a panic; it ends the process, so what the model does after it has no
  counterpart, and \<open>Reconcile\<close> has no result then.
\<close>

section \<open>Taints\<close>

definition TaintNodeWorker :: taint where
  "TaintNodeWorker = \<lparr>taint_Key = NodeSetPrefix @ ''worker'', taint_Value = '''',
     taint_Effect = TaintEffectNoExecute\<rparr>"

text \<open>The Kubernetes nodes that run a pod of a NodeSet that asks for taints.\<close>

definition nodes_with_pod :: "nodeset list \<Rightarrow> pod list \<Rightarrow> string set" where
  "nodes_with_pod nodesets pods =
     (let uids = ns_UID ` set (filter (\<lambda>ns. spec_TaintKubeNodes (ns_Spec ns)) nodesets)
      in pod_NodeName ` set (filter (\<lambda>p.
           (case GetControllerOf (pod_OwnerReferences p) of None \<Rightarrow> False | Some r \<Rightarrow> or_UID r \<in> uids) \<and>
           IsRunning p \<and> \<not> IsTerminating p) pods))"

definition syncTaintFn :: "world \<Rightarrow> string set \<Rightarrow> node \<Rightarrow> error prog" where
  "syncTaintFn W names node =
     (case if node_Name node \<in> names then w_AddOrUpdateTaint W node TaintNodeWorker
           else w_RemoveTaint W node TaintNodeWorker of
        Inl e \<Rightarrow> fail e
      | Inr (toUpdate, updated) \<Rightarrow> if \<not> updated then ok else PatchNode W toUpdate node)"

definition syncNodeTaint :: "world \<Rightarrow> error prog" where
  "syncNodeTaint W =
     with_value (ListNodes W) (\<lambda>nodes.
       with_value (ListNodeSets W) (\<lambda>nodesets.
         with_value (ListPods W) (\<lambda>pods.
           SlowStart W (length nodes) (\<lambda>i. syncTaintFn W (nodes_with_pod nodesets pods) (nodes ! i)))))"

section \<open>Slurm node records\<close>

definition DefunctSlurmNodePrunedReason :: string where "DefunctSlurmNodePrunedReason = ''DefunctSlurmNodePruned''"
definition SlurmNodeNotRegisteredReason :: string where "SlurmNodeNotRegisteredReason = ''SlurmNodeNotRegistered''"

text \<open>Deletion of the record, the last step for a defunct node.\<close>

definition prune_record :: "world \<Rightarrow> nodeset \<Rightarrow> string \<Rightarrow> error prog" where
  "prune_record W ns name = do {
     d \<leftarrow> DeleteNode W ns name;
     case d of
       Some e \<Rightarrow> fail (Wrapped ''failed to delete defunct Slurm node'' e)
     | None \<Rightarrow> do { emit (Eventf ''Normal'' DefunctSlurmNodePrunedReason ''Delete'' None); ok }
   }"

definition syncSlurmNodeRecordsFn :: "world \<Rightarrow> nodeset \<Rightarrow> defunct_node \<Rightarrow> error prog" where
  "syncSlurmNodeRecordsFn W ns defunctNode =
     (let info = dn_PodInfo defunctNode in do {
        g \<leftarrow> GetPod W (pi_Namespace info, pi_PodName info);
        case g of
          Inr _ \<Rightarrow> ok
        | Inl err \<Rightarrow>
            if \<not> IsNotFound err then fail err
            else if pi_Node info = '''' then ok
            else do {
              n \<leftarrow> GetNode W (pi_Node info);
              case n of
                Inl e \<Rightarrow> if IsNotFound e then prune_record W ns (dn_Name defunctNode) else fail e
              | Inr kubeNode \<Rightarrow>
                  if GetDaemonSetPodHostname (pi_Node info) (mget (node_Annotations kubeNode) AnnotationNodeHostnameOverride)
                       = dn_Name defunctNode
                  then ok
                  else prune_record W ns (dn_Name defunctNode)
            }
      })"

definition syncSlurmNodeRecordsNodeNotFound :: "world \<Rightarrow> nodeset \<Rightarrow> error prog" where
  "syncSlurmNodeRecordsNodeNotFound W ns =
     (if \<not> is_daemonset ns then ok
      else do {
        r \<leftarrow> GetDefunctNodesForNodeSet W ns;
        case r of
          (_, _, Some e) \<Rightarrow> fail e
        | (defunctNodes, found, None) \<Rightarrow>
            if \<not> found then ok
            else SlowStart W (length defunctNodes) (\<lambda>i. syncSlurmNodeRecordsFn W ns (defunctNodes ! i))
      })"

definition syncSlurmNodeRecords :: "world \<Rightarrow> nodeset \<Rightarrow> error prog" where
  "syncSlurmNodeRecords W ns =
     (if spec_PruneSlurmNodeRecords (ns_Spec ns) = PruneNodeNotFound
      then syncSlurmNodeRecordsNodeNotFound W ns else ok)"

section \<open>Nodes that Slurm lost\<close>

text \<open>Availability is only asked for when the node is not registered, health only when it is available.\<close>

definition syncSlurmNodesFn :: "world \<Rightarrow> nodeset \<Rightarrow> string set \<Rightarrow> ref \<Rightarrow> error prog" where
  "syncSlurmNodesFn W ns registered r = do {
     p \<leftarrow> load r;
     if GetSlurmNodeName p \<in> registered then ok
     else do {
       available \<leftarrow> IsRunningAndAvailable W p (spec_MinReadySeconds (ns_Spec ns));
       if \<not> available \<or> \<not> IsHealthy W p then ok
       else do {
         emit (Eventf ''Warning'' SlurmNodeNotRegisteredReason ''Delete'' None);
         e \<leftarrow> DeletePod_api W (pod_key p);
         State_Monad.return (case e of Some x \<Rightarrow> if \<not> IsNotFound x then Some x else None | None \<Rightarrow> None)
       }
     }
   }"

definition syncSlurmNodes :: "world \<Rightarrow> nodeset \<Rightarrow> ref list \<Rightarrow> error prog" where
  "syncSlurmNodes W ns pods = do {
     hp \<leftarrow> load_heap;
     r \<leftarrow> GetNodesForPods W ns (map hp pods);
     case r of
       (_, _, Some e) \<Rightarrow> fail e
     | (names, found, None) \<Rightarrow>
         if \<not> found then ok
         else SlowStart W (length pods) (\<lambda>i. syncSlurmNodesFn W ns (set names) (pods ! i))
   }"

section \<open>Deadlines and topology\<close>

text \<open>The annotations of the patched pod; setting one on a nil map panics.\<close>

definition deadline_annotations :: "world \<Rightarrow> time \<Rightarrow> strmap \<Rightarrow> err + strmap" where
  "deadline_annotations W deadline annotations =
     (if deadline = 0 then Inr (mdel annotations AnnotationPodDeadline)
      else mput annotations AnnotationPodDeadline (w_FormatTime W deadline))"

definition syncSlurmDeadlineFn :: "world \<Rightarrow> time_store \<Rightarrow> ref \<Rightarrow> error prog" where
  "syncSlurmDeadlineFn W nodeDeadlines r = do {
     p \<leftarrow> load r;
     case deadline_annotations W (time_Peek nodeDeadlines (GetSlurmNodeName p)) (pod_Annotations p) of
       Inl e \<Rightarrow> do { crash (NilAnnotations p); fail e }
     | Inr a \<Rightarrow> do {
         e \<leftarrow> PatchPod W (p\<lparr>pod_Annotations := a\<rparr>) p;
         State_Monad.return (case e of Some x \<Rightarrow> if IsNotFound x then None else Some x | None \<Rightarrow> None)
       }
   }"

definition syncSlurmDeadline :: "world \<Rightarrow> nodeset \<Rightarrow> ref list \<Rightarrow> error prog" where
  "syncSlurmDeadline W ns pods = do {
     hp \<leftarrow> load_heap;
     with_value (GetNodeDeadlines W ns (map hp pods)) (\<lambda>nodeDeadlines.
       SlowStart W (length pods) (\<lambda>i. syncSlurmDeadlineFn W nodeDeadlines (pods ! i)))
   }"

definition update_topology :: "world \<Rightarrow> nodeset \<Rightarrow> pod \<Rightarrow> string \<Rightarrow> error prog" where
  "update_topology W ns p topologySpec = do {
     e \<leftarrow> UpdateNodeTopology W ns p topologySpec;
     State_Monad.return (map_option (Wrapped ''failed to update Slurm node topology'') e)
   }"

definition syncSlurmTopologyFn :: "world \<Rightarrow> nodeset \<Rightarrow> ref \<Rightarrow> error prog" where
  "syncSlurmTopologyFn W ns r = do {
     p \<leftarrow> load r;
     if pod_NodeName p = '''' then ok
     else do {
       g \<leftarrow> GetNode W (pod_NodeName p);
       case g of
         Inl e \<Rightarrow> if IsNotFound e then ok else fail e
       | Inr node \<Rightarrow>
           (let topologySpec = mget (node_Annotations node) AnnotationNodeTopologySpec in
            case mput (pod_Annotations p) AnnotationNodeTopologySpec topologySpec of
              Inl e \<Rightarrow> do { crash (NilAnnotations p); fail e }
            | Inr a \<Rightarrow> do {
                e \<leftarrow> PatchPod W (p\<lparr>pod_Annotations := a\<rparr>) p;
                case e of
                  Some x \<Rightarrow>
                    if \<not> IsNotFound x then fail (Wrapped ''failed to patch pod annotations'' x)
                    else update_topology W ns p topologySpec
                | None \<Rightarrow> update_topology W ns p topologySpec
              })
     }
   }"

definition syncSlurmTopology :: "world \<Rightarrow> nodeset \<Rightarrow> ref list \<Rightarrow> error prog" where
  "syncSlurmTopology W ns pods = SlowStart W (length pods) (\<lambda>i. syncSlurmTopologyFn W ns (pods ! i))"

section \<open>The reconcile\<close>

text \<open>The steps of \<open>sync\<close>, in order. Only the refresh of the Slurm node cache stops the run when it fails.\<close>

definition sync_steps :: "world \<Rightarrow> string list \<Rightarrow> nodeset \<Rightarrow> ref list \<Rightarrow> string \<Rightarrow> step list" where
  "sync_steps W propagated ns pods hash =
     [step_of ''ClusterWorkerService'' (syncClusterWorkerService W ns),
      step_of ''ClusterWorkerPDB'' (syncClusterWorkerPDB W ns),
      step_of ''SSHConfig'' (syncSshConfig W ns),
      step_of ''NodeTaint'' (syncNodeTaint W),
      (step_of ''RefreshNodeCache'' (RefreshNodeCache W ns))\<lparr>step_StopOnError := True\<rparr>,
      step_of ''SlurmDeadline'' (syncSlurmDeadline W ns pods),
      step_of ''Cordon'' (syncCordon W propagated ns pods),
      step_of ''NodeSetPods'' (syncNodeSetPods W ns pods hash),
      step_of ''SlurmNodeRecords'' (syncSlurmNodeRecords W ns),
      step_of ''SlurmNodes'' (syncSlurmNodes W ns pods),
      step_of ''SlurmTopology'' (syncSlurmTopology W ns pods)]"

definition sync :: "world \<Rightarrow> string list \<Rightarrow> nodeset \<Rightarrow> ref list \<Rightarrow> string \<Rightarrow> error prog" where
  "sync W propagated ns pods hash = Sync_steps (sync_steps W propagated ns pods hash)"

section \<open>Slurm node records are pruned only when nothing maps to them\<close>

text \<open>
  The history when the record of a Slurm node is deleted: the client was just looked up, before that
  the Kubernetes node the record names was read (and is gone, or is known to Slurm under another name),
  before that the pod it names was not found; and Slurm had listed the node as down and not responding
  with a comment that names this NodeSet.
\<close>

definition unmapped :: "string \<Rightarrow> string \<Rightarrow> err + node \<Rightarrow> bool" where
  "unmapped slurmName kubeName r \<longleftrightarrow>
     (case r of
        Inl e \<Rightarrow> IsNotFound e
      | Inr n \<Rightarrow> GetDaemonSetPodHostname kubeName (mget (node_Annotations n) AnnotationNodeHostnameOverride) \<noteq> slurmName)"

definition listed_defunct :: "world \<Rightarrow> nodeset \<Rightarrow> defunct_node \<Rightarrow> history \<Rightarrow> bool" where
  "listed_defunct W ns d h \<longleftrightarrow>
     (\<exists>c nodes n. Rd (ListedSlurmNodes c False (Inr nodes)) \<in> set h \<and> n \<in> set nodes \<and> defunct_of W ns n = Some d)"

definition pruned_safely :: "world \<Rightarrow> nodeset \<Rightarrow> history \<Rightarrow> ev \<Rightarrow> bool" where
  "pruned_safely W ns h e \<longleftrightarrow> (\<forall>c name x. e = Wr (DeletedSlurmNode c name x) \<longrightarrow>
     (\<exists>d y r h0. dn_Name d = name \<and> listed_defunct W ns d h \<and>
        h = Rd (LookedUpClient (spec_ControllerRef (ns_Spec ns)) (Some c)) # Rd (GotNode (pi_Node (dn_PodInfo d)) r) #
            Rd (GotPod (pi_Namespace (dn_PodInfo d), pi_PodName (dn_PodInfo d)) (Inl y)) # h0 \<and>
        IsNotFound y \<and> pi_Node (dn_PodInfo d) \<noteq> '''' \<and> unmapped name (pi_Node (dn_PodInfo d)) r))"

lemma pruned_safely_permits [simp]:
  "permits (pruned_safely W ns) reads" "permits (pruned_safely W ns) controls"
  by (auto simp: permits_def pruned_safely_def)

lemma listed_defunct_mono: "listed_defunct W ns d h \<Longrightarrow> set h \<subseteq> set h' \<Longrightarrow> listed_defunct W ns d h'"
  unfolding listed_defunct_def by blast

lemma keeps_prune_record:
  assumes "listed_defunct W ns d g" and "IsNotFound y" and "pi_Node (dn_PodInfo d) \<noteq> ''''"
    and "unmapped (dn_Name d) (pi_Node (dn_PodInfo d)) r"
    and "log s = Rd (GotNode (pi_Node (dn_PodInfo d)) r) #
            Rd (GotPod (pi_Namespace (dn_PodInfo d), pi_PodName (dn_PodInfo d)) (Inl y)) # g"
    and "logs (pruned_safely W ns) s"
  shows "logs (pruned_safely W ns) (snd (run_state (prune_record W ns (dn_Name d)) s)) \<and>
    set g \<subseteq> set (log (snd (run_state (prune_record W ns (dn_Name d)) s)))"
proof -
  let ?k = "spec_ControllerRef (ns_Spec ns)"
  have "pruned_safely W ns (Rd (LookedUpClient ?k (Some c)) # log s) (Wr (DeletedSlurmNode c (dn_Name d) x))" for c x
    unfolding pruned_safely_def using assms(2-5)
    by (auto intro!: exI [of _ d] listed_defunct_mono [OF assms(1)])
  moreover have "pruned_safely W ns h (Rd a)" "pruned_safely W ns h (Ctl b)" for h a b
    by (simp_all add: pruned_safely_def)
  ultimately show ?thesis
    using assms(5,6)
    by (auto simp: prune_record_def DeleteNode_def lookupClient_def call_defs logs_def split: option.split)
qed

lemma keeps_syncSlurmNodeRecordsFn:
  assumes "n \<in> set nodes" and "defunct_of W ns n = Some d"
  shows "keeps (\<lambda>s. logs (pruned_safely W ns) s \<and> Rd (ListedSlurmNodes c False (Inr nodes)) \<in> set (log s))
    (syncSlurmNodeRecordsFn W ns d)"
    (is "keeps ?I _")
proof (rule keepsI)
  fix s assume s: "?I s"
  let ?i = "dn_PodInfo d"
  let ?k = "(pi_Namespace ?i, pi_PodName ?i)"
  let ?g = "w_GetPod W (log s) ?k"
  let ?h = "Rd (GotPod ?k ?g) # log s"
  let ?n = "w_GetNode W ?h (pi_Node ?i)"
  let ?t = "s\<lparr>log := Rd (GotNode (pi_Node ?i) ?n) # ?h\<rparr>"
  have listed: "listed_defunct W ns d (log s)"
    unfolding listed_defunct_def using s assms by blast
  have rd: "?I (s\<lparr>log := ?h\<rparr>)" "?I ?t"
    using s by (auto simp: logs_def pruned_safely_def)
  have prune: "?I (snd (run_state (prune_record W ns (dn_Name d)) ?t))"
    if "?g = Inl y" "IsNotFound y" "pi_Node ?i \<noteq> ''''" "unmapped (dn_Name d) (pi_Node ?i) ?n" for y
    using keeps_prune_record [OF listed that(2-4), of ?t] that s rd by auto
  show "?I (snd (run_state (syncSlurmNodeRecordsFn W ns d) s))"
    using rd prune unfolding syncSlurmNodeRecordsFn_def Let_def
    by (auto simp: call_defs unmapped_def split: sum.splits)
qed

lemma GetDefunctNodesForNodeSet_run:
  assumes "run_state (GetDefunctNodesForNodeSet W ns) s = ((ds, found, None), t)"
  shows "ds = [] \<or> (\<exists>c nodes. Rd (ListedSlurmNodes c False (Inr nodes)) \<in> set (log t) \<and>
    ds = List.map_filter (defunct_of W ns) nodes)"
  using assms unfolding GetDefunctNodesForNodeSet_def
  by (auto simp: lookupClient_def call_defs split: option.splits sum.splits) metis

text \<open>
  C4. Whatever the API server and Slurm answer, pruning deletes the record of a Slurm node only if
  Slurm listed it as down and not responding with a comment naming this NodeSet, the pod of that
  comment was not found, and then its Kubernetes node was not found or belongs to another Slurm name.
\<close>

theorem slurm_records_pruned_safely:
  assumes "fair_sched (w_sched W)"
  shows "keeps (logs (pruned_safely W ns)) (syncSlurmNodeRecords W ns)"
proof (rule keepsI)
  fix s assume s: "logs (pruned_safely W ns) s"
  obtain ds found e t where r: "run_state (GetDefunctNodesForNodeSet W ns) s = ((ds, found, e), t)"
    by (metis prod.collapse)
  have t: "logs (pruned_safely W ns) t"
    using keepsD [OF keeps_slurm_lists(4) s, of W ns] by (simp add: r)
  let ?loop = "SlowStart W (length ds) (\<lambda>i. syncSlurmNodeRecordsFn W ns (ds ! i))"
  have "logs (pruned_safely W ns) (snd (run_state ?loop t))" if e: "e = None"
  proof (cases "ds = []")
    case True
    then have "keeps (logs (pruned_safely W ns)) ?loop"
      by (intro keeps_SlowStart_in(1) [OF assms]) simp
    then show ?thesis
      using t by (rule keepsD)
  next
    case False
    then obtain c nodes where l: "Rd (ListedSlurmNodes c False (Inr nodes)) \<in> set (log t)"
      and ds: "ds = List.map_filter (defunct_of W ns) nodes"
      using GetDefunctNodesForNodeSet_run r e by blast
    let ?I = "\<lambda>s. logs (pruned_safely W ns) s \<and> Rd (ListedSlurmNodes c False (Inr nodes)) \<in> set (log s)"
    have "\<exists>n \<in> set nodes. defunct_of W ns n = Some (ds ! i)" if "i < length ds" for i
      using nth_mem [OF that] by (force simp: ds map_filter_def)
    then have "keeps ?I ?loop"
      using keeps_syncSlurmNodeRecordsFn by (intro keeps_SlowStart_in(1) [OF assms]) blast
    then have "?I (snd (run_state ?loop t))"
      by (rule keepsD) (use t l in blast)
    then show ?thesis by blast
  qed
  with s t show "logs (pruned_safely W ns) (snd (run_state (syncSlurmNodeRecords W ns) s))"
    unfolding syncSlurmNodeRecords_def syncSlurmNodeRecordsNodeNotFound_def
    by (auto simp: r split: option.split)
qed

theorem slurm_records_pruned_safely_witness:
  "keeps (logs (pruned_safely quiet_world sample_nodeset)) (syncSlurmNodeRecords quiet_world sample_nodeset)"
  by (rule slurm_records_pruned_safely) simp

section \<open>A stale cache stops the reconcile\<close>

lemma keeps_syncNodeTaint [keeps_intros]:
  assumes "permits Q reads" "permits Q kube_writes"
  shows "keeps (logs Q) (syncNodeTaint W)"
  unfolding syncNodeTaint_def syncTaintFn_def by (intro keeps_intros assms)

text \<open>Nothing but reads, expectations and events, and the objects and taints of the first four steps.\<close>

definition preliminary :: "history \<Rightarrow> ev \<Rightarrow> bool" where
  "preliminary h e \<longleftrightarrow> reads e \<or> controls e \<or> kube_writes e"

lemma preliminary_permits [simp]:
  "permits preliminary reads" "permits preliminary controls" "permits preliminary kube_writes"
  by (auto simp: permits_def preliminary_def)

lemma keeps_Sync_loop_stops:
  assumes "\<And>s. s \<in> set front \<Longrightarrow> keeps I (step_SyncFn s)" and "keeps I (step_SyncFn stop)"
    and "\<And>e. keeps I (emit (Eventf ''Warning'' failedReason syncAction e))"
    and "step_StopOnError stop" and "\<And>s. fst (run_state (step_SyncFn stop) s) \<noteq> None"
  shows "keeps I (Sync_loop (front @ stop # rest) errs)"
  using assms(1)
proof (induction front arbitrary: errs)
  case Nil
  show ?case
  proof (rule keepsI)
    fix s assume I: "I s"
    obtain e t where r: "run_state (step_SyncFn stop) s = (Some e, t)"
      using assms(5) [of s] by (metis not_None_eq prod.collapse)
    have "I t" using keepsD [OF assms(2) I] by (simp add: r)
    then show "I (snd (run_state (Sync_loop ([] @ stop # rest) errs) s))"
      using keepsD [OF assms(3) [of "Some (Wrapped (step_Name stop) e)"]] assms(4) by (simp add: r Let_def)
  qed
next
  case (Cons a front)
  have "keeps I (Sync_loop (front @ stop # rest) errs')" for errs'
    by (rule Cons.IH) (simp add: Cons.prems)
  then show ?case
    using Cons.prems [of a] assms(3) by (auto intro!: keeps_intros simp: Let_def)
qed

text \<open>
  C5. When the refresh of the Slurm node cache fails, the reconcile stops there: \<open>sync\<close> creates,
  changes or deletes no pod, no volume claim and no Slurm node; all it does besides reading is to apply
  the service, disruption budget, SSH configuration and taints of the steps before.
\<close>

theorem sync_stops_on_stale_cache:
  assumes "\<forall>s. fst (run_state (RefreshNodeCache W ns) s) \<noteq> None"
  shows "keeps (logs preliminary) (sync W propagated ns pods hash)"
proof -
  have steps: "sync_steps W propagated ns pods hash =
      [step_of ''ClusterWorkerService'' (syncClusterWorkerService W ns),
       step_of ''ClusterWorkerPDB'' (syncClusterWorkerPDB W ns),
       step_of ''SSHConfig'' (syncSshConfig W ns), step_of ''NodeTaint'' (syncNodeTaint W)] @
      (step_of ''RefreshNodeCache'' (RefreshNodeCache W ns))\<lparr>step_StopOnError := True\<rparr> #
      drop 5 (sync_steps W propagated ns pods hash)"
    by (simp add: sync_steps_def)
  have "keeps (logs preliminary) (Sync_loop (sync_steps W propagated ns pods hash) [])"
    by (subst steps, rule keeps_Sync_loop_stops)
      (use assms in \<open>auto simp: step_of_def RefreshNodeCache_def intro!: keeps_intros\<close>)
  then show ?thesis
    unfolding sync_def Sync_steps_def by (intro keeps_intros)
qed

definition stale_world :: world where
  "stale_world = one_client_world\<lparr>w_SlurmListNodes := (\<lambda>h c b. Inl (GoError ''timeout''))\<rparr>"

theorem sync_stops_on_stale_cache_witness:
  "keeps (logs preliminary) (sync stale_world [] sample_nodeset [3] ''h'')"
proof (rule sync_stops_on_stale_cache, intro allI)
  have "w_ClientMap stale_world = w_ClientMap one_client_world"
    by (simp add: stale_world_def)
  then show "fst (run_state (RefreshNodeCache stale_world sample_nodeset) s) \<noteq> None" for s
    using one_client_found [of "log s"]
    by (auto simp: RefreshNodeCache_def lookupClient_def call_defs stale_world_def)
qed

section \<open>Pods without annotations\<close>

text \<open>
  The deadline and the topology step write to the annotation map of a copy of the pod without
  making one first: for a pod that has no annotations, a deadline, or a Kubernetes node that is found,
  panics before anything is written.
\<close>

theorem nil_annotations_panic:
  assumes "pod_Annotations (heap s r) = None"
    and "time_Peek nodeDeadlines (GetSlurmNodeName (heap s r)) \<noteq> 0"
    and "pod_NodeName (heap s r) \<noteq> ''''" and "w_GetNode W (log s) (pod_NodeName (heap s r)) = Inr node"
  shows "run_state (syncSlurmDeadlineFn W nodeDeadlines r) s =
      (Some (Panic ''assignment to entry in nil map''), s\<lparr>log := Rd (Panicked (NilAnnotations (heap s r))) # log s\<rparr>) \<and>
    run_state (syncSlurmTopologyFn W ns r) s =
      (Some (Panic ''assignment to entry in nil map''),
       s\<lparr>log := Rd (Panicked (NilAnnotations (heap s r))) # Rd (GotNode (pod_NodeName (heap s r)) (Inr node)) # log s\<rparr>)"
  using assms by (simp add: syncSlurmDeadlineFn_def deadline_annotations_def syncSlurmTopologyFn_def mput_def
      call_defs Let_def fail_def)

theorem nil_annotations_panic_witness:
  "fst (run_state (syncSlurmDeadlineFn (quiet_world\<lparr>w_GetNode := (\<lambda>h n. Inr empty_node)\<rparr>) [''gpu-0'' \<mapsto> Cell 7] 0)
     (st_init\<lparr>heap := (\<lambda>r. empty_pod\<lparr>pod_Hostname := ''gpu-0'', pod_NodeName := ''n''\<rparr>)\<rparr>)) =
   Some (Panic ''assignment to entry in nil map'')"
  using nil_annotations_panic [of "st_init\<lparr>heap := (\<lambda>r. empty_pod\<lparr>pod_Hostname := ''gpu-0'', pod_NodeName := ''n''\<rparr>)\<rparr>" 0
      "[''gpu-0'' \<mapsto> Cell 7]" "quiet_world\<lparr>w_GetNode := (\<lambda>h n. Inr empty_node)\<rparr>" empty_node]
  by (simp add: empty_pod_def GetSlurmNodeName_def time_Peek_def ScalingModeStatefulset_def)

section \<open>Pods whose Slurm node is lost\<close>

text \<open>
  A pod deletion as the repair step may ask for it: one of the given pods, healthy, whose Slurm node is
  missing in a list of nodes read from Slurm; between this list and the deletion only events of the
  step itself happened.
\<close>

definition lost_node :: "world \<Rightarrow> (ref \<Rightarrow> pod) \<Rightarrow> ref list \<Rightarrow> history \<Rightarrow> ev \<Rightarrow> bool" where
  "lost_node W hp pods h e \<longleftrightarrow> (\<forall>k x. e = Wr (DeletedPod k x) \<longrightarrow>
     (\<exists>r \<in> set pods. k = pod_key (hp r) \<and> IsHealthy W (hp r) \<and>
        (\<exists>c nodes. Rd (ListedSlurmNodes c False (Inr nodes)) \<in> set h \<and>
           (\<forall>n \<in> set nodes. deref (sn_Name n) '''' \<noteq> GetSlurmNodeName (hp r)))))"

lemma lost_node_permits [simp]: "permits (lost_node W hp pods) reads" "permits (lost_node W hp pods) controls"
  by (auto simp: permits_def lost_node_def)

lemma keeps_syncSlurmNodesFn:
  assumes "r \<in> set pods"
    and "registered = set (filter (\<lambda>n. n \<in> GetSlurmNodeName ` hp ` set pods) (map (\<lambda>n. deref (sn_Name n) '''') nodes))"
  shows "keeps (\<lambda>s. logs (lost_node W hp pods) s \<and> heap s = hp \<and>
      Rd (ListedSlurmNodes c False (Inr nodes)) \<in> set (log s)) (syncSlurmNodesFn W ns registered r)"
    (is "keeps ?I _")
proof (rule keepsI)
  fix s assume s: "?I s"
  let ?p = "hp r" and ?now = "w_Now W (log s)"
  let ?h = "Ctl (Eventf ''Warning'' SlurmNodeNotRegisteredReason ''Delete'' None) # Rd (Clock ?now) # log s"
  have "lost_node W hp pods ?h (Wr (DeletedPod (pod_key ?p) x))"
    if "GetSlurmNodeName ?p \<notin> registered" "IsHealthy W ?p" for x
    unfolding lost_node_def using that assms s by (force simp: image_image intro!: bexI [of _ r] exI [of _ c] exI [of _ nodes])
  moreover have "lost_node W hp pods h (Rd a)" "lost_node W hp pods h (Ctl b)" for h a b
    by (simp_all add: lost_node_def)
  ultimately show "?I (snd (run_state (syncSlurmNodesFn W ns registered r) s))"
    using s by (auto simp: syncSlurmNodesFn_def IsRunningAndAvailable_def call_defs logs_def)
qed

text \<open>
  The repair step deletes only healthy pods of the given ones whose Slurm node is missing in the
  list of nodes that Slurm returned, so that they register again; every other pod is left alone, and
  without a client or a list nothing is deleted.
\<close>

theorem syncSlurmNodes_restarts_lost_pods:
  assumes "fair_sched (w_sched W)" and "logs (lost_node W (heap s) pods) s"
  shows "logs (lost_node W (heap s) pods) (snd (run_state (syncSlurmNodes W ns pods) s))"
proof -
  let ?hp = "heap s" and ?k = "spec_ControllerRef (ns_Spec ns)"
  have rd: "lost_node W ?hp pods h (Rd a)" for h a
    by (simp add: lost_node_def)
  show ?thesis
  proof (cases "cm_Get (w_ClientMap W (log s)) ?k")
    case None
    then show ?thesis
      using assms(2) by (simp add: syncSlurmNodes_def GetNodesForPods_def lookupClient_def call_defs logs_def rd)
  next
    case (Some c)
    let ?h = "Rd (LookedUpClient ?k (Some c)) # log s"
    show ?thesis
    proof (cases "w_SlurmListNodes W ?h c False")
      case (Inl e)
      with Some assms(2) show ?thesis
        by (simp add: syncSlurmNodes_def GetNodesForPods_def lookupClient_def call_defs logs_def rd)
    next
      case (Inr nodes)
      let ?names = "filter (\<lambda>n. n \<in> GetSlurmNodeName ` set (map ?hp pods)) (map (\<lambda>n. deref (sn_Name n) '''') nodes)"
      let ?t = "s\<lparr>log := Rd (ListedSlurmNodes c False (Inr nodes)) # ?h\<rparr>"
      let ?loop = "SlowStart W (length pods) (\<lambda>i. syncSlurmNodesFn W ns (set ?names) (pods ! i))"
      let ?I = "\<lambda>t. logs (lost_node W ?hp pods) t \<and> heap t = ?hp \<and>
          Rd (ListedSlurmNodes c False (Inr nodes)) \<in> set (log t)"
      have "keeps ?I ?loop"
        by (intro keeps_SlowStart_in(1) [OF assms(1)] keeps_syncSlurmNodesFn) simp_all
      then have "?I (snd (run_state ?loop ?t))"
        by (rule keepsD) (use assms(2) in \<open>simp add: logs_def rd\<close>)
      with Some Inr show ?thesis
        by (simp add: syncSlurmNodes_def GetNodesForPods_def lookupClient_def call_defs)
    qed
  qed
qed

theorem syncSlurmNodes_restarts_lost_pods_witness:
  "logs (lost_node one_client_world (heap st_init) [2]) (snd (run_state (syncSlurmNodes one_client_world sample_nodeset [2]) st_init))"
  by (rule syncSlurmNodes_restarts_lost_pods) simp_all

end
