(* ===== verification/NodeSetStatus.thy ===== *)
theory NodeSetStatus
  imports Scaling
begin

text \<open>
  The status side of a reconcile: replica counters, the pinning of ordinals to nodes, the NodeSet
  status, the pod conditions that mirror Slurm states and the label that protects busy pods from
  eviction (\<^verbatim>\<open>internal/controller/nodeset/nodeset_sync_status.go\<close>).
\<close>

section \<open>Counters\<close>

record replicaStatus =
  rs_Replicas :: int
  rs_Ready :: int
  rs_Available :: int
  rs_Unavailable :: int
  rs_Current :: int
  rs_Updated :: int
  rs_Desired :: int

definition no_replicas :: replicaStatus where
  "no_replicas = \<lparr>rs_Replicas = 0, rs_Ready = 0, rs_Available = 0, rs_Unavailable = 0, rs_Current = 0,
     rs_Updated = 0, rs_Desired = 0\<rparr>"

definition count_pod ::
  "world \<Rightarrow> nodeset \<Rightarrow> controller_revision \<Rightarrow> controller_revision \<Rightarrow> time \<Rightarrow> replicaStatus \<Rightarrow> pod \<Rightarrow> replicaStatus" where
  "count_pod W ns currentRevision updateRevision now st p =
     (let st = (if IsCreated p then st\<lparr>rs_Replicas := rs_Replicas st + 1\<rparr> else st);
          st = (if IsRunningAndReady W p
                then let st = st\<lparr>rs_Ready := rs_Ready st + 1\<rparr>
                     in if w_IsPodAvailable W p (spec_MinReadySeconds (ns_Spec ns)) now
                        then st\<lparr>rs_Available := rs_Available st + 1\<rparr> else st
                else st)
      in if IsCreated p \<and> \<not> IsTerminating p
         then let podHash = GetRevision (pod_Labels p);
                  st = (if podHash = GetRevision (cr_Labels currentRevision)
                        then st\<lparr>rs_Current := rs_Current st + 1\<rparr> else st)
              in if podHash = GetRevision (cr_Labels updateRevision)
                 then st\<lparr>rs_Updated := rs_Updated st + 1\<rparr> else st
         else st)"

definition calculateReplicaStatus ::
  "world \<Rightarrow> nodeset \<Rightarrow> pod list \<Rightarrow> controller_revision \<Rightarrow> controller_revision \<Rightarrow> (err + replicaStatus) prog" where
  "calculateReplicaStatus W ns pods currentRevision updateRevision = do {
     now \<leftarrow> Now W;
     let st = foldl (count_pod W ns currentRevision updateRevision now) no_replicas pods;
     if is_statefulset ns
     then State_Monad.return (Inr (st\<lparr>
            rs_Unavailable := Clamp (rs_Replicas st - rs_Available st) 0 (rs_Replicas st),
            rs_Desired := deref (spec_Replicas (ns_Spec ns)) DefaultNodeSetReplicas\<rparr>))
     else if is_daemonset ns
     then do {
       d \<leftarrow> getDesiredNodeCountForDaemonSet W ns;
       State_Monad.return
         (case d of
            Inl e \<Rightarrow> Inl (Wrapped ''failed to get desired node count for daemon set'' e)
          | Inr desiredNodes \<Rightarrow> Inr (st\<lparr>
              rs_Unavailable := Clamp (desiredNodes - rs_Available st) 0 desiredNodes,
              rs_Desired := desiredNodes\<rparr>))
     }
     else State_Monad.return (Inr st)
   }"

section \<open>Pinning\<close>

text \<open>
  Whether a pin to the node stands: the node exists and the pod template fits it. An error other than
  \<^verbatim>\<open>NotFound\<close> ends the calculation.
\<close>

definition pin_stands :: "world \<Rightarrow> nodeset \<Rightarrow> string \<Rightarrow> (err + bool) prog" where
  "pin_stands W ns nodeName = do {
     g \<leftarrow> GetNode W nodeName;
     case g of
       Inl e \<Rightarrow> State_Monad.return (if IsNotFound e then Inr False else Inl e)
     | Inr node \<Rightarrow>
         with_result (NewNodeSetSimulatedPod W ns empty_controller nodeName) (\<lambda>p.
           State_Monad.return (Inr (fst (PodShouldRunOnNode W p node))))
   }"

fun keep_pins :: "world \<Rightarrow> nodeset \<Rightarrow> (string \<times> string) list \<Rightarrow> (string \<rightharpoonup> string) \<Rightarrow> (err + (string \<rightharpoonup> string)) prog" where
  "keep_pins W ns [] m = State_Monad.return (Inr m)"
| "keep_pins W ns ((ordinalStr, nodeName) # es) m =
     with_result (pin_stands W ns nodeName) (\<lambda>b.
       keep_pins W ns es (if b then m(ordinalStr \<mapsto> nodeName) else m))"

fun pin_pods :: "world \<Rightarrow> nodeset \<Rightarrow> pod list \<Rightarrow> (string \<rightharpoonup> string) \<Rightarrow> (err + (string \<rightharpoonup> string)) prog" where
  "pin_pods W ns [] m = State_Monad.return (Inr m)"
| "pin_pods W ns (p # pods) m =
     (if pod_NodeName p = '''' \<or> \<not> IsRunning p \<or> GetOrdinal p < 0 then pin_pods W ns pods m
      else with_result (pin_stands W ns (pod_NodeName p)) (\<lambda>b.
        pin_pods W ns pods (if b then m(Itoa (GetOrdinal p) \<mapsto> pod_NodeName p) else m)))"

definition calculateOrdinalToNode :: "world \<Rightarrow> nodeset \<Rightarrow> pod list \<Rightarrow> (err + strmap) prog" where
  "calculateOrdinalToNode W ns pods =
     (if \<not> spec_PinToNode (ns_Spec ns) \<or> is_daemonset ns then State_Monad.return (Inr None)
      else with_result (keep_pins W ns (w_entries W (mmake (status_OrdinalToNode (ns_Status ns)))) Map.empty) (\<lambda>m.
        with_result (pin_pods W ns pods m) (\<lambda>m. State_Monad.return (Inr (Some m)))))"

section \<open>The NodeSet status\<close>

definition update_status_attempt ::
  "world \<Rightarrow> nodeset \<Rightarrow> nodeset_status \<Rightarrow> retry_locals \<Rightarrow> (error \<times> retry_locals) prog" where
  "update_status_attempt W ns newStatus l = do {
     g \<leftarrow> GetNodeSet W (ns_Namespace ns, ns_Name ns);
     case g of
       Inl e \<Rightarrow> State_Monad.return (if IsNotFound e then None else Some e, l)
     | Inr toUpdate \<Rightarrow> do {
         e \<leftarrow> UpdateNodeSetStatus_api W toUpdate newStatus;
         State_Monad.return (e, l)
       }
   }"

definition updateNodeSetStatus :: "world \<Rightarrow> nodeset \<Rightarrow> nodeset_status \<Rightarrow> error prog" where
  "updateNodeSetStatus W ns newStatus = do {
     r \<leftarrow> w_RetryOnConflict W (update_status_attempt W ns newStatus) (None, False);
     State_Monad.return (fst r)
   }"

definition new_status ::
  "world \<Rightarrow> nodeset \<Rightarrow> replicaStatus \<Rightarrow> slurm_node_status \<Rightarrow> strmap \<Rightarrow> int \<Rightarrow> string \<Rightarrow> nodeset_status" where
  "new_status W ns rs ss ordinalToNode collisionCount hash =
     \<lparr>status_Replicas = rs_Replicas rs, status_UpdatedReplicas = rs_Updated rs,
      status_ReadyReplicas = rs_Ready rs, status_AvailableReplicas = rs_Available rs,
      status_UnavailableReplicas = rs_Unavailable rs, status_Desired = rs_Desired rs,
      status_SlurmIdle = ss_Idle ss, status_SlurmAllocated = ss_Allocated ss + ss_Mixed ss,
      status_SlurmDown = ss_Down ss, status_SlurmDrain = ss_Drain ss,
      status_ObservedGeneration = ns_Generation ns, status_NodeSetHash = hash,
      status_CollisionCount = Some collisionCount, status_Conditions = status_Conditions (ns_Status ns),
      status_OrdinalToNode = ordinalToNode,
      status_Selector = w_SelectorString W (WithWorkerSelectorLabels ns Map.empty)\<rparr>"

definition publish_status :: "world \<Rightarrow> nodeset \<Rightarrow> slurm_node_status \<Rightarrow> nodeset_status \<Rightarrow> error prog" where
  "publish_status W ns ss newStatus =
     (if w_DeepEqual W (ns_Status ns) newStatus then ok
      else andthen (updateNodeSetStatus W ns newStatus) (do {
        (if spec_MinReadySeconds (ns_Spec ns) \<ge> 0 \<and> status_ReadyReplicas newStatus \<noteq> status_AvailableReplicas newStatus
         then durationStore_Push (KeyFunc ns) (spec_MinReadySeconds (ns_Spec ns) * Second + Second)
         else if ss_Total ss \<noteq> status_Replicas newStatus
         then durationStore_Push (KeyFunc ns) (10 * Second)
         else State_Monad.return ());
        ok
      }))"

definition syncNodeSetStatus ::
  "world \<Rightarrow> nodeset \<Rightarrow> ref list \<Rightarrow> controller_revision \<Rightarrow> controller_revision \<Rightarrow> int \<Rightarrow> string \<Rightarrow> error prog" where
  "syncNodeSetStatus W ns pods currentRevision updateRevision collisionCount hash = do {
     hp \<leftarrow> load_heap;
     with_value (calculateReplicaStatus W ns (map hp pods) currentRevision updateRevision) (\<lambda>rs. do {
       n \<leftarrow> CalculateNodeStatus W ns (map hp pods);
       case n of
         (_, Some e) \<Rightarrow> fail e
       | (ss, None) \<Rightarrow>
           with_value (calculateOrdinalToNode W ns (map hp pods)) (\<lambda>ordinalToNode.
             publish_status W ns ss (new_status W ns rs ss ordinalToNode collisionCount hash))
     })
   }"

section \<open>Pods\<close>

definition syncSlurmStatus :: "world \<Rightarrow> nodeset \<Rightarrow> ref list \<Rightarrow> error prog" where
  "syncSlurmStatus W ns pods = SlowStart W (length pods) (\<lambda>i. do {
     p \<leftarrow> load (pods ! i);
     if \<not> IsHealthy W p then ok else UpdateNodeWithPodInfo W ns p
   })"

fun update_conditions :: "world \<Rightarrow> pod_condition list \<Rightarrow> pod_condition list \<Rightarrow> pod_condition list prog" where
  "update_conditions W [] cs = State_Monad.return cs"
| "update_conditions W (c # conds) cs = do {
     now \<leftarrow> Now W;
     update_conditions W conds (w_UpdatePodCondition W now cs c)
   }"

definition conditions_for :: "slurm_node_status \<Rightarrow> pod \<Rightarrow> pod_condition list" where
  "conditions_for ss p = (case ss_NodeStates ss (GetSlurmNodeName p) of None \<Rightarrow> [] | Some cs \<Rightarrow> cs)"

text \<open>A pod that is gone ends the loop over the pods, without an error.\<close>

fun updateNodeSetPodConditions :: "world \<Rightarrow> slurm_node_status \<Rightarrow> ref list \<Rightarrow> error prog" where
  "updateNodeSetPodConditions W ss [] = ok"
| "updateNodeSetPodConditions W ss (r # pods) = do {
     p \<leftarrow> load r;
     cs \<leftarrow> update_conditions W (conditions_for ss p)
            (filter (\<lambda>c. \<not> prefix StatePrefix (pc_Type c)) (pod_Conditions p));
     e \<leftarrow> PatchPodStatus W (p\<lparr>pod_Conditions := cs\<rparr>) p;
     case e of
       Some x \<Rightarrow> if IsNotFound x then ok else fail x
     | None \<Rightarrow> updateNodeSetPodConditions W ss pods
   }"

definition IsConditionTrue :: "world \<Rightarrow> pod_condition list \<Rightarrow> string \<Rightarrow> bool" where
  "IsConditionTrue W cs condType =
     (case w_GetPodCondition W cs condType of None \<Rightarrow> False | Some c \<Rightarrow> pc_Status c = ''True'')"

definition IsNodeBusy :: "world \<Rightarrow> pod_condition list \<Rightarrow> bool" where
  "IsNodeBusy W cs =
     (let isBusy = IsConditionTrue W cs (condition_of ALLOCATED) \<or> IsConditionTrue W cs (condition_of MIXED)
      in isBusy \<or> IsConditionTrue W cs (condition_of COMPLETING))"

text \<open>
  The package's other predicates on the conditions of a pod. A pod marked \<^verbatim>\<open>Drain\<close> without \<^verbatim>\<open>Undrain\<close>
  is drained or draining, never both.
\<close>

definition conditions_IsNodeDrain :: "world \<Rightarrow> pod_condition list \<Rightarrow> bool" where
  "conditions_IsNodeDrain W cs \<longleftrightarrow>
     IsConditionTrue W cs (condition_of DRAIN) \<and> \<not> IsConditionTrue W cs (condition_of UNDRAIN)"

definition conditions_IsNodeDrained :: "world \<Rightarrow> pod_condition list \<Rightarrow> bool" where
  "conditions_IsNodeDrained W cs \<longleftrightarrow> conditions_IsNodeDrain W cs \<and> \<not> IsNodeBusy W cs"

definition conditions_IsNodeDraining :: "world \<Rightarrow> pod_condition list \<Rightarrow> bool" where
  "conditions_IsNodeDraining W cs \<longleftrightarrow> conditions_IsNodeDrain W cs \<and> IsNodeBusy W cs"

definition protected_labels :: "world \<Rightarrow> nodeset \<Rightarrow> pod \<Rightarrow> strmap" where
  "protected_labels W ns p =
     (if IsNodeBusy W (pod_Conditions p) \<and>
         deref (spec_WorkloadDisruptionProtection (ns_Spec ns)) DefaultNodeSetWorkloadDisruptionProtection
      then Some (MergeMaps [pod_Labels p, Some (WithPodProtect Map.empty)])
      else mdel (pod_Labels p) LabelNodeSetPodProtect)"

definition syncPodPDBLabelsFn :: "world \<Rightarrow> nodeset \<Rightarrow> ref \<Rightarrow> error prog" where
  "syncPodPDBLabelsFn W ns r = do {
     p0 \<leftarrow> load r;
     g \<leftarrow> GetPod W (pod_key p0);
     case g of
       Inl e \<Rightarrow> if IsNotFound e then ok else fail e
     | Inr p \<Rightarrow> do {
         store r p;
         PatchPod W (p\<lparr>pod_Labels := protected_labels W ns p\<rparr>) p
       }
   }"

definition updateNodeSetPodPDBLabels :: "world \<Rightarrow> nodeset \<Rightarrow> ref list \<Rightarrow> error prog" where
  "updateNodeSetPodPDBLabels W ns pods = SlowStart W (length pods) (\<lambda>i. syncPodPDBLabelsFn W ns (pods ! i))"

definition syncNodeSetPodStatus :: "world \<Rightarrow> nodeset \<Rightarrow> ref list \<Rightarrow> error prog" where
  "syncNodeSetPodStatus W ns pods = do {
     hp \<leftarrow> load_heap;
     n \<leftarrow> CalculateNodeStatus W ns (map hp pods);
     case n of
       (_, Some e) \<Rightarrow> fail e
     | (ss, None) \<Rightarrow>
         andthen (updateNodeSetPodConditions W ss pods) (updateNodeSetPodPDBLabels W ns pods)
   }"

definition syncStatus ::
  "world \<Rightarrow> nodeset \<Rightarrow> ref list \<Rightarrow> controller_revision \<Rightarrow> controller_revision \<Rightarrow> int \<Rightarrow> string \<Rightarrow> err list \<Rightarrow> error prog" where
  "syncStatus W ns pods currentRevision updateRevision collisionCount hash errors = do {
     e1 \<leftarrow> RefreshNodeCache W ns;
     e2 \<leftarrow> syncSlurmStatus W ns pods;
     e3 \<leftarrow> syncNodeSetStatus W ns pods currentRevision updateRevision collisionCount hash;
     andthen (syncNodeSetPodStatus W ns pods)
       (State_Monad.return (NewAggregate (errors @ List.map_filter id [e1, e2, e3])))
   }"

section \<open>What the counters count\<close>

definition number_of :: "(pod \<Rightarrow> bool) \<Rightarrow> pod list \<Rightarrow> int" where
  "number_of P pods = int (length (filter P pods))"

lemma number_of_simps [simp]:
  "number_of P [] = 0" "number_of P (ps @ [p]) = (if P p then number_of P ps + 1 else number_of P ps)"
  by (simp_all add: number_of_def)

lemma number_of_mono: "(\<And>p. p \<in> set pods \<Longrightarrow> P p \<Longrightarrow> Q p) \<Longrightarrow> number_of P pods \<le> number_of Q pods"
  unfolding number_of_def by (induction pods) auto

lemma number_of_nonneg [simp]: "0 \<le> number_of P pods"
  by (simp add: number_of_def)

lemma count_pods:
  fixes W ns cur upd now pods
  defines "rs \<equiv> foldl (count_pod W ns cur upd now) no_replicas pods"
  shows "rs_Replicas rs = number_of IsCreated pods"
    and "rs_Ready rs = number_of (IsRunningAndReady W) pods"
    and "rs_Available rs = number_of (\<lambda>p. IsRunningAndReady W p \<and>
           w_IsPodAvailable W p (spec_MinReadySeconds (ns_Spec ns)) now) pods"
    and "rs_Updated rs = number_of (\<lambda>p. IsCreated p \<and> \<not> IsTerminating p \<and>
           GetRevision (pod_Labels p) = GetRevision (cr_Labels upd)) pods"
  unfolding rs_def
  by (induction pods rule: rev_induct) (simp_all add: no_replicas_def count_pod_def Let_def)

text \<open>
  The replica counters of a NodeSet are the numbers of created, of ready, of available and of
  updated pods among those given, and so are ordered: available pods are ready, ready and updated pods
  are created. In StatefulSet mode the unavailable replicas are exactly the others; in DaemonSet mode
  they are the nodes that still lack an available pod, never a negative number.
\<close>

theorem calculateReplicaStatus_counts:
  assumes "run_state (calculateReplicaStatus W ns pods cur upd) s = (Inr rs, t)"
  shows "rs_Replicas rs = number_of IsCreated pods \<and> rs_Ready rs = number_of (IsRunningAndReady W) pods \<and>
    0 \<le> rs_Available rs \<and> rs_Available rs \<le> rs_Ready rs \<and> rs_Ready rs \<le> rs_Replicas rs \<and>
    rs_Updated rs \<le> rs_Replicas rs \<and> rs_Replicas rs \<le> int (length pods) \<and>
    (is_statefulset ns \<longrightarrow> rs_Unavailable rs = rs_Replicas rs - rs_Available rs) \<and>
    (is_daemonset ns \<and> 0 \<le> rs_Desired rs \<longrightarrow> rs_Unavailable rs = max 0 (rs_Desired rs - rs_Available rs))"
proof -
  let ?now = "w_Now W (log s)"
  let ?st = "foldl (count_pod W ns cur upd ?now) no_replicas pods"
  have rs: "rs_Replicas rs = rs_Replicas ?st" "rs_Ready rs = rs_Ready ?st" "rs_Available rs = rs_Available ?st"
      "rs_Updated rs = rs_Updated ?st"
      "is_statefulset ns \<Longrightarrow> rs_Unavailable rs = Clamp (rs_Replicas ?st - rs_Available ?st) 0 (rs_Replicas ?st)"
      "is_daemonset ns \<Longrightarrow> \<not> is_statefulset ns \<Longrightarrow>
         rs_Unavailable rs = Clamp (rs_Desired rs - rs_Available ?st) 0 (rs_Desired rs)"
    using assms unfolding calculateReplicaStatus_def
    by (auto simp: call_defs Let_def split_beta split: if_splits sum.splits)
  note counts = count_pods [of W ns cur upd ?now pods]
  have excl: "is_daemonset ns \<Longrightarrow> \<not> is_statefulset ns"
    by (simp add: is_daemonset_def is_statefulset_def ScalingModeDaemonset_def ScalingModeStatefulset_def)
  have 1: "rs_Available rs \<le> rs_Ready rs"
    unfolding rs counts by (rule number_of_mono) simp
  have 2: "rs_Ready rs \<le> rs_Replicas rs"
    unfolding rs counts by (rule number_of_mono)
      (simp add: IsRunningAndReady_def IsRunning_def IsCreated_def PodRunning_def)
  have 3: "rs_Updated rs \<le> rs_Replicas rs"
    unfolding rs counts by (rule number_of_mono) simp
  have 4: "rs_Replicas rs \<le> int (length pods)" "0 \<le> rs_Available rs"
    unfolding rs counts by (simp_all add: number_of_def)
  have 5: "rs_Unavailable rs = rs_Replicas rs - rs_Available rs" if "is_statefulset ns"
    using rs(5) [OF that] 1 2 4(2) by (simp add: rs(1,3) [symmetric] Clamp_zero)
  have 6: "rs_Unavailable rs = max 0 (rs_Desired rs - rs_Available rs)" if "is_daemonset ns" "0 \<le> rs_Desired rs"
    using rs(6) [OF that(1) excl [OF that(1)]] that(2) 4(2) by (simp add: rs(3) [symmetric] Clamp_zero min_def max_def)
  from 1 2 3 4 5 6 rs(1,2) counts(1,2) show ?thesis by simp
qed

definition sample_revision :: controller_revision where
  "sample_revision = \<lparr>cr_Namespace = '''', cr_Name = ''gpu-1'', cr_Labels = None, cr_Annotations = None,
     cr_OwnerReferences = [], cr_Revision = 1, cr_Data = ''''\<rparr>"

theorem calculateReplicaStatus_counts_witness:
  "\<exists>rs t. run_state (calculateReplicaStatus quiet_world sample_nodeset [empty_pod\<lparr>pod_Phase := PodRunning\<rparr>]
      sample_revision sample_revision) st_init = (Inr rs, t) \<and>
    rs_Ready rs \<le> rs_Replicas rs"
proof -
  let ?r = sample_revision
  let ?x = "run_state (calculateReplicaStatus quiet_world sample_nodeset [empty_pod\<lparr>pod_Phase := PodRunning\<rparr>] ?r ?r) st_init"
  have "\<exists>rs. fst ?x = Inr rs"
    by (simp add: calculateReplicaStatus_def call_defs Let_def)
  then obtain rs where x: "?x = (Inr rs, snd ?x)"
    by (metis prod.collapse)
  from calculateReplicaStatus_counts [OF x] x show ?thesis
    by blast
qed

section \<open>Pins\<close>

text \<open>A pin was checked: the node was read and the pod template fits it.\<close>

definition pin_checked :: "world \<Rightarrow> nodeset \<Rightarrow> history \<Rightarrow> string \<Rightarrow> bool" where
  "pin_checked W ns h nodeName \<longleftrightarrow>
     (\<exists>node p u. Rd (GotNode nodeName (Inr node)) \<in> set h \<and>
        fst (run_state (NewNodeSetSimulatedPod W ns empty_controller nodeName) u) = Inr p \<and>
        fst (PodShouldRunOnNode W p node))"

lemma pin_checked_mono: "pin_checked W ns h n \<Longrightarrow> set h \<subseteq> set h' \<Longrightarrow> pin_checked W ns h' n"
  unfolding pin_checked_def by blast

lemma simulated_pod_log: "set (log s) \<subseteq> set (log (snd (run_state (NewNodeSetSimulatedPod W ns c n) s)))"
proof -
  have "keeps (\<lambda>t. set (log s) \<subseteq> set (log t)) (NewNodeSetSimulatedPod W ns c n)"
    by (intro keeps_new_pod) (rule keepsI, auto simp: call_defs)+
  from keepsD [OF this, of s] show ?thesis by simp
qed

lemma pin_stands_run:
  assumes "run_state (pin_stands W ns n) s = (r, t)"
  shows "set (log s) \<subseteq> set (log t) \<and> (r = Inr True \<longrightarrow> pin_checked W ns (log t) n)"
proof (cases "w_GetNode W (log s) n")
  case (Inl e)
  with assms show ?thesis by (auto simp: pin_stands_def call_defs split: if_splits)
next
  case (Inr node)
  let ?s = "s\<lparr>log := Rd (GotNode n (Inr node)) # log s\<rparr>"
  obtain g u where g: "run_state (NewNodeSetSimulatedPod W ns empty_controller n) ?s = (g, u)" by fastforce
  have sub: "set (log ?s) \<subseteq> set (log t)" and r: "r = Inr True \<Longrightarrow> \<exists>p. g = Inr p \<and> fst (PodShouldRunOnNode W p node)"
    using assms Inr g simulated_pod_log [of ?s W ns empty_controller n]
    by (auto simp: pin_stands_def call_defs split: sum.splits)
  from sub r g show ?thesis
    unfolding pin_checked_def by simp (metis fst_conv)
qed

text \<open>The pins of one of the two loops: checked, and from the given candidates or the map built so far.\<close>

definition pins_from ::
  "world \<Rightarrow> nodeset \<Rightarrow> history \<Rightarrow> (string \<times> string) set \<Rightarrow> (string \<rightharpoonup> string) \<Rightarrow> (string \<rightharpoonup> string) \<Rightarrow> bool" where
  "pins_from W ns h C m0 m \<longleftrightarrow>
     (\<forall>o' n. m o' = Some n \<longrightarrow> m0 o' = Some n \<or> (o', n) \<in> C \<and> pin_checked W ns h n)"

lemma pins_from_mono: "pins_from W ns h C m0 m \<Longrightarrow> C \<subseteq> C' \<Longrightarrow> pins_from W ns h C' m0 m"
  unfolding pins_from_def by blast

lemma pins_from_step:
  assumes "pins_from W ns h C (if b then m0(k \<mapsto> n) else m0) m" and "b \<Longrightarrow> pin_checked W ns h n"
    and "C \<subseteq> C'" and "(k, n) \<in> C'"
  shows "pins_from W ns h C' m0 m"
  unfolding pins_from_def
proof (intro allI impI)
  fix o' n' assume "m o' = Some n'"
  then have "(if b then m0(k \<mapsto> n) else m0) o' = Some n' \<or> (o', n') \<in> C \<and> pin_checked W ns h n'"
    using assms(1) unfolding pins_from_def by blast
  then show "m0 o' = Some n' \<or> (o', n') \<in> C' \<and> pin_checked W ns h n'"
    using assms(2-4) by (cases b) (auto split: if_splits)
qed

lemma keep_pins_run:
  "run_state (keep_pins W ns es m0) s = (Inr m, t) \<Longrightarrow>
   set (log s) \<subseteq> set (log t) \<and> pins_from W ns (log t) (set es) m0 m"
proof (induction es arbitrary: m0 s)
  case Nil
  then show ?case by (simp add: pins_from_def)
next
  case (Cons e es)
  obtain k n where e: "e = (k, n)" by (cases e)
  obtain r u where r: "run_state (pin_stands W ns n) s = (r, u)" by fastforce
  then obtain b where b: "r = Inr b"
    and rest: "run_state (keep_pins W ns es (if b then m0(k \<mapsto> n) else m0)) u = (Inr m, t)"
    using Cons.prems e by (auto split: sum.splits)
  have "pins_from W ns (log t) (set (e # es)) m0 m"
    using Cons.IH [OF rest] pin_stands_run [OF r] b
    by (intro pins_from_step [of W ns "log t" "set es" b m0 k n m]) (auto simp: e intro: pin_checked_mono)
  then show ?case
    using Cons.IH [OF rest] pin_stands_run [OF r] by auto
qed

lemma pin_pods_run:
  "run_state (pin_pods W ns pods m0) s = (Inr m, t) \<Longrightarrow>
   set (log s) \<subseteq> set (log t) \<and>
   pins_from W ns (log t) ((\<lambda>p. (Itoa (GetOrdinal p), pod_NodeName p)) ` {p \<in> set pods. IsRunning p}) m0 m"
proof (induction pods arbitrary: m0 s)
  case Nil
  then show ?case by (simp add: pins_from_def)
next
  case (Cons p pods)
  show ?case
  proof (cases "pod_NodeName p = '''' \<or> \<not> IsRunning p \<or> GetOrdinal p < 0")
    case True
    then show ?thesis
      using Cons.IH [of m0 s] Cons.prems by (auto elim!: pins_from_mono)
  next
    case False
    obtain r u where r: "run_state (pin_stands W ns (pod_NodeName p)) s = (r, u)" by fastforce
    then obtain b where b: "r = Inr b"
      and rest: "run_state (pin_pods W ns pods (if b then m0(Itoa (GetOrdinal p) \<mapsto> pod_NodeName p) else m0)) u = (Inr m, t)"
      using Cons.prems False by (auto split: sum.splits)
    have "pins_from W ns (log t) ((\<lambda>p. (Itoa (GetOrdinal p), pod_NodeName p)) ` {q \<in> set (p # pods). IsRunning q}) m0 m"
      by (rule pins_from_step [of W ns "log t" "(\<lambda>p. (Itoa (GetOrdinal p), pod_NodeName p)) ` {q \<in> set pods. IsRunning q}"
            b m0 "Itoa (GetOrdinal p)" "pod_NodeName p" m])
        (use Cons.IH [OF rest] pin_stands_run [OF r] b False in \<open>auto intro: pin_checked_mono\<close>)
    then show ?thesis
      using Cons.IH [OF rest] pin_stands_run [OF r] by auto
  qed
qed

text \<open>
  The pins that are written to the status are all sound: each names a node that was read in this
  calculation and that the pod template fits, and comes from a running pod of that ordinal or from the
  previous status. Pins to deleted nodes, and to nodes the template no longer fits, are dropped.
\<close>

theorem calculateOrdinalToNode_sound:
  assumes "run_state (calculateOrdinalToNode W ns pods) s = (Inr (Some m), t)" and "m k = Some n"
  shows "pin_checked W ns (log t) n \<and>
    ((k, n) \<in> set (w_entries W (mmake (status_OrdinalToNode (ns_Status ns)))) \<or>
     (\<exists>p \<in> set pods. IsRunning p \<and> pod_NodeName p = n \<and> k = Itoa (GetOrdinal p)))"
proof -
  let ?es = "w_entries W (mmake (status_OrdinalToNode (ns_Status ns)))"
  obtain m1 u where 1: "run_state (keep_pins W ns ?es Map.empty) s = (Inr m1, u)"
    and 2: "run_state (pin_pods W ns pods m1) u = (Inr m, t)"
    using assms(1) unfolding calculateOrdinalToNode_def
    by (auto simp: split_beta split: if_splits sum.splits) (metis prod.collapse)+
  from keep_pins_run [OF 1] pin_pods_run [OF 2] assms(2) show ?thesis
    unfolding pins_from_def by (fastforce intro: pin_checked_mono)
qed

definition pinned_nodeset :: nodeset where
  "pinned_nodeset = sample_nodeset\<lparr>ns_Spec := (ns_Spec sample_nodeset)\<lparr>spec_PinToNode := True\<rparr>\<rparr>"

definition pin_world :: world where
  "pin_world = quiet_world\<lparr>w_GetNode := (\<lambda>h n. Inr (empty_node\<lparr>node_Name := n\<rparr>))\<rparr>"

definition pinned_pod :: pod where
  "pinned_pod = empty_pod\<lparr>pod_Name := ''gpu-4'', pod_NodeName := ''n'', pod_Phase := PodRunning\<rparr>"

theorem calculateOrdinalToNode_sound_witness:
  "\<exists>m t. run_state (calculateOrdinalToNode pin_world pinned_nodeset [pinned_pod]) st_init = (Inr (Some m), t) \<and>
     m (Itoa (GetOrdinal pinned_pod)) = Some ''n'' \<and> pin_checked pin_world pinned_nodeset (log t) ''n''"
proof -
  let ?r = "run_state (calculateOrdinalToNode pin_world pinned_nodeset [pinned_pod]) st_init"
  let ?k = "Itoa (GetOrdinal pinned_pod)"
  have o: "\<not> GetOrdinal pinned_pod < 0"
    by code_simp
  have p: "pod_NodeName pinned_pod = ''n''" "IsRunning pinned_pod"
    by (simp_all add: pinned_pod_def IsRunning_def)
  have ns: "spec_PinToNode (ns_Spec pinned_nodeset)" "\<not> is_daemonset pinned_nodeset"
    using sample_nodeset_stateful
    by (auto simp: pinned_nodeset_def is_daemonset_def is_statefulset_def ScalingModeDaemonset_def ScalingModeStatefulset_def)
  obtain args where args: "slurmdConfArgs pin_world pinned_nodeset = Inr args"
    using no_extra_conf [of pinned_nodeset] by (auto simp: pinned_nodeset_def)
  have fit: "fst (run_state (NewNodeSetSimulatedPod pin_world pinned_nodeset empty_controller ''n'') s) =
      Inr (empty_pod\<lparr>pod_NodeName := ''n''\<rparr>)" for s
    using BuildWorkerPodTemplate_returns [OF args, of empty_controller s]
    by (auto simp: NewNodeSetSimulatedPod_def pin_world_def quiet_world_def)
  have run: "fst (PodShouldRunOnNode pin_world (empty_pod\<lparr>pod_NodeName := ''n''\<rparr>) (empty_node\<lparr>node_Name := ''n''\<rparr>))"
    by (simp add: PodShouldRunOnNode_def predicates_def Let_def pin_world_def quiet_world_def empty_node_def empty_pod_def)
  have e: "w_entries pin_world m = []" "w_GetNode pin_world h n = Inr (empty_node\<lparr>node_Name := n\<rparr>)" for m h n
    by (simp_all add: pin_world_def quiet_world_def)
  have "fst ?r = Inr (Some [?k \<mapsto> ''n''])"
    by (simp add: calculateOrdinalToNode_def ns e p o pin_stands_def call_defs fit run split_beta)
  then have r: "?r = (Inr (Some [?k \<mapsto> ''n'']), snd ?r)"
    by (metis prod.collapse)
  have "pin_checked pin_world pinned_nodeset (log (snd ?r)) ''n''"
    using calculateOrdinalToNode_sound [OF r, of ?k "''n''"] by simp
  with r show ?thesis
    by (intro exI [of _ "[?k \<mapsto> ''n'']"] exI [of _ "snd ?r"]) simp
qed

section \<open>Pod conditions and labels\<close>

definition of_type :: "string \<Rightarrow> pod_condition list \<Rightarrow> pod_condition list" where
  "of_type ty cs = filter (\<lambda>c. pc_Type c = ty) cs"

text \<open>
  What \<^verbatim>\<open>podutil.UpdatePodCondition\<close> promises: the conditions of other types stay as they are and in order;
  unless there were several of the given type, there is one of it afterwards, the given one but for
  the time of the last transition.
\<close>

definition condition_update :: "world \<Rightarrow> bool" where
  "condition_update W \<longleftrightarrow> (\<forall>now cs c.
     filter (\<lambda>d. pc_Type d \<noteq> pc_Type c) (w_UpdatePodCondition W now cs c) = filter (\<lambda>d. pc_Type d \<noteq> pc_Type c) cs \<and>
     (length (of_type (pc_Type c) cs) \<le> 1 \<longrightarrow>
       (\<exists>t. of_type (pc_Type c) (w_UpdatePodCondition W now cs c) = [c\<lparr>pc_LastTransitionTime := t\<rparr>])))"

definition is_slurm :: "pod_condition \<Rightarrow> bool" where
  "is_slurm c \<longleftrightarrow> prefix StatePrefix (pc_Type c)"

definition content :: "pod_condition \<Rightarrow> string \<times> string" where
  "content c = (pc_Status c, pc_Message c)"

lemma condition_update_other:
  assumes "condition_update W" "\<And>d. P d \<Longrightarrow> pc_Type d \<noteq> pc_Type c"
  shows "filter P (w_UpdatePodCondition W now cs c) = filter P cs"
proof -
  have "filter P xs = filter P (filter (\<lambda>d. pc_Type d \<noteq> pc_Type c) xs)" for xs
    using assms(2) by (auto intro: filter_cong)
  with assms(1) show ?thesis unfolding condition_update_def by metis
qed

lemma update_conditions_result:
  assumes "condition_update W" "\<forall>c \<in> set conds. is_slurm c" "\<forall>ty. length (of_type ty cs) \<le> 1 \<or> \<not> prefix StatePrefix ty"
  shows "filter (\<lambda>c. \<not> is_slurm c) (fst (run_state (update_conditions W conds cs) s)) = filter (\<lambda>c. \<not> is_slurm c) cs \<and>
    (\<forall>ty. prefix StatePrefix ty \<longrightarrow> map content (of_type ty (fst (run_state (update_conditions W conds cs) s))) =
      (case map_of (rev (map (\<lambda>c. (pc_Type c, content c)) conds)) ty of None \<Rightarrow> map content (of_type ty cs) | Some v \<Rightarrow> [v]))"
  using assms(2,3)
proof (induction conds arbitrary: cs s)
  case (Cons c conds)
  let ?cs = "w_UpdatePodCondition W (w_Now W (log s)) cs c"
  have eq: "fst (run_state (update_conditions W (c # conds) cs) s) =
      fst (run_state (update_conditions W conds ?cs) (s\<lparr>log := Rd (Clock (w_Now W (log s))) # log s\<rparr>))"
    by (simp add: call_defs)
  have c: "is_slurm c" "prefix StatePrefix (pc_Type c)" using Cons.prems(1) by (auto simp: is_slurm_def)
  have foreign: "filter (\<lambda>c. \<not> is_slurm c) ?cs = filter (\<lambda>c. \<not> is_slurm c) cs"
    by (rule condition_update_other [OF assms(1)]) (use c in \<open>auto simp: is_slurm_def\<close>)
  have other: "of_type t ?cs = of_type t cs" if "t \<noteq> pc_Type c" for t
    unfolding of_type_def by (rule condition_update_other [OF assms(1)]) (use that in auto)
  obtain t where this_type: "of_type (pc_Type c) ?cs = [c\<lparr>pc_LastTransitionTime := t\<rparr>]"
    using assms(1) c(2) Cons.prems(2) unfolding condition_update_def by blast
  have one: "\<forall>ty. length (of_type ty ?cs) \<le> 1 \<or> \<not> prefix StatePrefix ty"
    using Cons.prems(2) other this_type by (metis One_nat_def length_Cons list.size(3) order_refl)
  have "\<forall>c \<in> set conds. is_slurm c" using Cons.prems(1) by simp
  note IH = Cons.IH [OF this one, of "s\<lparr>log := Rd (Clock (w_Now W (log s))) # log s\<rparr>", folded eq]
  have step: "map content (of_type ty ?cs) = (if ty = pc_Type c then [content c] else map content (of_type ty cs))" for ty
    using other [of ty] this_type by (simp add: content_def)
  show ?case
    using IH foreign by (auto simp: step map_add_def split: option.split)
qed simp

lemma update_conditions_frame:
  "heap (snd (run_state (update_conditions W conds cs) s)) = heap s"
proof (induction conds arbitrary: cs s)
  case (Cons c conds)
  show ?case using Cons [of "w_UpdatePodCondition W (w_Now W (log s)) cs c"] by (simp add: call_defs)
qed simp

text \<open>
  The conditions that a Slurm node shows: one for each of its states that is counted, with its reason. When
  nodes of the same name are listed, a later one overrides an earlier one.
\<close>

definition node_conditions :: "slurm_node \<Rightarrow> (string \<times> string \<times> string) list" where
  "node_conditions n = map (\<lambda>x. (condition_of x, ''True'', deref (sn_Reason n) '''')) (counted_states n)"

definition shown :: "slurm_node list \<Rightarrow> string \<rightharpoonup> string \<times> string" where
  "shown nodes = map_of (rev (concat (map node_conditions nodes)))"

text \<open>
  A status patch of pod \<open>p\<close> to \<open>q\<close>: the foreign conditions are the same, and of each type of Slurm condition
  there is exactly the one that the Slurm node of the pod shows, if any.
\<close>

definition mirrors :: "slurm_node list \<Rightarrow> pod \<Rightarrow> pod \<Rightarrow> bool" where
  "mirrors nodes q p \<longleftrightarrow>
     filter (\<lambda>c. \<not> is_slurm c) (pod_Conditions q) = filter (\<lambda>c. \<not> is_slurm c) (pod_Conditions p) \<and>
     (\<forall>ty. prefix StatePrefix ty \<longrightarrow> map content (of_type ty (pod_Conditions q)) =
       (case shown (filter (\<lambda>n. deref (sn_Name n) '''' = GetSlurmNodeName p) nodes) ty of None \<Rightarrow> [] | Some v \<Rightarrow> [v])) \<and>
     q = p\<lparr>pod_Conditions := pod_Conditions q\<rparr>"

lemma prefix_condition_of: "prefix StatePrefix (condition_of x)"
  by (cases x) simp_all

lemma conditions_for_count_nodes:
  assumes "GetSlurmNodeName p \<in> GetSlurmNodeName ` set ps"
  shows "conditions_for (count_nodes ps nodes) p =
    concat (map (\<lambda>n. map (\<lambda>x. nodeState n (condition_of x)) (counted_states n))
      (filter (\<lambda>n. deref (sn_Name n) '''' = GetSlurmNodeName p) nodes))"
  unfolding count_nodes_def conditions_for_def
proof (induction nodes rule: rev_induct)
  case (snoc n nodes)
  then show ?case
    using assms by (auto simp: count_node_def append_states_def Let_def split: option.splits)
qed (simp add: empty_status_def)

lemma conditions_for_shown:
  assumes "GetSlurmNodeName p \<in> GetSlurmNodeName ` set ps"
  shows "\<forall>c \<in> set (conditions_for (count_nodes ps nodes) p). is_slurm c"
    and "map_of (rev (map (\<lambda>c. (pc_Type c, content c)) (conditions_for (count_nodes ps nodes) p))) =
      shown (filter (\<lambda>n. deref (sn_Name n) '''' = GetSlurmNodeName p) nodes)"
proof -
  show "\<forall>c \<in> set (conditions_for (count_nodes ps nodes) p). is_slurm c"
    unfolding conditions_for_count_nodes [OF assms] by (auto simp: is_slurm_def nodeState_def prefix_condition_of)
  have "map (\<lambda>c. (pc_Type c, content c)) (map (\<lambda>x. nodeState n (condition_of x)) (counted_states n)) = node_conditions n" for n
    by (simp add: node_conditions_def nodeState_def content_def)
  then show "map_of (rev (map (\<lambda>c. (pc_Type c, content c)) (conditions_for (count_nodes ps nodes) p))) =
      shown (filter (\<lambda>n. deref (sn_Name n) '''' = GetSlurmNodeName p) nodes)"
    unfolding conditions_for_count_nodes [OF assms] shown_def by (simp only: map_concat map_map comp_def)
qed

definition mirrored :: "(ref \<Rightarrow> pod) \<Rightarrow> ref list \<Rightarrow> slurm_node list \<Rightarrow> history \<Rightarrow> ev \<Rightarrow> bool" where
  "mirrored hp pods nodes h e \<longleftrightarrow>
     (\<forall>q p x. e = Wr (PatchedPodStatus q p x) \<longrightarrow> p \<in> hp ` set pods \<and> mirrors nodes q p)"

lemma mirrored_permits [simp]: "permits (mirrored hp pods nodes) reads" "permits (mirrored hp pods nodes) controls"
  by (auto simp: permits_def mirrored_def)

lemma keeps_update_conditions [keeps_intros]:
  "permits Q reads \<Longrightarrow> keeps (logs Q) (update_conditions W conds cs)"
  by (induction conds arbitrary: cs) (auto intro!: keeps_intros)

lemma pod_conditions_patched:
  assumes "condition_update W" "GetSlurmNodeName p \<in> GetSlurmNodeName ` set ps"
  shows "mirrors nodes (p\<lparr>pod_Conditions := fst (run_state (update_conditions W (conditions_for (count_nodes ps nodes) p)
    (filter (\<lambda>c. \<not> prefix StatePrefix (pc_Type c)) (pod_Conditions p))) s)\<rparr>) p"
proof -
  let ?cs = "filter (\<lambda>c. \<not> prefix StatePrefix (pc_Type c)) (pod_Conditions p)"
  have none: "of_type ty ?cs = []" if "prefix StatePrefix ty" for ty
    using that by (auto simp: of_type_def filter_empty_conv)
  then have "\<forall>ty. length (of_type ty ?cs) \<le> 1 \<or> \<not> prefix StatePrefix ty" by auto
  from update_conditions_result [OF assms(1) conditions_for_shown(1) [OF assms(2)] this, unfolded conditions_for_shown(2) [OF assms(2)]]
  show ?thesis
    using none by (auto simp: mirrors_def is_slurm_def cong: option.case_cong)
qed

lemma updateNodeSetPodConditions_mirrors:
  assumes "condition_update W" "set pods \<subseteq> set all" "logs (mirrored hp all nodes) s" "heap s = hp"
  shows "logs (mirrored hp all nodes) (snd (run_state (updateNodeSetPodConditions W (count_nodes (map hp all) nodes) pods) s))"
  using assms(2-4)
proof (induction pods arbitrary: s)
  case (Cons r pods)
  let ?ss = "count_nodes (map hp all) nodes"
  let ?u = "run_state (update_conditions W (conditions_for ?ss (hp r))
      (filter (\<lambda>c. \<not> prefix StatePrefix (pc_Type c)) (pod_Conditions (hp r)))) s"
  have r: "hp r \<in> hp ` set all" "GetSlurmNodeName (hp r) \<in> GetSlurmNodeName ` set (map hp all)"
    using Cons.prems(1) by auto
  have u: "logs (mirrored hp all nodes) (snd ?u)" "heap (snd ?u) = hp"
    using keepsD [OF keeps_update_conditions Cons.prems(2)] update_conditions_frame Cons.prems(3) by auto
  let ?v = "run_state (PatchPodStatus W ((hp r)\<lparr>pod_Conditions := fst ?u\<rparr>) (hp r)) (snd ?u)"
  have v: "logs (mirrored hp all nodes) (snd ?v)" "heap (snd ?v) = hp"
    using u r(1) pod_conditions_patched [OF assms(1) r(2), of nodes s]
    by (auto simp: call_defs logs_def mirrored_def)
  have "run_state (updateNodeSetPodConditions W ?ss (r # pods)) s =
      (case fst ?v of Some x \<Rightarrow> (if IsNotFound x then None else Some x, snd ?v)
       | None \<Rightarrow> run_state (updateNodeSetPodConditions W ?ss pods) (snd ?v))"
    using Cons.prems(3) by (simp add: split_beta split: option.split)
  with v Cons.IH [OF _ v] Cons.prems(1) show ?case
    by (simp split: option.split)
qed simp

text \<open>The nodes that Slurm answers with, from a state; none when there is no client or an error.\<close>

definition listed_nodes :: "world \<Rightarrow> nodeset \<Rightarrow> st \<Rightarrow> slurm_node list" where
  "listed_nodes W ns s =
     (case run_state (lookupClient W ns) s of
        (None, _) \<Rightarrow> []
      | (Some c, t) \<Rightarrow> (case fst (run_state (SlurmListNodes W c False) t) of Inl _ \<Rightarrow> [] | Inr nodes \<Rightarrow> nodes))"

lemma CalculateNodeStatus_read:
  assumes "run_state (CalculateNodeStatus W ns ps) s = ((ss, e), t)"
  shows "ss = count_nodes ps (listed_nodes W ns s) \<and> heap t = heap s \<and> (\<exists>l. log t = l @ log s \<and> list_all reads l)"
proof -
  have none: "empty_status = count_nodes ps []" by (simp add: count_nodes_def)
  show ?thesis
    using assms unfolding CalculateNodeStatus_def listed_nodes_def
    by (auto simp: lookupClient_def call_defs none split: option.splits sum.splits)
qed

lemma keeps_pod_labels: "keeps (logs (mirrored hp pods nodes)) (updateNodeSetPodPDBLabels W ns all)"
proof -
  have "keeps (logs (mirrored hp pods nodes)) (syncPodPDBLabelsFn W ns r)" for r
    unfolding syncPodPDBLabelsFn_def
    by (rule keepsI) (auto simp: call_defs logs_def mirrored_def split: sum.split)
  then show ?thesis
    unfolding updateNodeSetPodPDBLabels_def by (intro keeps_intros)
qed

text \<open>
  C34. Every status patch of a pod of the NodeSet leaves the conditions that are not Slurm's exactly as they
  were, and replaces the Slurm conditions by those that the Slurm node of the pod shows: for each of its
  states one condition, with status \<^verbatim>\<open>True\<close> and the reason of the node as its message; nothing else of the pod is
  changed. Without a client, or when Slurm answers with an error that is tolerated, the Slurm conditions are
  removed.
\<close>

theorem pod_conditions_mirror_slurm:
  assumes "condition_update W" "log s = []"
    and "Wr (PatchedPodStatus q p x) \<in> set (log (snd (run_state (syncNodeSetPodStatus W ns pods) s)))"
  shows "p \<in> heap s ` set pods \<and> mirrors (listed_nodes W ns s) q p"
proof -
  let ?Q = "mirrored (heap s) pods (listed_nodes W ns s)"
  obtain ss e t where c: "run_state (CalculateNodeStatus W ns (map (heap s) pods)) s = ((ss, e), t)"
    by (metis prod.collapse)
  note read = CalculateNodeStatus_read [OF c]
  then have t: "logs ?Q t" "heap t = heap s"
    using assms(2) ok_log_reads [of ?Q _ "[]"] by (auto simp: logs_def)
  have "logs ?Q (snd (run_state (updateNodeSetPodConditions W ss pods) t))"
    using updateNodeSetPodConditions_mirrors [OF assms(1) subset_refl t] read by simp
  then have "logs ?Q (snd (run_state (syncNodeSetPodStatus W ns pods) s))"
    using t keepsD [OF keeps_pod_labels] c
    by (auto simp: syncNodeSetPodStatus_def andthen_def split_beta split: option.split)
  then have "?Q h (Wr (PatchedPodStatus q p x))" if "log (snd (run_state (syncNodeSetPodStatus W ns pods) s)) = l @ Wr (PatchedPodStatus q p x) # h" for l h
    using that by (auto simp: logs_def ok_log_iff)
  with assms(3) show ?thesis
    unfolding mirrored_def by (metis split_list)
qed

definition ready_condition :: pod_condition where
  "ready_condition = \<lparr>pc_Type = ''Ready'', pc_Status = ''False'', pc_Message = ''starting'', pc_LastTransitionTime = 5\<rparr>"

definition mirrored_pod :: pod where
  "mirrored_pod = empty_pod\<lparr>pod_Hostname := ''gpu-0'', pod_Conditions := [ready_condition,
     \<lparr>pc_Type = condition_of MIXED, pc_Status = ''True'', pc_Message = '''', pc_LastTransitionTime = 3\<rparr>]\<rparr>"

lemma condition_update_one_client: "condition_update one_client_world"
proof -
  have "\<exists>t. c = c\<lparr>pc_LastTransitionTime := t\<rparr>" for c :: pod_condition
    by (rule exI [of _ "pc_LastTransitionTime c"]) simp
  then show ?thesis
    by (simp add: condition_update_def of_type_def one_client_world_def quiet_world_def)
qed

lemma pod_labels_extend:
  "e \<in> set (log s) \<Longrightarrow> e \<in> set (log (snd (run_state (updateNodeSetPodPDBLabels W ns pods) s)))"
proof -
  have "keeps (\<lambda>t. e \<in> set (log t)) (syncPodPDBLabelsFn W ns r)" for r
    unfolding syncPodPDBLabelsFn_def by (rule keepsI) (auto simp: call_defs split: sum.split)
  then have "keeps (\<lambda>t. e \<in> set (log t)) (updateNodeSetPodPDBLabels W ns pods)"
    unfolding updateNodeSetPodPDBLabels_def by (intro keeps_intros)
  then show "e \<in> set (log s) \<Longrightarrow> e \<in> set (log (snd (run_state (updateNodeSetPodPDBLabels W ns pods) s)))"
    by (rule keepsD)
qed

text \<open>A pod that was mixed and is not ready; its Slurm node is idle and drained.\<close>

theorem pod_conditions_mirror_slurm_witness:
  "\<exists>q x. Wr (PatchedPodStatus q mirrored_pod x) \<in>
      set (log (snd (run_state (syncNodeSetPodStatus one_client_world sample_nodeset [0]) (st_init\<lparr>heap := (\<lambda>r. mirrored_pod)\<rparr>)))) \<and>
    filter (\<lambda>c. \<not> is_slurm c) (pod_Conditions q) = [ready_condition] \<and>
    map content (of_type (condition_of IDLE) (pod_Conditions q)) = [(''True'', '''')] \<and>
    map content (of_type (condition_of DRAIN) (pod_Conditions q)) = [(''True'', '''')] \<and>
    of_type (condition_of MIXED) (pod_Conditions q) = []"
proof -
  let ?s = "st_init\<lparr>heap := (\<lambda>r. mirrored_pod)\<rparr>"
  let ?n = "\<lparr>sn_Name = Some ''gpu-0'', sn_State = [IDLE, DRAIN], sn_Reason = None, sn_Comment = None, sn_Topology = None\<rparr>"
  have nodes: "listed_nodes one_client_world sample_nodeset ?s = [?n]"
    using one_client_found by (simp add: listed_nodes_def lookupClient_def call_defs) (simp add: one_client_world_def)
  have name: "GetSlurmNodeName mirrored_pod = ''gpu-0''" "shown [?n] (condition_of MIXED) = None"
    "shown [?n] (condition_of IDLE) = Some (''True'', '''')" "shown [?n] (condition_of DRAIN) = Some (''True'', '''')"
    by (simp_all add: mirrored_pod_def GetSlurmNodeName_def empty_pod_def ScalingModeStatefulset_def shown_def node_conditions_def
        counted_states_def base_state_def base_states_def flag_states_def has_state_def)
  obtain ss e t where c: "run_state (CalculateNodeStatus one_client_world sample_nodeset [mirrored_pod]) ?s = ((ss, e), t)"
    by (metis prod.collapse)
  have t: "e = None" "heap t = heap ?s"
    using c CalculateNodeStatus_read [OF c] one_client_found
    by (auto simp: CalculateNodeStatus_def lookupClient_def call_defs) (auto simp: one_client_world_def)
  have "\<exists>q x l. log (snd (run_state (updateNodeSetPodConditions one_client_world ss [0]) t)) = Wr (PatchedPodStatus q mirrored_pod x) # l"
    using t(2) by (auto simp: call_defs split_beta split: option.split)
  then obtain q x where w: "Wr (PatchedPodStatus q mirrored_pod x) \<in>
      set (log (snd (run_state (updateNodeSetPodConditions one_client_world ss [0]) t)))" by fastforce
  have "Wr (PatchedPodStatus q mirrored_pod x) \<in> set (log (snd (run_state (syncNodeSetPodStatus one_client_world sample_nodeset [0]) ?s)))"
    using c t(1) w pod_labels_extend [OF w]
    by (simp add: syncNodeSetPodStatus_def andthen_def split_beta split: option.split)
  moreover from pod_conditions_mirror_slurm [OF condition_update_one_client _ this] nodes
  have "mirrors [?n] q mirrored_pod" by simp
  then have foreign: "filter (\<lambda>c. \<not> is_slurm c) (pod_Conditions q) = filter (\<lambda>c. \<not> is_slurm c) (pod_Conditions mirrored_pod)"
    and slurm: "\<And>x. map content (of_type (condition_of x) (pod_Conditions q)) =
      (case shown [?n] (condition_of x) of None \<Rightarrow> [] | Some v \<Rightarrow> [v])"
    unfolding mirrors_def by (simp_all add: name(1) prefix_condition_of del: condition_of.simps)
  have "filter (\<lambda>c. \<not> is_slurm c) (pod_Conditions q) = [ready_condition]"
    unfolding foreign by code_simp
  moreover have "of_type (condition_of MIXED) (pod_Conditions q) = []"
    "map content (of_type (condition_of IDLE) (pod_Conditions q)) = [(''True'', '''')]"
    "map content (of_type (condition_of DRAIN) (pod_Conditions q)) = [(''True'', '''')]"
    using slurm [of MIXED, unfolded name(2)] slurm [of IDLE, unfolded name(3)] slurm [of DRAIN, unfolded name(4)]
    by simp_all
  ultimately show ?thesis by (intro exI [of _ q] exI [of _ x]) simp
qed

text \<open>
  The loop over the pods ends at the first pod that is gone, and reports success: the conditions of
  the pods after it are not updated in this reconcile.
\<close>

theorem gone_pod_ends_condition_updates:
  assumes "conditions_for ss (heap s r) = []"
    and "w_PatchPodStatus W (log s) ((heap s r)\<lparr>pod_Conditions :=
        filter (\<lambda>c. \<not> prefix StatePrefix (pc_Type c)) (pod_Conditions (heap s r))\<rparr>) (heap s r) = Some x"
    and "IsNotFound x"
  shows "run_state (updateNodeSetPodConditions W ss (r # pods)) s = run_state (updateNodeSetPodConditions W ss [r]) s \<and>
    fst (run_state (updateNodeSetPodConditions W ss (r # pods)) s) = None"
  using assms by (simp add: call_defs)

theorem gone_pod_ends_condition_updates_witness:
  "fst (run_state (updateNodeSetPodConditions (quiet_world\<lparr>w_PatchPodStatus := (\<lambda>h p q. Some (StatusError NotFound))\<rparr>)
     empty_status [1, 2]) st_init) = None"
  by (rule gone_pod_ends_condition_updates [where x = "StatusError NotFound", THEN conjunct2])
    (simp_all add: conditions_for_def empty_status_def)

end
