(* ===== verification/History.thy ===== *)
theory History
  imports NodeSetStatus
begin

text \<open>
  Revisions of a NodeSet: the history control (\<^verbatim>\<open>internal/utils/historycontrol/historycontrol.go\<close>) and
  what the NodeSet controller does with it (\<^verbatim>\<open>internal/controller/nodeset/nodeset_history.go\<close>).

  \<open>CreateControllerRevision\<close> retries with a new name for as long as names collide. The model is a
  partial function: \<open>None\<close> stands for a loop that never ends.
\<close>

section \<open>History control\<close>

definition ListControllerRevisions :: "world \<Rightarrow> nodeset \<Rightarrow> (err + controller_revision list) prog" where
  "ListControllerRevisions W parent = do {
     g \<leftarrow> ListRevisions W parent;
     State_Monad.return
       (case g of
          Inl e \<Rightarrow> Inl e
        | Inr items \<Rightarrow> Inr (filter (\<lambda>r. case GetControllerOf (cr_OwnerReferences r) of
                                          None \<Rightarrow> True | Some owner \<Rightarrow> or_UID owner = ns_UID parent) items))
   }"

text \<open>The revision as one attempt creates it.\<close>

definition named_revision :: "world \<Rightarrow> nodeset \<Rightarrow> controller_revision \<Rightarrow> int \<Rightarrow> controller_revision" where
  "named_revision W parent revision collisionCount =
     revision\<lparr>cr_Name := w_RevisionName W (ns_Name parent) (w_HashRevision W revision collisionCount),
              cr_Namespace := ns_Namespace parent\<rparr>"

partial_function (option) CreateControllerRevision ::
  "world \<Rightarrow> nodeset \<Rightarrow> controller_revision \<Rightarrow> int \<Rightarrow> st \<Rightarrow> (((err + controller_revision) \<times> int) \<times> st) option" where
  "CreateControllerRevision W parent revision collisionCount s =
     (let created = named_revision W parent revision collisionCount;
          a = run_state (CreateRevision W created) s
      in case fst a of
           Inr x \<Rightarrow> Some ((Inr x, collisionCount), snd a)
         | Inl err \<Rightarrow>
             if \<not> IsAlreadyExists err then Some ((Inl err, collisionCount), snd a)
             else let g = run_state (GetRevision_api W (cr_Namespace created, cr_Name created)) (snd a)
                  in case fst g of
                       Inl e \<Rightarrow> Some ((Inl e, collisionCount), snd g)
                     | Inr exists \<Rightarrow>
                         if cr_Data exists = cr_Data created then Some ((Inr exists, collisionCount), snd g)
                         else CreateControllerRevision W parent revision (wrap32 (collisionCount + 1)) (snd g))"

text \<open>After a rejected update the closures go on with what the server has, if it can be read.\<close>

definition revision_update ::
  "world \<Rightarrow> nsname \<Rightarrow> controller_revision \<Rightarrow> (error \<times> controller_revision) prog" where
  "revision_update W key clone = do {
     u \<leftarrow> UpdateRevision W clone;
     case u of
       Inr x \<Rightarrow> State_Monad.return (None, x)
     | Inl updateErr \<Rightarrow> do {
         g \<leftarrow> GetRevision_api W key;
         State_Monad.return (Some updateErr, case g of Inr got \<Rightarrow> got | Inl _ \<Rightarrow> clone)
       }
   }"

definition UpdateControllerRevision ::
  "world \<Rightarrow> controller_revision \<Rightarrow> int \<Rightarrow> (err + controller_revision) prog" where
  "UpdateControllerRevision W revision newRevision = do {
     r \<leftarrow> w_RetryRevision W (\<lambda>clone.
            if cr_Revision clone = newRevision then State_Monad.return (None, clone)
            else revision_update W (cr_Namespace revision, cr_Name revision) (clone\<lparr>cr_Revision := newRevision\<rparr>))
          revision;
     State_Monad.return (case fst r of Some e \<Rightarrow> Inl e | None \<Rightarrow> Inr (snd r))
   }"

definition DeleteControllerRevision :: "world \<Rightarrow> controller_revision \<Rightarrow> error prog" where
  "DeleteControllerRevision W revision = DeleteRevision W (cr_Namespace revision, cr_Name revision)"

definition nodeset_controller_ref :: "nodeset \<Rightarrow> owner_ref" where
  "nodeset_controller_ref ns = NewControllerRef (nodeset_owner ns)"

definition AdoptControllerRevision ::
  "world \<Rightarrow> nodeset \<Rightarrow> controller_revision \<Rightarrow> (err + controller_revision) prog" where
  "AdoptControllerRevision W parent revision = do {
     r \<leftarrow> w_RetryRevision W (\<lambda>clone.
            if GetControllerOf (cr_OwnerReferences clone) \<noteq> None
            then State_Monad.return (Some (GoError ''attempt to adopt revision owned by another''), clone)
            else revision_update W (cr_Namespace revision, cr_Name revision)
                   (clone\<lparr>cr_OwnerReferences := cr_OwnerReferences clone @ [nodeset_controller_ref parent]\<rparr>))
          revision;
     State_Monad.return (case fst r of Some e \<Rightarrow> Inl e | None \<Rightarrow> Inr (snd r))
   }"

text \<open>The result \<open>Inr None\<close> is the pair of two nils the function returns for revisions that are gone.\<close>

definition ReleaseControllerRevision ::
  "world \<Rightarrow> nodeset \<Rightarrow> controller_revision \<Rightarrow> (err + controller_revision option) prog" where
  "ReleaseControllerRevision W parent revision = do {
     r \<leftarrow> w_RetryRevision W (\<lambda>clone.
            if GetControllerOf (cr_OwnerReferences clone) \<noteq> None
            then State_Monad.return (Some (GoError ''attempt to adopt revision owned by another''), clone)
            else revision_update W (cr_Namespace revision, cr_Name revision)
                   (clone\<lparr>cr_OwnerReferences :=
                      filter (\<lambda>x. or_UID x \<noteq> ns_UID parent) (cr_OwnerReferences clone)\<rparr>))
          revision;
     State_Monad.return
       (case fst r of
          Some e \<Rightarrow> if IsNotFound e then Inr None else if IsInvalid e then Inr None else Inl e
        | None \<Rightarrow> Inr (Some (snd r)))
   }"

section \<open>Revisions of a NodeSet\<close>

text \<open>\<open>getPatch\<close>: what of the specification a revision records.\<close>

definition patch_of :: "nodeset \<Rightarrow> revision_patch" where
  "patch_of ns =
     (let spec = ns_Spec ns;
          ssh = (spec_SshEnabled spec, spec_SshExtraSshdConfig spec, spec_SssdConfRef spec)
      in \<lparr>rp_Template = spec_Template spec, rp_OrdinalPadding = spec_OrdinalPadding spec,
          rp_Slurmd = spec_Slurmd spec,
          rp_ExtraConf = (if spec_ExtraConf spec = '''' then None else Some (spec_ExtraConf spec)),
          rp_LogFile = (if spec_LogFile spec = empty_container then None else Some (spec_LogFile spec)),
          rp_Ssh = (if ssh = (False, '''', no_secret_key) then None else Some ssh)\<rparr>)"

definition getPatch :: "world \<Rightarrow> nodeset \<Rightarrow> err + opaque" where
  "getPatch W ns = w_MarshalPatch W (patch_of ns)"

definition newRevision :: "world \<Rightarrow> nodeset \<Rightarrow> int \<Rightarrow> int \<Rightarrow> err + controller_revision" where
  "newRevision W ns revision collisionCount =
     (case getPatch W ns of
        Inl e \<Rightarrow> Inl e
      | Inr patch \<Rightarrow>
          (case w_NewRevision W ns patch revision collisionCount of
             Inl e \<Rightarrow> Inl e
           | Inr cr \<Rightarrow> Inr (cr\<lparr>cr_Annotations := Some (mmake (cr_Annotations cr) ++ mmake (ns_Annotations ns))\<rparr>)))"

definition nextRevision :: "controller_revision list \<Rightarrow> int" where
  "nextRevision revisions = (if revisions = [] then 1 else wrap64 (cr_Revision (last revisions) + 1))"

text \<open>
  The result: the current and the update revision, the collision count, and the slice of revisions,
  which is sorted in place.
\<close>

type_synonym revisions_result = "(err + controller_revision \<times> controller_revision) \<times> int \<times> controller_revision list"

definition update_revision ::
  "world \<Rightarrow> nodeset \<Rightarrow> controller_revision list \<Rightarrow> controller_revision \<Rightarrow> int \<Rightarrow> st \<Rightarrow>
   (((err + controller_revision) \<times> int) \<times> st) option" where
  "update_revision W ns revisions updateRevision collisionCount s =
     (let equalRevisions = w_FindEqualRevisions W revisions updateRevision
      in if length equalRevisions > 0
         then if revisions = [] then Some ((Inl (Panic ''index out of range''), collisionCount), snd (run_state (crash IndexOutOfRange) s))
              else if w_EqualRevision W (last revisions) (last equalRevisions)
              then Some ((Inr (last revisions), collisionCount), s)
              else let u = run_state (UpdateControllerRevision W (last equalRevisions) (cr_Revision updateRevision)) s
                   in Some ((fst u, collisionCount), snd u)
         else CreateControllerRevision W ns updateRevision collisionCount s)"

definition getNodeSetRevisions ::
  "world \<Rightarrow> nodeset \<Rightarrow> controller_revision list \<Rightarrow> st \<Rightarrow> (revisions_result \<times> st) option" where
  "getNodeSetRevisions W ns revisions s =
     (let revisions = w_SortRevisions W revisions;
          collisionCount = deref (status_CollisionCount (ns_Status ns)) 0
      in case newRevision W ns (nextRevision revisions) collisionCount of
           Inl e \<Rightarrow> Some ((Inl e, collisionCount, revisions), s)
         | Inr new \<Rightarrow>
             (case update_revision W ns revisions new collisionCount s of
                None \<Rightarrow> None
              | Some ((Inl e, cc), t) \<Rightarrow> Some ((Inl e, cc, revisions), t)
              | Some ((Inr upd, cc), t) \<Rightarrow>
                  (let cur = (case List.find (\<lambda>r. cr_Name r = status_NodeSetHash (ns_Status ns)) revisions of
                                Some r \<Rightarrow> r | None \<Rightarrow> upd)
                   in Some ((Inr (cur, upd), cc, revisions), t))))"

definition getNodeSetPods :: "world \<Rightarrow> nodeset \<Rightarrow> (err + pod list) prog" where
  "getNodeSetPods W ns =
     with_result (ListPods W) (\<lambda>pods. ClaimPods W ns pods (IsPodFromNodeSet ns))"

text \<open>
  The slice expression \<^verbatim>\<open>history[:n]\<close> panics beyond the capacity, and gives nil entries between the
  length and the capacity, on which the deletion panics.
\<close>

fun delete_revisions :: "world \<Rightarrow> controller_revision option list \<Rightarrow> error prog" where
  "delete_revisions W [] = ok"
| "delete_revisions W (None # rs) = do { crash NilRevision; fail (Panic ''nil pointer dereference'') }"
| "delete_revisions W (Some r # rs) = andthen (DeleteControllerRevision W r) (delete_revisions W rs)"

definition live_revisions :: "controller_revision \<Rightarrow> controller_revision \<Rightarrow> pod list \<Rightarrow> string set" where
  "live_revisions cur upd pods = {cr_Name cur, cr_Name upd} \<union> (\<lambda>p. GetRevision (pod_Labels p)) ` set pods"

definition truncateHistory ::
  "world \<Rightarrow> nodeset \<Rightarrow> controller_revision list \<Rightarrow> controller_revision \<Rightarrow> controller_revision \<Rightarrow> error prog" where
  "truncateHistory W ns revisions cur upd =
     with_value (getNodeSetPods W ns) (\<lambda>pods.
       let history = filter (\<lambda>r. cr_Name r \<notin> live_revisions cur upd pods) revisions;
           historyLen = int (length history);
           historyLimit = spec_RevisionHistoryLimit (ns_Spec ns)
       in if historyLen \<le> historyLimit then ok
          else if historyLen - historyLimit > int (length revisions) then do { crash SliceBounds; fail (Panic ''slice bounds out of range'') }
          else delete_revisions W (take (nat (historyLen - historyLimit))
                 (map Some history @ replicate (length revisions) None)))"

section \<open>Adoption\<close>

definition listRevisions :: "world \<Rightarrow> nodeset \<Rightarrow> (err + controller_revision list) prog" where
  "listRevisions W ns = ListControllerRevisions W ns"

text \<open>\<^verbatim>\<open>RecheckDeletionTimestamp\<close> denies adoption when the fresh object is being deleted.\<close>

definition canAdoptFunc :: "world \<Rightarrow> nodeset \<Rightarrow> error prog" where
  "canAdoptFunc W ns = do {
     g \<leftarrow> GetNodeSet W (ns_Key ns);
     State_Monad.return
       (case g of
          Inl e \<Rightarrow> Some (Wrapped ''can't recheck DeletionTimestamp'' e)
        | Inr fresh \<Rightarrow>
            if ns_UID fresh \<noteq> ns_UID ns
            then Some (Wrapped ''can't recheck DeletionTimestamp'' (GoError ''original NodeSet is gone''))
            else if ns_DeletionTimestamp fresh \<noteq> None then Some (GoError ''has just been deleted'')
            else None)
   }"

fun label_revisions :: "world \<Rightarrow> controller_revision list \<Rightarrow> error prog" where
  "label_revisions W [] = ok"
| "label_revisions W (r # rs) =
     (if mlookup (cr_Labels r) ControllerRevisionHashLabel \<noteq> None then label_revisions W rs
      else case mput (cr_Labels r) ControllerRevisionHashLabel (cr_Name r) of
             Inl e \<Rightarrow> do { crash (NilLabels r); fail e }
           | Inr labels \<Rightarrow> do {
               u \<leftarrow> UpdateRevision W (r\<lparr>cr_Labels := labels\<rparr>);
               case u of Inl e \<Rightarrow> fail e | Inr _ \<Rightarrow> label_revisions W rs
             })"

fun doAdoptOrphanRevisions :: "world \<Rightarrow> nodeset \<Rightarrow> controller_revision list \<Rightarrow> error prog" where
  "doAdoptOrphanRevisions W ns [] = ok"
| "doAdoptOrphanRevisions W ns (r # rs) =
     with_value (AdoptControllerRevision W ns r) (\<lambda>_. doAdoptOrphanRevisions W ns rs)"

definition adoptOrphanRevisions :: "world \<Rightarrow> nodeset \<Rightarrow> error prog" where
  "adoptOrphanRevisions W ns =
     with_value (listRevisions W ns) (\<lambda>revisions.
       let orphans = filter (\<lambda>r. GetControllerOf (cr_OwnerReferences r) = None) revisions
       in andthen (label_revisions W revisions)
            (if length orphans > 0
             then do {
               e \<leftarrow> canAdoptFunc W ns;
               case e of
                 Some x \<Rightarrow> fail (Wrapped ''cannot adopt ControllerRevisions'' x)
               | None \<Rightarrow> doAdoptOrphanRevisions W ns orphans
             }
             else ok))"

section \<open>Creating a revision ends\<close>

definition revision_name :: "world \<Rightarrow> nodeset \<Rightarrow> controller_revision \<Rightarrow> int \<Rightarrow> string" where
  "revision_name W parent revision c = cr_Name (named_revision W parent revision c)"

text \<open>A revision that the API server made in this history, or had with the same data.\<close>

definition stored_revision :: "controller_revision \<Rightarrow> history \<Rightarrow> controller_revision \<Rightarrow> bool" where
  "stored_revision wanted h r \<longleftrightarrow>
     (\<exists>c. Wr (CreatedRevision c (Inr r)) \<in> set h \<and> cr_Data c = cr_Data wanted) \<or>
     (\<exists>k. Rd (GotRevision k (Inr r)) \<in> set h \<and> cr_Data r = cr_Data wanted)"

lemma wrap32_add: "wrap32 (wrap32 x + y) = wrap32 (x + y)"
proof -
  have "(wrap32 x + y + 2 ^ 31) mod 2 ^ 32 = (x + y + 2 ^ 31) mod 2 ^ 32"
    unfolding wrap32_def by (simp add: mod_simps algebra_simps)
  then show ?thesis
    unfolding wrap32_def [of "wrap32 x + y"] wrap32_def [of "x + y"] by simp
qed

lemma named_revision_data [simp]: "cr_Data (named_revision W parent revision c) = cr_Data revision"
  by (simp add: named_revision_def)

lemma CreateControllerRevision_returns_after:
  assumes free: "\<And>h r e. w_CreateRevision W h r = Inl e \<Longrightarrow> IsAlreadyExists e \<Longrightarrow> cr_Name r \<in> taken"
    and "revision_name W parent revision (wrap32 (c + int k)) \<notin> taken" and "wrap32 c = c"
  shows "\<exists>r c' t. CreateControllerRevision W parent revision c s = Some ((r, c'), t) \<and>
    (\<forall>x. r = Inr x \<longrightarrow> stored_revision revision (log t) x)"
  using assms(2,3)
proof (induction k arbitrary: c s)
  case 0
  then have no: "\<not> IsAlreadyExists e" if "w_CreateRevision W (log s) (named_revision W parent revision c) = Inl e" for e
    using free [OF that] by (auto simp: revision_name_def)
  show ?case
    by (subst CreateControllerRevision.simps)
      (auto simp: Let_def call_defs stored_revision_def no split: sum.split intro: exI [of _ "named_revision W parent revision c"])
next
  case (Suc k)
  let ?n = "named_revision W parent revision c"
  let ?a = "w_CreateRevision W (log s) ?n"
  let ?s = "s\<lparr>log := Wr (CreatedRevision ?n ?a) # log s\<rparr>"
  let ?key = "(cr_Namespace ?n, cr_Name ?n)"
  let ?g = "w_GetRevision W (log ?s) ?key"
  let ?t = "?s\<lparr>log := Rd (GotRevision ?key ?g) # log ?s\<rparr>"
  have IH: "\<exists>r c' t. CreateControllerRevision W parent revision (wrap32 (c + 1)) ?t = Some ((r, c'), t) \<and>
      (\<forall>x. r = Inr x \<longrightarrow> stored_revision revision (log t) x)"
    using Suc.prems by (intro Suc.IH) (simp_all add: wrap32_add add.assoc wrap32_add [where y = 0, simplified])
  show ?case
    by (subst CreateControllerRevision.simps)
      (use IH in \<open>auto simp: Let_def call_defs stored_revision_def split: sum.split
        intro: exI [of _ ?n] exI [of _ ?key]\<close>)
qed

lemma CreateControllerRevision_ends:
  assumes "\<forall>h r e. w_CreateRevision W h r = Inl e \<and> IsAlreadyExists e \<longrightarrow> cr_Name r \<in> taken"
    and "- (2 ^ 31) \<le> c" and "c < 2 ^ 31" and "- (2 ^ 31) \<le> d" and "d < 2 ^ 31"
    and "revision_name W parent revision d \<notin> taken"
  shows "\<exists>r c' t. CreateControllerRevision W parent revision c s = Some ((r, c'), t) \<and>
    (\<forall>x. r = Inr x \<longrightarrow> stored_revision revision (log t) x)"
proof (rule CreateControllerRevision_returns_after [of W taken parent revision c "nat ((d - c) mod 2 ^ 32)"])
  have "wrap32 (c + (d - c) mod 2 ^ 32) = wrap32 (wrap32 ((d - c) mod 2 ^ 32) + c)"
    by (subst wrap32_add) (simp add: add.commute)
  also have "wrap32 ((d - c) mod 2 ^ 32) = wrap32 (d - c)"
    by (simp add: wrap32_def mod_simps)
  also have "wrap32 (wrap32 (d - c) + c) = d"
    using assms(4,5) by (simp add: wrap32_add) (simp add: wrap32_def)
  finally show "revision_name W parent revision (wrap32 (c + int (nat ((d - c) mod 2 ^ 32)))) \<notin> taken"
    using assms(6) by simp
  show "wrap32 c = c"
    using assms(2,3) by (simp add: wrap32_def)
qed (use assms(1) in blast)

text \<open>
  C30. \<open>CreateControllerRevision\<close> returns as soon as some collision count gives a name that is not
  taken, whatever count it starts from (the count is a 32-bit integer and wraps around), and a
  revision it returns was created in this call or is one the API server had with the same data.
\<close>

theorem CreateControllerRevision_returns:
  assumes "\<forall>h r e. w_CreateRevision W h r = Inl e \<and> IsAlreadyExists e \<longrightarrow> cr_Name r \<in> taken"
    and "- (2 ^ 31) \<le> c" and "c < 2 ^ 31" and "- (2 ^ 31) \<le> d" and "d < 2 ^ 31"
    and "revision_name W parent revision d \<notin> taken"
  shows "\<exists>r c' t. CreateControllerRevision W parent revision c s = Some ((r, c'), t) \<and>
    (\<forall>x. r = Inr x \<longrightarrow> stored_revision revision (log t) x)"
  by (rule CreateControllerRevision_ends [OF assms])

theorem CreateControllerRevision_returns_witness:
  "\<exists>r c' t. CreateControllerRevision quiet_world sample_nodeset sample_revision 0 st_init = Some ((r, c'), t) \<and>
    (\<forall>x. r = Inr x \<longrightarrow> stored_revision sample_revision (log t) x)"
  by (rule CreateControllerRevision_returns [of quiet_world "{}" 0 0]) (simp_all add: quiet_world_def)

section \<open>What a revision records\<close>

lemma option_of_inject: "((if x = z then None else Some x) = (if y = z then None else Some y)) = (x = y)"
  by auto

text \<open>
  Two versions of a NodeSet give the same revision data exactly when they agree in the pod template,
  the ordinal padding, the slurmd container, the extra configuration, the log file container and the SSH
  settings (provided the JSON encoding is faithful): scaling and every other change of the specification
  starts no rollout, and a change of one of these always does.
\<close>

theorem revision_records_rollout_parts:
  assumes "inj_on (w_MarshalPatch W) {patch_of a, patch_of b}"
  shows "getPatch W a = getPatch W b \<longleftrightarrow>
    spec_Template (ns_Spec a) = spec_Template (ns_Spec b) \<and>
    spec_OrdinalPadding (ns_Spec a) = spec_OrdinalPadding (ns_Spec b) \<and>
    spec_Slurmd (ns_Spec a) = spec_Slurmd (ns_Spec b) \<and>
    spec_ExtraConf (ns_Spec a) = spec_ExtraConf (ns_Spec b) \<and>
    spec_LogFile (ns_Spec a) = spec_LogFile (ns_Spec b) \<and>
    spec_SshEnabled (ns_Spec a) = spec_SshEnabled (ns_Spec b) \<and>
    spec_SshExtraSshdConfig (ns_Spec a) = spec_SshExtraSshdConfig (ns_Spec b) \<and>
    spec_SssdConfRef (ns_Spec a) = spec_SssdConfRef (ns_Spec b)"
proof -
  have "getPatch W a = getPatch W b \<longleftrightarrow> patch_of a = patch_of b"
    unfolding getPatch_def using assms by (simp add: inj_on_def) metis
  then show ?thesis
    unfolding patch_of_def Let_def revision_patch.ext_inject option_of_inject by auto
qed

theorem revision_records_rollout_parts_witness:
  "getPatch quiet_world sample_nodeset =
   getPatch quiet_world (sample_nodeset\<lparr>ns_Spec := (ns_Spec sample_nodeset)\<lparr>spec_Replicas := Some 9\<rparr>\<rparr>)"
proof -
  let ?b = "sample_nodeset\<lparr>ns_Spec := (ns_Spec sample_nodeset)\<lparr>spec_Replicas := Some 9\<rparr>\<rparr>"
  have "patch_of ?b = patch_of sample_nodeset"
    by (simp add: patch_of_def Let_def)
  then show ?thesis
    using revision_records_rollout_parts [of quiet_world sample_nodeset ?b] by simp
qed

section \<open>Truncating the history\<close>

text \<open>Only revisions of the list that are neither current nor the update are deleted.\<close>

definition spares_live ::
  "controller_revision list \<Rightarrow> controller_revision \<Rightarrow> controller_revision \<Rightarrow> history \<Rightarrow> ev \<Rightarrow> bool" where
  "spares_live revisions cur upd h e \<longleftrightarrow> (\<forall>k x. e = Wr (DeletedRevision k x) \<longrightarrow>
     (\<exists>r \<in> set revisions. k = (cr_Namespace r, cr_Name r) \<and> cr_Name r \<notin> {cr_Name cur, cr_Name upd}))"

lemma spares_live_permits [simp]:
  "permits (spares_live revisions cur upd) reads" "permits (spares_live revisions cur upd) pod_updates"
  by (auto simp: permits_def spares_live_def)

lemma keeps_delete_revisions:
  "(\<And>r. Some r \<in> set rs \<Longrightarrow> r \<in> set revisions \<and> cr_Name r \<notin> {cr_Name cur, cr_Name upd}) \<Longrightarrow>
   keeps (logs (spares_live revisions cur upd)) (delete_revisions W rs)"
proof (induction W rs rule: delete_revisions.induct)
  case (3 W r rs)
  have "keeps (logs (spares_live revisions cur upd)) (DeleteControllerRevision W r)"
    unfolding DeleteControllerRevision_def DeleteRevision_def
    by (rule keeps_logs_call) (use "3.prems" [of r] in \<open>auto simp: spares_live_def\<close>)
  with 3 show ?case
    by (auto intro!: keeps_intros)
qed (auto intro!: keeps_intros)

lemma keeps_getNodeSetPods [keeps_intros]:
  "permits Q reads \<Longrightarrow> permits Q pod_updates \<Longrightarrow> keeps (logs Q) (getNodeSetPods W ns)"
  unfolding getNodeSetPods_def by (intro keeps_intros)

lemma run_delete_revisions:
  "(\<And>h k. w_DeleteRevision W h k = None) \<Longrightarrow>
   \<exists>t. run_state (delete_revisions W (map Some rs)) s = (None, t) \<and>
     log t = map (\<lambda>r. Wr (DeletedRevision (cr_Namespace r, cr_Name r) None)) (rev rs) @ log s"
proof (induction rs arbitrary: s)
  case (Cons r rs)
  let ?s = "s\<lparr>log := Wr (DeletedRevision (cr_Namespace r, cr_Name r) None) # log s\<rparr>"
  obtain t where t: "run_state (delete_revisions W (map Some rs)) ?s = (None, t)"
    "log t = map (\<lambda>r. Wr (DeletedRevision (cr_Namespace r, cr_Name r) None)) (rev rs) @ log ?s"
    using Cons.IH [OF Cons.prems, of ?s] by blast
  show ?case
    by (rule exI [of _ t]) (use t Cons.prems in \<open>simp add: DeleteControllerRevision_def call_defs\<close>)
qed simp

lemma history_entries:
  assumes "Some r \<in> set (take n (map Some (filter P rs) @ replicate m None))"
  shows "r \<in> set rs \<and> P r"
  using in_set_takeD [OF assms] by auto

text \<open>
  C31. Truncating the history never deletes the current or the update revision, whatever the pods
  show and whatever the API server answers.
\<close>

theorem truncateHistory_spares_live:
  "keeps (logs (spares_live revisions cur upd)) (truncateHistory W ns revisions cur upd)"
proof -
  have "keeps (logs (spares_live revisions cur upd)) (delete_revisions W
      (take n (map Some (filter (\<lambda>r. cr_Name r \<notin> live_revisions cur upd pods) revisions) @ replicate m None)))" for n m pods
  proof (rule keeps_delete_revisions)
    fix r
    assume "Some r \<in> set (take n (map Some (filter (\<lambda>r. cr_Name r \<notin> live_revisions cur upd pods) revisions) @
      replicate m None))"
    from history_entries [OF this] show "r \<in> set revisions \<and> cr_Name r \<notin> {cr_Name cur, cr_Name upd}"
      by (simp add: live_revisions_def)
  qed
  then show ?thesis
    unfolding truncateHistory_def Let_def
    by (intro keeps_intros spares_live_permits)
qed

text \<open>
  With no history to keep, every revision but the current and the update one is deleted, oldest
  first, even one that pods still run: the pods' revision labels hold hashes, which are compared with
  the names of the revisions.
\<close>

theorem truncateHistory_deletes_used_revisions:
  assumes "run_state (getNodeSetPods W ns) s = (Inr pods, t)" and "spec_RevisionHistoryLimit (ns_Spec ns) = 0"
    and "\<forall>h k. w_DeleteRevision W h k = None"
    and "\<forall>p \<in> set pods. \<forall>r \<in> set revisions. GetRevision (pod_Labels p) \<noteq> cr_Name r"
  shows "log (snd (run_state (truncateHistory W ns revisions cur upd) s)) =
    map (\<lambda>r. Wr (DeletedRevision (cr_Namespace r, cr_Name r) None))
      (rev (filter (\<lambda>r. cr_Name r \<notin> {cr_Name cur, cr_Name upd}) revisions)) @ log t"
proof -
  let ?h = "filter (\<lambda>r. cr_Name r \<notin> {cr_Name cur, cr_Name upd}) revisions"
  have h: "filter (\<lambda>r. cr_Name r \<notin> live_revisions cur upd pods) revisions = ?h"
  proof (rule filter_cong [OF refl])
    fix r
    assume "r \<in> set revisions"
    then have "cr_Name r \<notin> (\<lambda>p. GetRevision (pod_Labels p)) ` set pods"
      using assms(4) by force
    then show "(cr_Name r \<notin> live_revisions cur upd pods) = (cr_Name r \<notin> {cr_Name cur, cr_Name upd})"
      by (simp add: live_revisions_def)
  qed
  have len: "\<not> length ?h > length revisions"
    by (simp add: not_less)
  obtain u where u: "run_state (delete_revisions W (map Some ?h)) t = (None, u)"
    "log u = map (\<lambda>r. Wr (DeletedRevision (cr_Namespace r, cr_Name r) None)) (rev ?h) @ log t"
    using run_delete_revisions [of W ?h t] assms(3) by blast
  have "run_state (truncateHistory W ns revisions cur upd) s =
      (if ?h = [] then (None, t) else run_state (delete_revisions W (map Some ?h)) t)"
    using len by (simp add: truncateHistory_def assms(1,2) h Let_def del: filter_filter)
  with u show ?thesis by (auto split: if_splits)
qed

text \<open>A world in which the NodeSet has one pod, of the revision named \<^verbatim>\<open>gpu-1\<close> with hash \<^verbatim>\<open>1\<close>.\<close>

definition used_world :: world where
  "used_world = quiet_world\<lparr>w_ClaimPods :=
     (\<lambda>h ns ps f. Inr [empty_pod\<lparr>pod_Labels := Some [ControllerRevisionHashLabel \<mapsto> ''1'']\<rparr>])\<rparr>"

theorem truncateHistory_deletes_used_revisions_witness:
  "Wr (DeletedRevision ('''', ''gpu-1'') None) \<in> set (log (snd (run_state
     (truncateHistory used_world (sample_nodeset\<lparr>ns_Spec := (ns_Spec sample_nodeset)\<lparr>spec_RevisionHistoryLimit := 0\<rparr>\<rparr>)
       [sample_revision, sample_revision\<lparr>cr_Name := ''gpu-2''\<rparr>]
       (sample_revision\<lparr>cr_Name := ''gpu-2''\<rparr>) (sample_revision\<lparr>cr_Name := ''gpu-2''\<rparr>)) st_init)))"
  by (subst truncateHistory_deletes_used_revisions [where
        pods = "[empty_pod\<lparr>pod_Labels := Some [ControllerRevisionHashLabel \<mapsto> ''1'']\<rparr>]", OF prod_eqI])
    (simp_all add: getNodeSetPods_def call_defs used_world_def quiet_world_def sample_revision_def GetRevision_def)

end
