(* ===== verification/Frame.thy ===== *)
theory Frame
  imports Burst DaemonMode NodeSetSync History
begin

text \<open>
  What a reconcile can do to the state: it adds events to the history, changes pods in memory and
  pushes durations, and does nothing else. A state predicate that these three steps keep is kept by
  every operation of the controller, whatever the API server and Slurm answer. The locale \<open>monotone\<close>
  states this once; the predicates of interest are its interpretations. A panic is an event of its own,
  and the locale promises its cause.
\<close>

section \<open>Panics and their causes\<close>

definition annotated :: "pod \<Rightarrow> bool" where
  "annotated p \<longleftrightarrow> pod_Annotations p \<noteq> None"

text \<open>Every pod that the API server answers with has annotations, and every revision of its lists has labels.\<close>

definition complete_answers :: "world \<Rightarrow> bool" where
  "complete_answers W \<longleftrightarrow>
     (\<forall>h k p. w_GetPod W h k = Inr p \<longrightarrow> annotated p) \<and>
     (\<forall>h ps. w_ListPods W h = Inr ps \<longrightarrow> list_all annotated ps) \<and>
     (\<forall>h ns ps f qs. w_ClaimPods W h ns ps f = Inr qs \<longrightarrow> list_all annotated ps \<longrightarrow> list_all annotated qs) \<and>
     (\<forall>h p q. w_UpdatePod W h p = Inr q \<longrightarrow> annotated p \<longrightarrow> annotated q) \<and>
     (\<forall>h ns rs. w_ListRevisions W h ns = Inr rs \<longrightarrow> list_all (\<lambda>r. cr_Labels r \<noteq> None) rs)"

text \<open>
  What each panic is due to. With \<open>full\<close>, which stands for complete answers, the panics on objects are
  excluded.
\<close>

definition caused :: "bool \<Rightarrow> world \<Rightarrow> nodeset \<Rightarrow> panic \<Rightarrow> bool" where
  "caused full W ns c \<longleftrightarrow>
     (case c of
        NilAnnotations p \<Rightarrow> \<not> full \<and> pod_Annotations p = None
      | NilLabels r \<Rightarrow> \<not> full \<and> cr_Labels r = None
      | MalformedConf \<Rightarrow> \<exists>e. slurmdConfArgs W ns = Inl e
      | IndexOutOfRange \<Rightarrow> \<exists>r. w_FindEqualRevisions W [] r \<noteq> []
      | SliceBounds \<Rightarrow> spec_RevisionHistoryLimit (ns_Spec ns) < 0
      | NilRevision \<Rightarrow> spec_RevisionHistoryLimit (ns_Spec ns) < 0)"

definition panics :: "ev \<Rightarrow> bool" where
  "panics e \<longleftrightarrow> (\<exists>c. e = Rd (Panicked c))"

lemma annotated_edits [simp]:
  "annotated (UpdateIdentity ns p) = annotated p" "annotated (UpdateStorage W ns p) = annotated p"
  by (simp_all add: annotated_def UpdateIdentity_def UpdateStorage_def Let_def)

section \<open>Invariants of partial operations\<close>

lemma CreateControllerRevision_invariant:
  assumes calls: "\<And>cr. keeps I (CreateRevision W cr)" "\<And>k. keeps I (GetRevision_api W k)"
    and returns: "CreateControllerRevision W parent cr c s = Some y" and "I s"
  shows "I (snd y)"
proof -
  have "W = W \<longrightarrow> I s \<longrightarrow> I (snd y)"
  proof (rule CreateControllerRevision.raw_induct [where P = "\<lambda>V parent cr c s y. V = W \<longrightarrow> I s \<longrightarrow> I (snd y)", OF _ returns])
    fix create V parent cr c s y
    assume IH: "\<And>V parent cr c s y. create V parent cr c s = Some y \<Longrightarrow> V = W \<longrightarrow> I s \<longrightarrow> I (snd y)"
      and step: "(let created = named_revision V parent cr c; a = run_state (CreateRevision V created) s
          in case fst a of
               Inl err \<Rightarrow>
                 if \<not> IsAlreadyExists err then Some ((Inl err, c), snd a)
                 else let g = run_state (GetRevision_api V (cr_Namespace created, cr_Name created)) (snd a)
                      in case fst g of
                           Inl e \<Rightarrow> Some ((Inl e, c), snd g)
                         | Inr exists \<Rightarrow>
                             if cr_Data exists = cr_Data created then Some ((Inr exists, c), snd g)
                             else create V parent cr (wrap32 (c + 1)) (snd g)
             | Inr x \<Rightarrow> Some ((Inr x, c), snd a)) = Some y"
    show "V = W \<longrightarrow> I s \<longrightarrow> I (snd y)"
      using step
      by (auto simp: Let_def keepsD [OF calls(1)] keepsD [OF calls(2)] dest: IH split: sum.splits if_splits)
  qed
  with assms(4) show ?thesis by blast
qed

lemma getNodeSetRevisions_invariant:
  assumes "\<And>cr. keeps I (CreateRevision W cr)" "\<And>k. keeps I (GetRevision_api W k)"
    and "\<And>cr n. keeps I (UpdateControllerRevision W cr n)"
    and index: "\<And>r. w_FindEqualRevisions W [] r \<noteq> [] \<Longrightarrow> keeps I (crash IndexOutOfRange)"
    and "getNodeSetRevisions W ns rs s = Some (x, t)" and "I s"
  shows "I t"
proof -
  let ?rs = "w_SortRevisions W rs" and ?c = "deref (status_CollisionCount (ns_Status ns)) 0"
  have upd: "I u" if "update_revision W ns ?rs new ?c s = Some (y, u)" for new y u
    using that assms(6) unfolding update_revision_def Let_def
    by (auto simp: keepsD [OF assms(3)] keepsD [OF index] split: if_splits
        dest: CreateControllerRevision_invariant [OF assms(1,2)])
  show ?thesis
    using assms(5,6) unfolding getNodeSetRevisions_def Let_def
    by (auto split: sum.splits option.splits dest: upd)
qed

section \<open>What a reconcile does to the state\<close>

locale monotone =
  fixes full :: bool and W :: world and ns :: nodeset and I :: "st \<Rightarrow> bool"
  assumes event: "I s \<Longrightarrow> \<not> panics e \<Longrightarrow> I (s\<lparr>log := e # log s\<rparr>)"
    and panic: "I s \<Longrightarrow> caused full W ns c \<Longrightarrow> I (s\<lparr>log := Rd (Panicked c) # log s\<rparr>)"
    and pod_write: "I s \<Longrightarrow> (full \<Longrightarrow> \<forall>r. annotated (hp r)) \<Longrightarrow> I (s\<lparr>heap := hp\<rparr>)"
    and pod_read: "I s \<Longrightarrow> full \<Longrightarrow> annotated (heap s r)"
    and push: "I s \<Longrightarrow> I (s\<lparr>durs := dur_Push dur_Greater (durs s) k d\<rparr>)"
    and answers: "full \<Longrightarrow> complete_answers W"
begin

lemma call_kept: "(\<And>r. \<not> panics (mk r)) \<Longrightarrow> keeps I (call f mk)"
  by (rule keepsI) (simp add: event)

lemma crash_kept: "caused full W ns c \<Longrightarrow> keeps I (crash c)"
  by (rule keepsI) (simp add: crash_def panic)

lemma store_kept: "(full \<Longrightarrow> annotated p) \<Longrightarrow> keeps I (store r p)"
  by (rule keepsI) (simp add: pod_write pod_read)

lemma push_kept [keeps_intros]: "keeps I (durationStore_Push k d)"
  by (rule keepsI) (simp add: push)

lemma calls_kept [keeps_intros]:
  "keeps I (GetPod W k)" "keeps I (ListPods W)" "keeps I (CreatePod W p)" "keeps I (UpdatePod W p)"
  "keeps I (PatchPod W p q)" "keeps I (PatchPodStatus W p q)" "keeps I (DeletePod_api W k)"
  "keeps I (GetNode W n)" "keeps I (ListNodes W)" "keeps I (PatchNode W y z)" "keeps I (GetNodeSet W k)"
  "keeps I (ListNodeSets W)" "keeps I (UpdateNodeSetStatus_api W x t)" "keeps I (GetSlurmController W k)" "keeps I (GetSecretData W k)" "keeps I (GetConfigMapData W k)"
  "keeps I (GetPVC W k)" "keeps I (CreatePVC W c)" "keeps I (UpdatePVC W c)" "keeps I (LookupClient W k)"
  "keeps I (SlurmGet W cl n)" "keeps I (SlurmListNodes W cl b)" "keeps I (SlurmListJobs W cl)"
  "keeps I (SlurmUpdate W cl sn m)" "keeps I (SlurmDelete W cl n)" "keeps I (ListRevisions W x)"
  "keeps I (GetRevision_api W k)" "keeps I (CreateRevision W cr)" "keeps I (UpdateRevision W cr)"
  "keeps I (DeleteRevision W k)" "keeps I (ClaimPods W x ps f)" "keeps I (GetObject W kd k)"
  "keeps I (CreateObject W a)" "keeps I (PatchObject W a b')" "keeps I (DeleteObject_api W a)"
  "keeps I (ExpectDeletions W n ks)" "keeps I (SetExpectations W n i j)" "keeps I (SatisfiedExpectations W n)"
  "keeps I (IsInBackOff W n)" "keeps I (BackOffGet W n)" "keeps I (Now W)" "keeps I (emit ctl)"
  unfolding call_defs by (rule call_kept, simp add: panics_def)+

text \<open>What is known of the pods and the revisions that are read.\<close>

lemma load_annotated: "triple I (load r) (\<lambda>p s. I s \<and> (full \<longrightarrow> annotated p))"
  by (rule tripleI) (simp add: pod_read)

lemma GetPod_annotated: "triple I (GetPod W k) (\<lambda>g s. I s \<and> (full \<longrightarrow> (\<forall>p. g = Inr p \<longrightarrow> annotated p)))"
proof -
  have "annotated p" if "full" "w_GetPod W h k = Inr p" for h p
    using answers [OF that(1)] that(2) unfolding complete_answers_def by blast
  with keepsD [OF calls_kept(1), of _ k] show ?thesis
    by (intro tripleI) (simp add: GetPod_def)
qed

lemma listRevisions_labelled:
  "triple I (listRevisions W ns) (\<lambda>g s. I s \<and> (full \<longrightarrow> (\<forall>rs. g = Inr rs \<longrightarrow> list_all (\<lambda>r. cr_Labels r \<noteq> None) rs)))"
proof -
  have "keeps I (listRevisions W ns)"
    unfolding listRevisions_def ListControllerRevisions_def by (intro keeps_intros)
  from keepsD [OF this] answers show ?thesis
    by (intro tripleI) (auto simp: listRevisions_def ListControllerRevisions_def call_defs complete_answers_def list_all_iff
        split: sum.splits)
qed

lemma getNodeSetPods_annotated:
  "triple I (getNodeSetPods W ns) (\<lambda>g s. I s \<and> (full \<longrightarrow> (\<forall>ps. g = Inr ps \<longrightarrow> list_all annotated ps)))"
proof -
  have "keeps I (getNodeSetPods W ns)"
    unfolding getNodeSetPods_def by (intro keeps_intros)
  from keepsD [OF this] answers show ?thesis
    by (intro tripleI) (auto simp: getNodeSetPods_def call_defs complete_answers_def split: sum.splits)
qed

subsection \<open>Slurm control\<close>

lemma slurm_kept [keeps_intros]:
  "keeps I (lookupClient W ns)" "keeps I (send_update W cl sn m)" "keeps I (RefreshNodeCache W ns)"
  "keeps I (DeleteNode W ns n)" "keeps I (CalculateNodeStatus W ns ps)" "keeps I (GetNodeDeadlines W ns ps)"
  "keeps I (GetNodesForPods W ns ps)" "keeps I (GetDefunctNodesForNodeSet W ns)"
  unfolding lookupClient_def send_update_def RefreshNodeCache_def DeleteNode_def CalculateNodeStatus_def
    GetNodeDeadlines_def GetNodesForPods_def GetDefunctNodesForNodeSet_def Let_def
  by (intro keeps_intros)+

lemma slurm_node_op_kept: "(\<And>c n. keeps I (k c n)) \<Longrightarrow> keeps I (slurm_node_op W ns p a f k)"
  unfolding slurm_node_op_def by (intro keeps_intros)

lemma slurm_node_kept [keeps_intros]:
  "keeps I (UpdateNodeWithPodInfo W ns p)" "keeps I (UpdateNodeTopology W ns p t)"
  "keeps I (MakeNodeDrain W ns p t)" "keeps I (MakeNodeUndrain W ns p t)" "keeps I (IsNodeDrain W ns p)"
  "keeps I (IsNodeDrained W ns p)" "keeps I (IsNodeDownForUnresponsive W ns p)" "keeps I (IsNodeReasonOurs W ns p)"
  unfolding UpdateNodeWithPodInfo_def UpdateNodeTopology_def MakeNodeDrain_def MakeNodeUndrain_def IsNodeDrain_def
    IsNodeDrained_def IsNodeDownForUnresponsive_def IsNodeReasonOurs_def slurm_query_def Let_def
  by (intro keeps_intros slurm_node_op_kept)+

subsection \<open>Pod control\<close>

lemma record_kept [keeps_intros]: "keeps I (recordPodEvent v e)" "keeps I (recordClaimEvent v e)"
  unfolding recordPodEvent_def recordClaimEvent_def by (intro keeps_intros)+

lemma create_claims_kept [keeps_intros]: "keeps I (create_claims W ns cs errs)"
  by (induction cs arbitrary: errs) (auto intro!: keeps_intros simp: Let_def)

lemma update_claims_kept [keeps_intros]: "keeps I (update_claims W ns p cs)"
  by (induction cs) (auto intro!: keeps_intros)

lemma claims_match_policy_kept [keeps_intros]: "keeps I (claims_match_policy W ns p cs)"
  by (induction cs) (auto intro!: keeps_intros)

lemma any_claim_stale_kept [keeps_intros]: "keeps I (any_claim_stale W p cs)"
  by (induction cs) (auto intro!: keeps_intros)

lemma pod_control_kept [keeps_intros]:
  "keeps I (createPods W p)" "keeps I (DeletePod W k)" "keeps I (createPersistentVolumeClaims W ns p)"
  "keeps I (PodPVCsMatchRetentionPolicy W ns p)" "keeps I (UpdatePodPVCsForRetentionPolicy W ns p)"
  "keeps I (IsPodPVCsStale W ns p)"
  unfolding createPods_def DeletePod_def createPersistentVolumeClaims_def PodPVCsMatchRetentionPolicy_def
    UpdatePodPVCsForRetentionPolicy_def IsPodPVCsStale_def Let_def
  by (auto intro!: keeps_intros)

lemma nodeset_pod_kept [keeps_intros]: "keeps I (CreateNodeSetPod W ns p)" "keeps I (DeleteNodeSetPod W p)"
  unfolding CreateNodeSetPod_def DeleteNodeSetPod_def Let_def by (auto intro!: keeps_intros)

lemma get_local_annotated: "triple I (get_local r l) (\<lambda>p s. I s \<and> (fst l = None \<longrightarrow> full \<longrightarrow> annotated p))"
  unfolding get_local_def by (rule tripleI) (auto simp: pod_read split: option.split)

lemma set_local_kept: "(fst l = None \<Longrightarrow> full \<Longrightarrow> annotated p) \<Longrightarrow> keeps I (set_local r l p)"
  unfolding set_local_def by (auto intro!: keeps_intros store_kept split: option.split)

lemma commit_pod_kept [keeps_intros]: "keeps I (commit_pod W ns r consistent l)"
proof -
  have update: "triple I (UpdatePod W p) (\<lambda>u s. I s \<and> (full \<longrightarrow> annotated p \<longrightarrow> (\<forall>q. u = Inr q \<longrightarrow> annotated q)))" for p
    using keepsD [OF calls_kept(4)] answers by (intro tripleI) (auto simp: UpdatePod_def complete_answers_def)
  show ?thesis
    unfolding commit_pod_def Let_def
    by (intro keeps_if keeps_return keeps_bind_result [OF get_local_annotated] keeps_bind_result [OF update])
      (auto intro!: keeps_intros set_local_kept split: sum.split)
qed

lemma update_attempt_kept [keeps_intros]: "keeps I (update_attempt W ns r l)"
  unfolding update_attempt_def Let_def
  by (rule keeps_bind_result [OF get_local_annotated])
    (auto intro!: keeps_intros set_local_kept split: bool.split)

lemma UpdateNodeSetPod_kept [keeps_intros]: "retry_ok W \<Longrightarrow> keeps I (UpdateNodeSetPod W ns r)"
  unfolding UpdateNodeSetPod_def by (intro keeps_intros keeps_retry)

subsection \<open>Cordoning\<close>

lemma refresh_pod_kept [keeps_intros]: "keeps I (refresh_pod W r p)"
  unfolding refresh_pod_def
  by (rule keeps_bind_result [OF GetPod_annotated]) (auto intro!: keeps_intros store_kept split: sum.split)

lemma isNodeCordoned_kept [keeps_intros]: "keeps I (isNodeCordoned W p)"
  unfolding isNodeCordoned_def by (intro keeps_intros)

lemma cordon_pod_kept [keeps_intros]: "keeps I (makePodCordon W r)" "keeps I (makePodUncordon W r)"
  unfolding makePodCordon_def makePodUncordon_def by (intro keeps_intros)+

lemma cordon_and_drain_kept [keeps_intros]:
  "keeps I (makePodCordonAndDrain W ns r m)" "keeps I (makePodUncordonAndUndrain W ns r m)"
  unfolding makePodCordonAndDrain_def makePodUncordonAndUndrain_def syncSlurmNodeDrain_def syncSlurmNodeUndrain_def
  by (intro keeps_intros)+

lemma syncPodUncordon_kept [keeps_intros]: "keeps I (syncPodUncordon W ns r)"
  unfolding syncPodUncordon_def by (intro keeps_intros)

lemma syncCordon_kept [keeps_intros]: "keeps I (syncCordon W propagated ns pods)"
  unfolding syncCordon_def syncCordonFn_def Let_def by (intro keeps_intros)

subsection \<open>Scaling\<close>

lemma made_pods_kept [keeps_intros]:
  "keeps I (NewNodeSetStatefulSetPod W ns c i h)" "keeps I (NewNodeSetDaemonSetPod W ns c n u h)"
  "keeps I (NewNodeSetSimulatedPod W ns c n)"
  by (intro keeps_new_pod keeps_intros crash_kept; simp add: caused_def)+

lemma new_pods_kept [keeps_intros]:
  "keeps I (newNodeSetPodDaemon W ns n t)" "keeps I (newSimulatedDaemonPod W ns n)"
  "keeps I (newNodeSetPodOrdinal W ns i t)" "keeps I (NodeShouldRunDaemonPod W node ns)"
  unfolding newNodeSetPodDaemon_def newSimulatedDaemonPod_def newNodeSetPodOrdinal_def NodeShouldRunDaemonPod_def
  by (intro keeps_intros)+

lemma processCondemned_kept [keeps_intros]: "keeps I (processCondemned W ns r)"
  unfolding processCondemned_def condemned_drained_def
  by (intro keeps_bind [OF keeps_load] keeps_bind_result [OF GetPod_annotated])
    (auto intro!: keeps_intros store_kept split: sum.split)

lemma pod_functions_kept [keeps_intros]:
  "keeps I (deletePodFn W ns r)" "keeps I (createPodFn W ns p)" "keeps I (fixPodPVCsFn W ns r)"
  "keeps I (splitUpdatePods W ns pods t)" "keeps I (EnqueueNodeSetAfter ns d)"
  unfolding deletePodFn_def createPodFn_def fixPodPVCsFn_def splitUpdatePods_def
    EnqueueNodeSetAfter_def Let_def
  by (intro keeps_intros)+

lemma observe_creations_kept [keeps_intros]: "keeps I (observe_creations k n)"
  by (induction n) (auto intro!: keeps_intros)

lemma doPodScale_kept [keeps_intros]: "keeps I (doPodScale W ns keep del new)"
  unfolding doPodScale_def Let_def by (intro keeps_intros)

lemma doPodProcessing_kept [keeps_intros]: "retry_ok W \<Longrightarrow> keeps I (doPodProcessing W ns pods del t)"
  unfolding doPodProcessing_def processNodeSetPod_def Let_def by (intro keeps_intros)

lemma syncUpdate_kept [keeps_intros]: "keeps I (syncUpdate W ns pods t)"
  unfolding syncUpdate_def syncRollingUpdate_def Let_def by (intro keeps_intros)

lemma count_nodes_for_kept [keeps_intros]: "keeps I (count_nodes_for W ns nodes k)"
  by (induction nodes arbitrary: k) (auto intro!: keeps_intros)

lemma sort_out_daemon_pods_kept [keeps_intros]: "keeps I (sort_out_daemon_pods W ns node rs run del)"
  by (induction rs arbitrary: run del) (auto intro!: keeps_intros simp: Let_def)

lemma podsShouldBeOnNode_kept [keeps_intros]: "keeps I (podsShouldBeOnNode W node m ns)"
  unfolding podsShouldBeOnNode_def Let_def by (intro keeps_intros)

lemma visit_nodes_kept [keeps_intros]: "keeps I (visit_nodes W ns m nodes need del)"
  by (induction nodes arbitrary: need del) (auto intro!: keeps_intros)

lemma daemon_pods_kept [keeps_intros]: "keeps I (daemon_pods W ns t names acc)"
  by (induction names arbitrary: acc) (auto intro!: keeps_intros)

lemma ordinal_pods_kept [keeps_intros]: "keeps I (ordinal_pods W ns t n used i acc)"
  by (induction n arbitrary: used i acc) (auto intro!: keeps_intros simp: Let_def)

lemma only_if_kept [keeps_intros]: "keeps I m \<Longrightarrow> keeps I (only_if b m)"
  unfolding only_if_def by (intro keeps_intros)

lemma syncNodeSetPods_kept [keeps_intros]: "retry_ok W \<Longrightarrow> keeps I (syncNodeSetPods W ns pods t)"
  unfolding syncNodeSetPods_def scale_daemonset_def scale_statefulset_def Let_def by (intro keeps_intros)

subsection \<open>The steps\<close>

lemma records_kept [keeps_intros]: "keeps I (syncSlurmNodeRecords W ns)"
  unfolding syncSlurmNodeRecords_def syncSlurmNodeRecordsNodeNotFound_def syncSlurmNodeRecordsFn_def
    prune_record_def Let_def
  by (intro keeps_intros)

lemma nil_annotations_caused: "full \<longrightarrow> annotated p \<Longrightarrow> pod_Annotations p = None \<Longrightarrow> caused full W ns (NilAnnotations p)"
  by (auto simp: caused_def annotated_def)

lemma syncSlurmDeadlineFn_kept [keeps_intros]: "keeps I (syncSlurmDeadlineFn W nodeDeadlines r)"
  unfolding syncSlurmDeadlineFn_def
  by (rule keeps_bind_result [OF load_annotated])
    (auto intro!: keeps_intros crash_kept nil_annotations_caused simp: deadline_annotations_def mput_def
      split: if_splits option.splits sum.split)

lemma node_steps_kept [keeps_intros]:
  "keeps I (syncNodeTaint W)" "keeps I (syncSlurmNodes W ns pods)" "keeps I (syncSlurmDeadline W ns pods)"
  unfolding syncNodeTaint_def syncTaintFn_def syncSlurmNodes_def syncSlurmNodesFn_def syncSlurmDeadline_def
    IsRunningAndAvailable_def Let_def
  by (intro keeps_intros)+

lemma syncSlurmTopologyFn_kept [keeps_intros]: "keeps I (syncSlurmTopologyFn W ns r)"
  unfolding syncSlurmTopologyFn_def update_topology_def Let_def
  by (rule keeps_bind_result [OF load_annotated])
    (auto intro!: keeps_intros crash_kept nil_annotations_caused simp: mput_def split: option.splits)

lemma topology_kept [keeps_intros]: "keeps I (syncSlurmTopology W ns pods)"
  unfolding syncSlurmTopology_def by (intro keeps_intros)

lemma SyncObject_kept [keeps_intros]: "keeps I (SyncObject W recorder x b)"
  unfolding SyncObject_def patch_object_def record_event_def by (intro keeps_intros)

lemma object_steps_kept [keeps_intros]:
  "keeps I (syncClusterWorkerService W ns)" "keeps I (syncClusterWorkerPDB W ns)" "keeps I (syncSshConfig W ns)"
  unfolding syncClusterWorkerService_def syncClusterWorkerPDB_def syncSshConfig_def sync_shared_def SetOwnerReferences_def
  by (intro keeps_intros)+

lemma sync_kept [keeps_intros]: "retry_ok W \<Longrightarrow> keeps I (sync W propagated ns pods t)"
  unfolding sync_def
  by (rule keeps_Sync_steps) (auto simp: sync_steps_def step_of_def intro: keeps_intros)

subsection \<open>Status\<close>

lemma pin_stands_kept [keeps_intros]: "keeps I (pin_stands W ns n)"
  unfolding pin_stands_def by (intro keeps_intros)

lemma keep_pins_kept [keeps_intros]: "keeps I (keep_pins W ns es m)"
  by (induction es arbitrary: m) (auto intro!: keeps_intros)

lemma pin_pods_kept [keeps_intros]: "keeps I (pin_pods W ns ps m)"
  by (induction ps arbitrary: m) (auto intro!: keeps_intros)

lemma counters_kept [keeps_intros]:
  "keeps I (calculateReplicaStatus W ns ps cur upd)" "keeps I (calculateOrdinalToNode W ns ps)"
  unfolding calculateReplicaStatus_def calculateOrdinalToNode_def getDesiredNodeCountForDaemonSet_def Let_def
  by (intro keeps_intros)+

lemma syncNodeSetStatus_kept [keeps_intros]: "retry_ok W \<Longrightarrow> keeps I (syncNodeSetStatus W ns pods cur upd cc t)"
  unfolding syncNodeSetStatus_def publish_status_def updateNodeSetStatus_def update_status_attempt_def
  by (intro keeps_intros keeps_retry)

lemma update_conditions_kept [keeps_intros]: "keeps I (update_conditions W conds cs)"
  by (induction conds arbitrary: cs) (auto intro!: keeps_intros)

lemma updateNodeSetPodConditions_kept [keeps_intros]: "keeps I (updateNodeSetPodConditions W ss pods)"
  by (induction pods) (auto intro!: keeps_intros)

lemma syncPodPDBLabelsFn_kept [keeps_intros]: "keeps I (syncPodPDBLabelsFn W ns r)"
  unfolding syncPodPDBLabelsFn_def
  by (intro keeps_bind [OF keeps_load] keeps_bind_result [OF GetPod_annotated])
    (auto intro!: keeps_intros store_kept split: sum.split)

lemma syncStatus_kept [keeps_intros]: "retry_ok W \<Longrightarrow> keeps I (syncStatus W ns pods cur upd cc t errs)"
  unfolding syncStatus_def syncSlurmStatus_def syncNodeSetPodStatus_def updateNodeSetPodPDBLabels_def
  by (intro keeps_intros)

subsection \<open>History\<close>

lemma revision_update_kept [keeps_intros]: "keeps I (revision_update W k cr)"
  unfolding revision_update_def by (intro keeps_intros)

lemma revisions_kept [keeps_intros]:
  "keeps I (listRevisions W ns)" "keeps I (getNodeSetPods W ns)" "keeps I (canAdoptFunc W ns)"
  unfolding listRevisions_def ListControllerRevisions_def getNodeSetPods_def canAdoptFunc_def
  by (intro keeps_intros)+

lemma revision_control_kept [keeps_intros]:
  assumes "retry_ok W"
  shows "keeps I (UpdateControllerRevision W cr n)" "keeps I (AdoptControllerRevision W ns cr)"
  unfolding UpdateControllerRevision_def AdoptControllerRevision_def
  by (intro keeps_intros keeps_retry_revision assms)+

lemma label_revisions_kept:
  "(full \<longrightarrow> list_all (\<lambda>r. cr_Labels r \<noteq> None) rs) \<Longrightarrow> keeps I (label_revisions W rs)"
  by (induction rs) (auto intro!: keeps_intros crash_kept simp: caused_def mput_def split: option.splits)

lemma doAdoptOrphanRevisions_kept [keeps_intros]: "retry_ok W \<Longrightarrow> keeps I (doAdoptOrphanRevisions W ns rs)"
  by (induction rs) (auto intro!: keeps_intros)

lemma delete_revisions_kept:
  "(None \<in> set rs \<Longrightarrow> spec_RevisionHistoryLimit (ns_Spec ns) < 0) \<Longrightarrow> keeps I (delete_revisions W rs)"
proof (induction rs)
  case (Cons r rs)
  then show ?case
    by (cases r) (auto intro!: keeps_intros crash_kept simp: caused_def DeleteControllerRevision_def)
qed (auto intro!: keeps_intros)

lemma adoptOrphanRevisions_kept [keeps_intros]: "retry_ok W \<Longrightarrow> keeps I (adoptOrphanRevisions W ns)"
  unfolding adoptOrphanRevisions_def with_value_def [of "listRevisions W ns"] Let_def
  by (rule keeps_bind_result [OF listRevisions_labelled])
    (auto intro!: keeps_intros label_revisions_kept split: sum.split)

lemma past_the_end:
  "None \<in> set (take (nat (int (length xs) - limit)) (map Some xs @ replicate n None)) \<Longrightarrow> limit < 0"
proof (rule ccontr)
  assume "None \<in> set (take (nat (int (length xs) - limit)) (map Some xs @ replicate n None))" "\<not> limit < 0"
  then have "None \<in> set (take (nat (int (length xs) - limit)) (map Some xs))" by simp
  then show False by (auto dest: in_set_takeD)
qed

lemma truncateHistory_kept [keeps_intros]: "keeps I (truncateHistory W ns rs cur upd)"
proof -
  have bounds: "spec_RevisionHistoryLimit (ns_Spec ns) < 0"
    if "int (length rs) < int (length (filter P rs)) - spec_RevisionHistoryLimit (ns_Spec ns)" for P
    using that length_filter_le [of P rs] by linarith
  have "keeps I (delete_revisions W (take (nat (int (length xs) - spec_RevisionHistoryLimit (ns_Spec ns)))
      (map Some xs @ replicate n None)))" for xs n
    by (rule delete_revisions_kept) (rule past_the_end)
  then show ?thesis
    unfolding truncateHistory_def Let_def
    by (intro keeps_intros crash_kept) (simp_all add: caused_def bounds del: take_append)
qed

lemma getNodeSetRevisions_kept:
  assumes "retry_ok W" "getNodeSetRevisions W ns rs s = Some (x, t)" "I s"
  shows "I t"
  by (rule getNodeSetRevisions_invariant [of I W ns rs s x t])
    (use assms(2,3) in \<open>auto intro!: keeps_intros assms(1) crash_kept simp: caused_def\<close>)

end

end
