(* ===== verification/Reconcile.thy ===== *)
theory Reconcile
  imports Frame
begin

text \<open>
  The entry points of the NodeSet controller: \<open>Sync\<close> (\<^verbatim>\<open>nodeset_sync.go\<close>) and \<open>Reconcile\<close>
  (\<^verbatim>\<open>nodeset_controller.go\<close>), over all the parts of the development. Their result is an option because
  creating a revision may loop.
\<close>

section \<open>Sync\<close>

text \<open>The pods of the NodeSet, as the pointers the rest of the reconcile shares.\<close>

definition alloc_pods :: "pod list \<Rightarrow> ref list prog" where
  "alloc_pods pods = State (\<lambda>s. ([0..<length pods],
     s\<lparr>heap := (\<lambda>r. if r < length pods then pods ! r else heap s r)\<rparr>))"

definition sync_pods ::
  "world \<Rightarrow> string list \<Rightarrow> nodeset \<Rightarrow> controller_revision list \<Rightarrow> controller_revision \<Rightarrow> controller_revision \<Rightarrow> int \<Rightarrow>
   error prog" where
  "sync_pods W propagated ns revisions currentRevision updateRevision collisionCount =
     (let hash = GetRevision (cr_Labels updateRevision)
      in with_value (getNodeSetPods W ns) (\<lambda>podList. do {
        nodesetPods \<leftarrow> alloc_pods podList;
        let status = syncStatus W ns nodesetPods currentRevision updateRevision collisionCount hash;
        satisfied \<leftarrow> SatisfiedExpectations W (KeyFunc ns);
        if \<not> satisfied \<or> ns_DeletionTimestamp ns \<noteq> None then status []
        else do {
          e \<leftarrow> sync W propagated ns nodesetPods hash;
          case e of
            Some err \<Rightarrow> status [err]
          | None \<Rightarrow> do {
              satisfied \<leftarrow> SatisfiedExpectations W (KeyFunc ns);
              if satisfied
              then do {
                e \<leftarrow> syncUpdate W ns nodesetPods hash;
                case e of
                  Some err \<Rightarrow> status [err]
                | None \<Rightarrow> do {
                    e \<leftarrow> truncateHistory W ns revisions currentRevision updateRevision;
                    case e of
                      Some err \<Rightarrow> status [Wrapped ''failed to clean up revisions of NodeSet'' err]
                    | None \<Rightarrow> status []
                  }
              }
              else status []
            }
        }
      }))"

text \<open>What precedes the computation of the revisions.\<close>

definition sync_revisions :: "world \<Rightarrow> nodeset \<Rightarrow> (err + controller_revision list) prog" where
  "sync_revisions W ns = do {
     durationStore_Push (KeyFunc ns) (30 * Second);
     e \<leftarrow> adoptOrphanRevisions W ns;
     case e of
       Some err \<Rightarrow> State_Monad.return (Inl err)
     | None \<Rightarrow> listRevisions W ns
   }"

text \<open>\<^verbatim>\<open>metav1.Time.IsZero\<close>: nil or the zero time.\<close>

definition IsZero :: "time option \<Rightarrow> bool" where
  "IsZero t \<longleftrightarrow> t = None \<or> t = Some 0"

definition Sync_live :: "world \<Rightarrow> string list \<Rightarrow> nodeset \<Rightarrow> st \<Rightarrow> (error \<times> st) option" where
  "Sync_live W propagated nodeset s =
     (let l = run_state (sync_revisions W nodeset) s
      in case fst l of
           Inl err \<Rightarrow> Some (Some err, snd l)
         | Inr revisions \<Rightarrow>
             (case getNodeSetRevisions W nodeset revisions (snd l) of
                None \<Rightarrow> None
              | Some ((Inl err, _, _), t) \<Rightarrow> Some (Some err, t)
              | Some ((Inr (cur, upd), collisionCount, revs), t) \<Rightarrow>
                  Some (run_state (sync_pods W propagated nodeset revs cur upd collisionCount) t)))"

definition Sync :: "world \<Rightarrow> string list \<Rightarrow> nsname \<Rightarrow> st \<Rightarrow> (error \<times> st) option" where
  "Sync W propagated req s =
     (let g = run_state (GetNodeSet W req) s
      in case fst g of
           Inl err \<Rightarrow>
             if IsNotFound err
             then Some (None, snd (run_state (emit (DeletedExpectations (nsname_String req))) (snd g)))
             else Some (Some err, snd g)
         | Inr obj \<Rightarrow>
             let nodeset = SetNodeSetDefaults obj
             in if \<not> IsZero (ns_DeletionTimestamp nodeset) then Some (None, snd g)
                else Sync_live W propagated nodeset (snd g))"

section \<open>Reconcile\<close>

text \<open>
  A run ends with \<^verbatim>\<open>RequeueAfter\<close> and an error, or in a panic: then there is no result, and what the record
  shows after the panic did not happen. A panic in a goroutine of a batch ends the process; one in the goroutine
  of the reconcile is left to controller-runtime. The deferred function cleans the duration store.
\<close>

datatype outcome = Returned duration error | Crashed panic

definition panics_of :: "history \<Rightarrow> panic list" where
  "panics_of h = List.map_filter (\<lambda>e. case e of Rd (Panicked c) \<Rightarrow> Some c | _ \<Rightarrow> None) h"

text \<open>The first panic between two states.\<close>

definition first_panic :: "st \<Rightarrow> st \<Rightarrow> panic option" where
  "first_panic s t =
     (case rev (panics_of (take (length (log t) - length (log s)) (log t))) of [] \<Rightarrow> None | c # _ \<Rightarrow> Some c)"

definition Reconcile ::
  "world \<Rightarrow> string list \<Rightarrow> nsname \<Rightarrow> st \<Rightarrow> (outcome \<times> st) option" where
  "Reconcile W propagated req s =
     (case Sync W propagated req s of
        None \<Rightarrow> None
      | Some (retErr, t) \<Rightarrow>
          (case first_panic s t of
             Some c \<Rightarrow> Some (Crashed c, t)
           | None \<Rightarrow>
               let requeue = run_state (durationStore_Pop (nsname_String req)) t
               in Some (Returned (fst requeue) retErr, snd (run_state (durationStore_Pop (nsname_String req)) (snd requeue)))))"

section \<open>Kept by a reconcile\<close>

lemma Sync_live_cases:
  assumes "Sync_live W propagated ns s = Some (e, t)" and "fst (run_state (sync_revisions W ns) s) = Inr revisions"
  shows "\<exists>r cc revs u.
    getNodeSetRevisions W ns revisions (snd (run_state (sync_revisions W ns) s)) = Some ((r, cc, revs), u) \<and>
    t = (case r of Inl err \<Rightarrow> u
         | Inr c \<Rightarrow> snd (run_state (sync_pods W propagated ns revs (fst c) (snd c) cc) u))"
proof -
  let ?l = "run_state (sync_revisions W ns) s"
  from assms obtain y where y: "getNodeSetRevisions W ns revisions (snd ?l) = Some y"
    by (cases "getNodeSetRevisions W ns revisions (snd ?l)") (simp_all add: Sync_live_def Let_def)
  obtain r cc revs u where yu: "y = ((r, cc, revs), u)"
    by (metis prod.collapse)
  have "t = (case r of Inl err \<Rightarrow> u
      | Inr c \<Rightarrow> snd (run_state (sync_pods W propagated ns revs (fst c) (snd c) cc) u))"
    using assms y [unfolded yu] by (cases r) (auto simp: Sync_live_def Let_def split: prod.splits)
  with y yu show ?thesis by blast
qed

context monotone
begin

lemma alloc_pods_kept: "(full \<longrightarrow> list_all annotated ps) \<Longrightarrow> keeps I (alloc_pods ps)"
  by (rule keepsI) (auto simp: alloc_pods_def list_all_length intro!: pod_write pod_read)

lemma sync_pods_kept: "retry_ok W \<Longrightarrow> keeps I (sync_pods W propagated ns revs cur upd cc)"
  unfolding sync_pods_def with_value_def [of "getNodeSetPods W ns"] Let_def
  by (rule keeps_bind_result [OF getNodeSetPods_annotated])
    (auto intro!: keeps_intros alloc_pods_kept split: sum.split)

lemma adopt_and_list_kept:
  assumes "retry_ok W"
  shows "keeps I (do { e \<leftarrow> adoptOrphanRevisions W ns;
    case e of Some err \<Rightarrow> State_Monad.return (Inl err) | None \<Rightarrow> listRevisions W ns })"
  by (intro keeps_intros assms)

lemma sync_revisions_kept: "retry_ok W \<Longrightarrow> keeps I (sync_revisions W ns)"
  unfolding sync_revisions_def by (intro keeps_intros)

lemma Sync_live_kept:
  assumes "retry_ok W" and "I (snd (run_state (sync_revisions W ns) s))"
    and "Sync_live W propagated ns s = Some (e, t)"
  shows "I t"
proof -
  let ?l = "run_state (sync_revisions W ns) s"
  show ?thesis
  proof (cases "fst ?l")
    case (Inl err)
    with assms(2,3) show ?thesis by (simp add: Sync_live_def Let_def)
  next
    case (Inr revisions)
    from Sync_live_cases [OF assms(3) Inr] obtain r cc revs u where
      g: "getNodeSetRevisions W ns revisions (snd ?l) = Some ((r, cc, revs), u)"
      and t: "t = (case r of Inl err \<Rightarrow> u
        | Inr c \<Rightarrow> snd (run_state (sync_pods W propagated ns revs (fst c) (snd c) cc) u))" by blast
    have "I u"
      by (rule getNodeSetRevisions_kept [OF assms(1) g assms(2)])
    then show ?thesis
      unfolding t using sync_pods_kept [OF assms(1)] by (auto split: sum.split intro: keepsD)
  qed
qed

end

section \<open>Requeueing\<close>

definition due :: "string \<Rightarrow> duration \<Rightarrow> st \<Rightarrow> bool" where
  "due k d s \<longleftrightarrow> (\<exists>x. durs s k = Some (Cell x) \<and> d \<le> x)"

lemma due_push: "due k d s \<Longrightarrow> due k d (s\<lparr>durs := dur_Push dur_Greater (durs s) j x\<rparr>)"
  by (cases "durs s j") (auto simp: due_def dur_store_defs split: entry.splits)

lemma due_pushed: "due k d (s\<lparr>durs := dur_Push dur_Greater (durs s) k d\<rparr>)"
  by (cases "durs s k") (auto simp: due_def dur_store_defs split: entry.splits)

interpretation requeue: monotone False W ns "due k d"
proof
  fix s j x
  assume "due k d s"
  then show "due k d (s\<lparr>durs := dur_Push dur_Greater (durs s) j x\<rparr>)"
    by (rule due_push)
qed (auto simp: due_def)

interpretation growth: monotone False W ns "extends h"
  by unfold_locales (auto simp: extends_def suffix_ConsI)

lemma update_revision_returns:
  assumes "\<forall>h r e. w_CreateRevision W h r = Inl e \<and> IsAlreadyExists e \<longrightarrow> cr_Name r \<in> taken"
    and "\<exists>d \<ge> - (2 ^ 31). d < 2 ^ 31 \<and> revision_name W ns new d \<notin> taken"
    and "- (2 ^ 31) \<le> c" and "c < 2 ^ 31"
  shows "\<exists>r c' t. update_revision W ns revs new c s = Some ((r, c'), t)"
proof -
  obtain d where "- (2 ^ 31) \<le> d" "d < 2 ^ 31" "revision_name W ns new d \<notin> taken"
    using assms(2) by blast
  from CreateControllerRevision_ends [OF assms(1,3,4) this]
  have "\<exists>r c' t. CreateControllerRevision W ns new c s = Some ((r, c'), t)" by blast
  then show ?thesis
    unfolding update_revision_def Let_def by (auto split: if_splits)
qed

lemma getNodeSetRevisions_returns:
  assumes "\<forall>h r e. w_CreateRevision W h r = Inl e \<and> IsAlreadyExists e \<longrightarrow> cr_Name r \<in> taken"
    and "\<forall>cr. \<exists>d \<ge> - (2 ^ 31). d < 2 ^ 31 \<and> revision_name W ns cr d \<notin> taken"
    and "- (2 ^ 31) \<le> deref (status_CollisionCount (ns_Status ns)) 0" and "deref (status_CollisionCount (ns_Status ns)) 0 < 2 ^ 31"
  shows "getNodeSetRevisions W ns revs s \<noteq> None"
proof -
  have "update_revision W ns rs new (deref (status_CollisionCount (ns_Status ns)) 0) s \<noteq> None" for rs new
    using update_revision_returns [OF assms(1) spec [OF assms(2)] assms(3,4)] by (metis option.distinct(1))
  then show ?thesis
    unfolding getNodeSetRevisions_def Let_def by (auto simp del: not_None_eq split: sum.split option.split)
qed

lemma Sync_live_returns:
  assumes "\<And>revs s. getNodeSetRevisions W ns revs s \<noteq> None"
  shows "\<exists>e t. Sync_live W propagated ns s = Some (e, t)"
proof -
  have "Sync_live W propagated ns s \<noteq> None"
    using assms unfolding Sync_live_def Let_def by (auto simp del: not_None_eq split: sum.split option.split)
  then show ?thesis by auto
qed

lemma sync_revisions_due:
  assumes "retry_ok W"
  shows "due (KeyFunc ns) (30 * Second) (snd (run_state (sync_revisions W ns) s))"
  using keepsD [OF requeue.adopt_and_list_kept [OF assms] due_pushed]
  by (simp add: sync_revisions_def)

lemma defaults_key [simp]:
  "KeyFunc (SetNodeSetDefaults ns) = KeyFunc ns" "ns_DeletionTimestamp (SetNodeSetDefaults ns) = ns_DeletionTimestamp ns"
  "ns_Key (SetNodeSetDefaults ns) = ns_Key ns" "ns_Status (SetNodeSetDefaults ns) = ns_Status ns"
  "revision_name W (SetNodeSetDefaults ns) cr d = revision_name W ns cr d"
  by (simp_all add: SetNodeSetDefaults_def KeyFunc_def ns_Key_def revision_name_def named_revision_def)

section \<open>Panics of a reconcile\<close>

text \<open>
  Since the history \<open>base\<close>, every panic has its cause; with complete answers, and only annotated pods in
  memory to begin with, all pods in memory are annotated.
\<close>

definition explained :: "bool \<Rightarrow> world \<Rightarrow> nodeset \<Rightarrow> history \<Rightarrow> st \<Rightarrow> bool" where
  "explained full W ns base s \<longleftrightarrow>
     (\<exists>l. log s = l @ base \<and> (\<forall>c. Rd (Panicked c) \<in> set l \<longrightarrow> caused full W ns c)) \<and>
     (full \<longrightarrow> (\<forall>r. annotated (heap s r)))"

lemma explained_event:
  assumes "explained full W ns base s" "\<And>c. e = Rd (Panicked c) \<Longrightarrow> caused full W ns c"
  shows "explained full W ns base (s\<lparr>log := e # log s\<rparr>)"
proof -
  obtain l where "log s = l @ base" "\<forall>c. Rd (Panicked c) \<in> set l \<longrightarrow> caused full W ns c"
    using assms(1) by (auto simp: explained_def)
  with assms show ?thesis
    unfolding explained_def by (auto intro!: exI [of _ "e # l"])
qed

interpretation causes: monotone "complete_answers W \<and> m" W ns "explained (complete_answers W \<and> m) W ns base"
  by unfold_locales (auto intro: explained_event simp: panics_def, auto simp: explained_def)

text \<open>The conditions under which nothing panics.\<close>

definition panic_free :: "world \<Rightarrow> nodeset \<Rightarrow> st \<Rightarrow> bool" where
  "panic_free W ns s \<longleftrightarrow>
     complete_answers W \<and> (\<forall>r. annotated (heap s r)) \<and> (\<exists>args. slurmdConfArgs W ns = Inr args) \<and>
     (\<forall>r. w_FindEqualRevisions W [] r = []) \<and> 0 \<le> spec_RevisionHistoryLimit (ns_Spec ns)"

lemma panic_free_no_cause: "panic_free W ns s \<Longrightarrow> \<not> caused (complete_answers W \<and> (\<forall>r. annotated (heap s r))) W ns c"
  by (cases c) (auto simp: panic_free_def caused_def)

lemma caused_mono: "caused full W ns c \<Longrightarrow> caused False W ns c"
  by (auto simp: caused_def split: panic.splits)

lemma set_panics_of: "set (panics_of h) = {c. Rd (Panicked c) \<in> set h}"
  by (induction h) (auto simp: panics_of_def List.map_filter_simps split: ev.splits rd.splits)

lemma first_panic_in:
  assumes "first_panic s t = Some c" "log t = l @ log s"
  shows "Rd (Panicked c) \<in> set l"
proof -
  have "c \<in> set (panics_of l)"
    using assms by (auto simp: first_panic_def split: list.splits)
  then show ?thesis by (simp add: set_panics_of)
qed

text \<open>
  C3. A reconcile of a NodeSet that is not being deleted, with retries that end and some revision name that is
  free, does not run forever. It returns, unless it panics: if it returns, then, with or without an error, it
  asks to be called again after at least 30 seconds and leaves nothing in the duration store; in particular every
  shorter delay that a step asks for (10 seconds while Slurm's counts are wrong, say) is overridden. If it panics,
  a pod has no annotations, a revision has no labels, the extra configuration of slurmd is malformed, an equal
  revision is found among none, or the history limit is negative. Without any of these (\<open>panic_free\<close>: all pods
  and revisions that the API server answers with, and the pods in memory before, have annotations and labels) it
  returns, whatever else the API server and Slurm answer.
\<close>

theorem Reconcile_requeues:
  assumes "w_GetNodeSet W (log s) req = Inr ns" and "ns_Key ns = req" and "ns_DeletionTimestamp ns = None"
    and "retry_ok W"
    and "\<forall>h r e. w_CreateRevision W h r = Inl e \<and> IsAlreadyExists e \<longrightarrow> cr_Name r \<in> taken"
    and "\<forall>cr. \<exists>d \<ge> - (2 ^ 31). d < 2 ^ 31 \<and> revision_name W ns cr d \<notin> taken"
    and "- (2 ^ 31) \<le> deref (status_CollisionCount (ns_Status ns)) 0"
    and "deref (status_CollisionCount (ns_Status ns)) 0 < 2 ^ 31"
  shows "\<exists>out t. Reconcile W propagated req s = Some (out, t) \<and>
    (panic_free W (SetNodeSetDefaults ns) s \<longrightarrow> (\<exists>d e. out = Returned d e)) \<and>
    (\<forall>d e. out = Returned d e \<longrightarrow> 30 * Second \<le> d \<and> durs t (nsname_String req) = None) \<and>
    (\<forall>c. out = Crashed c \<longrightarrow> caused False W (SetNodeSetDefaults ns) c)"
proof -
  let ?ns = "SetNodeSetDefaults ns"
  let ?s = "s\<lparr>log := Rd (GotNodeSet req (Inr ns)) # log s\<rparr>"
  let ?full = "complete_answers W \<and> (\<forall>r. annotated (heap s r))"
  have "getNodeSetRevisions W ?ns revs u \<noteq> None" for revs u
    by (rule getNodeSetRevisions_returns [OF assms(5)]) (use assms(6-8) in simp_all)
  then obtain e t where live: "Sync_live W propagated ?ns ?s = Some (e, t)"
    using Sync_live_returns by blast
  have "due (KeyFunc ?ns) (30 * Second) t"
    by (rule requeue.Sync_live_kept [OF assms(4) sync_revisions_due [OF assms(4)] live])
  then obtain x where x: "durs t (nsname_String req) = Some (Cell x)" "30 * Second \<le> x"
    using assms(2) by (auto simp: due_def KeyFunc_def)
  have "explained ?full W ?ns (log s) ?s"
    by (rule explained_event) (auto simp: explained_def)
  then have "explained ?full W ?ns (log s) t"
    using causes.Sync_live_kept [OF assms(4) _ live] keepsD [OF causes.sync_revisions_kept [OF assms(4)]] by blast
  then have "caused ?full W ?ns c" if "first_panic s t = Some c" for c
    using first_panic_in [OF that] by (auto simp: explained_def)
  moreover have "Sync W propagated req s = Some (e, t)"
    using live assms(1,3) by (simp add: Sync_def call_defs IsZero_def)
  ultimately show ?thesis
    using x panic_free_no_cause [of W ?ns s]
    by (cases "first_panic s t") (auto simp: Reconcile_def dur_Pop_def intro: caused_mono)
qed

definition live_world :: world where
  "live_world = quiet_world\<lparr>w_GetNodeSet := (\<lambda>h k. Inr sample_nodeset)\<rparr>"

lemma live_world_simps:
  "w_GetNodeSet live_world h k = Inr sample_nodeset" "w_CreateRevision live_world h r = Inr r"
  "retry_ok live_world" "ns_Key sample_nodeset = (''slurm'', ''gpu'')" "ns_DeletionTimestamp sample_nodeset = None"
  "deref (status_CollisionCount (ns_Status sample_nodeset)) 0 = 0"
  by (simp_all add: live_world_def quiet_world_def retry_ok_def retries.last_try sample_nodeset_def empty_nodeset_def
      empty_nodeset_status_def ns_Key_def)

definition annotated_memory :: st where
  "annotated_memory = st_init\<lparr>heap := (\<lambda>r. empty_pod\<lparr>pod_Annotations := Some Map.empty\<rparr>)\<rparr>"

lemma live_world_panic_free: "panic_free live_world (SetNodeSetDefaults sample_nodeset) annotated_memory"
proof -
  have "complete_answers live_world"
    by (auto simp: complete_answers_def live_world_def quiet_world_def annotated_def list_all_iff)
  moreover have "spec_ExtraConf (ns_Spec (SetNodeSetDefaults sample_nodeset)) = ''''"
    "0 \<le> spec_RevisionHistoryLimit (ns_Spec (SetNodeSetDefaults sample_nodeset))"
    by (simp_all add: SetNodeSetDefaults_def SetNodeSetDefaults_spec_def sample_nodeset_def empty_nodeset_spec_def Let_def)
  moreover have "annotated (heap annotated_memory r)" "w_FindEqualRevisions live_world [] cr = []" for r cr
    by (simp_all add: annotated_def annotated_memory_def live_world_def quiet_world_def)
  ultimately show ?thesis
    using no_extra_conf by (simp add: panic_free_def)
qed

text \<open>A reconcile that returns: the API server knows the NodeSet \<^verbatim>\<open>gpu\<close> and no pods.\<close>

theorem Reconcile_requeues_witness:
  "\<exists>d e t. Reconcile live_world [] (''slurm'', ''gpu'') annotated_memory = Some (Returned d e, t) \<and> 30 * Second \<le> d \<and>
    durs t (nsname_String (''slurm'', ''gpu'')) = None"
proof -
  have "\<exists>out t. Reconcile live_world [] (''slurm'', ''gpu'') annotated_memory = Some (out, t) \<and>
      (panic_free live_world (SetNodeSetDefaults sample_nodeset) annotated_memory \<longrightarrow> (\<exists>d e. out = Returned d e)) \<and>
      (\<forall>d e. out = Returned d e \<longrightarrow> 30 * Second \<le> d \<and> durs t (nsname_String (''slurm'', ''gpu'')) = None) \<and>
      (\<forall>c. out = Crashed c \<longrightarrow> caused False live_world (SetNodeSetDefaults sample_nodeset) c)"
    by (rule Reconcile_requeues [of live_world annotated_memory "(''slurm'', ''gpu'')" sample_nodeset "{}"])
      (simp_all add: live_world_simps exI [of _ 0])
  with live_world_panic_free show ?thesis by blast
qed

section \<open>Waiting for the expectations\<close>

text \<open>
  After the history \<open>base\<close>, pods and claims are only created and deleted once the expectations of the
  NodeSet were satisfied.
\<close>

definition scaling_write :: "ev \<Rightarrow> bool" where
  "scaling_write e \<longleftrightarrow> pod_creates e \<or> pod_deletes e \<or> claim_writes e"

definition gated :: "string \<Rightarrow> history \<Rightarrow> history \<Rightarrow> ev \<Rightarrow> bool" where
  "gated k base h e \<longleftrightarrow> (\<forall>b. h = b @ base \<and> scaling_write e \<longrightarrow> Rd (Satisfied k True) \<in> set b)"

definition passed :: "string \<Rightarrow> history \<Rightarrow> st \<Rightarrow> bool" where
  "passed k base s \<longleftrightarrow> logs (gated k base) s \<and> (\<exists>b. log s = b @ base \<and> Rd (Satisfied k True) \<in> set b)"

lemma passed_event: "passed k base s \<Longrightarrow> passed k base (s\<lparr>log := e # log s\<rparr>)"
proof -
  assume "passed k base s"
  then obtain b where "ok_log (gated k base) (log s)" "log s = b @ base" "Rd (Satisfied k True) \<in> set b"
    by (auto simp: passed_def logs_def)
  moreover from this have "e # log s = (e # b) @ base" by simp
  ultimately show "passed k base (s\<lparr>log := e # log s\<rparr>)"
    unfolding passed_def by (auto simp: gated_def intro!: exI [of _ "e # b"])
qed

interpretation gate: monotone False W ns "passed k base"
  by unfold_locales (simp_all add: passed_event, simp_all add: passed_def logs_def)

lemma gated_permits [simp]:
  "permits (gated k base) reads" "permits (gated k base) controls" "permits (gated k base) kube_writes"
  "permits (gated k base) slurm_writes" "permits (gated k base) pod_updates" "permits (gated k base) revision_writes"
  unfolding permits_def gated_def scaling_write_def
  by (auto elim: pod_creates.elims pod_deletes.elims claim_writes.elims simp: reads_def controls_def)

text \<open>
  The operations that run whether or not the expectations are satisfied: they create and delete no pods
  and touch no claims.
\<close>

locale bookkeeping =
  fixes Q :: "history \<Rightarrow> ev \<Rightarrow> bool"
  assumes permitted [simp, intro!]: "permits Q reads" "permits Q controls" "permits Q kube_writes"
    "permits Q slurm_writes" "permits Q pod_updates" "permits Q revision_writes"
begin

lemma count_nodes_for_allowed [keeps_intros]: "keeps (logs Q) (count_nodes_for W ns nodes k)"
  by (induction nodes arbitrary: k) (auto intro!: keeps_intros)

lemma pin_stands_allowed [keeps_intros]: "keeps (logs Q) (pin_stands W ns n)"
  unfolding pin_stands_def by (intro keeps_intros permitted)

lemma keep_pins_allowed [keeps_intros]: "keeps (logs Q) (keep_pins W ns es m)"
  by (induction es arbitrary: m) (auto intro!: keeps_intros)

lemma pin_pods_allowed [keeps_intros]: "keeps (logs Q) (pin_pods W ns ps m)"
  by (induction ps arbitrary: m) (auto intro!: keeps_intros)

lemma counters_allowed [keeps_intros]:
  "keeps (logs Q) (calculateReplicaStatus W ns ps cur upd)" "keeps (logs Q) (calculateOrdinalToNode W ns ps)"
  unfolding calculateReplicaStatus_def calculateOrdinalToNode_def getDesiredNodeCountForDaemonSet_def Let_def
  by (intro keeps_intros permitted)+

lemma syncNodeSetStatus_allowed [keeps_intros]:
  "retry_ok W \<Longrightarrow> keeps (logs Q) (syncNodeSetStatus W ns pods cur upd cc t)"
  unfolding syncNodeSetStatus_def publish_status_def updateNodeSetStatus_def update_status_attempt_def
  by (intro keeps_intros keeps_retry permitted)

lemma update_conditions_allowed [keeps_intros]: "keeps (logs Q) (update_conditions W conds cs)"
  by (induction conds arbitrary: cs) (auto intro!: keeps_intros)

lemma updateNodeSetPodConditions_allowed [keeps_intros]: "keeps (logs Q) (updateNodeSetPodConditions W ss pods)"
  by (induction pods) (auto intro!: keeps_intros)

lemma syncStatus_allowed [keeps_intros]:
  "retry_ok W \<Longrightarrow> keeps (logs Q) (syncStatus W ns pods cur upd cc t errs)"
  unfolding syncStatus_def syncSlurmStatus_def syncNodeSetPodStatus_def updateNodeSetPodPDBLabels_def
    syncPodPDBLabelsFn_def
  by (intro keeps_intros permitted)

lemma revision_control_allowed [keeps_intros]:
  assumes "retry_ok W"
  shows "keeps (logs Q) (UpdateControllerRevision W cr n)" "keeps (logs Q) (AdoptControllerRevision W ns cr)"
  unfolding UpdateControllerRevision_def AdoptControllerRevision_def revision_update_def
  by (intro keeps_intros keeps_retry_revision permitted assms)+

lemma label_revisions_allowed [keeps_intros]: "keeps (logs Q) (label_revisions W rs)"
  by (induction rs) (auto intro!: keeps_intros)

lemma doAdoptOrphanRevisions_allowed [keeps_intros]:
  "retry_ok W \<Longrightarrow> keeps (logs Q) (doAdoptOrphanRevisions W ns rs)"
  by (induction rs) (auto intro!: keeps_intros)

lemma sync_revisions_allowed: "retry_ok W \<Longrightarrow> keeps (logs Q) (sync_revisions W ns)"
  unfolding sync_revisions_def adoptOrphanRevisions_def canAdoptFunc_def listRevisions_def ListControllerRevisions_def
    Let_def
  by (intro keeps_intros permitted)

lemma getNodeSetRevisions_allowed:
  "retry_ok W \<Longrightarrow> getNodeSetRevisions W ns rs s = Some (x, t) \<Longrightarrow> logs Q s \<Longrightarrow> logs Q t"
  by (rule getNodeSetRevisions_invariant [of "logs Q" W ns rs s x t]) (intro keeps_intros permitted; assumption)+

end

interpretation before_gate: bookkeeping "gated k base"
  by unfold_locales simp_all

lemma gate_passed:
  assumes "logs (gated k base) s" and "extends base s"
  shows "passed k base (s\<lparr>log := Rd (Satisfied k True) # log s\<rparr>)"
proof -
  obtain b where "log s = b @ base"
    using assms(2) by (auto simp: extends_def suffix_def)
  with assms(1) show ?thesis
    unfolding passed_def
    by (auto simp: permitsD [OF gated_permits(1)] logs_def intro!: exI [of _ "Rd (Satisfied k True) # b"])
qed

lemma sync_pods_gated:
  assumes "retry_ok W" and "logs (gated (KeyFunc ns) base) s \<and> extends base s"
  shows "logs (gated (KeyFunc ns) base) (snd (run_state (sync_pods W propagated ns revs cur upd cc) s))"
proof -
  let ?Q = "logs (gated (KeyFunc ns) base)"
  let ?G = "\<lambda>s. ?Q s \<and> extends base s"
  let ?P = "passed (KeyFunc ns) base"
  have pods: "triple ?G (getNodeSetPods W ns) (\<lambda>_. ?G)"
    by (intro triple_keeps keeps_conj keeps_getNodeSetPods growth.revisions_kept gated_permits)
  have alloc: "triple ?G (alloc_pods ps) (\<lambda>_. ?G)" for ps
    by (rule tripleI) (simp add: alloc_pods_def extends_def)
  have ask: "triple ?G (SatisfiedExpectations W (KeyFunc ns)) (\<lambda>b s. ?G s \<and> (b \<longrightarrow> ?P s))"
    using gate_passed permitsD [OF gated_permits(1)]
    by (intro tripleI) (auto simp: call_defs logsD extends_def suffix_ConsI)
  have status: "triple (\<lambda>s. ?G s \<and> (b \<longrightarrow> ?P s)) (syncStatus W ns pods cur upd cc t errs) (\<lambda>_. ?Q)" for b pods t errs
    using before_gate.syncStatus_allowed [OF assms(1)] by (auto simp: keeps_def triple_def)
  have later: "triple (\<lambda>s. ?G s \<and> (b \<longrightarrow> ?P s)) m (\<lambda>_. ?Q)" if "b" "keeps ?P m" for b and m :: "error prog"
    using that by (auto simp: keeps_def triple_def passed_def)
  have "triple ?G (sync_pods W propagated ns revs cur upd cc) (\<lambda>_. ?Q)"
    unfolding sync_pods_def Let_def
    by (rule triple_with_value [OF pods], rule triple_bind [OF alloc], rule triple_bind [OF ask],
        rule triple_if [OF status later])
      (auto intro!: keeps_intros assms(1))
  with assms(2) show ?thesis
    by (auto simp: triple_def split: prod.splits)
qed

lemma Sync_live_gated:
  assumes "retry_ok W" and s: "logs (gated (KeyFunc ns) base) s" "extends base s"
    and "Sync_live W propagated ns s = Some (e, t)"
  shows "logs (gated (KeyFunc ns) base) t"
proof -
  let ?G = "\<lambda>s. logs (gated (KeyFunc ns) base) s \<and> extends base s"
  let ?l = "run_state (sync_revisions W ns) s"
  have l: "?G (snd ?l)"
    using keepsD [OF before_gate.sync_revisions_allowed [OF assms(1)] s(1)]
      keepsD [OF growth.sync_revisions_kept [OF assms(1)] s(2)] by blast
  show ?thesis
  proof (cases "fst ?l")
    case (Inl err)
    with assms(4) l show ?thesis by (simp add: Sync_live_def Let_def)
  next
    case (Inr revisions)
    from Sync_live_cases [OF assms(4) Inr] obtain r cc revs u where
      g: "getNodeSetRevisions W ns revisions (snd ?l) = Some ((r, cc, revs), u)"
      and t: "t = (case r of Inl err \<Rightarrow> u
        | Inr c \<Rightarrow> snd (run_state (sync_pods W propagated ns revs (fst c) (snd c) cc) u))" by blast
    have "?G u"
      using before_gate.getNodeSetRevisions_allowed [OF assms(1) g] growth.getNodeSetRevisions_kept [OF assms(1) g] l
      by blast
    then show ?thesis
      unfolding t using sync_pods_gated [OF assms(1)] by (auto split: sum.split)
  qed
qed

lemma gated_harmless [simp]: "gated k base h (Rd x)" "gated k base h (Ctl y)"
  by (simp_all add: gated_def scaling_write_def)

lemma gated_from_start: "logs (gated k (log s)) s"
proof -
  have "gated k (log s) b e" if "log s = a @ e # b" for a e b
    using that by (auto simp: gated_def)
  then show ?thesis
    by (simp add: logs_def ok_log_iff)
qed

text \<open>
  C2. A sync creates or deletes a pod, and creates or changes a claim, only after it has asked whether
  the expectations of the NodeSet are satisfied and the answer was yes. So it never acts on pods while
  the informer cache still lacks the effects of an earlier sync.
\<close>

theorem Sync_waits_for_expectations:
  assumes "retry_ok W" and "\<forall>ns. w_GetNodeSet W (log s) req = Inr ns \<longrightarrow> ns_Key ns = req"
    and "Sync W propagated req s = Some (err, t)"
  shows "\<forall>a e b. log t = a @ e # b @ log s \<and> (pod_creates e \<or> pod_deletes e \<or> claim_writes e) \<longrightarrow>
    Rd (Satisfied (nsname_String req) True) \<in> set b"
proof -
  let ?Q = "logs (gated (nsname_String req) (log s))"
  have start: "ok_log (gated (nsname_String req) (log s)) (log s)"
    using gated_from_start by (simp add: logs_def)
  have "?Q t"
  proof (cases "w_GetNodeSet W (log s) req")
    case (Inl x)
    with assms(3) start show ?thesis
      by (auto simp: Sync_def call_defs Let_def split: if_splits)
  next
    case (Inr ns)
    let ?s = "s\<lparr>log := Rd (GotNodeSet req (Inr ns)) # log s\<rparr>"
    have s: "?Q ?s" "extends (log s) ?s"
      using start by (simp_all add: extends_def suffix_ConsI)
    have "KeyFunc (SetNodeSetDefaults ns) = nsname_String req"
      using assms(2) Inr by (simp add: KeyFunc_def)
    with Sync_live_gated [OF assms(1), of "SetNodeSetDefaults ns" "log s" ?s propagated err t] s assms(3) Inr
    show ?thesis
      by (auto simp: Sync_def call_defs Let_def split: if_splits)
  qed
  then show ?thesis
    by (auto simp: logs_def ok_log_iff gated_def scaling_write_def)
qed

theorem Sync_waits_for_expectations_witness:
  "\<exists>err t. Sync live_world [] (''slurm'', ''gpu'') st_init = Some (err, t) \<and>
    (\<forall>a e b. log t = a @ e # b @ log st_init \<and> (pod_creates e \<or> pod_deletes e \<or> claim_writes e) \<longrightarrow>
      Rd (Satisfied (nsname_String (''slurm'', ''gpu'')) True) \<in> set b)"
proof -
  let ?s = "st_init\<lparr>log := Rd (GotNodeSet (''slurm'', ''gpu'') (Inr sample_nodeset)) # log st_init\<rparr>"
  have "getNodeSetRevisions live_world (SetNodeSetDefaults sample_nodeset) revs u \<noteq> None" for revs u
    by (rule getNodeSetRevisions_returns [of live_world "{}"]) (simp_all add: live_world_simps exI [of _ 0])
  then obtain err t where "Sync_live live_world [] (SetNodeSetDefaults sample_nodeset) ?s = Some (err, t)"
    using Sync_live_returns by blast
  then have run: "Sync live_world [] (''slurm'', ''gpu'') st_init = Some (err, t)"
    by (simp add: Sync_def call_defs IsZero_def live_world_simps)
  have "\<forall>ns. w_GetNodeSet live_world (log st_init) (''slurm'', ''gpu'') = Inr ns \<longrightarrow> ns_Key ns = (''slurm'', ''gpu'')"
    by (simp add: live_world_simps)
  from Sync_waits_for_expectations [OF live_world_simps(3) this run] run show ?thesis by blast
qed

end
