(* ===== verification/EventHandlers.thy ===== *)
theory EventHandlers
  imports Scaling Keys
begin

text \<open>
  The event handlers of the NodeSet controller (\<^verbatim>\<open>internal/controller/nodeset/eventhandler\<close>): what a
  change of a pod, a node, a Controller or a secret puts into the work queue, and which expectations it
  lowers.
\<close>

section \<open>The work queue\<close>

definition EnqueueRequestAfter :: "nodeset \<Rightarrow> duration \<Rightarrow> unit prog" where
  "EnqueueRequestAfter ns d = emit (Enqueued (ns_Namespace ns, ns_Name ns) d)"

definition EnqueueRequest :: "nodeset \<Rightarrow> unit prog" where
  "EnqueueRequest ns = EnqueueRequestAfter ns 0"

fun enqueue_all :: "nodeset list \<Rightarrow> unit prog" where
  "enqueue_all [] = State_Monad.return ()"
| "enqueue_all (ns # nodesets) = do { EnqueueRequest ns; enqueue_all nodesets }"

text \<open>\<^verbatim>\<open>kubecontroller.KeyFunc\<close>, which leaves the separator out when there is no namespace.\<close>

definition kube_KeyFunc :: "nodeset \<Rightarrow> string" where
  "kube_KeyFunc ns = (if ns_Namespace ns = '''' then ns_Name ns else ns_Namespace ns @ ''/'' @ ns_Name ns)"

section \<open>Pods\<close>

definition NodeSetKind :: string where "NodeSetKind = ''NodeSet''"
definition NodeSetAPIVersion :: string where "NodeSetAPIVersion = ''slinky.slurm.net/v1beta1''"

definition resolveControllerRef :: "world \<Rightarrow> string \<Rightarrow> owner_ref \<Rightarrow> nodeset option prog" where
  "resolveControllerRef W namespace controllerRef =
     (if or_Kind controllerRef \<noteq> NodeSetKind \<or> or_APIVersion controllerRef \<noteq> NodeSetAPIVersion
      then State_Monad.return None
      else do {
        g \<leftarrow> GetNodeSet W (namespace, or_Name controllerRef);
        State_Monad.return
          (case g of
             Inl _ \<Rightarrow> None
           | Inr nodeset \<Rightarrow> if ns_UID nodeset \<noteq> or_UID controllerRef then None else Some nodeset)
      })"

definition getPodNodeSets :: "world \<Rightarrow> pod \<Rightarrow> nodeset list prog" where
  "getPodNodeSets W p = do {
     g \<leftarrow> ListNodeSetsIn W (pod_Namespace p);
     State_Monad.return
       (case g of
          Inl _ \<Rightarrow> []
        | Inr nodesets \<Rightarrow> filter (\<lambda>ns. let selector = WithWorkerSelectorLabels ns Map.empty
            in \<not> (w_SelectorEmpty W selector \<or> \<not> w_SelectorMatches W selector (pod_Labels p))) nodesets)
   }"

text \<open>
  What a delete notification carries: a pod, a marker for a deletion that was missed, with the last known
  object, or something else. The last two can only be reported.
\<close>

datatype event_object = PodObject pod | Tombstone "pod option" | OtherObject

definition deleted_pod :: "world \<Rightarrow> pod \<Rightarrow> unit prog" where
  "deleted_pod W p =
     (case GetControllerOf (pod_OwnerReferences p) of
        None \<Rightarrow> State_Monad.return ()
      | Some controllerRef \<Rightarrow> do {
          r \<leftarrow> resolveControllerRef W (pod_Namespace p) controllerRef;
          case r of
            None \<Rightarrow> State_Monad.return ()
          | Some nodeset \<Rightarrow> do {
              emit (DeletionObserved (kube_KeyFunc nodeset) (PodKey p));
              EnqueueRequest nodeset
            }
        })"

definition deletePod :: "world \<Rightarrow> event_object \<Rightarrow> unit prog" where
  "deletePod W obj =
     (case obj of
        PodObject p \<Rightarrow> deleted_pod W p
      | Tombstone (Some p) \<Rightarrow> deleted_pod W p
      | Tombstone None \<Rightarrow> State_Monad.return ()
      | OtherObject \<Rightarrow> State_Monad.return ())"

definition createPod :: "world \<Rightarrow> pod \<Rightarrow> unit prog" where
  "createPod W p =
     (if pod_DeletionTimestamp p \<noteq> None then deletePod W (PodObject p)
      else case GetControllerOf (pod_OwnerReferences p) of
             Some controllerRef \<Rightarrow> do {
               r \<leftarrow> resolveControllerRef W (pod_Namespace p) controllerRef;
               case r of
                 None \<Rightarrow> State_Monad.return ()
               | Some nodeset \<Rightarrow> do {
                   emit (CreationObserved (kube_KeyFunc nodeset));
                   EnqueueRequest nodeset
                 }
             }
           | None \<Rightarrow> State_Monad.bind (getPodNodeSets W p) enqueue_all)"

text \<open>The pod did not become ready at this update, or it did and there is a time to wait.\<close>

definition enqueue_after_ready :: "world \<Rightarrow> nodeset \<Rightarrow> pod \<Rightarrow> pod \<Rightarrow> unit prog" where
  "enqueue_after_ready W nodeset curPod oldPod =
     (if \<not> w_IsPodReady W oldPod \<and> w_IsPodReady W curPod \<and> spec_MinReadySeconds (ns_Spec nodeset) > 0
      then EnqueueRequestAfter nodeset (spec_MinReadySeconds (ns_Spec nodeset) * Second + Second)
      else State_Monad.return ())"

definition updatePod :: "world \<Rightarrow> pod \<Rightarrow> pod \<Rightarrow> unit prog" where
  "updatePod W curPod oldPod =
     (if pod_ResourceVersion curPod = pod_ResourceVersion oldPod then State_Monad.return ()
      else let labelChanged = (pod_Labels curPod \<noteq> pod_Labels oldPod)
           in if pod_DeletionTimestamp curPod \<noteq> None
              then do {
                deletePod W (PodObject curPod);
                if labelChanged then deletePod W (PodObject oldPod) else State_Monad.return ()
              }
              else let curControllerRef = GetControllerOf (pod_OwnerReferences curPod);
                       oldControllerRef = GetControllerOf (pod_OwnerReferences oldPod);
                       controllerRefChanged = (curControllerRef \<noteq> oldControllerRef)
                   in do {
                     (case oldControllerRef of
                        Some ref \<Rightarrow>
                          if controllerRefChanged
                          then do {
                            r \<leftarrow> resolveControllerRef W (pod_Namespace oldPod) ref;
                            case r of None \<Rightarrow> State_Monad.return () | Some nodeset \<Rightarrow> EnqueueRequest nodeset
                          }
                          else State_Monad.return ()
                      | None \<Rightarrow> State_Monad.return ());
                     case curControllerRef of
                       Some ref \<Rightarrow> do {
                         r \<leftarrow> resolveControllerRef W (pod_Namespace curPod) ref;
                         case r of
                           None \<Rightarrow> State_Monad.return ()
                         | Some nodeset \<Rightarrow> do {
                             EnqueueRequest nodeset;
                             enqueue_after_ready W nodeset curPod oldPod
                           }
                       }
                     | None \<Rightarrow>
                         if labelChanged \<or> controllerRefChanged
                         then State_Monad.bind (getPodNodeSets W curPod) enqueue_all
                         else State_Monad.return ()
                   })"

definition PodEventHandler_Create :: "world \<Rightarrow> event_object \<Rightarrow> unit prog" where
  "PodEventHandler_Create W obj = (case obj of PodObject p \<Rightarrow> createPod W p | _ \<Rightarrow> State_Monad.return ())"

definition PodEventHandler_Update :: "world \<Rightarrow> event_object \<Rightarrow> event_object \<Rightarrow> unit prog" where
  "PodEventHandler_Update W new old =
     (case (new, old) of (PodObject cur, PodObject prev) \<Rightarrow> updatePod W cur prev | _ \<Rightarrow> State_Monad.return ())"

definition PodEventHandler_Delete :: "world \<Rightarrow> event_object \<Rightarrow> unit prog" where
  "PodEventHandler_Delete W obj = deletePod W obj"

definition PodEventHandler_Generic :: "world \<Rightarrow> event_object \<Rightarrow> unit prog" where
  "PodEventHandler_Generic W obj =
     (case obj of
        PodObject p \<Rightarrow> do {
          g \<leftarrow> GetPod W (pod_Namespace p, pod_Name p);
          case g of
            Inl _ \<Rightarrow> State_Monad.return ()
          | Inr pod \<Rightarrow> do {
              nodesets \<leftarrow> getPodNodeSets W pod;
              enqueue_all (filter (\<lambda>ns. IsPodFromNodeSet ns pod) nodesets)
            }
        }
      | _ \<Rightarrow> State_Monad.return ())"

section \<open>Nodes\<close>

fun enqueue_owners :: "world \<Rightarrow> pod list \<Rightarrow> unit prog" where
  "enqueue_owners W [] = State_Monad.return ()"
| "enqueue_owners W (p # pods) = do {
     (case GetControllerOf (pod_OwnerReferences p) of
        None \<Rightarrow> State_Monad.return ()
      | Some controllerRef \<Rightarrow> do {
          r \<leftarrow> resolveControllerRef W (pod_Namespace p) controllerRef;
          case r of None \<Rightarrow> State_Monad.return () | Some nodeset \<Rightarrow> EnqueueRequest nodeset
        });
     enqueue_owners W pods
   }"

definition enqueueNodeSetsForNode :: "world \<Rightarrow> node \<Rightarrow> unit prog" where
  "enqueueNodeSetsForNode W node = do {
     g \<leftarrow> ListPodsOn W (node_Name node);
     case g of Inl _ \<Rightarrow> State_Monad.return () | Inr pods \<Rightarrow> enqueue_owners W pods
   }"

text \<open>\<^verbatim>\<open>Semantic.DeepEqual\<close> does not distinguish nil and empty maps. The other handlers of nodes are blank.\<close>

definition NodeEventHandler_Update :: "world \<Rightarrow> node \<Rightarrow> node \<Rightarrow> unit prog" where
  "NodeEventHandler_Update W oldNode newNode =
     (if node_Unschedulable oldNode \<noteq> node_Unschedulable newNode \<or>
         mmake (node_Annotations oldNode) \<noteq> mmake (node_Annotations newNode) \<or>
         mmake (node_Labels oldNode) \<noteq> mmake (node_Labels newNode)
      then enqueueNodeSetsForNode W newNode else State_Monad.return ())"

section \<open>Controllers and secrets\<close>

definition ControllerEventHandler_enqueueRequest :: "world \<Rightarrow> slurm_controller option \<Rightarrow> unit prog" where
  "ControllerEventHandler_enqueueRequest W obj =
     (case obj of
        None \<Rightarrow> State_Monad.return ()
      | Some c \<Rightarrow> do {
          g \<leftarrow> GetNodeSetsForController W (Some c);
          case g of Inl _ \<Rightarrow> State_Monad.return () | Inr items \<Rightarrow> enqueue_all items
        })"

definition ControllerEventHandler_Update ::
  "world \<Rightarrow> slurm_controller option \<Rightarrow> slurm_controller option \<Rightarrow> unit prog" where
  "ControllerEventHandler_Update W old new = do {
     ControllerEventHandler_enqueueRequest W old;
     ControllerEventHandler_enqueueRequest W new
   }"

text \<open>
  An error while listing NodeSets is only logged; the list is nil then, and ranging over its items
  dereferences it.
\<close>

fun enqueue_for_secret :: "world \<Rightarrow> nsname \<Rightarrow> slurm_controller list \<Rightarrow> error prog" where
  "enqueue_for_secret W secretKey [] = ok"
| "enqueue_for_secret W secretKey (c # controllers) =
     (if nsname_String secretKey \<noteq> nsname_String (AuthSlurmKey c) \<and>
         nsname_String secretKey \<noteq> nsname_String (AuthJwtKey c)
      then enqueue_for_secret W secretKey controllers
      else do {
        g \<leftarrow> GetNodeSetsForController W (Some c);
        case g of
          Inl _ \<Rightarrow> fail (Panic ''nil pointer dereference'')
        | Inr nodesets \<Rightarrow> do {
            enqueue_all (filter (\<lambda>ns. ObjectReference_IsMatch (spec_ControllerRef (ns_Spec ns)) (ct_key c)) nodesets);
            enqueue_for_secret W secretKey controllers
          }
      })"

definition SecretEventHandler_enqueueRequest :: "world \<Rightarrow> nsname option \<Rightarrow> error prog" where
  "SecretEventHandler_enqueueRequest W obj =
     (case obj of
        None \<Rightarrow> ok
      | Some secretKey \<Rightarrow> do {
          g \<leftarrow> ListControllers W;
          enqueue_for_secret W secretKey (case g of Inl _ \<Rightarrow> [] | Inr controllers \<Rightarrow> controllers)
        })"

section \<open>Expectations are lowered only for the owner\<close>

fun observation :: "ev \<Rightarrow> string option" where
  "observation (Ctl (CreationObserved k)) = Some k"
| "observation (Ctl (DeletionObserved k p)) = Some k"
| "observation _ = None"

text \<open>
  An observation comes right after the read of the NodeSet that the controller reference of one of the
  pods names, with the kind, version, namespace, name and UID of that reference, and it lowers the
  expectations of that NodeSet; an observed deletion is that of the pod.
\<close>

definition observed_for :: "pod set \<Rightarrow> history \<Rightarrow> ev \<Rightarrow> bool" where
  "observed_for pods h e \<longleftrightarrow> (\<forall>k. observation e = Some k \<longrightarrow>
     (\<exists>p \<in> pods. \<exists>ref ns h'. GetControllerOf (pod_OwnerReferences p) = Some ref \<and>
        or_Kind ref = NodeSetKind \<and> or_APIVersion ref = NodeSetAPIVersion \<and>
        h = Rd (GotNodeSet (pod_Namespace p, or_Name ref) (Inr ns)) # h' \<and> ns_UID ns = or_UID ref \<and>
        k = kube_KeyFunc ns \<and> (\<forall>k' q. e = Ctl (DeletionObserved k' q) \<longrightarrow> q = PodKey p)))"

lemma observed_for_simps [simp]:
  "observed_for pods h (Rd x)" "observed_for pods h (Wr y)" "observed_for pods h (Ctl (Enqueued k d))"
  by (simp_all add: observed_for_def)

lemma observed_for_reads [simp]: "permits (observed_for pods) reads"
  by (auto simp: permits_def observed_for_def reads_def split: ev.splits)

lemma keeps_enqueue [keeps_intros]:
  "keeps (logs (observed_for pods)) (EnqueueRequestAfter ns d)" "keeps (logs (observed_for pods)) (EnqueueRequest ns)"
  unfolding EnqueueRequest_def EnqueueRequestAfter_def by (rule keeps_logs_emit, simp)+

lemma keeps_enqueue_all [keeps_intros]: "keeps (logs (observed_for pods)) (enqueue_all nodesets)"
  by (induction nodesets) (auto intro!: keeps_intros)

lemma keeps_resolve [keeps_intros]: "keeps (logs (observed_for pods)) (resolveControllerRef W n ref)"
  unfolding resolveControllerRef_def by (intro keeps_intros observed_for_reads)

lemma keeps_getPodNodeSets [keeps_intros]: "keeps (logs (observed_for pods)) (getPodNodeSets W p)"
  unfolding getPodNodeSets_def ListNodeSetsIn_def by (intro keeps_intros keeps_logs_call observed_for_simps)

lemma run_resolve:
  "run_state (resolveControllerRef W n ref) s =
     (if or_Kind ref \<noteq> NodeSetKind \<or> or_APIVersion ref \<noteq> NodeSetAPIVersion then (None, s)
      else let g = w_GetNodeSet W (log s) (n, or_Name ref)
           in (case g of Inl _ \<Rightarrow> None | Inr ns \<Rightarrow> if ns_UID ns \<noteq> or_UID ref then None else Some ns,
               s\<lparr>log := Rd (GotNodeSet (n, or_Name ref) g) # log s\<rparr>))"
  by (simp add: resolveControllerRef_def call_defs Let_def)

lemma keeps_deleted_pod: "p \<in> pods \<Longrightarrow> keeps (logs (observed_for pods)) (deleted_pod W p)"
  by (rule keepsI)
    (auto simp: deleted_pod_def run_resolve Let_def EnqueueRequest_def EnqueueRequestAfter_def observed_for_def
      split: option.split sum.split dest: logsD)

lemma keeps_deletePod:
  "(\<And>p. obj = PodObject p \<or> obj = Tombstone (Some p) \<Longrightarrow> p \<in> pods) \<Longrightarrow>
   keeps (logs (observed_for pods)) (deletePod W obj)"
  unfolding deletePod_def
  by (auto split: event_object.split option.split intro!: keeps_deleted_pod keeps_intros)

lemma keeps_createPod: "p \<in> pods \<Longrightarrow> keeps (logs (observed_for pods)) (createPod W p)"
proof -
  assume p: "p \<in> pods"
  have "keeps (logs (observed_for pods)) (do {
      r \<leftarrow> resolveControllerRef W (pod_Namespace p) ref;
      case r of None \<Rightarrow> State_Monad.return ()
      | Some nodeset \<Rightarrow> do { emit (CreationObserved (kube_KeyFunc nodeset)); EnqueueRequest nodeset } })"
    if "GetControllerOf (pod_OwnerReferences p) = Some ref" for ref
    using p that
    by (intro keepsI) (auto simp: run_resolve Let_def EnqueueRequest_def EnqueueRequestAfter_def observed_for_def
        split: option.split sum.split dest: logsD)
  with p show ?thesis
    unfolding createPod_def by (auto split: option.split intro!: keeps_deletePod keeps_intros)
qed

lemma keeps_updatePod: "{cur, old} \<subseteq> pods \<Longrightarrow> keeps (logs (observed_for pods)) (updatePod W cur old)"
  unfolding updatePod_def enqueue_after_ready_def Let_def
  by (intro keeps_intros keeps_deletePod) auto

text \<open>
  C37. Whatever happens to a pod, the handlers lower the expectations of a NodeSet only right after they
  read the NodeSet that the controller reference of the pod names, in the namespace of the pod and with the
  kind and version of NodeSets, and found the UID of the reference: a pod of a deleted NodeSet never counts for
  a new NodeSet of the same name, nor a pod of another kind of controller for a NodeSet.
\<close>

theorem pod_events_count_for_owner:
  "keeps (logs (observed_for {cur})) (PodEventHandler_Create W (PodObject cur)) \<and>
   keeps (logs (observed_for {cur})) (PodEventHandler_Delete W (PodObject cur)) \<and>
   keeps (logs (observed_for {cur})) (PodEventHandler_Delete W (Tombstone (Some cur))) \<and>
   keeps (logs (observed_for {cur, old})) (PodEventHandler_Update W (PodObject cur) (PodObject old)) \<and>
   keeps (logs (observed_for {})) (PodEventHandler_Generic W (PodObject cur))"
  unfolding PodEventHandler_Create_def PodEventHandler_Delete_def PodEventHandler_Update_def PodEventHandler_Generic_def
  by (auto intro!: keeps_createPod keeps_deletePod keeps_updatePod keeps_intros)

section \<open>The owner of a pod is woken\<close>

text \<open>
  When a pod whose controller is a NodeSet appears or goes away, the expectation of that NodeSet is
  lowered exactly once and the NodeSet is put into the work queue at once; a pod that shows up while it
  is being deleted counts as a deletion. An update of a pod lowers no expectation, but queues the NodeSet.
\<close>

theorem pod_events_wake_owner:
  assumes "GetControllerOf (pod_OwnerReferences p) = Some ref" and "or_Kind ref = NodeSetKind"
    and "or_APIVersion ref = NodeSetAPIVersion"
    and "w_GetNodeSet W (log s) (pod_Namespace p, or_Name ref) = Inr ns" and "ns_UID ns = or_UID ref"
  shows "log (snd (run_state (PodEventHandler_Delete W (PodObject p)) s)) =
      [Ctl (Enqueued (ns_Key ns) 0), Ctl (DeletionObserved (kube_KeyFunc ns) (PodKey p)),
       Rd (GotNodeSet (pod_Namespace p, or_Name ref) (Inr ns))] @ log s \<and>
    (if pod_DeletionTimestamp p = None
     then log (snd (run_state (PodEventHandler_Create W (PodObject p)) s)) =
       [Ctl (Enqueued (ns_Key ns) 0), Ctl (CreationObserved (kube_KeyFunc ns)),
        Rd (GotNodeSet (pod_Namespace p, or_Name ref) (Inr ns))] @ log s
     else PodEventHandler_Create W (PodObject p) = PodEventHandler_Delete W (PodObject p)) \<and>
    (if pod_DeletionTimestamp p = None \<and> pod_ResourceVersion p \<noteq> pod_ResourceVersion old \<and>
        GetControllerOf (pod_OwnerReferences old) = Some ref
     then \<exists>evs. log (snd (run_state (PodEventHandler_Update W (PodObject p) (PodObject old)) s)) =
         evs @ Ctl (Enqueued (ns_Key ns) 0) # Rd (GotNodeSet (pod_Namespace p, or_Name ref) (Inr ns)) # log s \<and>
         list_all (\<lambda>e. observation e = None) evs
     else True)"
  using assms
  by (auto simp: PodEventHandler_Create_def PodEventHandler_Delete_def PodEventHandler_Update_def deletePod_def
      deleted_pod_def createPod_def updatePod_def enqueue_after_ready_def run_resolve EnqueueRequest_def
      EnqueueRequestAfter_def ns_Key_def Let_def)

definition owned_pod :: pod where
  "owned_pod = empty_pod\<lparr>pod_Namespace := ''slurm'', pod_Name := ''gpu-0'',
     pod_OwnerReferences := [NewControllerRef (nodeset_owner sample_nodeset)]\<rparr>"

theorem pod_events_wake_owner_witness:
  "log (snd (run_state (PodEventHandler_Create (quiet_world\<lparr>w_GetNodeSet := (\<lambda>h k. Inr sample_nodeset)\<rparr>)
     (PodObject owned_pod)) st_init)) =
   [Ctl (Enqueued (''slurm'', ''gpu'') 0), Ctl (CreationObserved ''slurm/gpu''),
    Rd (GotNodeSet (''slurm'', ''gpu'') (Inr sample_nodeset))]"
proof -
  let ?W = "quiet_world\<lparr>w_GetNodeSet := (\<lambda>h k. Inr sample_nodeset)\<rparr>"
  let ?ref = "NewControllerRef (nodeset_owner sample_nodeset)"
  have "GetControllerOf (pod_OwnerReferences owned_pod) = Some ?ref" "or_Kind ?ref = NodeSetKind"
    "or_APIVersion ?ref = NodeSetAPIVersion" "ns_UID sample_nodeset = or_UID ?ref" "or_Name ?ref = ''gpu''"
    by (simp_all add: owned_pod_def GetControllerOf_def NewControllerRef_def nodeset_owner_def NodeSetKind_def
        NodeSetAPIVersion_def sample_nodeset_def)
  with pod_events_wake_owner [of owned_pod ?ref ?W st_init sample_nodeset owned_pod] show ?thesis
    by (simp add: owned_pod_def empty_pod_def ns_Key_def kube_KeyFunc_def sample_nodeset_def)
qed

text \<open>The handlers and the controller use the same key for the expectations of a NodeSet.\<close>

lemma handler_key_agrees: "ns_Namespace ns \<noteq> '''' \<Longrightarrow> kube_KeyFunc ns = KeyFunc ns"
  by (simp add: kube_KeyFunc_def KeyFunc_def ns_Key_def nsname_String_def)

text \<open>An error while listing NodeSets makes the handler of secrets panic.\<close>

lemma secret_event_panics:
  assumes "w_ListControllers W (log s) = Inr (c # cs)" and "k = AuthSlurmKey c \<or> k = AuthJwtKey c"
    and "\<And>h. w_ListNodeSets W h = Inl e"
  shows "fst (run_state (SecretEventHandler_enqueueRequest W (Some k)) s) = Some (Panic ''nil pointer dereference'')"
  using assms
  by (auto simp: SecretEventHandler_enqueueRequest_def GetNodeSetsForController_def call_defs)

end
