(* ===== verification/SlurmClientSync.thy ===== *)
theory SlurmClientSync
  imports EventHandlers DaemonBuilders
begin

text \<open>
  The registry of Slurm clients: the controller that keeps one authenticated REST client per Controller
  resource (\<^verbatim>\<open>internal/controller/slurmclient\<close>), and the JSON web tokens it signs
  (\<^verbatim>\<open>internal/controller/token/slurmjwt\<close>). The content of the client map is part of the state here: no
  other controller changes it.
\<close>

section \<open>Tokens\<close>

definition Hour :: duration where "Hour = 60 * Minute"

record jwt_builder =
  jt_signingKey :: string
  jt_method :: string
  jt_username :: string
  jt_lifetime :: duration

definition NewToken :: "string \<Rightarrow> jwt_builder" where
  "NewToken signingKey = \<lparr>jt_signingKey = signingKey, jt_method = ''HS256'', jt_username = ''slurm'', jt_lifetime = Hour\<rparr>"

definition slurmInfinite :: int where "slurmInfinite = 2 ^ 31 - 1 - 1"

definition WithLifetime :: "duration \<Rightarrow> jwt_builder \<Rightarrow> jwt_builder" where
  "WithLifetime lifetime t = t\<lparr>jt_lifetime := Clamp lifetime 0 (slurmInfinite * Second)\<rparr>"

definition WithUsername :: "string \<Rightarrow> jwt_builder \<Rightarrow> jwt_builder" where
  "WithUsername username t = t\<lparr>jt_username := username\<rparr>"

definition NewSignedToken :: "world \<Rightarrow> jwt_builder \<Rightarrow> (err + string) prog" where
  "NewSignedToken W t = do {
     now \<leftarrow> Now W;
     let claims = \<lparr>cl_Issuer = ''slurm-operator'', cl_IssuedAt = w_NumericDate W now,
                   cl_ExpiresAt = w_NumericDate W (now + jt_lifetime t), cl_NotBefore = w_NumericDate W now,
                   cl_SlurmUsername = jt_username t\<rparr>;
     r \<leftarrow> SignToken W claims (jt_method t) (jt_signingKey t);
     State_Monad.return (case r of Inl e \<Rightarrow> Inl (Wrapped ''failed to sign token'' e) | Inr x \<Rightarrow> Inr x)
   }"

text \<open>The claims: the results of \<^verbatim>\<open>GetExpirationTime\<close> and \<^verbatim>\<open>GetIssuedAt\<close>. Parsing checks them against the clock.\<close>

type_synonym claims = "(err + time option) \<times> (err + time option)"

definition ParseTokenClaims :: "world \<Rightarrow> string \<Rightarrow> string \<Rightarrow> (err + claims) prog" where
  "ParseTokenClaims W tokenString signingKey = do {
     now \<leftarrow> Now W;
     State_Monad.return
       (case w_ParseClaims W now tokenString signingKey of
          Inl e \<Rightarrow> Inl (Wrapped ''failed to parse JWT claims'' e)
        | Inr c \<Rightarrow> Inr c)
   }"

section \<open>The server\<close>

text \<open>\<open>debug\<close>: whether the environment variable \<^verbatim>\<open>DEBUG\<close> is 1.\<close>

definition getRestApiServer :: "world \<Rightarrow> bool \<Rightarrow> slurm_controller \<Rightarrow> (err + string) prog" where
  "getRestApiServer W debug controller =
     with_result (GetRestapisForController W (Some controller)) (\<lambda>items.
       State_Monad.return
         (case items of
            [] \<Rightarrow> Inl (GoError ''Not Found'')
          | r # _ \<Rightarrow>
              Inr (''http://'' @ (if debug then ''localhost'' else RestApi_ServiceFQDNShort r) @ '':'' @ Itoa SlurmrestdPort)))"

section \<open>Sync\<close>

definition clients_Get :: "nsname \<Rightarrow> client option prog" where
  "clients_Get k = State (\<lambda>s. (cm_Get (clients s) k, s))"

definition clients_Add :: "nsname \<Rightarrow> client \<Rightarrow> bool prog" where
  "clients_Add k c = State (\<lambda>s. (fst (cm_Add (clients s) k c), s\<lparr>clients := snd (cm_Add (clients s) k c)\<rparr>))"

definition clients_Remove :: "nsname \<Rightarrow> bool prog" where
  "clients_Remove k = State (\<lambda>s. (fst (cm_Remove (clients s) k), s\<lparr>clients := snd (cm_Remove (clients s) k)\<rparr>))"

definition durationStore_Peek :: "string \<Rightarrow> duration prog" where
  "durationStore_Peek k = State (\<lambda>s. (dur_Peek (durs s) k, s))"

definition register_client :: "world \<Rightarrow> nsname \<Rightarrow> string \<Rightarrow> string \<Rightarrow> error prog" where
  "register_client W controllerKey server authToken = do {
     c \<leftarrow> clients_Get controllerKey;
     case c of
       Some slurmClient \<Rightarrow> do { ConnectClient slurmClient server authToken; ok }
     | None \<Rightarrow> do {
         n \<leftarrow> NewClient W server authToken;
         case n of
           Inl e \<Rightarrow> fail (Wrapped ''failed to create slurm client'' e)
         | Inr slurmClient \<Rightarrow> do { clients_Add controllerKey slurmClient; ok }
       }
   }"

definition SlurmClient_Sync :: "world \<Rightarrow> bool \<Rightarrow> nsname \<Rightarrow> error prog" where
  "SlurmClient_Sync W debug req = do {
     g \<leftarrow> GetSlurmController W req;
     case g of
       Inl err \<Rightarrow> if IsNotFound err then do { clients_Remove req; ok } else fail err
     | Inr controller \<Rightarrow> (let controllerKey = ct_key controller in do {
         r \<leftarrow> getRestApiServer W debug controller;
         case r of
           Inl err \<Rightarrow>
             if IsNotFound err
             then do {
               clients_Remove controllerKey;
               durationStore_Push (nsname_String controllerKey) (10 * Second);
               ok
             }
             else fail err
         | Inr server \<Rightarrow>
             with_value (GetSecretKeyRef W (AuthJwtRef controller) (ct_Namespace controller)) (\<lambda>signingKey. do {
               let lifetime = 15 * Minute;
               let refresh = lifetime * 4 div 5;
               t \<leftarrow> NewSignedToken W (WithLifetime lifetime (NewToken signingKey));
               case t of
                 Inl e \<Rightarrow> fail (Wrapped ''failed to create Slurm auth token'' e)
               | Inr authToken \<Rightarrow> do {
                   p \<leftarrow> ParseTokenClaims W authToken signingKey;
                   case p of
                     Inl e \<Rightarrow> fail (Wrapped ''failed to parse Slurm auth token'' e)
                   | Inr authTokenClaims \<Rightarrow>
                       (case fst authTokenClaims of
                          Inl e \<Rightarrow> fail (Wrapped ''failed to get expiration time'' e)
                        | Inr exp \<Rightarrow> do {
                            d \<leftarrow> durationStore_Peek (nsname_String controllerKey);
                            (if d = 0 then durationStore_Push (nsname_String controllerKey) refresh
                             else State_Monad.return ());
                            register_client W controllerKey server authToken
                          })
                 }
             })
       })
   }"

text \<open>The deferred function pops the namespace of the request, not its key.\<close>

definition SlurmClient_Reconcile :: "world \<Rightarrow> bool \<Rightarrow> nsname \<Rightarrow> (duration \<times> error) prog" where
  "SlurmClient_Reconcile W debug req = do {
     retErr \<leftarrow> SlurmClient_Sync W debug req;
     requeueAfter \<leftarrow> durationStore_Pop (nsname_String req);
     durationStore_Pop (fst req);
     State_Monad.return (requeueAfter, retErr)
   }"

lemma run_clients [simp]:
  "run_state (clients_Get k) s = (cm_Get (clients s) k, s)"
  "run_state (clients_Add k c) s = (fst (cm_Add (clients s) k c), s\<lparr>clients := snd (cm_Add (clients s) k c)\<rparr>)"
  "run_state (clients_Remove k) s = (fst (cm_Remove (clients s) k), s\<lparr>clients := snd (cm_Remove (clients s) k)\<rparr>)"
  "run_state (durationStore_Peek j) s = (dur_Peek (durs s) j, s)"
  by (simp_all add: clients_Get_def clients_Add_def clients_Remove_def durationStore_Peek_def)

section \<open>The client map stays balanced\<close>

definition clients_ok :: "st \<Rightarrow> bool" where
  "clients_ok s \<longleftrightarrow> cm_reachable (clients s)"

lemma clients_ok_simps [simp]:
  "clients_ok (s\<lparr>log := h\<rparr>) = clients_ok s" "clients_ok (s\<lparr>durs := d\<rparr>) = clients_ok s"
  by (simp_all add: clients_ok_def)

lemma keeps_clients_ok [keeps_intros]:
  "keeps clients_ok (call f mk)" "keeps clients_ok (durationStore_Push k d)" "keeps clients_ok (durationStore_Pop k)"
  "keeps clients_ok (durationStore_Peek k)" "keeps clients_ok (clients_Get n)" "keeps clients_ok (clients_Add n c)"
  "keeps clients_ok (clients_Remove n)"
  by (rule keepsI, simp add: clients_ok_def cm_added cm_removed)+

lemma keeps_clients_ok_parts [keeps_intros]:
  "keeps clients_ok (getRestApiServer W debug c)" "keeps clients_ok (GetSecretKeyRef W sel n)"
  "keeps clients_ok (NewSignedToken W jb)" "keeps clients_ok (ParseTokenClaims W t k)"
  "keeps clients_ok (register_client W key a b)"
  unfolding getRestApiServer_def GetRestapisForController_def GetSecretKeyRef_def NewSignedToken_def
    ParseTokenClaims_def register_client_def call_defs Let_def
  by (intro keeps_intros)+

lemma SlurmClient_Sync_balanced: "keeps clients_ok (SlurmClient_Sync W debug req)"
  unfolding SlurmClient_Sync_def GetSlurmController_def Let_def by (intro keeps_intros)

section \<open>What a reconcile leaves\<close>

definition no_pushes :: "string \<Rightarrow> st \<Rightarrow> bool" where
  "no_pushes k s \<longleftrightarrow> durs s k = None"

lemma plain_pushes:
  "no_pushes k s \<Longrightarrow> durs (s\<lparr>durs := dur_Push dur_Greater (durs s) k d\<rparr>) k = Some (Cell d)"
  by (simp add: no_pushes_def dur_store_defs)

text \<open>The parts that only read leave the store and the clients alone, and the log grows.\<close>

definition same_stores :: "st \<Rightarrow> st \<Rightarrow> bool" where
  "same_stores s t \<longleftrightarrow> durs t = durs s \<and> clients t = clients s \<and> suffix (log s) (log t)"

lemma keeps_same_stores [keeps_intros]: "keeps (same_stores s) (call f mk)"
  by (rule keepsI) (simp add: same_stores_def suffix_ConsI)

lemma keeps_same_stores_parts:
  "keeps (same_stores s) (getRestApiServer W debug c)" "keeps (same_stores s) (GetSecretKeyRef W sel n)"
  "keeps (same_stores s) (NewSignedToken W jb)" "keeps (same_stores s) (ParseTokenClaims W t k)"
  unfolding getRestApiServer_def GetRestapisForController_def GetSecretKeyRef_def NewSignedToken_def
    ParseTokenClaims_def call_defs Let_def
  by (intro keeps_intros)+

lemma same_stores_run:
  assumes "keeps (same_stores s) m" and "run_state m s = (r, t)"
  shows "durs t = durs s" "clients t = clients s" "suffix (log s) (log t)"
  using keepsD [OF assms(1), of s] assms(2) by (simp_all add: same_stores_def)

text \<open>
  From \<open>s\<close> to \<open>t\<close> the clock was read and a token signed that is issued at that time and expires after
  \<open>lifetime\<close>; and in the end this token was given to the client \<open>c\<close>, by creating the client with it or by
  replacing the token of the client.
\<close>

definition given_to :: "client \<Rightarrow> string \<Rightarrow> ev \<Rightarrow> bool" where
  "given_to c authToken e \<longleftrightarrow>
     (\<exists>server. e = Wr (ConnectedClient c server authToken) \<or> e = Rd (MadeClient server authToken (Inr c)))"

definition issued_for :: "world \<Rightarrow> time \<Rightarrow> duration \<Rightarrow> token_claims \<Rightarrow> bool" where
  "issued_for W now lifetime cl \<longleftrightarrow>
     cl_IssuedAt cl = w_NumericDate W now \<and> cl_NotBefore cl = w_NumericDate W now \<and>
     cl_ExpiresAt cl = w_NumericDate W (now + lifetime)"

definition fresh_token :: "world \<Rightarrow> client \<Rightarrow> duration \<Rightarrow> st \<Rightarrow> st \<Rightarrow> bool" where
  "fresh_token W c lifetime s t \<longleftrightarrow>
     (\<exists>e l h now cl signingKey authToken. log t = e # l \<and> given_to c authToken e \<and>
        suffix (Rd (SignedToken cl ''HS256'' signingKey (Inr authToken)) # Rd (Clock now) # h) l \<and> suffix (log s) h \<and>
        issued_for W now lifetime cl)"

lemma NewSignedToken_signs:
  assumes "run_state (NewSignedToken W jb) v = (Inr authToken, w)"
  shows "\<exists>cl now. log w = Rd (SignedToken cl (jt_method jb) (jt_signingKey jb) (Inr authToken)) # Rd (Clock now) # log v \<and>
    issued_for W now (jt_lifetime jb) cl"
  using assms by (auto simp: NewSignedToken_def call_defs Let_def issued_for_def split: sum.splits)

lemma register_client_registers:
  assumes "run_state (register_client W k a b) s = (None, t)"
  shows "durs t = durs s \<and> (\<exists>c e. cm_Get (clients t) k = Some c \<and> log t = e # log s \<and> given_to c b e)"
proof -
  have "cm_Get (snd (cm_Add m k c)) k = Some c" for m c
    by (simp add: cm_defs split: option.split)
  with assms show ?thesis
    by (auto simp: register_client_def call_defs given_to_def split: option.splits sum.splits)
qed

text \<open>One successful run of the part that signs a token and registers the client.\<close>

lemma SlurmClient_Sync_outcome:
  assumes get: "w_GetSlurmController W (log s) req = Inr c" and key: "ct_key c = req"
    and run: "run_state (SlurmClient_Sync W debug req) s = (None, t)" and fresh: "durs s (nsname_String req) = None"
  shows "(\<exists>cl. cm_Get (clients t) req = Some cl \<and> fresh_token W cl (15 * Minute) s t \<and>
            durs t (nsname_String req) = Some (Cell (12 * Minute))) \<or>
         (cm_Get (clients t) req = None \<and> durs t (nsname_String req) = Some (Cell (10 * Second)))"
proof -
  let ?s = "s\<lparr>log := Rd (GotSlurmController req (Inr c)) # log s\<rparr>"
  obtain r u where r: "run_state (getRestApiServer W debug c) ?s = (r, u)" by fastforce
  note u = same_stores_run [OF keeps_same_stores_parts(1) r]
  show ?thesis
  proof (cases r)
    case (Inl e)
    have "cm_Get (snd (cm_Remove m req)) req = None" for m
      by (simp add: cm_defs split: option.split)
    with Inl run r get key fresh u show ?thesis
      by (auto simp: SlurmClient_Sync_def call_defs dur_store_defs split: if_splits)
  next
    case (Inr server)
    obtain k v where k: "run_state (GetSecretKeyRef W (AuthJwtRef c) (ct_Namespace c)) u = (k, v)" by fastforce
    note v = same_stores_run [OF keeps_same_stores_parts(2) k]
    from run r Inr k get key obtain signingKey where sk: "k = Inr signingKey"
      by (cases k) (auto simp: SlurmClient_Sync_def call_defs Let_def)
    obtain tok w where tok: "run_state (NewSignedToken W (WithLifetime (15 * Minute) (NewToken signingKey))) v = (tok, w)"
      by fastforce
    note w = same_stores_run [OF keeps_same_stores_parts(3) tok]
    from run r Inr k get key sk tok obtain authToken where at: "tok = Inr authToken"
      by (cases tok) (auto simp: SlurmClient_Sync_def call_defs Let_def)
    obtain p x where p: "run_state (ParseTokenClaims W authToken signingKey) w = (p, x)" by fastforce
    note x = same_stores_run [OF keeps_same_stores_parts(4) p]
    from run r Inr k get key sk tok at p obtain exp iat where pc: "p = Inr (Inr exp, iat)"
      by (cases p) (auto simp: SlurmClient_Sync_def call_defs Let_def split: sum.splits)
    let ?y = "x\<lparr>durs := dur_Push dur_Greater (durs x) (nsname_String req) (12 * Minute)\<rparr>"
    have none: "durs x (nsname_String req) = None"
      using fresh u(1) v(1) w(1) x(1) by simp
    have "run_state (register_client W req server authToken) ?y = (None, t)"
      using run r Inr k get key sk tok at p pc none
      by (simp add: SlurmClient_Sync_def call_defs dur_Peek_def Let_def)
    note reg = register_client_registers [OF this]
    have life: "jt_lifetime (WithLifetime (15 * Minute) (NewToken signingKey)) = 15 * Minute"
      "jt_method (WithLifetime (15 * Minute) (NewToken signingKey)) = ''HS256''"
      by (simp_all add: WithLifetime_def NewToken_def Clamp_def slurmInfinite_def Minute_def Second_def Let_def)
    have past: "suffix (log s) (log v)"
      using u(3) v(3) by (auto dest: suffix_order.trans suffix_ConsD)
    from NewSignedToken_signs [OF tok [unfolded at]] reg x(3) past
    have "\<exists>cl. cm_Get (clients t) req = Some cl \<and> fresh_token W cl (15 * Minute) s t"
      unfolding fresh_token_def life by fastforce
    with reg none show ?thesis
      by (simp add: dur_store_defs)
  qed
qed

text \<open>
  C39. After a reconcile of an existing Controller without error there is a client for it that was given a
  token in this reconcile: a token that expires 15 minutes after the time at which it was issued. The next
  reconcile, which signs a new token, comes after 12 minutes, and so before the expiry; or the client was
  removed, and the next reconcile comes after 10 seconds.
\<close>

theorem slurm_client_refreshed_in_time:
  assumes "w_GetSlurmController W (log s) req = Inr c" and "ct_key c = req"
    and "durs s (nsname_String req) = None"
    and "run_state (SlurmClient_Reconcile W debug req) s = ((d, None), t)"
  shows "(\<exists>cl lifetime. cm_Get (clients t) req = Some cl \<and> fresh_token W cl lifetime s t \<and>
            lifetime = 15 * Minute \<and> d = 12 * Minute \<and> d < lifetime) \<or>
         (cm_Get (clients t) req = None \<and> d = 10 * Second)"
proof -
  obtain e u where u: "run_state (SlurmClient_Sync W debug req) s = (e, u)" by fastforce
  with assms(4) have e: "e = None" and d: "d = fst (dur_Pop (durs u) (nsname_String req))" and t: "clients t = clients u"
    and l: "log t = log u"
    by (auto simp: SlurmClient_Reconcile_def)
  have Minute_positive: "0 < Minute" by (simp add: Minute_def Second_def)
  have f: "fresh_token W cl (15 * Minute) s t = fresh_token W cl (15 * Minute) s u" for cl
    by (simp add: fresh_token_def l)
  from SlurmClient_Sync_outcome [OF assms(1,2) u [unfolded e] assms(3)] show ?thesis
    unfolding d t by (auto simp: f dur_Pop_def Minute_positive)
qed

definition sample_controller :: slurm_controller where
  "sample_controller = empty_controller\<lparr>ct_Namespace := ''slurm'', ct_Name := ''main'',
     ct_JwtKeyRef := Some \<lparr>sks_Name = ''jwt'', sks_Key = ''key''\<rparr>\<rparr>"

definition served_world :: world where
  "served_world = quiet_world\<lparr>w_GetSlurmController := (\<lambda>h k. Inr sample_controller),
     w_ListRestapis := (\<lambda>h. Inr [empty_restapi\<lparr>ra_Namespace := ''slurm'', ra_Name := ''rest'', ra_ControllerRef := (''slurm'', ''main'')\<rparr>]),
     w_GetSecretData := (\<lambda>h k. Inr [''key'' \<mapsto> ''secret''])\<rparr>"

text \<open>The first reconcile of the Controller \<^verbatim>\<open>main\<close>, which has a RestApi and a JWT key: it ends with a client and its token.\<close>

theorem slurm_client_refreshed_in_time_witness:
  "\<exists>t cl. run_state (SlurmClient_Reconcile served_world False (''slurm'', ''main'')) st_init = ((12 * Minute, None), t) \<and>
    cm_Get (clients t) (''slurm'', ''main'') = Some cl \<and> fresh_token served_world cl (15 * Minute) st_init t"
proof -
  let ?req = "(''slurm'', ''main'')"
  let ?r = "run_state (SlurmClient_Reconcile served_world False ?req) st_init"
  have c: "w_GetSlurmController served_world (log st_init) ?req = Inr sample_controller" "ct_key sample_controller = ?req"
    "durs st_init (nsname_String ?req) = None"
    by (simp_all add: served_world_def sample_controller_def ct_key_def st_init_def NewDurationStore_def)
  have "snd (fst ?r) = None \<and> cm_Get (clients (snd ?r)) ?req \<noteq> None"
    by (simp add: SlurmClient_Reconcile_def SlurmClient_Sync_def getRestApiServer_def GetRestapisForController_def
        GetSecretKeyRef_def NewSignedToken_def ParseTokenClaims_def register_client_def call_defs Let_def served_world_def
        sample_controller_def ct_key_def ObjectReference_IsMatch_def AuthJwtRef_def deref_def quiet_world_def
        st_init_def NewClientMap_def cm_defs dur_Peek_def NewDurationStore_def)
  then obtain d t where r: "?r = ((d, None), t)" and cl: "cm_Get (clients t) ?req \<noteq> None"
    by (metis prod.collapse)
  from slurm_client_refreshed_in_time [OF c r] cl r show ?thesis by auto
qed

text \<open>
  When no RestApi serves a Controller, its client is neither removed nor is the Controller looked at
  again in 10 seconds, as the code intends: the error that \<open>getRestApiServer\<close> returns is not one that
  \<^verbatim>\<open>apierrors.IsNotFound\<close> recognises, and the sync fails.
\<close>

theorem slurm_client_kept_without_restapi:
  assumes "w_GetSlurmController W (log s) req = Inr c"
    and "w_ListRestapis W (Rd (GotSlurmController req (Inr c)) # log s) = Inr items"
    and "\<forall>r \<in> set items. \<not> ObjectReference_IsMatch (ra_ControllerRef r) (ct_key c)"
  shows "\<exists>t. run_state (SlurmClient_Sync W debug req) s = (Some (GoError ''Not Found''), t) \<and>
    clients t = clients s \<and> durs t = durs s"
proof -
  have "filter (\<lambda>r. ObjectReference_IsMatch (ra_ControllerRef r) (ct_key c)) items = []"
    using assms(3) by (simp add: filter_empty_conv)
  with assms(1,2) show ?thesis
    by (simp add: SlurmClient_Sync_def getRestApiServer_def GetRestapisForController_def call_defs Let_def)
qed

theorem slurm_client_kept_without_restapi_witness:
  "\<exists>t. run_state (SlurmClient_Sync (served_world\<lparr>w_ListRestapis := (\<lambda>h. Inr [])\<rparr>) False (''slurm'', ''main'')) st_init =
      (Some (GoError ''Not Found''), t) \<and> clients t = clients st_init \<and> durs t = durs st_init"
  by (rule slurm_client_kept_without_restapi [where c = sample_controller and items = "[]"])
    (simp_all add: served_world_def)

section \<open>Lifetimes\<close>

lemma WithLifetime_bounds: "0 \<le> jt_lifetime (WithLifetime d t) \<and> jt_lifetime (WithLifetime d t) \<le> slurmInfinite * Second"
  by (simp add: WithLifetime_def slurmInfinite_def Second_def Clamp_def Let_def)

end
