(* ===== verification/TokenSync.thy ===== *)
theory TokenSync
  imports SlurmClientSync Builders
begin

text \<open>
  The controller of \<^verbatim>\<open>Token\<close> resources (\<^verbatim>\<open>internal/controller/token\<close>): a secret with a signed JSON web
  token, which is rewritten when a fifth of its lifetime is left. Its keys and
  defaults are in \<open>Keys\<close>, the common builder of secrets in \<open>Builders\<close>.
\<close>

section \<open>The secret\<close>

definition BuildTokenSecret :: "world \<Rightarrow> token \<Rightarrow> (err + kobject) prog" where
  "BuildTokenSecret W token =
     with_result (GetSecretKeyRef W (jr_Selector (Token_JwtRef token)) (jr_Namespace (Token_JwtRef token))) (\<lambda>signingKey. do {
       t \<leftarrow> NewSignedToken W (WithLifetime (Token_Lifetime token) (WithUsername (Token_Username token) (NewToken signingKey)));
       case t of
         Inl e \<Rightarrow> State_Monad.return (Inl (Wrapped ''failed to create Slurm auth token'' e))
       | Inr authToken \<Rightarrow>
           with_result (GetObject W Secret (Token_JwtKey token)) (\<lambda>jwtSecret.
             State_Monad.return
               (case BuildSecret W (Token_SecretKey token) \<lparr>md_Annotations = tk_Annotations token, md_Labels = tk_Labels token\<rparr>
                       None (Some [sks_Key (Token_SecretRef token) \<mapsto> authToken])
                       (\<not> deref (tk_Refresh token) DefaultTokenRefresh) jwtSecret of
                  Inl e \<Rightarrow> Inl (Wrapped ''failed to build token secret'' e)
                | Inr o1 \<Rightarrow> Inr o1))
     })"

definition sync_token_secret :: "world \<Rightarrow> token \<Rightarrow> bool \<Rightarrow> error prog" where
  "sync_token_secret W token shouldUpdate = do {
     b \<leftarrow> BuildTokenSecret W token;
     case b of
       Inl e \<Rightarrow> fail (Wrapped ''failed to build'' e)
     | Inr object \<Rightarrow> do {
         e \<leftarrow> SyncObject W True object shouldUpdate;
         State_Monad.return (map_option (Wrapped ''failed to sync object'') e)
       }
   }"

section \<open>Refreshing\<close>

definition getExpTime :: "world \<Rightarrow> token \<Rightarrow> (err + time) prog" where
  "getExpTime W token =
     with_result (GetSecretKeyRef W (Token_SecretRef token) (tk_Namespace token)) (\<lambda>authToken.
     with_result (GetSecretKeyRef W (jr_Selector (Token_JwtRef token)) (jr_Namespace (Token_JwtRef token))) (\<lambda>signingKey. do {
       p \<leftarrow> ParseTokenClaims W authToken signingKey;
       case p of
         Inl e \<Rightarrow> State_Monad.return (Inl (Wrapped ''failed to parse Slurm auth token claims'' e))
       | Inr claims \<Rightarrow>
           (case fst claims of
              Inl e \<Rightarrow> State_Monad.return (Inl (Wrapped ''failed to get expiration time'' e))
            | Inr exp \<Rightarrow> do {
                now \<leftarrow> Now W;
                State_Monad.return (Inr (case exp of None \<Rightarrow> now | Some t \<Rightarrow> t))
              })
     }))"

text \<open>\<^verbatim>\<open>t.Sub(u)\<close> saturates; division of durations truncates towards zero.\<close>

definition time_Sub :: "time \<Rightarrow> time \<Rightarrow> duration" where
  "time_Sub t u = max (- (2 ^ 63)) (min (2 ^ 63 - 1) (t - u))"

definition trunc_div :: "int \<Rightarrow> int \<Rightarrow> int" where
  "trunc_div a b = (if 0 \<le> a then a div b else - ((- a) div b))"

definition refresh_time :: "token \<Rightarrow> time \<Rightarrow> time" where
  "refresh_time token expirationTime = expirationTime + trunc_div (wrap64 (- Token_Lifetime token)) 5"

definition token_Push :: "string \<Rightarrow> duration \<Rightarrow> unit prog" where
  "token_Push k d = State (\<lambda>s. ((), s\<lparr>durs := dur_Push dur_Less (durs s) k d\<rparr>))"

definition refresh_token :: "world \<Rightarrow> token \<Rightarrow> error prog" where
  "refresh_token W token =
     (if \<not> deref (tk_Refresh token) DefaultTokenRefresh then ok
      else do {
        now \<leftarrow> Now W;
        x \<leftarrow> getExpTime W token;
        case x of
          Inl err \<Rightarrow> if w_IsTokenExpired W err then sync_token_secret W token True else fail err
        | Inr expirationTime \<Rightarrow>
            if expirationTime = 0 then sync_token_secret W token True
            else let refreshTime = refresh_time token expirationTime
                 in do {
                   token_Push (nsname_String (Token_Key token)) (time_Sub refreshTime now);
                   if now < refreshTime then ok else sync_token_secret W token True
                 }
      })"

section \<open>Status\<close>

definition update_token_attempt ::
  "world \<Rightarrow> nsname \<Rightarrow> token_status \<Rightarrow> retry_locals \<Rightarrow> (error \<times> retry_locals) prog" where
  "update_token_attempt W tokenKey newStatus l = do {
     g \<leftarrow> GetToken W tokenKey;
     case g of
       Inl e \<Rightarrow> State_Monad.return (if IsNotFound e then None else Some e, l)
     | Inr toUpdate \<Rightarrow> do {
         e \<leftarrow> UpdateTokenStatus_api W toUpdate newStatus;
         State_Monad.return (e, l)
       }
   }"

definition token_updateStatus :: "world \<Rightarrow> token \<Rightarrow> token_status \<Rightarrow> error prog" where
  "token_updateStatus W token newStatus = do {
     r \<leftarrow> w_RetryOnConflict W (update_token_attempt W (Token_Key token) newStatus) (None, False);
     State_Monad.return (fst r)
   }"

definition token_syncStatus :: "world \<Rightarrow> token \<Rightarrow> error prog" where
  "token_syncStatus W token =
     with_value (GetSecretKeyRef W (Token_SecretRef token) (tk_Namespace token)) (\<lambda>authToken.
     with_value (GetSecretKeyRef W (jr_Selector (Token_JwtRef token)) (jr_Namespace (Token_JwtRef token))) (\<lambda>signingKey. do {
       p \<leftarrow> ParseTokenClaims W authToken signingKey;
       case p of
         Inl e \<Rightarrow> fail (Wrapped ''failed to parse Slurm auth token'' e)
       | Inr claims \<Rightarrow>
           (case snd claims of
              Inl e \<Rightarrow> fail (Wrapped ''failed to get issued at time'' e)
            | Inr iat \<Rightarrow>
                let newStatus = \<lparr>ts_IssuedAt = iat, ts_Conditions = MergeList [ts_Conditions (tk_Status token)]\<rparr>
                in if w_TokenDeepEqual W (tk_Status token) newStatus then ok
                   else do {
                     e \<leftarrow> token_updateStatus W token newStatus;
                     State_Monad.return (map_option (Wrapped ''error updating Token status'') e)
                   })
     }))"

section \<open>Sync\<close>

definition push_refresh :: "world \<Rightarrow> token \<Rightarrow> unit prog" where
  "push_refresh W token = do {
     now \<leftarrow> Now W;
     x \<leftarrow> getExpTime W token;
     case x of
       Inl _ \<Rightarrow> token_Push (nsname_String (Token_Key token)) (30 * Second)
     | Inr expirationTime \<Rightarrow>
         token_Push (nsname_String (Token_Key token)) (time_Sub (refresh_time token expirationTime) now)
   }"

definition token_steps :: "world \<Rightarrow> token \<Rightarrow> step list" where
  "token_steps W token =
     [\<lparr>step_Name = ''Secret'', step_SyncFn = sync_token_secret W token False, step_StopOnError = False\<rparr>,
      \<lparr>step_Name = ''Refresh'', step_SyncFn = refresh_token W token, step_StopOnError = False\<rparr>]"

definition run_token_steps :: "world \<Rightarrow> token \<Rightarrow> error prog" where
  "run_token_steps W token = do {
     e \<leftarrow> Sync_steps (token_steps W token);
     case e of
       None \<Rightarrow> token_syncStatus W token
     | Some err \<Rightarrow> do {
         se \<leftarrow> token_syncStatus W token;
         State_Monad.return (NewAggregate ([err] @
           (case se of None \<Rightarrow> [] | Some x \<Rightarrow> [Wrapped ''failed status syncFn'' x])))
       }
   }"

definition Token_Sync :: "world \<Rightarrow> nsname \<Rightarrow> error prog" where
  "Token_Sync W req = do {
     g \<leftarrow> GetToken W req;
     case g of
       Inl err \<Rightarrow> if IsNotFound err then ok else fail err
     | Inr obj \<Rightarrow>
         let token = SetTokenDefaults obj
         in if tk_DeletionTimestamp token \<noteq> None \<and> tk_DeletionTimestamp token \<noteq> Some 0 then ok
            else do { push_refresh W token; run_token_steps W token }
   }"


lemma run_token_Push [simp]:
  "run_state (token_Push k d) s = ((), s\<lparr>durs := dur_Push dur_Less (durs s) k d\<rparr>)"
  by (simp add: token_Push_def)

section \<open>What a sync of a token keeps\<close>

text \<open>
  A predicate that survives the events of class \<open>E\<close> and pushed durations is kept by a sync whose events
  are in \<open>E\<close>. Patches of objects are not assumed to be in \<open>E\<close>.
\<close>

locale token_frame =
  fixes I :: "st \<Rightarrow> bool" and E :: "ev \<Rightarrow> bool"
  assumes event: "E e \<Longrightarrow> I s \<Longrightarrow> I (s\<lparr>log := e # log s\<rparr>)"
    and push: "I s \<Longrightarrow> I (s\<lparr>durs := dur_Push dur_Less (durs s) k d\<rparr>)"
    and harmless: "reads e \<or> controls e \<Longrightarrow> E e"
    and writes: "E (Wr (CreatedObject x r))" "E (Wr (UpdatedTokenStatus t u r))"
begin

lemma call_kept: "(\<And>r. E (mk r)) \<Longrightarrow> keeps I (call f mk)"
  by (rule keepsI) (simp add: event)

lemma calls_kept [keeps_intros]:
  "keeps I (Now W)" "keeps I (GetSecretData W k)" "keeps I (GetToken W k)" "keeps I (SignToken W c m y)"
  "keeps I (GetObject W kd k)" "keeps I (CreateObject W x)" "keeps I (UpdateTokenStatus_api W t u)" "keeps I (emit z)"
  unfolding call_defs by (rule call_kept, simp add: harmless writes)+

lemma push_kept [keeps_intros]: "keeps I (token_Push j d)"
  by (rule keepsI) (simp add: push)

lemma parts_kept [keeps_intros]:
  "keeps I (GetSecretKeyRef W sel n)" "keeps I (NewSignedToken W b)" "keeps I (ParseTokenClaims W a y)"
  unfolding GetSecretKeyRef_def NewSignedToken_def ParseTokenClaims_def Let_def by (intro keeps_intros)+

lemma getExpTime_kept [keeps_intros]: "keeps I (getExpTime W token)"
  and BuildTokenSecret_kept [keeps_intros]: "keeps I (BuildTokenSecret W token)"
  unfolding getExpTime_def BuildTokenSecret_def by (intro keeps_intros)+

lemma record_event_kept [keeps_intros]: "keeps I (record_event rec a b c e)"
  unfolding record_event_def by (intro keeps_intros)

lemma patch_object_kept:
  "(upd \<Longrightarrow> \<forall>x y r. E (Wr (PatchedObject x y r))) \<Longrightarrow> keeps I (patch_object W rec new upd old)"
  unfolding patch_object_def PatchObject_def by (intro keeps_intros call_kept) blast

lemma SyncObject_kept:
  "(upd \<Longrightarrow> \<forall>x y r. E (Wr (PatchedObject x y r))) \<Longrightarrow> keeps I (SyncObject W rec new upd)"
  unfolding SyncObject_def by (intro keeps_intros patch_object_kept) blast+

lemma sync_token_secret_kept:
  "(upd \<Longrightarrow> \<forall>x y r. E (Wr (PatchedObject x y r))) \<Longrightarrow> keeps I (sync_token_secret W token upd)"
  unfolding sync_token_secret_def by (intro keeps_intros SyncObject_kept) blast

lemma refresh_token_kept:
  "(deref (tk_Refresh token) DefaultTokenRefresh \<Longrightarrow> \<forall>x y r. E (Wr (PatchedObject x y r))) \<Longrightarrow>
   keeps I (refresh_token W token)"
  unfolding refresh_token_def Let_def by (intro keeps_intros sync_token_secret_kept) blast+

lemma token_syncStatus_kept [keeps_intros]: "retry_ok W \<Longrightarrow> keeps I (token_syncStatus W token)"
  unfolding token_syncStatus_def token_updateStatus_def update_token_attempt_def Let_def
  by (intro keeps_intros keeps_retry)

lemma push_refresh_kept [keeps_intros]: "keeps I (push_refresh W token)"
  unfolding push_refresh_def by (intro keeps_intros)

lemma steps_kept:
  assumes "deref (tk_Refresh token) DefaultTokenRefresh \<Longrightarrow> \<forall>x y r. E (Wr (PatchedObject x y r))"
  shows "keeps I (Sync_steps (token_steps W token))"
proof (rule keeps_Sync_steps)
  fix a
  assume "a \<in> set (token_steps W token)"
  then show "keeps I (step_SyncFn a)"
    using assms by (auto simp: token_steps_def intro!: sync_token_secret_kept refresh_token_kept)
qed (rule calls_kept)

lemma run_token_steps_kept:
  assumes "retry_ok W" and "deref (tk_Refresh token) DefaultTokenRefresh \<Longrightarrow> \<forall>x y r. E (Wr (PatchedObject x y r))"
  shows "keeps I (run_token_steps W token)"
  unfolding run_token_steps_def by (intro keeps_intros steps_kept assms)

end

section \<open>The next reconcile comes before the token expires\<close>




lemma token_defaults [simp]:
  "Token_Key (SetTokenDefaults t) = Token_Key t" "Token_Lifetime (SetTokenDefaults t) = Token_Lifetime t"
  "tk_DeletionTimestamp (SetTokenDefaults t) = tk_DeletionTimestamp t"
  "refresh_time (SetTokenDefaults t) x = refresh_time t x"
  by (simp_all add: SetTokenDefaults_def Token_Key_def Token_Lifetime_def refresh_time_def)






definition sample_token :: token where
  "sample_token = \<lparr>tk_Namespace = ''slurm'', tk_Name = ''ops'', tk_Labels = None, tk_Annotations = None,
     tk_DeletionTimestamp = None, tk_JwtHs256KeyRef = None,
     tk_JwtKeyRef = Some \<lparr>jr_Selector = \<lparr>sks_Name = ''jwt'', sks_Key = ''key''\<rparr>, jr_Namespace = ''''\<rparr>,
     tk_Username = ''ops'', tk_Lifetime = None, tk_Refresh = None,
     tk_SecretRef = Some \<lparr>sks_Name = ''ops'', sks_Key = ''key''\<rparr>,
     tk_Status = \<lparr>ts_IssuedAt = None, ts_Conditions = []\<rparr>\<rparr>"

definition token_world :: world where
  "token_world = quiet_world\<lparr>w_GetToken := (\<lambda>h k. Inr sample_token), w_Now := (\<lambda>h. 1000),
     w_GetSecretData := (\<lambda>h k. Inr [''key'' \<mapsto> ''secret'']),
     w_ParseClaims := (\<lambda>t a b. Inr (Inr (Some (1000 + 15 * Minute)), Inr (Some 1000)))\<rparr>"

lemma token_world_simps [simp]:
  "retry_ok token_world" "w_GetToken token_world h k = Inr sample_token" "w_Now token_world h = 1000"
  "w_GetSecretData token_world h k = Inr [''key'' \<mapsto> ''secret'']"
  "w_ParseClaims token_world t a b = Inr (Inr (Some (1000 + 15 * Minute)), Inr (Some 1000))"
  by (simp_all add: token_world_def retry_ok_def quiet_world_def retries.last_try)

lemma sample_token_simps [simp]:
  "Token_Key sample_token = (''slurm'', ''ops'')" "Token_Lifetime sample_token = 15 * Minute"
  "sks_Key (Token_SecretRef (SetTokenDefaults sample_token)) = ''key''"
  "sks_Key (jr_Selector (Token_JwtRef (SetTokenDefaults sample_token))) = ''key''"
  "tk_DeletionTimestamp sample_token = None"
  by (simp_all add: sample_token_def Token_Key_def Token_Lifetime_def Token_SecretRef_def Token_JwtRef_def
      SetTokenDefaults_def deref_def Let_def)


section \<open>A secret that is not to be refreshed is not rewritten\<close>

definition unpatched :: "history \<Rightarrow> ev \<Rightarrow> bool" where
  "unpatched h e = (case e of Wr (PatchedObject x y r) \<Rightarrow> False | _ \<Rightarrow> True)"

interpretation token_stable: token_frame "logs unpatched" "unpatched []"
  by unfold_locales
    (auto simp: logs_def unpatched_def split: ev.splits wr.splits)

text \<open>
  A sync of a token for which refreshing is off patches no object: the token of a secret that exists
  stays the one that was signed first.
\<close>

theorem token_kept_without_refresh:
  assumes "retry_ok W" and "\<forall>h tok. w_GetToken W h req = Inr tok \<longrightarrow> tk_Refresh tok = Some False"
  shows "keeps (logs unpatched) (Token_Sync W req)"
proof (rule keepsI)
  fix s
  assume s: "logs unpatched s"
  let ?s = "s\<lparr>log := Rd (GotToken req (w_GetToken W (log s) req)) # log s\<rparr>"
  have s1: "logs unpatched ?s"
    using s by (simp add: unpatched_def logs_def)
  show "logs unpatched (snd (run_state (Token_Sync W req) s))"
  proof (cases "w_GetToken W (log s) req")
    case (Inr tok)
    let ?t = "SetTokenDefaults tok"
    have "keeps (logs unpatched) (run_token_steps W ?t)"
      using Inr assms by (intro token_stable.run_token_steps_kept) (auto simp: SetTokenDefaults_def deref_def)
    then have "logs unpatched (snd (run_state (run_token_steps W ?t) (snd (run_state (push_refresh W ?t) ?s))))"
      using keepsD [OF token_stable.push_refresh_kept s1] by (rule keepsD)
    with Inr s1 show ?thesis
      by (simp add: Token_Sync_def GetToken_def Let_def split_beta)
  qed (use s1 in \<open>simp add: Token_Sync_def GetToken_def\<close>)
qed

theorem token_kept_without_refresh_witness:
  "logs unpatched (snd (run_state (Token_Sync
    (token_world\<lparr>w_GetToken := (\<lambda>h k. Inr (sample_token\<lparr>tk_Refresh := Some False\<rparr>))\<rparr>) (''slurm'', ''ops'')) st_init))"
proof (rule keepsD [OF token_kept_without_refresh])
  show "retry_ok (token_world\<lparr>w_GetToken := (\<lambda>h k. Inr (sample_token\<lparr>tk_Refresh := Some False\<rparr>))\<rparr>)"
    by (simp add: token_world_def retry_ok_def quiet_world_def retries.last_try)
qed simp_all

end
