(* ===== verification/WorkloadFacts.thy ===== *)
theory WorkloadFacts
  imports DaemonBuilders
begin

text \<open>
  What holds of the objects the builders make: every volume that a container mounts is declared, every
  workload selects its own pods, services have no two ports of one name or number, and what the
  checksums of the configuration see.
\<close>

section \<open>Mounts\<close>

text \<open>
  What the code relies on of strategic merge patches: volumes are merged by name and mounts by path, an
  absent list in the patch leaves the list of the base, absent metadata leave the metadata.
\<close>

definition mount_names :: "container \<Rightarrow> string set" where
  "mount_names c = vm_Name ` set (c_VolumeMounts c)"

definition volume_names :: "pod_spec \<Rightarrow> string set" where
  "volume_names s = pv_Name ` set (ps_Volumes s)"

definition merges_ok :: "world \<Rightarrow> bool" where
  "merges_ok W \<longleftrightarrow>
     (\<forall>b m. mount_names (w_MergeContainer W b m) \<subseteq> mount_names b \<union> mount_names m) \<and>
     (\<forall>b m. volume_names (pts_Spec (w_MergeTemplate W b m)) = volume_names (pts_Spec b) \<union> volume_names (pts_Spec m)) \<and>
     (\<forall>b m. ps_Containers (pts_Spec m) = [] \<longrightarrow>
        ps_Containers (pts_Spec (w_MergeTemplate W b m)) = ps_Containers (pts_Spec b)) \<and>
     (\<forall>b m. ps_InitContainers (pts_Spec m) = [] \<longrightarrow>
        ps_InitContainers (pts_Spec (w_MergeTemplate W b m)) = ps_InitContainers (pts_Spec b)) \<and>
     (\<forall>b m. pts_Metadata m = no_metadata \<longrightarrow> pts_Metadata (w_MergeTemplate W b m) = pts_Metadata b)"

definition pod_containers :: "pod_spec \<Rightarrow> container list" where
  "pod_containers s = ps_Containers s @ ps_InitContainers s"

definition mounts_declared :: "pod_template_spec \<Rightarrow> pvc list \<Rightarrow> bool" where
  "mounts_declared t claims \<longleftrightarrow>
     (\<forall>c \<in> set (pod_containers (pts_Spec t)). mount_names c \<subseteq> volume_names (pts_Spec t) \<union> pvc_Name ` set claims)"

text \<open>
  The user's part is sound: the containers of the template, and the changes to the containers of the
  operator, mount only volumes of the template or of the operator.
\<close>

definition user_mounts_ok :: "string set \<Rightarrow> pod_spec \<Rightarrow> container list \<Rightarrow> bool" where
  "user_mounts_ok operator template changed \<longleftrightarrow>
     (\<forall>c \<in> set (changed @ pod_containers template). mount_names c \<subseteq> operator \<union> volume_names template)"

lemma BuildContainer_mounts:
  assumes "merges_ok W" "mount_names base \<subseteq> V"
  shows "mount_names (BuildContainer W base merge) \<subseteq> V \<union> mount_names merge"
proof -
  have "mount_names (w_MergeContainer W b m) \<subseteq> mount_names b \<union> mount_names m" for b m
    using assms(1) by (simp add: merges_ok_def)
  then show ?thesis
    unfolding BuildContainer_def by (rule order_trans) (use assms(2) in \<open>auto simp: mount_names_def\<close>)
qed

lemma BuildPodTemplate_parts:
  assumes "merges_ok W"
  shows "pod_containers (pts_Spec (BuildPodTemplate W key md base merge)) =
      ps_Containers base @ ps_Containers merge @ ps_InitContainers base @ ps_InitContainers merge"
    and "volume_names (pts_Spec (BuildPodTemplate W key md base merge)) = volume_names base \<union> volume_names merge"
    and "pts_Metadata (BuildPodTemplate W key md base merge) = meta_WithMetadata md meta_NewBuilder"
proof -
  have v: "volume_names (s\<lparr>ps_Containers := a, ps_InitContainers := b\<rparr>) = volume_names s" for s a b
    by (simp add: volume_names_def)
  show "pod_containers (pts_Spec (BuildPodTemplate W key md base merge)) =
      ps_Containers base @ ps_Containers merge @ ps_InitContainers base @ ps_InitContainers merge"
    "volume_names (pts_Spec (BuildPodTemplate W key md base merge)) = volume_names base \<union> volume_names merge"
    "pts_Metadata (BuildPodTemplate W key md base merge) = meta_WithMetadata md meta_NewBuilder"
    using assms v unfolding BuildPodTemplate_def merges_ok_def pod_containers_def by simp_all
qed

text \<open>A template is sound when each container of the operator adds only mounts of the operator to the user's.\<close>

lemma BuildPodTemplate_declared:
  assumes "merges_ok W" "user_mounts_ok V merge changed"
    and "\<And>c. c \<in> set (pod_containers base) \<Longrightarrow> \<exists>u \<in> set changed. mount_names c \<subseteq> V \<union> mount_names u"
    and "V \<subseteq> volume_names base \<union> pvc_Name ` set claims"
  shows "mounts_declared (BuildPodTemplate W key md base merge) claims"
proof -
  have "mount_names c \<subseteq> V \<union> volume_names merge" if "c \<in> set (pod_containers base @ pod_containers merge)" for c
  proof (cases "c \<in> set (pod_containers base)")
    case True
    then obtain u where "u \<in> set changed" "mount_names c \<subseteq> V \<union> mount_names u" using assms(3) by blast
    then show ?thesis using assms(2) by (auto simp: user_mounts_ok_def)
  next
    case False
    then show ?thesis using that assms(2) by (auto simp: user_mounts_ok_def)
  qed
  then show ?thesis
    unfolding mounts_declared_def BuildPodTemplate_parts [OF assms(1)]
    using assms(4) by (fastforce simp: pod_containers_def)
qed

text \<open>The volumes of each workload that belong to the operator.\<close>

definition controller_volume_names :: "string set" where
  "controller_volume_names = {SlurmEtcVolume, SlurmLogFileVolume, SlurmPidFileVolume, SlurmAuthSocketVolume, SlurmctldStateSaveVolume}"
definition accounting_volume_names :: "string set" where
  "accounting_volume_names = {SlurmEtcVolume, SlurmPidFileVolume}"
definition restapi_volume_names :: "string set" where
  "restapi_volume_names = {SlurmEtcVolume}"
definition login_volume_names :: "string set" where
  "login_volume_names = {SlurmEtcVolume, SackdVolume, SlurmConfigVolume, SshHostKeysVolume, SshConfigVolume, SssdConfVolume}"
definition worker_volume_names :: "nodeset \<Rightarrow> string set" where
  "worker_volume_names ns = {SlurmEtcVolume, SlurmLogFileVolume} \<union>
     (if spec_SshEnabled (ns_Spec ns) then {SshConfigVolume, SssdConfVolume} else {})"

lemmas volume_name_defs = controller_volume_names_def accounting_volume_names_def restapi_volume_names_def
  login_volume_names_def worker_volume_names_def

lemma container_mounts:
  assumes "merges_ok W"
  shows "mount_names (slurmctldContainer W m n) \<subseteq> controller_volume_names \<union> mount_names m"
    "mount_names (reconfigureContainer W m) \<subseteq> controller_volume_names \<union> mount_names m"
    "mount_names (LogfileContainer W m p) \<subseteq> {SlurmLogFileVolume} \<union> mount_names m"
    "mount_names (slurmdbdContainer W m) \<subseteq> accounting_volume_names \<union> mount_names m"
    "mount_names (loginContainer W m c) \<subseteq> login_volume_names \<union> mount_names m"
    "mount_names (InitconfContainer W m) \<subseteq> login_volume_names \<union> mount_names m"
  unfolding slurmctldContainer_def reconfigureContainer_def LogfileContainer_def slurmdbdContainer_def
    loginContainer_def InitconfContainer_def
  by (rule BuildContainer_mounts [OF assms], simp add: mount_names_def volume_name_defs mount_def sub_mount_def host_key_mounts_def)+

lemma restapi_mounts: "merges_ok W \<Longrightarrow> mount_names (slurmrestdContainer W m b) \<subseteq> restapi_volume_names \<union> mount_names m"
proof -
  have "mount_names (c\<lparr>c_Args := a\<rparr>) = mount_names c" for c a by (simp add: mount_names_def)
  moreover assume "merges_ok W"
  ultimately show ?thesis
    unfolding slurmrestdContainer_def Let_def
    by (simp only:) (rule BuildContainer_mounts, simp_all add: mount_names_def volume_name_defs mount_def)
qed

lemma worker_mounts:
  assumes "merges_ok W" "slurmdContainer W ns c = Inr k"
  shows "mount_names k \<subseteq> worker_volume_names ns \<union> mount_names (spec_Slurmd (ns_Spec ns))"
proof -
  obtain args where "k = BuildContainer W (slurmd_base ns args) (spec_Slurmd (ns_Spec ns))"
    using assms(2) by (auto simp: slurmdContainer_def split: sum.splits)
  moreover have "mount_names (slurmd_base ns args) \<subseteq> worker_volume_names ns"
    by (auto simp: slurmd_base_def mount_names_def worker_volume_names_def mount_def sub_mount_def)
  ultimately show ?thesis using BuildContainer_mounts [OF assms(1)] by simp
qed

text \<open>
  C21. Every volume that a container of a Controller's pods mounts is declared: as a volume of the pod
  template, or (the saved state of slurmctld) as a claim template, whatever persistence the Controller
  asks for, when the volumes that the user's own containers mount are declared.
\<close>

theorem controller_mounts_declared:
  assumes "merges_ok W"
    and "user_mounts_ok controller_volume_names (pt_PodSpec (ct_Template c)) [ct_Slurmctld c, ct_Reconfigure c, ct_LogFile c]"
    and "fst (run_state (controllerPodTemplate W c) s) = Inr t"
  shows "mounts_declared (fst (statesave c t)) (snd (statesave c t))"
proof -
  obtain md base where t: "t = BuildPodTemplate W (Controller_Key c) md base (pt_PodSpec (ct_Template c))"
    and v: "ps_Volumes base = controllerVolumes c (controller_extra_configs c)"
    and k: "pod_containers base = slurmctldContainer W (ct_Slurmctld c) (Controller_ClusterName c) #
        (if ct_InplaceReconfigure c then [reconfigureContainer W (ct_Reconfigure c)] else []) @
        [LogfileContainer W (ct_LogFile c) SlurmctldLogFilePath]"
    using assms(3) by (auto simp: controllerPodTemplate_def pod_containers_def split: sum.splits prod.splits if_splits)
  have "mounts_declared t [\<lparr>pvc_Namespace = '''', pvc_Name = SlurmctldStateSaveVolume, pvc_Labels = None,
      pvc_OwnerReferences = [], pvc_DeletionTimestamp = None, pvc_Spec = ''''\<rparr>]"
    unfolding t
  proof (rule BuildPodTemplate_declared [OF assms(1,2)])
    show "\<exists>u \<in> set [ct_Slurmctld c, ct_Reconfigure c, ct_LogFile c]. mount_names x \<subseteq> controller_volume_names \<union> mount_names u"
      if "x \<in> set (pod_containers base)" for x
      using that container_mounts [OF assms(1)] by (fastforce simp: k volume_name_defs split: if_splits)
  qed (simp add: v volume_names_def controllerVolumes_def volume_name_defs LogFileVolume_def PidfileVolume_def)
  then show ?thesis
    by (auto simp: mounts_declared_def statesave_def add_volume_def volume_names_def pod_containers_def)
qed

definition merging_world :: world where
  "merging_world = quiet_world\<lparr>w_MergeContainer := (\<lambda>b m. b\<lparr>c_VolumeMounts := c_VolumeMounts b @ c_VolumeMounts m\<rparr>),
     w_MergeTemplate := (\<lambda>b m. b\<lparr>pts_Spec := (pts_Spec b)\<lparr>ps_Volumes := ps_Volumes (pts_Spec b) @ ps_Volumes (pts_Spec m)\<rparr>\<rparr>)\<rparr>"

lemma merging_world_ok: "merges_ok merging_world"
  by (auto simp: merges_ok_def merging_world_def mount_names_def volume_names_def)

lemma empty_mounts [simp]: "mount_names empty_container = {}" "pod_containers empty_pod_spec = []"
  "volume_names empty_pod_spec = {}"
  by (simp_all add: mount_names_def empty_container_def pod_containers_def empty_pod_spec_def volume_names_def)

theorem controller_mounts_declared_witness:
  "\<exists>t. fst (run_state (controllerPodTemplate merging_world empty_controller) st_init) = Inr t \<and>
     mounts_declared (fst (statesave empty_controller t)) (snd (statesave empty_controller t))"
proof -
  have "\<exists>t. fst (run_state (controllerPodTemplate merging_world empty_controller) st_init) = Inr t"
    by (simp add: controllerPodTemplate_def controller_getHashes_def controller_getAuthHashes_def auth_hashes_def
        read_or_empty_def call_defs empty_controller_def merging_world_def quiet_world_def IsNotFound_def)
  moreover have "user_mounts_ok controller_volume_names (pt_PodSpec (ct_Template empty_controller))
      [ct_Slurmctld empty_controller, ct_Reconfigure empty_controller, ct_LogFile empty_controller]"
    by (simp add: user_mounts_ok_def empty_controller_def empty_template_def)
  ultimately show ?thesis
    using controller_mounts_declared [OF merging_world_ok] by blast
qed

lemma login_declared:
  assumes "merges_ok W"
    and "user_mounts_ok login_volume_names (pt_PodSpec (ls_Template l)) [ls_Login l, ls_InitConf l]"
  shows "mounts_declared (BuildPodTemplate W key md (login_pod_spec W l k) (pt_PodSpec (ls_Template l))) []"
proof (rule BuildPodTemplate_declared [OF assms])
  show "\<exists>u\<in>set [ls_Login l, ls_InitConf l]. mount_names c \<subseteq> login_volume_names \<union> mount_names u"
    if "c \<in> set (pod_containers (login_pod_spec W l k))" for c
    using that container_mounts(5) [OF assms(1), of "ls_Login l" k] container_mounts(6) [OF assms(1), of "ls_InitConf l"]
    by (auto simp: login_pod_spec_def pod_containers_def)
qed (simp add: login_pod_spec_def loginVolumes_def volume_names_def login_volume_names_def EtcSlurmVolume_def)

lemma worker_declared:
  assumes "merges_ok W"
    and "user_mounts_ok (worker_volume_names ns) (pt_PodSpec (spec_Template (ns_Spec ns)))
        [spec_Slurmd (ns_Spec ns), spec_LogFile (ns_Spec ns)]"
    and "slurmdContainer W ns c = Inr k"
  shows "mounts_declared (BuildPodTemplate W key md (worker_pod_spec W ns c k) (pt_PodSpec (spec_Template (ns_Spec ns)))) []"
proof (rule BuildPodTemplate_declared [OF assms(1,2)])
  have log: "{SlurmLogFileVolume} \<subseteq> worker_volume_names ns" by (simp add: worker_volume_names_def)
  show "\<exists>u\<in>set [spec_Slurmd (ns_Spec ns), spec_LogFile (ns_Spec ns)]. mount_names x \<subseteq> worker_volume_names ns \<union> mount_names u"
    if "x \<in> set (pod_containers (worker_pod_spec W ns c k))" for x
    using that log worker_mounts [OF assms(1,3)]
      container_mounts(3) [OF assms(1), of "spec_LogFile (ns_Spec ns)" SlurmdLogFilePath]
    by (auto simp: worker_pod_spec_def pod_containers_def)
qed (cases "spec_SshEnabled (ns_Spec ns)"; simp add: worker_pod_spec_def nodesetVolumes_def volume_names_def
    worker_volume_names_def LogFileVolume_def)

lemma accounting_declared:
  assumes "merges_ok W"
    and "user_mounts_ok accounting_volume_names (pt_PodSpec (ac_Template a)) [ac_Slurmdbd a]"
    and "fst (run_state (accountingPodTemplate W a) s) = Inr t"
  shows "mounts_declared t []"
  using assms(3) container_mounts(4) [OF assms(1)]
  by (auto simp: accountingPodTemplate_def pod_containers_def accountingVolumes_def volume_names_def
      accounting_volume_names_def PidfileVolume_def empty_pod_spec_def
      intro!: BuildPodTemplate_declared [OF assms(1,2)] split: sum.splits prod.splits)

lemma restapi_declared:
  assumes "merges_ok W"
    and "user_mounts_ok restapi_volume_names (pt_PodSpec (ra_Template r)) [ra_Slurmrestd r]"
    and "fst (run_state (restapiPodTemplate W r) s) = Inr t"
  shows "mounts_declared t []"
  using assms(3) restapi_mounts [OF assms(1)]
  by (auto simp: restapiPodTemplate_def Let_def pod_containers_def restapiVolumes_def volume_names_def
      restapi_volume_names_def empty_pod_spec_def intro!: BuildPodTemplate_declared [OF assms(1,2)] split: sum.splits prod.splits)

text \<open>
  C22. The same for the pods of Accountings, RestApis and LoginSets, and of NodeSets with or without SSH:
  their templates declare every volume that is mounted, provided that the user's own containers and mounts use
  only volumes that are declared.
\<close>

theorem daemon_mounts_declared:
  assumes "merges_ok W"
  shows "(user_mounts_ok accounting_volume_names (pt_PodSpec (ac_Template a)) [ac_Slurmdbd a] \<longrightarrow>
      fst (run_state (accountingPodTemplate W a) s) = Inr t \<longrightarrow> mounts_declared t []) \<and>
    (user_mounts_ok restapi_volume_names (pt_PodSpec (ra_Template r)) [ra_Slurmrestd r] \<longrightarrow>
      fst (run_state (restapiPodTemplate W r) s) = Inr t \<longrightarrow> mounts_declared t []) \<and>
    (user_mounts_ok login_volume_names (pt_PodSpec (ls_Template l)) [ls_Login l, ls_InitConf l] \<longrightarrow>
      fst (run_state (loginPodTemplate W l) s) = Inr t \<longrightarrow> mounts_declared t []) \<and>
    (user_mounts_ok (worker_volume_names ns) (pt_PodSpec (spec_Template (ns_Spec ns)))
        [spec_Slurmd (ns_Spec ns), spec_LogFile (ns_Spec ns)] \<longrightarrow>
      fst (run_state (BuildWorkerPodTemplate W ns c) s) = Inr t \<longrightarrow> mounts_declared t [])"
proof (intro conjI impI)
  show "mounts_declared t []"
    if "user_mounts_ok accounting_volume_names (pt_PodSpec (ac_Template a)) [ac_Slurmdbd a]"
      "fst (run_state (accountingPodTemplate W a) s) = Inr t"
    using accounting_declared [OF assms] that by blast
  show "mounts_declared t []"
    if "user_mounts_ok restapi_volume_names (pt_PodSpec (ra_Template r)) [ra_Slurmrestd r]"
      "fst (run_state (restapiPodTemplate W r) s) = Inr t"
    using restapi_declared [OF assms] that by blast
  show "mounts_declared t []"
    if u: "user_mounts_ok login_volume_names (pt_PodSpec (ls_Template l)) [ls_Login l, ls_InitConf l]"
      and t: "fst (run_state (loginPodTemplate W l) s) = Inr t"
    using t by (auto simp: loginPodTemplate_def intro!: login_declared [OF assms u] split: sum.splits prod.splits)
  show "mounts_declared t []"
    if u: "user_mounts_ok (worker_volume_names ns) (pt_PodSpec (spec_Template (ns_Spec ns)))
        [spec_Slurmd (ns_Spec ns), spec_LogFile (ns_Spec ns)]"
      and t: "fst (run_state (BuildWorkerPodTemplate W ns c) s) = Inr t"
  proof -
    have "mounts_declared empty_template_spec []" by (simp add: mounts_declared_def empty_template_spec_def)
    then show ?thesis
      using t by (auto simp: BuildWorkerPodTemplate_def intro!: worker_declared [OF assms u] split: sum.splits prod.splits)
  qed
qed

theorem daemon_mounts_declared_witness:
  "\<exists>t. fst (run_state (accountingPodTemplate merging_world empty_accounting) st_init) = Inr t \<and> mounts_declared t []"
proof -
  have "\<exists>t. fst (run_state (accountingPodTemplate merging_world empty_accounting) st_init) = Inr t"
    by (simp add: accountingPodTemplate_def accounting_getHashes_def accounting_getAuthHashes_def auth_hashes_def
        read_or_empty_def call_defs empty_accounting_def merging_world_def quiet_world_def IsNotFound_def)
  moreover have "user_mounts_ok accounting_volume_names (pt_PodSpec (ac_Template empty_accounting)) [ac_Slurmdbd empty_accounting]"
    by (simp add: user_mounts_ok_def empty_accounting_def empty_template_def)
  ultimately show ?thesis
    using daemon_mounts_declared [OF merging_world_ok] by blast
qed

section \<open>Selectors\<close>

definition template_labels :: "pod_template_spec \<Rightarrow> string \<rightharpoonup> string" where
  "template_labels t = mmake (md_Labels (pts_Metadata t))"

definition selects_own_pods :: "kobject \<Rightarrow> bool" where
  "selects_own_pods workload =
     (case (ko_Fields workload ''Spec.Selector'', ko_Fields workload ''Spec.Template'') of
        (Some (StringMap selector), Some (Template t)) \<Rightarrow> map_le selector (template_labels t)
      | _ \<Rightarrow> False)"

definition service_selects :: "kobject \<Rightarrow> pod_template_spec \<Rightarrow> bool" where
  "service_selects service t =
     (case ko_Fields service ''Spec'' of
        Some (ServiceSpecValue spec) \<Rightarrow> map_le (mmake (ss_Selector spec)) (template_labels t)
      | _ \<Rightarrow> False)"

text \<open>The labels of the component come last, so no label of the user replaces them.\<close>

lemma template_labels_built:
  assumes "merges_ok W"
  shows "template_labels (BuildPodTemplate W key (pod_metadata md hashes app) base merge) = mmake (md_Labels md)"
  by (simp add: template_labels_def BuildPodTemplate_parts [OF assms] meta_WithMetadata_def meta_WithLabels_def
      meta_WithAnnotations_def pod_metadata_def meta_NewBuilder_def)

lemma workload_labels: "mmake (md_Labels (workload_metadata resource template labels)) =
    mmake (md_Labels resource) ++ mmake (md_Labels template) ++ labels"
  by (simp add: workload_metadata_def meta_WithMetadata_def meta_WithLabels_def meta_WithAnnotations_def meta_NewBuilder_def)

lemma map_le_component:
  assumes "map_le a b"
  shows "map_le a (user ++ b)"
  by (rule map_le_trans [OF assms map_le_map_add])

lemma selector_le:
  "map_le (WithControllerSelectorLabels c Map.empty) (WithControllerLabels c Map.empty)"
  "map_le (WithAccountingSelectorLabels a Map.empty) (WithAccountingLabels a Map.empty)"
  "map_le (WithRestapiSelectorLabels r Map.empty) (WithRestapiLabels r Map.empty)"
  "map_le (WithLoginSelectorLabels l Map.empty) (WithLoginLabels l Map.empty)"
  "map_le (WithCluster (snd (spec_ControllerRef (ns_Spec ns))) (WithApp WorkerApp Map.empty)) (WithWorkerLabels ns Map.empty)"
  by (auto simp: map_le_def label_defs AppLabel_def instanceLabel_def componentLabel_def
      WithControllerSelectorLabels_def WithControllerLabels_def WithAccountingSelectorLabels_def WithAccountingLabels_def
      WithRestapiSelectorLabels_def WithRestapiLabels_def WithLoginSelectorLabels_def WithLoginLabels_def)

lemma set_owner_fields: "set_owner W owner out = Inr obj \<Longrightarrow> ko_Fields obj = ko_Fields out \<and> ko_Key obj = ko_Key out"
  by (auto simp: set_owner_def split: sum.splits)

lemma workload_selects:
  assumes "merges_ok W" "map_le selector labels"
    and "ko_Fields obj ''Spec.Selector'' = Some (StringMap selector)"
    and "ko_Fields obj ''Spec.Template'' = Some (Template t)"
    and "template_labels t = user ++ labels"
  shows "selects_own_pods obj"
  using assms(2-5) map_le_component by (simp add: selects_own_pods_def)

lemma statesave_labels [simp]: "template_labels (fst (statesave c t)) = template_labels t"
  by (simp add: statesave_def add_volume_def template_labels_def)

text \<open>
  Every StatefulSet and Deployment that is built selects the pods of its own template, whatever labels
  the user gives the resource and the template.
\<close>

theorem workloads_select_own_pods:
  assumes "merges_ok W"
  shows "(fst (run_state (BuildController W c) s) = Inr obj \<longrightarrow> selects_own_pods obj) \<and>
    (fst (run_state (BuildAccounting W a) s) = Inr obj \<longrightarrow> selects_own_pods obj) \<and>
    (fst (run_state (BuildRestapi W r) s) = Inr obj \<longrightarrow> selects_own_pods obj) \<and>
    (fst (run_state (BuildLogin W l) s) = Inr obj \<longrightarrow> selects_own_pods obj)"
proof (intro conjI impI)
  note built = template_labels_built [OF assms]
  show "selects_own_pods obj" if "fst (run_state (BuildController W c) s) = Inr obj"
    using that
    by (auto simp: BuildController_def controllerPodTemplate_def stateful_set_def new_object_def built
        controller_metadata_def workload_labels dest!: set_owner_fields
        intro!: workload_selects [OF assms selector_le(1)] split: sum.splits prod.splits)
  show "selects_own_pods obj" if "fst (run_state (BuildAccounting W a) s) = Inr obj"
    using that
    by (auto simp: BuildAccounting_def accountingPodTemplate_def stateful_set_def new_object_def built
        accounting_pod_metadata_def meta_WithLabels_def meta_WithAnnotations_def meta_NewBuilder_def
        dest!: set_owner_fields intro!: workload_selects [OF assms selector_le(2)] split: sum.splits prod.splits)
  show "selects_own_pods obj" if "fst (run_state (BuildRestapi W r) s) = Inr obj"
    using that
    by (auto simp: BuildRestapi_def restapiPodTemplate_def Let_def deployment_def new_object_def built
        restapi_metadata_def workload_labels dest!: set_owner_fields
        intro!: workload_selects [OF assms selector_le(3)] split: sum.splits prod.splits)
  show "selects_own_pods obj" if "fst (run_state (BuildLogin W l) s) = Inr obj"
    using that
    by (auto simp: BuildLogin_def loginPodTemplate_def Let_def deployment_def new_object_def built
        login_metadata_def workload_labels dest!: set_owner_fields
        intro!: workload_selects [OF assms selector_le(4)] split: sum.splits prod.splits)
qed

theorem workloads_select_own_pods_witness:
  "\<exists>obj. fst (run_state (BuildAccounting merging_world empty_accounting) st_init) = Inr obj \<and> selects_own_pods obj"
proof -
  have "\<exists>obj. fst (run_state (BuildAccounting merging_world empty_accounting) st_init) = Inr obj"
    by (simp add: BuildAccounting_def accountingPodTemplate_def accounting_getHashes_def accounting_getAuthHashes_def
        auth_hashes_def read_or_empty_def call_defs empty_accounting_def merging_world_def quiet_world_def
        IsNotFound_def set_owner_def)
  then show ?thesis
    using workloads_select_own_pods [OF merging_world_ok] by blast
qed

section \<open>Services\<close>

lemma validateServicePorts_ok:
  "validateServicePorts names numbers ports = None \<longleftrightarrow>
     distinct (map sp_Name ports) \<and> distinct (map sp_Port ports) \<and>
     set (map sp_Name ports) \<inter> names = {} \<and> set (map sp_Port ports) \<inter> numbers = {}"
  by (induction names numbers ports rule: validateServicePorts.induct) auto

lemma checked_ports:
  "(if 1 < length ports then validateServicePorts {} {} ports else None) = None \<longleftrightarrow>
     distinct (map sp_Name ports) \<and> distinct (map sp_Port ports)"
  by (cases "1 < length ports") (auto simp: validateServicePorts_ok distinct_map card_distinct length_Suc_conv
      not_less le_Suc_eq)

definition wanted_service :: "nsname \<Rightarrow> metadata \<Rightarrow> service_spec \<Rightarrow> (string \<rightharpoonup> string) \<Rightarrow> bool \<Rightarrow> kobject" where
  "wanted_service key md spec selector headless =
     new_object Service key (meta_WithMetadata md meta_NewBuilder)
      [''Spec'' \<mapsto> ServiceSpecValue (spec\<lparr>ss_Selector := Some (mmake (ss_Selector spec) ++ selector),
         ss_ClusterIP := if headless then ClusterIPNone else ss_ClusterIP spec,
         ss_PublishNotReadyAddresses := headless \<or> ss_PublishNotReadyAddresses spec\<rparr>)]"

text \<open>
  A service is built exactly when no two of its ports share a name or a number (its owner being
  accepted), with the ports, in order, of the specification, the user's selector overridden by the one of
  the component, and no cluster address when it is headless.
\<close>

theorem BuildService_exact:
  assumes "\<forall>obj. w_SetControllerReference W owner obj = Inr (refs obj)"
  shows "BuildService W key md spec (Some selector) headless owner = Inr svc \<longleftrightarrow>
    distinct (map sp_Name (ss_Ports spec)) \<and> distinct (map sp_Port (ss_Ports spec)) \<and>
    svc = (wanted_service key md spec selector headless)
      \<lparr>ko_OwnerReferences := refs (wanted_service key md spec selector headless)\<rparr>"
proof (cases "if 1 < length (ss_Ports spec) then validateServicePorts {} {} (ss_Ports spec) else None")
  case None
  moreover have "distinct (map sp_Name (ss_Ports spec)) \<and> distinct (map sp_Port (ss_Ports spec))"
    using None by (simp only: checked_ports)
  ultimately show ?thesis
    using assms by (auto simp: BuildService_def Let_def set_owner_def MergeMaps_def wanted_service_def)
next
  case (Some e)
  then have "\<not> (distinct (map sp_Name (ss_Ports spec)) \<and> distinct (map sp_Port (ss_Ports spec)))"
    by (simp only: checked_ports [symmetric]) simp
  then show ?thesis
    using Some by (auto simp: BuildService_def)
qed

theorem BuildService_exact_witness:
  "\<forall>svc. BuildService merging_world (''slurm'', ''login'') no_metadata
     (empty_service_spec\<lparr>ss_Ports := [service_port_for LoginApp 22 0, service_port_for LoginApp 2222 0]\<rparr>)
     (Some Map.empty) False (loginset_owner empty_loginset) \<noteq> Inr svc"
proof -
  have "\<forall>obj. w_SetControllerReference merging_world (loginset_owner empty_loginset) obj = Inr (ko_OwnerReferences obj)"
    by (simp add: merging_world_def quiet_world_def)
  note exact = BuildService_exact [OF this]
  show ?thesis by (simp add: exact service_port_for_def)
qed

section \<open>Checksums\<close>

text \<open>What the code relies on of \<^verbatim>\<open>range\<close> over a map: every key once, in some order.\<close>

definition entries_ok :: "world \<Rightarrow> bool" where
  "entries_ok W \<longleftrightarrow> (\<forall>m. distinct (map fst (w_entries W m)) \<and> (finite (dom m) \<longrightarrow> set (w_entries W m) = Map.graph m))"

text \<open>The text that is hashed: the values in the order of their keys, one after the other.\<close>

definition map_text :: "(string \<rightharpoonup> string) \<Rightarrow> string" where
  "map_text m = concat (map (\<lambda>k. deref (m k) '''') (sorted_list_of_set (dom m)))"

text \<open>
  The checksum of a map does not depend on the order in which Go iterates over it: it is the hash of
  the values in the order of the keys, and the empty string when there is no text.
\<close>

theorem CheckSumFromMap_exact:
  assumes "entries_ok W" "finite (dom m)"
  shows "CheckSumFromMap W m = (if map_text m = '''' then '''' else w_CheckSum W (map_text m))"
proof -
  have "set (map_Keys W m) = dom m" "distinct (map_Keys W m)"
    using assms by (auto simp: map_Keys_def entries_ok_def Map.graph_def dom_def image_iff)
  then have "sort (map_Keys W m) = sorted_list_of_set (dom m)"
    by (metis sorted_list_of_set_sort_remdups distinct_remdups_id)
  then show ?thesis by (simp add: CheckSumFromMap_def map_text_def CheckSum_def Let_def)
qed

definition ordered_world :: world where
  "ordered_world = quiet_world\<lparr>w_CheckSum := id, w_entries := (\<lambda>m. if finite (dom m)
     then map (\<lambda>k. (k, the (m k))) (sorted_list_of_set (dom m)) else [])\<rparr>"

lemma ordered_world_ok: "entries_ok ordered_world"
  by (auto simp: entries_ok_def ordered_world_def Map.graph_def comp_def)

lemma map_text_pair: "map_text [''a'' \<mapsto> x, ''b'' \<mapsto> y] = x @ y"
proof -
  have "sorted_list_of_set (dom [''a'' \<mapsto> x, ''b'' \<mapsto> y]) = [''a'', ''b'']"
    by (simp add: sorted_list_of_set.sorted_key_list_of_set_insert_remove less_eq_char_def)
  then show ?thesis by (simp add: map_text_def)
qed

text \<open>Text that moves from one key to the next leaves the checksum as it is.\<close>

theorem CheckSumFromMap_exact_witness:
  "CheckSumFromMap ordered_world [''a'' \<mapsto> ''xy'', ''b'' \<mapsto> ''z''] =
   CheckSumFromMap ordered_world [''a'' \<mapsto> ''x'', ''b'' \<mapsto> ''yz'']"
  by (subst (1 2) CheckSumFromMap_exact [OF ordered_world_ok]) (simp_all add: map_text_pair)

section \<open>Host keys\<close>

text \<open>A file of the secret and its public counterpart hold the halves of one key.\<close>

definition holds_pair :: "world \<Rightarrow> (string \<rightharpoonup> string) \<Rightarrow> string \<Rightarrow> opaque \<Rightarrow> bool" where
  "holds_pair W files file k \<longleftrightarrow>
     (\<exists>block publ. w_MarshalPrivateKey W k '''' = Inr block \<and> w_NewPublicKey W (w_Public W k) = Inr publ \<and>
        files file = Some (w_EncodeToMemory W block) \<and> files (pub file) = Some (w_MarshalAuthorizedKey W publ))"

lemma encode_pair_holds:
  assumes "encode_pair W kp = Inr (priv, publ)" "kp_publicKey kp = w_Public W (kp_privateKey kp)"
    and "kp_passphrase kp = ''''" "kp_comment kp = ''''" "files file = Some priv" "files (pub file) = Some publ"
  shows "holds_pair W files file (kp_privateKey kp)"
  using assms by (auto simp: encode_pair_def kp_PrivateKey_def kp_PublicKey_def pemBlock_def holds_pair_def split: sum.splits)

lemma new_pair_made:
  assumes "run_state (new_pair W t) s = (Inr kp, u)"
  shows "log u = Rd (MadeKeyPair (default_request t) (Inr (kp_privateKey kp))) # log s \<and>
    kp_publicKey kp = w_Public W (kp_privateKey kp) \<and> kp_passphrase kp = '''' \<and> kp_comment kp = ''''"
proof -
  obtain r v where r: "run_state (NewKeyPair W [WithType t]) s = (r, v)" by fastforce
  with assms have "r = Inr kp" "v = u"
    by (auto simp: new_pair_def split: sum.splits)
  with NewKeyPair_made [of W t s kp u] r show ?thesis by simp
qed

text \<open>
  C26. The host keys of a LoginSet: each private file of the secret and the public file beside it are the
  halves of one key, which was generated for this secret: RSA of 1024 bits, Ed25519 and ECDSA on P-256, without
  a passphrase.
\<close>

theorem host_keys_belong_together:
  assumes "run_state (BuildLoginSshHostKeys W l) s = (Inr x, t)"
  shows "\<exists>rsa ed25519 ecdsa files.
    log t = Rd (MadeKeyPair (EcdsaKey P256) (Inr ecdsa)) # Rd (MadeKeyPair Ed25519Key (Inr ed25519)) #
      Rd (MadeKeyPair (RsaKey 1024) (Inr rsa)) # log s \<and>
    ko_Fields x ''Data'' = Some (StringMap files) \<and> holds_pair W files SshHostRsaKeyFile rsa \<and>
    holds_pair W files SshHostEd25519KeyFile ed25519 \<and> holds_pair W files SshHostEcdsaKeyFile ecdsa"
proof -
  obtain rsa s1 where 1: "run_state (new_pair W KeyPairRsa) s = (Inr rsa, s1)"
    using assms by (cases "run_state (new_pair W KeyPairRsa) s") (auto simp: BuildLoginSshHostKeys_def split: sum.splits)
  obtain ed s2 where 2: "run_state (new_pair W KeyPairEd25519) s1 = (Inr ed, s2)"
    using assms 1 by (cases "run_state (new_pair W KeyPairEd25519) s1") (auto simp: BuildLoginSshHostKeys_def split: sum.splits)
  obtain ec s3 where 3: "run_state (new_pair W KeyPairEcdsa) s2 = (Inr ec, s3)"
    using assms 1 2 by (cases "run_state (new_pair W KeyPairEcdsa) s2") (auto simp: BuildLoginSshHostKeys_def split: sum.splits)
  obtain ecPriv ecPub edPriv edPub rsaPriv rsaPub
    where enc: "encode_pair W ec = Inr (ecPriv, ecPub)" "encode_pair W ed = Inr (edPriv, edPub)"
      "encode_pair W rsa = Inr (rsaPriv, rsaPub)" and t: "t = s3"
    using assms 1 2 3 by (auto simp: BuildLoginSshHostKeys_def split: sum.splits)
  let ?files = "[SshHostEcdsaKeyFile \<mapsto> ecPriv, pub SshHostEcdsaKeyFile \<mapsto> ecPub,
    SshHostEd25519KeyFile \<mapsto> edPriv, pub SshHostEd25519KeyFile \<mapsto> edPub,
    SshHostRsaKeyFile \<mapsto> rsaPriv, pub SshHostRsaKeyFile \<mapsto> rsaPub]"
  have data: "ko_Fields x ''Data'' = Some (StringMap ?files)"
    using assms 1 2 3 enc by (auto simp: BuildLoginSshHostKeys_def BuildSecret_def new_object_def Let_def dest!: set_owner_fields
        split: if_splits)
  have pairs: "holds_pair W ?files SshHostRsaKeyFile (kp_privateKey rsa)"
    "holds_pair W ?files SshHostEd25519KeyFile (kp_privateKey ed)" "holds_pair W ?files SshHostEcdsaKeyFile (kp_privateKey ec)"
    using new_pair_made [OF 1] new_pair_made [OF 2] new_pair_made [OF 3]
    by (auto intro!: encode_pair_holds enc simp: SshHostRsaKeyFile_def SshHostEd25519KeyFile_def SshHostEcdsaKeyFile_def pub_def)
  have "log t = Rd (MadeKeyPair (EcdsaKey P256) (Inr (kp_privateKey ec))) #
      Rd (MadeKeyPair Ed25519Key (Inr (kp_privateKey ed))) # Rd (MadeKeyPair (RsaKey 1024) (Inr (kp_privateKey rsa))) # log s"
    using new_pair_made [OF 1] new_pair_made [OF 2] new_pair_made [OF 3] by (simp add: t default_request_def)
  with data pairs show ?thesis by blast
qed

theorem host_keys_belong_together_witness:
  "\<exists>x t files rsa. run_state (BuildLoginSshHostKeys quiet_world empty_loginset) st_init = (Inr x, t) \<and>
     ko_Fields x ''Data'' = Some (StringMap files) \<and> holds_pair quiet_world files SshHostRsaKeyFile rsa"
proof -
  have "\<exists>x. fst (run_state (BuildLoginSshHostKeys quiet_world empty_loginset) st_init) = Inr x"
    by (simp add: BuildLoginSshHostKeys_def new_pair_def NewKeyPair_def WithType_def generateRsa_def generateEcdsa_def
        generateEd25519_def call_defs encode_pair_def kp_PrivateKey_def kp_PublicKey_def pemBlock_def with_key_def
        BuildSecret_def set_owner_def quiet_world_def Let_def)
  then obtain x t where x: "run_state (BuildLoginSshHostKeys quiet_world empty_loginset) st_init = (Inr x, t)"
    by (metis prod.collapse)
  from host_keys_belong_together [OF x] obtain rsa ed25519 ecdsa files
    where "ko_Fields x ''Data'' = Some (StringMap files)" "holds_pair quiet_world files SshHostRsaKeyFile rsa"
    by blast
  with x show ?thesis by blast
qed

end
