(* ===== verification/NewPodFacts.thy ===== *)
theory NewPodFacts
  imports Scaling WorkloadFacts
begin

text \<open>
  The pods of a NodeSet across components: what the worker builder puts into the template is what the
  NodeSet controller, the service and the disruption budget of the cluster look for in the pods.
\<close>

text \<open>
  What the code relies on of \<^verbatim>\<open>GetPodFromTemplate\<close> of Kubernetes: a pod has the labels of its template and
  the given controller as its owner.
\<close>

definition copies_template :: "world \<Rightarrow> bool" where
  "copies_template W \<longleftrightarrow>
     (\<forall>t ns. mmake (pod_Labels (w_GetPodFromTemplate W t ns)) = template_labels t \<and>
        pod_OwnerReferences (w_GetPodFromTemplate W t ns) = [NewControllerRef (nodeset_owner ns)])"

text \<open>The two objects whose checksums the template records can be read, or do not exist.\<close>

definition hashes_readable :: "world \<Rightarrow> nodeset \<Rightarrow> bool" where
  "hashes_readable W ns \<longleftrightarrow>
     (\<forall>h e. w_GetConfigMapData W h (NodeSet_SshConfigKey ns) = Inl e \<longrightarrow> IsNotFound e) \<and>
     (\<forall>h e. w_GetSecretData W h (NodeSet_SssdSecretKey ns) = Inl e \<longrightarrow> IsNotFound e)"

text \<open>What \<^verbatim>\<open>ClaimPods\<close> asks of a pod to count it as one of the NodeSet.\<close>

definition claimable :: "nodeset \<Rightarrow> pod \<Rightarrow> bool" where
  "claimable ns p \<longleftrightarrow>
     pod_Namespace p = ns_Namespace ns \<and> pod_OwnerReferences p = [NewControllerRef (nodeset_owner ns)] \<and>
     map_le (WithWorkerSelectorLabels ns Map.empty) (mmake (pod_Labels p)) \<and> IsPodFromNodeSet ns p"

text \<open>The name that the API server gives to a pod without one: its generated name with random characters.\<close>

definition named_by_server :: "string \<Rightarrow> pod \<Rightarrow> pod" where
  "named_by_server random p = (if pod_Name p = '''' then p\<lparr>pod_Name := pod_GenerateName p @ random\<rparr> else p)"

section \<open>Labels\<close>

lemma getWorkerHashes_readable:
  "hashes_readable W ns \<Longrightarrow> \<exists>m. fst (run_state (getWorkerHashes W ns) s) = Inr m"
  by (auto simp: getWorkerHashes_def read_for_hash_def read_or_empty_def call_defs hashes_readable_def split: sum.split)

lemma worker_template_labels:
  assumes "merges_ok W" "hashes_readable W ns" "fst (run_state (BuildWorkerPodTemplate W ns c) s) = Inr t"
  shows "map_le (WithWorkerLabels ns Map.empty) (template_labels t)"
proof -
  obtain m where "fst (run_state (getWorkerHashes W ns) s) = Inr m"
    using getWorkerHashes_readable [OF assms(2)] by blast
  with assms(3) show ?thesis
    by (auto simp: BuildWorkerPodTemplate_def split_beta template_labels_built [OF assms(1)] workload_labels
        split: sum.splits intro: map_le_component)
qed

lemma initIdentity_labels:
  "x \<notin> {LabelNodeSetPodIndex, LabelNodeSetPodName, LabelNodeSetPodHostname, LabelNodeSetScalingMode} \<Longrightarrow>
   mmake (pod_Labels (initIdentity ns p)) x = mmake (pod_Labels p) x"
  by (simp add: initIdentity_def UpdateIdentity_def Let_def)

lemma initIdentity_owner [simp]: "pod_OwnerReferences (initIdentity ns p) = pod_OwnerReferences p"
  by (simp add: initIdentity_def UpdateIdentity_def Let_def)

lemma UpdateStorage_owner [simp]: "pod_OwnerReferences (UpdateStorage W ns p) = pod_OwnerReferences p"
  by (simp add: UpdateStorage_def Let_def)

lemma SetRevision_labels: "x \<noteq> ControllerRevisionHashLabel \<Longrightarrow> mmake (SetRevision l h) x = mmake l x"
  by (cases l) (simp_all add: SetRevision_def)

lemma worker_keys:
  "x \<in> dom (WithWorkerLabels ns Map.empty) \<Longrightarrow>
   x \<notin> {LabelNodeSetPodIndex, LabelNodeSetPodName, LabelNodeSetPodHostname, LabelNodeSetScalingMode, ControllerRevisionHashLabel}"
  by (auto simp: label_defs LabelNodeSetPodIndex_def LabelNodeSetPodName_def LabelNodeSetPodHostname_def
      LabelNodeSetScalingMode_def NodeSetPrefix_def SlinkyPrefix_def ControllerRevisionHashLabel_def split: if_splits)

lemma worker_labels_kept:
  assumes "map_le (WithWorkerLabels ns Map.empty) (mmake l)"
    and "\<And>x. x \<notin> {LabelNodeSetPodIndex, LabelNodeSetPodName, LabelNodeSetPodHostname, LabelNodeSetScalingMode,
        ControllerRevisionHashLabel} \<Longrightarrow> mmake l' x = mmake l x"
  shows "map_le (WithWorkerLabels ns Map.empty) (mmake l')"
  using assms(1) assms(2) [OF worker_keys] unfolding map_le_def by metis

lemma stateful_base_claimable:
  assumes "is_statefulset ns" "nameable ns" "int32_ordinal i" "map_le (WithWorkerLabels ns Map.empty) (mmake (pod_Labels b))"
  shows "map_le (WithWorkerLabels ns Map.empty) (mmake (pod_Labels (stateful_base W ns b i h)))"
    "pod_OwnerReferences (stateful_base W ns b i h) = pod_OwnerReferences b"
    "pod_Namespace (stateful_base W ns b i h) = ns_Namespace ns" "IsPodFromNodeSet ns (stateful_base W ns b i h)"
proof -
  show "map_le (WithWorkerLabels ns Map.empty) (mmake (pod_Labels (stateful_base W ns b i h)))"
    by (rule worker_labels_kept [OF assms(4)])
      (simp add: stateful_base_def Let_def SetRevision_labels initIdentity_labels)
  show "pod_OwnerReferences (stateful_base W ns b i h) = pod_OwnerReferences b"
    "pod_Namespace (stateful_base W ns b i h) = ns_Namespace ns"
    by (simp_all add: stateful_base_def Let_def)
  have "newline \<notin> set (ns_Name ns @ ''-'')"
    using assms(2) by (simp add: nameable_def newline_def)
  then show "IsPodFromNodeSet ns (stateful_base W ns b i h)"
    unfolding IsPodFromNodeSet_def stateful_base_name [OF assms(1-3)] GetOrdinalPodName_def
    using name_regex_self [of "ns_Name ns @ ''-''" "GetPaddedOrdinal ns i"] by simp
qed

lemma newNodeSetPodOrdinal_made:
  assumes "fst (run_state (newNodeSetPodOrdinal W ns i h) s) = Inr p"
  obtains c u t a where "fst (run_state (BuildWorkerPodTemplate W ns c) u) = Inr t"
    and "p = (stateful_base W ns (w_GetPodFromTemplate W t ns) i h)\<lparr>pod_Affinity := a, pod_NodeName := ''''\<rparr>"
proof -
  obtain c u where "fst (run_state (NewNodeSetStatefulSetPod W ns c i h) u) = Inr p"
    using assms by (auto simp: newNodeSetPodOrdinal_def call_defs split: sum.splits)
  then show thesis
    by (rule NewNodeSetStatefulSetPod_result) (rule that)
qed

lemma newNodeSetPodDaemon_made:
  assumes "fst (run_state (newNodeSetPodDaemon W ns n h) s) = Inr p"
  obtains c u t where "fst (run_state (BuildWorkerPodTemplate W ns c) u) = Inr t"
    and "pod_Name p = ''''" "pod_GenerateName p = ns_Name ns @ ''-''" "pod_Namespace p = ns_Namespace ns"
    and "pod_OwnerReferences p = pod_OwnerReferences (w_GetPodFromTemplate W t ns)"
    and "\<And>x. x \<notin> {LabelNodeSetPodIndex, LabelNodeSetPodName, LabelNodeSetPodHostname, LabelNodeSetScalingMode,
        ControllerRevisionHashLabel} \<Longrightarrow> mmake (pod_Labels p) x = mmake (pod_Labels (w_GetPodFromTemplate W t ns)) x"
proof -
  obtain c v u where "fst (run_state (NewNodeSetDaemonSetPod W ns c n v h) u) = Inr p"
    using assms by (auto simp: newNodeSetPodDaemon_def call_defs split: sum.splits if_splits)
  then obtain t where t: "fst (run_state (BuildWorkerPodTemplate W ns c) u) = Inr t"
    and p: "fst (run_state (NewNodeSetDaemonSetPod W ns c n v h) u) = Inr p"
    by (cases "run_state (BuildWorkerPodTemplate W ns c) u") (auto simp: NewNodeSetDaemonSetPod_def split: sum.splits)
  from t p show thesis
    by (intro that [OF t]; cases "run_state (BuildWorkerPodTemplate W ns c) u")
      (auto simp: NewNodeSetDaemonSetPod_def Let_def SetRevision_labels initIdentity_labels split: if_splits)
qed

section \<open>New pods are found again\<close>

text \<open>
  C11. Every pod that scaling makes for a NodeSet is counted as one of its pods once it exists: it is in
  the namespace of the NodeSet, the NodeSet is its only owner, it matches the selector and the name pattern
  by which the NodeSet claims pods; and the service of the cluster selects it. This holds whatever labels the user
  gives, as long as the objects whose checksums the template records can be read.
\<close>

theorem new_pods_claimed:
  assumes "merges_ok W" "copies_template W" "hashes_readable W ns" "nameable ns" "int32_ordinal i"
    and "create = (if is_statefulset ns then newNodeSetPodOrdinal W ns i hash else newNodeSetPodDaemon W ns nodeName hash)"
    and "fst (run_state create s) = Inr p"
  shows "claimable ns (named_by_server random p) \<and>
    map_le (WithCluster (snd (spec_ControllerRef (ns_Spec ns))) (WithApp WorkerApp Map.empty)) (mmake (pod_Labels p))"
proof -
  have name: "newline \<notin> set (ns_Name ns @ ''-'')"
    using assms(4) by (simp add: nameable_def newline_def)
  have "map_le (WithWorkerLabels ns Map.empty) (mmake (pod_Labels p)) \<and> pod_Namespace p = ns_Namespace ns \<and>
    pod_OwnerReferences p = [NewControllerRef (nodeset_owner ns)] \<and> IsPodFromNodeSet ns (named_by_server random p)"
  proof (cases "is_statefulset ns")
    case True
    with assms(6,7) have "fst (run_state (newNodeSetPodOrdinal W ns i hash) s) = Inr p" by simp
    then obtain c u t a where t: "fst (run_state (BuildWorkerPodTemplate W ns c) u) = Inr t"
      and p: "p = (stateful_base W ns (w_GetPodFromTemplate W t ns) i hash)\<lparr>pod_Affinity := a, pod_NodeName := ''''\<rparr>"
      by (rule newNodeSetPodOrdinal_made)
    have l: "map_le (WithWorkerLabels ns Map.empty) (mmake (pod_Labels (w_GetPodFromTemplate W t ns)))"
      using worker_template_labels [OF assms(1,3) t] assms(2) by (simp add: copies_template_def)
    have "pod_Name (stateful_base W ns (w_GetPodFromTemplate W t ns) i hash) \<noteq> ''''"
      by (simp add: stateful_base_name [OF True assms(4,5)] GetOrdinalPodName_def)
    with stateful_base_claimable [OF True assms(4,5) l] assms(2) show ?thesis
      by (auto simp: p copies_template_def named_by_server_def IsPodFromNodeSet_def)
  next
    case False
    with assms(6,7) have "fst (run_state (newNodeSetPodDaemon W ns nodeName hash) s) = Inr p" by simp
    then show ?thesis
    proof (rule newNodeSetPodDaemon_made)
      fix c u t
      assume t: "fst (run_state (BuildWorkerPodTemplate W ns c) u) = Inr t" and p: "pod_Name p = ''''"
        "pod_GenerateName p = ns_Name ns @ ''-''" "pod_Namespace p = ns_Namespace ns"
        "pod_OwnerReferences p = pod_OwnerReferences (w_GetPodFromTemplate W t ns)"
        and l: "\<And>x. x \<notin> {LabelNodeSetPodIndex, LabelNodeSetPodName, LabelNodeSetPodHostname, LabelNodeSetScalingMode,
          ControllerRevisionHashLabel} \<Longrightarrow> mmake (pod_Labels p) x = mmake (pod_Labels (w_GetPodFromTemplate W t ns)) x"
      have "map_le (WithWorkerLabels ns Map.empty) (mmake (pod_Labels p))"
        by (rule worker_labels_kept [OF _ l])
          (use worker_template_labels [OF assms(1,3) t] assms(2) in \<open>simp add: copies_template_def\<close>)
      with p assms(2) name_regex_self [OF name, of random] show ?thesis
        by (simp add: copies_template_def named_by_server_def IsPodFromNodeSet_def)
    qed
  qed
  moreover have "map_le (WithWorkerSelectorLabels ns Map.empty) (WithWorkerLabels ns Map.empty)"
    by (simp add: worker_labels_match_selector)
  ultimately show ?thesis
    using selector_le(5) [of ns] by (auto simp: claimable_def named_by_server_def intro: map_le_trans)
qed

definition template_world :: world where
  "template_world = merging_world\<lparr>w_GetSlurmController := (\<lambda>h k. Inr empty_controller),
     w_GetPodFromTemplate := (\<lambda>t ns. GetPodFromTemplate quiet_world t (ns_Name ns) (Some (NewControllerRef (nodeset_owner ns))))\<rparr>"

theorem new_pods_claimed_witness:
  "\<exists>p. fst (run_state (newNodeSetPodOrdinal template_world sample_nodeset 3 ''h'') st_init) = Inr p \<and>
     claimable sample_nodeset (named_by_server ''x'' p)"
proof -
  let ?make = "newNodeSetPodOrdinal template_world sample_nodeset 3 ''h''"
  have "\<exists>p t. run_state ?make st_init = (Inr p, t)"
    by (rule newNodeSetPodOrdinal_returns [of _ empty_controller]) (simp_all add: template_world_def)
  then obtain p where p: "fst (run_state ?make st_init) = Inr p" by fastforce
  have "merges_ok template_world"
    using merging_world_ok by (simp add: merges_ok_def template_world_def)
  moreover have "copies_template template_world"
    by (simp add: copies_template_def template_world_def GetPodFromTemplate_def getPodsLabelSet_def template_labels_def)
  moreover have "hashes_readable template_world sample_nodeset"
    by (simp add: hashes_readable_def template_world_def merging_world_def quiet_world_def IsNotFound_def)
  ultimately show ?thesis
    using new_pods_claimed [of template_world sample_nodeset 3 ?make "''h''" _ st_init p "''x''"] p
    by (auto simp: int32_ordinal_def)
qed

text \<open>
  When one of them cannot be read, the pod is made of the empty template: it matches no selector of the
  NodeSet (its labels are those of the identity alone).
\<close>

lemma unreadable_hash_gives_empty_template:
  assumes "w_GetConfigMapData W (log s) (NodeSet_SshConfigKey ns) = Inl e" "\<not> IsNotFound e"
  shows "fst (run_state (BuildWorkerPodTemplate W ns c) s) = Inr empty_template_spec"
  using assms by (simp add: BuildWorkerPodTemplate_def getWorkerHashes_def read_for_hash_def read_or_empty_def call_defs)

end
