(* ===== verification/TemplateMerge.thy ===== *)
theory TemplateMerge
  imports Prelude
begin

text \<open>
  Merging of the user's templates into those of the operator (\<^verbatim>\<open>internal/utils/structutils/kube.go\<close>, with
  \<^verbatim>\<open>IsEmpty\<close> of \<^verbatim>\<open>internal/utils/reflectutils/reflect.go\<close>): both objects are written as JSON, the empty fields
  of the patch are removed, and Kubernetes' strategic merge applies the rest. Go's JSON package and the
  strategic merge are parameters. A number is an integer: the objects of the API have no others.
\<close>

section \<open>JSON values\<close>

text \<open>What \<^verbatim>\<open>json.Unmarshal\<close> makes of a document; a Go map is an association list with distinct keys.\<close>

datatype json = JNull | JBool bool | JNumber int | JString string | JArray "json list" | JObject "(string \<times> json) list"

type_synonym json_object = "(string \<times> json) list"

inductive distinct_keys :: "json_object \<Rightarrow> bool" where
  "distinct_keys []"
| "distinct_keys m \<Longrightarrow> k \<notin> fst ` set m \<Longrightarrow> \<forall>sub. v = JObject sub \<longrightarrow> distinct_keys sub \<Longrightarrow> distinct_keys ((k, v) # m)"

inductive_cases distinct_keys_ConsE: "distinct_keys ((k, v) # m)"

text \<open>
  The value is the zero value of its own type. The decoder never gives a nil map or a nil slice, so an empty
  object and an empty array are not.
\<close>

fun IsEmpty :: "json \<Rightarrow> bool" where
  "IsEmpty JNull = True"
| "IsEmpty (JBool b) = (\<not> b)"
| "IsEmpty (JNumber i) = (i = 0)"
| "IsEmpty (JString s) = (s = '''')"
| "IsEmpty (JArray vs) = False"
| "IsEmpty (JObject m) = False"

section \<open>Removing empty fields\<close>

fun removeEmpty :: "json_object \<Rightarrow> json_object" where
  "removeEmpty [] = []"
| "removeEmpty ((k, v) # m) =
     (if v = JNull \<or> IsEmpty v then removeEmpty m
      else case v of
             JObject subMap \<Rightarrow>
               let subMap' = removeEmpty subMap
               in if subMap' = [] then removeEmpty m else (k, JObject subMap') # removeEmpty m
           | _ \<Rightarrow> (k, v) # removeEmpty m)"

text \<open>\<^verbatim>\<open>json.Marshal\<close> of an object, \<^verbatim>\<open>json.Unmarshal\<close> into a map; what is not an object gives an error.\<close>

definition cleanAndMarshal :: "('a \<Rightarrow> err + json) \<Rightarrow> 'a \<Rightarrow> err + json" where
  "cleanAndMarshal marshal obj =
     (case marshal obj of
        Inl e \<Rightarrow> Inl e
      | Inr (JObject m) \<Rightarrow> Inr (JObject (removeEmpty m))
      | Inr JNull \<Rightarrow> Inr JNull
      | Inr _ \<Rightarrow> Inl (GoError ''json: cannot unmarshal into Go value of type map[string]interface {}''))"

definition StrategicMergePatch ::
  "('a \<Rightarrow> err + json) \<Rightarrow> (json \<Rightarrow> json \<Rightarrow> err + json) \<Rightarrow> (json \<Rightarrow> err + 'a) \<Rightarrow> 'a \<Rightarrow> 'a \<Rightarrow> err + 'a" where
  "StrategicMergePatch marshal strategic unmarshal base patch =
     (case marshal base of
        Inl e \<Rightarrow> Inl (Panic ''json.Marshal'')
      | Inr baseBytes \<Rightarrow> (case cleanAndMarshal marshal patch of
          Inl e \<Rightarrow> Inl (Panic ''cleanAndMarshal'')
        | Inr patchBytes \<Rightarrow> (case strategic baseBytes patchBytes of
            Inl e \<Rightarrow> Inl (Panic ''strategicpatch.StrategicMergePatch'')
          | Inr b \<Rightarrow> (case unmarshal b of
              Inl e \<Rightarrow> Inl (Panic ''json.Unmarshal'')
            | Inr out \<Rightarrow> Inr out))))"

section \<open>What is left of a patch\<close>

text \<open>
  The reference: the fields of a document, each a path through objects to a value that is none. A path
  that ends in an object, or leaves one, has no value.
\<close>

fun field_at :: "json_object \<Rightarrow> string list \<Rightarrow> json option" where
  "field_at m [] = None"
| "field_at m [k] = (case map_of m k of None \<Rightarrow> None | Some (JObject sub) \<Rightarrow> None | Some v \<Rightarrow> Some v)"
| "field_at m (k # ks) = (case map_of m k of Some (JObject sub) \<Rightarrow> field_at sub ks | _ \<Rightarrow> None)"

text \<open>What becomes of a single value, and the function in these terms.\<close>

definition kept :: "json \<Rightarrow> json option" where
  "kept v =
     (case v of
        JObject sub \<Rightarrow> if removeEmpty sub = [] then None else Some (JObject (removeEmpty sub))
      | _ \<Rightarrow> if IsEmpty v then None else Some v)"

lemma removeEmpty_Cons:
  "removeEmpty ((k, v) # m) = (case kept v of None \<Rightarrow> removeEmpty m | Some v' \<Rightarrow> (k, v') # removeEmpty m)"
  by (cases v) (auto simp: Let_def kept_def)

declare removeEmpty.simps(2) [simp del]

lemma kept_simps [simp]:
  "kept (JObject sub) = (if removeEmpty sub = [] then None else Some (JObject (removeEmpty sub)))"
  "\<forall>sub. v \<noteq> JObject sub \<Longrightarrow> kept v = (if IsEmpty v then None else Some v)"
  by (simp add: kept_def, cases v) (simp_all add: kept_def)

lemma removeEmpty_keys: "fst ` set (removeEmpty m) \<subseteq> fst ` set m"
proof (induction m)
  case (Cons e m)
  then show ?case by (cases e) (auto simp: removeEmpty_Cons split: option.split)
qed simp

lemma map_of_removeEmpty: "distinct_keys m \<Longrightarrow> map_of (removeEmpty m) k = Option.bind (map_of m k) kept"
proof (induction m rule: distinct_keys.induct)
  case (2 m k' v)
  have "map_of (removeEmpty m) k' = None"
    using 2(2) removeEmpty_keys [of m] by (auto simp: map_of_eq_None_iff)
  with 2 show ?case
    by (auto simp: removeEmpty_Cons split: option.split)
qed simp

lemma distinct_keys_sub: "distinct_keys m \<Longrightarrow> map_of m k = Some (JObject sub) \<Longrightarrow> distinct_keys sub"
  by (induction rule: distinct_keys.induct) (auto split: if_splits)

lemma field_at_Nil [simp]: "field_at [] ks = None"
  by (cases "([] :: json_object, ks)" rule: field_at.cases) auto

lemma field_at_single: "field_at m [k] = Option.bind (map_of m k) (\<lambda>v. if \<exists>sub. v = JObject sub then None else Some v)"
  by (auto split: option.split json.split)

lemma field_at_step:
  "field_at m (k # k' # ks) = (case map_of m k of Some (JObject sub) \<Rightarrow> field_at sub (k' # ks) | _ \<Rightarrow> None)"
  by simp

declare field_at.simps(2,3) [simp del]

lemma field_at_removeEmpty:
  "distinct_keys m \<Longrightarrow> field_at (removeEmpty m) ks = Option.bind (field_at m ks) (\<lambda>v. if IsEmpty v then None else Some v)"
proof (induction m ks rule: field_at.induct)
  case (2 m k)
  then show ?case
    by (cases "map_of m k") (auto simp: field_at_single map_of_removeEmpty kept_def split: json.split)
next
  case (3 m k k' ks)
  show ?case
  proof (cases "\<exists>sub. map_of m k = Some (JObject sub)")
    case True
    then obtain sub where sub: "map_of m k = Some (JObject sub)" by blast
    have "field_at (removeEmpty sub) (k' # ks) =
        Option.bind (field_at sub (k' # ks)) (\<lambda>v. if IsEmpty v then None else Some v)"
      using 3 sub distinct_keys_sub by blast
    then show ?thesis
      using 3(2) sub by (cases "removeEmpty sub = []") (simp_all add: field_at_step map_of_removeEmpty)
  next
    case False
    then show ?thesis
      using 3(2) by (cases "map_of m k") (auto simp: field_at_step map_of_removeEmpty kept_def split: json.split)
  qed
qed simp

text \<open>Nothing empty is left: no field with a zero value, no object without fields.\<close>

inductive pruned :: "json_object \<Rightarrow> bool" where
  "pruned []"
| "pruned m \<Longrightarrow> \<not> IsEmpty v \<Longrightarrow> \<forall>sub. v = JObject sub \<longrightarrow> sub \<noteq> [] \<and> pruned sub \<Longrightarrow> pruned ((k, v) # m)"

lemma removeEmpty_pruned: "pruned (removeEmpty m)"
proof (induction m rule: measure_induct_rule [where f = "size_list (size_prod (\<lambda>_. 0) size)"])
  case (less m)
  show ?case
  proof (cases m)
    case Nil
    then show ?thesis by (simp add: pruned.intros)
  next
    case (Cons e m')
    obtain k v where e: "e = (k, v)" by (cases e)
    have rest: "pruned (removeEmpty m')"
      using less [of m'] by (simp add: Cons)
    have sub: "pruned (removeEmpty sub)" if "v = JObject sub" for sub
      using less [of sub] that by (simp add: Cons e)
    show ?thesis
      using rest sub by (cases v) (auto simp: Cons e removeEmpty_Cons intro!: pruned.intros)
  qed
qed

lemma pruned_unchanged: "pruned m \<Longrightarrow> removeEmpty m = m"
proof (induction rule: pruned.induct)
  case (2 m v k)
  then show ?case by (cases v) (auto simp: removeEmpty_Cons)
qed simp

text \<open>
  C25. Of the user's patch exactly the fields with a value other than null, \<^verbatim>\<open>false\<close>, zero and the empty text
  reach the strategic merge: every path to such a field has the value it had, every other path has
  none, no object without fields is left, and removing once more changes nothing. So a user cannot switch
  off a flag or clear a text that the operator sets.
\<close>

theorem removeEmpty_fields:
  assumes "distinct_keys m"
  shows "(field_at (removeEmpty m) ks = Some v \<longleftrightarrow> field_at m ks = Some v \<and> \<not> IsEmpty v) \<and>
    pruned (removeEmpty m) \<and> removeEmpty (removeEmpty m) = removeEmpty m"
  using field_at_removeEmpty [OF assms, of ks] removeEmpty_pruned [of m] pruned_unchanged [OF removeEmpty_pruned [of m]]
  by (auto simp: bind_eq_Some_conv split: if_splits)

theorem removeEmpty_fields_witness:
  "field_at (removeEmpty [(''a'', JObject [(''b'', JBool False), (''c'', JNumber 3)])]) [''a'', ''c''] = Some (JNumber 3) \<and>
   field_at (removeEmpty [(''a'', JObject [(''b'', JBool False), (''c'', JNumber 3)])]) [''a'', ''b''] \<noteq> Some (JBool False)"
proof -
  have d: "distinct_keys [(''a'', JObject [(''b'', JBool False), (''c'', JNumber 3)])]"
    by (auto intro!: distinct_keys.intros)
  show ?thesis
    using removeEmpty_fields [OF d, of "[''a'', ''c'']" "JNumber 3"] removeEmpty_fields [OF d, of "[''a'', ''b'']" "JBool False"]
    by (simp add: field_at_step field_at_single)
qed

text \<open>A patch of empty fields only is the empty object; where a strategic merge with it gives the base, so does the code.\<close>

lemma empty_patch_gives_base:
  assumes "\<And>x. \<exists>j. marshal x = Inr j \<and> unmarshal j = Inr x" "\<And>j. strategic j (JObject []) = Inr j"
    and "marshal patch = Inr (JObject m)" "removeEmpty m = []"
  shows "StrategicMergePatch marshal strategic unmarshal base patch = Inr base"
proof -
  obtain j where "marshal base = Inr j" "unmarshal j = Inr base"
    using assms(1) by blast
  with assms(2-4) show ?thesis
    by (simp add: StrategicMergePatch_def cleanAndMarshal_def)
qed

end
