(* ===== verification/ResourceHandlers.thy ===== *)
theory ResourceHandlers
  imports Keys
begin

text \<open>
  The event handlers of the controllers of Controllers, Accountings, RestApis and LoginSets
  (\<^verbatim>\<open>internal/controller/{controller,accounting,restapi,loginset}/eventhandler\<close>): what a change of a
  resource or a secret puts into their work queues. An object of another type is \<open>None\<close>; a secret is
  its key. The handlers of generic events are blank.
\<close>

section \<open>The work queue\<close>

definition enqueue_key :: "nsname \<Rightarrow> unit prog" where
  "enqueue_key k = emit (Enqueued k 0)"

fun enqueue_keys :: "nsname list \<Rightarrow> unit prog" where
  "enqueue_keys [] = State_Monad.return ()"
| "enqueue_keys (k # ks) = do { enqueue_key k; enqueue_keys ks }"

definition queued :: "nsname list \<Rightarrow> history \<Rightarrow> history" where
  "queued ks h = rev (map (\<lambda>k. Ctl (Enqueued k 0)) ks) @ h"

lemma run_enqueue_keys [simp]: "run_state (enqueue_keys ks) s = ((), s\<lparr>log := queued ks (log s)\<rparr>)"
  by (induction ks arbitrary: s) (simp_all add: enqueue_key_def call_defs queued_def)

text \<open>A secret holds one of the two keys of a resource.\<close>

definition uses_secret :: "nsname \<Rightarrow> nsname \<Rightarrow> nsname \<Rightarrow> bool" where
  "uses_secret secretKey slurmKeyKey jwtKeyKey \<longleftrightarrow>
     \<not> (nsname_String secretKey \<noteq> nsname_String slurmKeyKey \<and> nsname_String secretKey \<noteq> nsname_String jwtKeyKey)"

section \<open>Accounting\<close>

text \<open>The queue is the one of the Accounting controller; the keys are those of the Controllers.\<close>

definition accounting_AccountingEventHandler_enqueueRequest :: "world \<Rightarrow> accounting option \<Rightarrow> unit prog" where
  "accounting_AccountingEventHandler_enqueueRequest W obj =
     (case obj of
        None \<Rightarrow> State_Monad.return ()
      | Some accounting \<Rightarrow> do {
          g \<leftarrow> GetControllersForAccounting W (Some accounting);
          case g of Inl _ \<Rightarrow> State_Monad.return () | Inr items \<Rightarrow> enqueue_keys (map ct_key items)
        })"

definition accounting_SecretEventHandler_enqueueRequest :: "world \<Rightarrow> nsname option \<Rightarrow> unit prog" where
  "accounting_SecretEventHandler_enqueueRequest W obj =
     (case obj of
        None \<Rightarrow> State_Monad.return ()
      | Some secretKey \<Rightarrow> do {
          g \<leftarrow> ListAccountings W;
          enqueue_keys (map ac_key (filter (\<lambda>a. uses_secret secretKey (Accounting_AuthSlurmKey a) (Accounting_AuthJwtKey a))
            (case g of Inl _ \<Rightarrow> [] | Inr items \<Rightarrow> items)))
        })"

section \<open>Controllers\<close>

definition controller_AccountingEventHandler_enqueueRequest :: "world \<Rightarrow> accounting option \<Rightarrow> unit prog" where
  "controller_AccountingEventHandler_enqueueRequest W obj =
     (case obj of
        None \<Rightarrow> State_Monad.return ()
      | Some accounting \<Rightarrow> do {
          g \<leftarrow> GetControllersForAccounting W (Some accounting);
          case g of Inl _ \<Rightarrow> State_Monad.return () | Inr items \<Rightarrow> enqueue_keys (map ct_key items)
        })"

definition controller_AccountingEventHandler_Update :: "world \<Rightarrow> accounting option \<Rightarrow> accounting option \<Rightarrow> unit prog" where
  "controller_AccountingEventHandler_Update W old new = do {
     controller_AccountingEventHandler_enqueueRequest W old;
     controller_AccountingEventHandler_enqueueRequest W new
   }"

definition NodesetEventHandler_enqueueRequest :: "world \<Rightarrow> nodeset option \<Rightarrow> unit prog" where
  "NodesetEventHandler_enqueueRequest W obj =
     (case obj of
        None \<Rightarrow> State_Monad.return ()
      | Some nodeset \<Rightarrow> do {
          g \<leftarrow> GetSlurmController W (spec_ControllerRef (ns_Spec nodeset));
          case g of Inl _ \<Rightarrow> State_Monad.return () | Inr controller \<Rightarrow> enqueue_key (ct_key controller)
        })"

definition controller_SecretEventHandler_enqueueRequest :: "world \<Rightarrow> nsname option \<Rightarrow> unit prog" where
  "controller_SecretEventHandler_enqueueRequest W obj =
     (case obj of
        None \<Rightarrow> State_Monad.return ()
      | Some secretKey \<Rightarrow> do {
          g \<leftarrow> ListControllers W;
          enqueue_keys (map ct_key (filter (\<lambda>c. uses_secret secretKey (AuthSlurmKey c) (AuthJwtKey c))
            (case g of Inl _ \<Rightarrow> [] | Inr items \<Rightarrow> items)))
        })"

section \<open>RestApis\<close>

definition restapi_ControllerEventHandler_enqueueRequest :: "world \<Rightarrow> slurm_controller option \<Rightarrow> unit prog" where
  "restapi_ControllerEventHandler_enqueueRequest W obj =
     (case obj of
        None \<Rightarrow> State_Monad.return ()
      | Some controller \<Rightarrow> do {
          g \<leftarrow> GetRestapisForController W (Some controller);
          case g of Inl _ \<Rightarrow> State_Monad.return () | Inr items \<Rightarrow> enqueue_keys (map ra_key items)
        })"

definition restapi_ControllerEventHandler_Update ::
  "world \<Rightarrow> slurm_controller option \<Rightarrow> slurm_controller option \<Rightarrow> unit prog" where
  "restapi_ControllerEventHandler_Update W old new = do {
     restapi_ControllerEventHandler_enqueueRequest W old;
     restapi_ControllerEventHandler_enqueueRequest W new
   }"

text \<open>An error while listing is only logged; the list is nil then, and ranging over its items dereferences it.\<close>

fun restapis_for_secret :: "world \<Rightarrow> nsname \<Rightarrow> slurm_controller list \<Rightarrow> error prog" where
  "restapis_for_secret W secretKey [] = ok"
| "restapis_for_secret W secretKey (c # controllers) =
     (if \<not> uses_secret secretKey (AuthSlurmKey c) (AuthJwtKey c) then restapis_for_secret W secretKey controllers
      else do {
        g \<leftarrow> GetRestapisForController W (Some c);
        case g of
          Inl _ \<Rightarrow> fail (Panic ''nil pointer dereference'')
        | Inr restapis \<Rightarrow> do {
            enqueue_keys (map ra_key (filter (\<lambda>r. ObjectReference_IsMatch (ra_ControllerRef r) (ct_key c)) restapis));
            restapis_for_secret W secretKey controllers
          }
      })"

definition restapi_SecretEventHandler_enqueueRequest :: "world \<Rightarrow> nsname option \<Rightarrow> error prog" where
  "restapi_SecretEventHandler_enqueueRequest W obj =
     (case obj of
        None \<Rightarrow> ok
      | Some secretKey \<Rightarrow> do {
          g \<leftarrow> ListControllers W;
          restapis_for_secret W secretKey (case g of Inl _ \<Rightarrow> [] | Inr controllers \<Rightarrow> controllers)
        })"

section \<open>LoginSets\<close>

definition loginset_ControllerEventHandler_enqueueRequest :: "world \<Rightarrow> slurm_controller option \<Rightarrow> unit prog" where
  "loginset_ControllerEventHandler_enqueueRequest W obj =
     (case obj of
        None \<Rightarrow> State_Monad.return ()
      | Some controller \<Rightarrow> do {
          g \<leftarrow> GetLoginSetsForController W (Some controller);
          case g of Inl _ \<Rightarrow> State_Monad.return () | Inr items \<Rightarrow> enqueue_keys (map LoginSet_Key items)
        })"

definition loginset_ControllerEventHandler_Update ::
  "world \<Rightarrow> slurm_controller option \<Rightarrow> slurm_controller option \<Rightarrow> unit prog" where
  "loginset_ControllerEventHandler_Update W old new = do {
     loginset_ControllerEventHandler_enqueueRequest W old;
     loginset_ControllerEventHandler_enqueueRequest W new
   }"

text \<open>\<open>enqueued\<close>: the keys, as text, that are in the queue already.\<close>

fun loginsets_for_secret :: "world \<Rightarrow> nsname \<Rightarrow> slurm_controller list \<Rightarrow> string set \<Rightarrow> (err + string set) prog" where
  "loginsets_for_secret W secretKey [] enqueued = State_Monad.return (Inr enqueued)"
| "loginsets_for_secret W secretKey (c # controllers) enqueued =
     (if \<not> uses_secret secretKey (AuthSlurmKey c) (AuthJwtKey c) then loginsets_for_secret W secretKey controllers enqueued
      else do {
        g \<leftarrow> GetLoginSetsForController W (Some c);
        case g of
          Inl _ \<Rightarrow> State_Monad.return (Inl (Panic ''nil pointer dereference''))
        | Inr loginsets \<Rightarrow>
            let keys = map LoginSet_Key (filter (\<lambda>l. ObjectReference_IsMatch (ls_ControllerRef l) (ct_key c)) loginsets)
            in do {
              enqueue_keys keys;
              loginsets_for_secret W secretKey controllers (enqueued \<union> nsname_String ` set keys)
            }
      })"

definition loginset_SecretEventHandler_enqueueRequest :: "world \<Rightarrow> nsname option \<Rightarrow> error prog" where
  "loginset_SecretEventHandler_enqueueRequest W obj =
     (case obj of
        None \<Rightarrow> ok
      | Some secretKey \<Rightarrow> do {
          g \<leftarrow> ListControllers W;
          with_value (loginsets_for_secret W secretKey (case g of Inl _ \<Rightarrow> [] | Inr controllers \<Rightarrow> controllers) {}) (\<lambda>enqueued. do {
            l \<leftarrow> ListLoginSets W;
            case l of
              Inl _ \<Rightarrow> ok
            | Inr loginsets \<Rightarrow> do {
                enqueue_keys (map LoginSet_Key (filter (\<lambda>l.
                  nsname_String secretKey = nsname_String (LoginSet_SssdSecretKey l) \<and>
                  nsname_String (LoginSet_Key l) \<notin> enqueued) loginsets));
                ok
              }
          })
        })"

section \<open>Who is told of a change of a secret\<close>

definition enqueued_keys :: "st \<Rightarrow> nsname set" where
  "enqueued_keys s = {k. Ctl (Enqueued k 0) \<in> set (log s)}"

lemma enqueued_keys_simps [simp]:
  "enqueued_keys (s\<lparr>log := queued ks h\<rparr>) = set ks \<union> enqueued_keys (s\<lparr>log := h\<rparr>)"
  "enqueued_keys (s\<lparr>log := Rd e # h\<rparr>) = enqueued_keys (s\<lparr>log := h\<rparr>)"
  "enqueued_keys (s\<lparr>log := log s\<rparr>) = enqueued_keys s"
  by (auto simp: enqueued_keys_def queued_def)

definition secret_logins :: "nsname \<Rightarrow> slurm_controller list \<Rightarrow> loginset list \<Rightarrow> nsname set" where
  "secret_logins secretKey controllers loginsets =
     LoginSet_Key ` {l \<in> set loginsets. \<exists>c \<in> set controllers. uses_secret secretKey (AuthSlurmKey c) (AuthJwtKey c) \<and>
       ls_ControllerRef l = ct_key c}"

lemma loginsets_for_secret_enqueues:
  assumes "\<forall>h. w_ListLoginSets W h = Inr loginsets"
  shows "\<exists>t. run_state (loginsets_for_secret W secretKey controllers enqueued) s =
      (Inr (enqueued \<union> nsname_String ` secret_logins secretKey controllers loginsets), t) \<and>
    enqueued_keys t = enqueued_keys s \<union> secret_logins secretKey controllers loginsets"
proof (induction controllers arbitrary: enqueued s)
  case Nil
  then show ?case by (simp add: secret_logins_def)
next
  case (Cons c controllers)
  show ?case
  proof (cases "uses_secret secretKey (AuthSlurmKey c) (AuthJwtKey c)")
    case False
    then have "secret_logins secretKey (c # controllers) loginsets = secret_logins secretKey controllers loginsets"
      by (simp add: secret_logins_def)
    with Cons.IH [of enqueued s] False show ?thesis by simp
  next
    case True
    let ?k = "map LoginSet_Key (filter (\<lambda>l. ls_ControllerRef l = ct_key c) loginsets)"
    let ?s = "s\<lparr>log := queued ?k (Rd (ListedLoginSets (Inr loginsets)) # log s)\<rparr>"
    have "secret_logins secretKey (c # controllers) loginsets = set ?k \<union> secret_logins secretKey controllers loginsets"
      using True by (auto simp: secret_logins_def)
    moreover obtain t where "run_state (loginsets_for_secret W secretKey controllers (enqueued \<union> nsname_String ` set ?k)) ?s =
        (Inr (enqueued \<union> nsname_String ` set ?k \<union> nsname_String ` secret_logins secretKey controllers loginsets), t)"
      "enqueued_keys t = enqueued_keys ?s \<union> secret_logins secretKey controllers loginsets"
      using Cons.IH by blast
    ultimately show ?thesis
      using True assms
      by (intro exI [of _ t]) (auto simp: GetLoginSetsForController_def call_defs IsMatch_eq Let_def image_Un)
  qed
qed

text \<open>
  A change of a secret enqueues exactly the LoginSets that use it: those whose SSSD configuration it
  holds, and those of a Controller whose Slurm or JWT key it holds.
\<close>

theorem secret_change_enqueues_loginsets:
  assumes "\<forall>h. w_ListControllers W h = Inr controllers" "\<forall>h. w_ListLoginSets W h = Inr loginsets"
    and "\<forall>l \<in> set loginsets. plain_namespace (LoginSet_Key l)" "log s = []"
  shows "\<exists>t. run_state (loginset_SecretEventHandler_enqueueRequest W (Some secretKey)) s = (None, t) \<and>
    enqueued_keys t = LoginSet_Key ` {l \<in> set loginsets.
      nsname_String secretKey = nsname_String (LoginSet_SssdSecretKey l) \<or>
      (\<exists>c \<in> set controllers. uses_secret secretKey (AuthSlurmKey c) (AuthJwtKey c) \<and> ls_ControllerRef l = ct_key c)}"
proof -
  let ?K = "secret_logins secretKey controllers loginsets"
  let ?l = "filter (\<lambda>l. nsname_String secretKey = nsname_String (LoginSet_SssdSecretKey l) \<and>
      nsname_String (LoginSet_Key l) \<notin> nsname_String ` ?K) loginsets"
  have inj: "nsname_String (LoginSet_Key l) \<in> nsname_String ` ?K \<longleftrightarrow> LoginSet_Key l \<in> ?K" if "l \<in> set loginsets" for l
  proof
    assume "nsname_String (LoginSet_Key l) \<in> nsname_String ` ?K"
    then obtain m where m: "m \<in> set loginsets" "LoginSet_Key m \<in> ?K"
      "nsname_String (LoginSet_Key l) = nsname_String (LoginSet_Key m)"
      unfolding secret_logins_def by blast
    then have "LoginSet_Key l = LoginSet_Key m"
      using assms(3) that nsname_String_inject by blast
    with m(2) show "LoginSet_Key l \<in> ?K" by simp
  qed (rule imageI)
  obtain u where u: "run_state (loginsets_for_secret W secretKey controllers {})
        (s\<lparr>log := Rd (ListedControllers (Inr controllers)) # log s\<rparr>) = (Inr (nsname_String ` ?K), u)"
    "enqueued_keys u = ?K"
    using loginsets_for_secret_enqueues [OF assms(2), of secretKey controllers "{}"] assms(4)
    by (fastforce simp: enqueued_keys_def)
  define t where "t = u\<lparr>log := queued (map LoginSet_Key ?l) (Rd (ListedLoginSets (Inr loginsets)) # log u)\<rparr>"
  have "run_state (loginset_SecretEventHandler_enqueueRequest W (Some secretKey)) s = (None, t)"
    using assms(1,2) u(1) by (simp add: loginset_SecretEventHandler_enqueueRequest_def call_defs t_def)
  moreover have "enqueued_keys t = set (map LoginSet_Key ?l) \<union> ?K"
    unfolding t_def using u(2) by (simp only: enqueued_keys_simps)
  ultimately show ?thesis
    using inj by (intro exI [of _ t]) (auto simp: secret_logins_def)
qed

definition sample_login :: loginset where
  "sample_login = empty_loginset\<lparr>ls_SssdConfRef := \<lparr>sks_Name = ''sssd'', sks_Key = ''conf''\<rparr>\<rparr>"

theorem secret_change_enqueues_loginsets_witness:
  "\<exists>t. run_state (loginset_SecretEventHandler_enqueueRequest
      (quiet_world\<lparr>w_ListLoginSets := (\<lambda>h. Inr [sample_login])\<rparr>) (Some ('''', ''sssd''))) st_init = (None, t) \<and>
    enqueued_keys t = {('''', '''')}"
proof -
  let ?W = "quiet_world\<lparr>w_ListLoginSets := (\<lambda>h. Inr [sample_login])\<rparr>"
  have keys: "LoginSet_SssdSecretKey sample_login = ('''', ''sssd'')" "LoginSet_Key sample_login = ('''', '''')"
    by (simp_all add: sample_login_def LoginSet_SssdSecretKey_def LoginSet_Key_def empty_loginset_def)
  then have "\<forall>h. w_ListControllers ?W h = Inr []" "\<forall>h. w_ListLoginSets ?W h = Inr [sample_login]" "log st_init = []"
    "\<forall>l \<in> set [sample_login]. plain_namespace (LoginSet_Key l)"
    by (simp_all add: quiet_world_def st_init_def plain_namespace_def)
  note exact = secret_change_enqueues_loginsets [OF this(1,2,4,3), of "('''', ''sssd'')"]
  have "{l. l = sample_login \<and> nsname_String ('''', ''sssd'') = nsname_String (LoginSet_SssdSecretKey l)} = {sample_login}"
    using keys by auto
  with exact keys show ?thesis by simp
qed

text \<open>A change of an Accounting puts the keys of the Controllers that reference it into the queue of Accountings.\<close>

lemma accounting_change_enqueues_controllers:
  assumes "\<forall>h. w_ListControllers W h = Inr controllers" "log s = []"
  shows "enqueued_keys (snd (run_state (accounting_AccountingEventHandler_enqueueRequest W (Some accounting)) s)) =
    ct_key ` {c \<in> set controllers. ct_AccountingRef c = Some (ac_key accounting)}"
  using assms
  by (auto simp: accounting_AccountingEventHandler_enqueueRequest_def GetControllersForAccounting_def call_defs IsMatch_eq
      enqueued_keys_def queued_def split: option.splits)

end
