(* ===== verification/ApiServer.thy ===== *)
theory ApiServer
  imports ObjectSync
begin

text \<open>
  What \<^verbatim>\<open>SyncObject\<close> does to the cluster: the objects the API server stores are a function of the
  history, and one call of \<^verbatim>\<open>SyncObject\<close> against a server that answers from them is one step of an
  abstract operation on the store.
\<close>

section \<open>The store\<close>

type_synonym object_store = "kind \<times> nsname \<rightharpoonup> kobject"

fun store_of :: "object_store \<Rightarrow> history \<Rightarrow> object_store" where
  "store_of st [] = st"
| "store_of st (Wr (CreatedObject x None) # h) = (store_of st h)((ko_Kind x, ko_Key x) \<mapsto> x)"
| "store_of st (Wr (PatchedObject x y None) # h) = (store_of st h)((ko_Kind y, ko_Key y) \<mapsto> x)"
| "store_of st (Wr (DeletedObject x None) # h) = (store_of st h)((ko_Kind x, ko_Key x) := None)"
| "store_of st (e # h) = store_of st h"

text \<open>The server answers reads from the store, and accepts what is written.\<close>

definition serves :: "object_store \<Rightarrow> world \<Rightarrow> bool" where
  "serves st W \<longleftrightarrow> (\<forall>h kd k. w_GetObject W h kd k =
     (case store_of st h (kd, k) of None \<Rightarrow> Inl (StatusError NotFound) | Some x \<Rightarrow> Inr x))"

lemma servesD: "serves st W \<Longrightarrow> w_GetObject W h kd k =
    (case store_of st h (kd, k) of None \<Rightarrow> Inl (StatusError NotFound) | Some x \<Rightarrow> Inr x)"
  unfolding serves_def by blast

definition accepts :: "world \<Rightarrow> bool" where
  "accepts W \<longleftrightarrow> (\<forall>h x. w_CreateObject W h x = None) \<and> (\<forall>h x y. w_PatchObject W h x y = None)"

text \<open>Objects are stored under their own kind and key.\<close>

definition keyed :: "object_store \<Rightarrow> bool" where
  "keyed st \<longleftrightarrow> (\<forall>k x. st k = Some x \<longrightarrow> k = (ko_Kind x, ko_Key x))"

lemma keyedD: "keyed st \<Longrightarrow> st (kd, key) = Some x \<Longrightarrow> ko_Kind x = kd \<and> ko_Key x = key"
  unfolding keyed_def by (metis Pair_inject)

section \<open>Applying an object\<close>

definition frozen :: "bool \<Rightarrow> kobject \<Rightarrow> kobject \<Rightarrow> bool" where
  "frozen shouldUpdate new old \<longleftrightarrow> being_deleted old \<or> \<not> shouldUpdate \<or>
     (ko_Kind new \<in> {ConfigMap, Secret} \<and> ko_Immutable old = Some True)"

definition apply_object :: "bool \<Rightarrow> kobject \<Rightarrow> object_store \<Rightarrow> object_store" where
  "apply_object shouldUpdate new st =
     (case st (ko_Kind new, ko_Key new) of
        None \<Rightarrow> st((ko_Kind new, ko_Key new) \<mapsto> new)
      | Some old \<Rightarrow> if frozen shouldUpdate new old then st
                     else st((ko_Kind new, ko_Key new) \<mapsto> updated_object old new))"

lemma keyed_apply:
  assumes "keyed st"
  shows "keyed (apply_object upd new st)"
proof -
  have "keyed (st((ko_Kind new, ko_Key new) \<mapsto> x))" if "ko_Kind x = ko_Kind new" "ko_Key x = ko_Key new" for x
    using assms that unfolding keyed_def by simp
  then show ?thesis
    using assms keyedD [OF assms] by (auto simp: apply_object_def split: option.split)
qed

lemma apply_object_other: "k \<noteq> (ko_Kind new, ko_Key new) \<Longrightarrow> apply_object upd new st k = st k"
  by (simp add: apply_object_def split: option.split)

lemma store_of_reads [simp]: "store_of st (Rd e # h) = store_of st h"
  and store_of_controls [simp]: "store_of st (Ctl c # h) = store_of st h"
  by simp_all

lemma record_event_store [simp]:
  "store_of st (log (snd (run_state (record_event recorder a b c d) s))) = store_of st (log s)"
  by (simp add: record_event_def call_defs)

lemma patch_object_store:
  assumes "accepts W"
  shows "fst (run_state (patch_object W recorder new upd old) s) = None \<and>
    store_of st (log (snd (run_state (patch_object W recorder new upd old) s))) =
      (if frozen upd new old then store_of st (log s)
       else (store_of st (log s))((ko_Kind old, ko_Key old) \<mapsto> updated_object old new))"
  using assms by (auto simp: patch_object_def frozen_def accepts_def call_defs deref_def split: option.splits)

lemma SyncObject_applies:
  assumes "serves st W" "accepts W" "ko_Kind new \<noteq> OtherKind" "keyed (store_of st (log s))"
  shows "fst (run_state (SyncObject W recorder new upd) s) = None \<and>
    store_of st (log (snd (run_state (SyncObject W recorder new upd) s))) = apply_object upd new (store_of st (log s))"
proof (cases "store_of st (log s) (ko_Kind new, ko_Key new)")
  case None
  with assms(2,3) show ?thesis
    by (simp add: SyncObject_def servesD [OF assms(1)] accepts_def call_defs IsNotFound_def apply_object_def split_beta)
next
  case (Some old)
  let ?s = "s\<lparr>log := Rd (GotObject (ko_Kind new) (ko_Key new) (Inr old)) # log s\<rparr>"
  from Some assms(3) have "run_state (SyncObject W recorder new upd) s = run_state (patch_object W recorder new upd old) ?s"
    by (simp add: SyncObject_def servesD [OF assms(1)] call_defs)
  moreover have "ko_Kind old = ko_Kind new" "ko_Key old = ko_Key new"
    using keyedD [OF assms(4) Some] by simp_all
  ultimately show ?thesis
    using patch_object_store [OF assms(2), of recorder new upd old ?s st] Some by (simp add: apply_object_def)
qed

text \<open>
  C17. Against a server that answers from its store, \<open>SyncObject\<close> refines the abstract operation: it
  succeeds, and the store afterwards is the store with the object applied, whatever was there before and
  whatever was done in between.
\<close>

theorem SyncObject_refines_apply:
  assumes "serves st W" "accepts W" "ko_Kind new \<noteq> OtherKind" "keyed (store_of st (log s))"
  shows "fst (run_state (SyncObject W recorder new upd) s) = None \<and>
    store_of st (log (snd (run_state (SyncObject W recorder new upd) s))) = apply_object upd new (store_of st (log s)) \<and>
    keyed (store_of st (log (snd (run_state (SyncObject W recorder new upd) s))))"
  using SyncObject_applies [OF assms, of recorder upd] keyed_apply [OF assms(4), of upd new] by simp

definition store_world :: "object_store \<Rightarrow> world" where
  "store_world st = quiet_world\<lparr>w_GetObject := (\<lambda>h kd k.
     case store_of st h (kd, k) of None \<Rightarrow> Inl (StatusError NotFound) | Some x \<Rightarrow> Inr x)\<rparr>"

lemma store_world_ok: "serves st (store_world st)" "accepts (store_world st)" "keyed Map.empty"
  by (simp_all add: serves_def accepts_def store_world_def keyed_def) (simp_all add: quiet_world_def)

definition sample_config :: kobject where
  "sample_config = \<lparr>ko_Kind = ConfigMap, ko_Key = (''slurm'', ''conf''), ko_UID = '''', ko_DeletionTimestamp = None,
     ko_Annotations = Some Map.empty, ko_Labels = Some Map.empty, ko_OwnerReferences = [], ko_Immutable = Some False,
     ko_Fields = Map.empty, ko_StringData = None\<rparr>"

theorem SyncObject_refines_apply_witness:
  "store_of Map.empty (log (snd (run_state (SyncObject (store_world Map.empty) True sample_config True) st_init))) =
   [(ConfigMap, (''slurm'', ''conf'')) \<mapsto> sample_config]"
proof -
  have start: "store_of Map.empty (log st_init) = Map.empty" by (simp add: st_init_def)
  have "ko_Kind sample_config = ConfigMap" "ko_Key sample_config = (''slurm'', ''conf'')"
    by (simp_all add: sample_config_def)
  with SyncObject_refines_apply [OF store_world_ok(1,2), of sample_config Map.empty st_init True True] start
  show ?thesis by (simp add: store_world_ok(3) apply_object_def)
qed

section \<open>Applying an object again\<close>

lemma updated_object_self:
  assumes "ko_Labels new \<noteq> None" "ko_Annotations new \<noteq> None"
  shows "updated_object new new = new"
proof -
  have "copy_fields fs f f = f" for fs f by (rule ext) (simp add: copy_fields_lookup)
  moreover have "m ++ m = m" for m :: "string \<rightharpoonup> string"
    by (rule ext) (simp add: map_add_def split: option.split)
  ultimately show ?thesis using assms by (cases new) (auto simp: updated_object_def)
qed

lemma frozen_updated: "frozen upd new (updated_object old new) = frozen upd new old"
  by (simp add: frozen_def being_deleted_def updated_object_def)

lemma apply_object_idem:
  assumes "ko_Labels new \<noteq> None" "ko_Annotations new \<noteq> None"
  shows "apply_object upd new (apply_object upd new st) = apply_object upd new st"
  using updated_object_self [OF assms]
  by (auto simp: apply_object_def frozen_updated updated_object_idem split: option.split)

text \<open>
  Syncing the same object again changes nothing: after two calls of \<open>SyncObject\<close> the store is the one
  after the first.
\<close>

theorem SyncObject_stable:
  assumes "serves st W" "accepts W" "ko_Kind new \<noteq> OtherKind" "keyed (store_of st (log s))"
    and "ko_Labels new \<noteq> None" "ko_Annotations new \<noteq> None"
    and "t = snd (run_state (SyncObject W recorder new upd) s)"
  shows "store_of st (log (snd (run_state (SyncObject W recorder new upd) t))) = store_of st (log t)"
proof -
  have t: "store_of st (log t) = apply_object upd new (store_of st (log s))"
    using SyncObject_applies [OF assms(1-4)] assms(7) by simp
  then have "keyed (store_of st (log t))" using keyed_apply [OF assms(4)] by simp
  from SyncObject_applies [OF assms(1-3) this] t show ?thesis
    by (simp add: apply_object_idem [OF assms(5,6)])
qed

theorem SyncObject_stable_witness:
  "let t = snd (run_state (SyncObject (store_world Map.empty) True sample_config True) st_init)
   in store_of Map.empty (log (snd (run_state (SyncObject (store_world Map.empty) True sample_config True) t))) =
      store_of Map.empty (log t)"
proof -
  have "ko_Kind sample_config \<noteq> OtherKind" "keyed (store_of Map.empty (log st_init))"
    "ko_Labels sample_config \<noteq> None" "ko_Annotations sample_config \<noteq> None"
    using store_world_ok(3) by (simp_all add: sample_config_def st_init_def)
  from SyncObject_stable [OF store_world_ok(1,2) this refl] show ?thesis by (simp add: Let_def)
qed

end
