(* ===== verification/Controllers.thy ===== *)
theory Controllers
  imports ClusterObjects ApiServer PodControl Batch
begin

text \<open>
  The controllers of Controllers, RestApis, Accountings and LoginSets (\<^verbatim>\<open>internal/controller/controller\<close>,
  \<^verbatim>\<open>restapi\<close>, \<^verbatim>\<open>accounting\<close>, \<^verbatim>\<open>loginset\<close>): the steps of a sync, the status, and \<^verbatim>\<open>Reconcile\<close>. Each builds its
  objects with the builders and applies them with \<^verbatim>\<open>SyncObject\<close>. The duration store of the state stands for
  the one of the controller at hand; none of the four pushes to it.
\<close>

section \<open>Parts of a sync\<close>

definition sync_built :: "world \<Rightarrow> bool \<Rightarrow> err + kobject \<Rightarrow> error prog" where
  "sync_built W shouldUpdate b =
     (case b of
        Inl e \<Rightarrow> fail (Wrapped ''failed to build'' e)
      | Inr object \<Rightarrow> failing_with ''failed to sync object'' (SyncObject W True object shouldUpdate))"

definition sync_building :: "world \<Rightarrow> (err + kobject) prog \<Rightarrow> error prog" where
  "sync_building W build = do { b \<leftarrow> build; sync_built W True b }"

definition IsZero :: "time option \<Rightarrow> bool" where
  "IsZero t \<longleftrightarrow> t = None \<or> t = Some 0"

text \<open>The status is synced also when a step failed; both errors are returned.\<close>

definition run_steps :: "step list \<Rightarrow> error prog \<Rightarrow> error prog" where
  "run_steps steps syncStatus = do {
     e \<leftarrow> Sync_steps steps;
     case e of
       None \<Rightarrow> syncStatus
     | Some err \<Rightarrow> do {
         se \<leftarrow> syncStatus;
         State_Monad.return (NewAggregate ([err] @ (case se of None \<Rightarrow> [] | Some x \<Rightarrow> [Wrapped ''failed status syncFn'' x])))
       }
   }"

text \<open>One attempt to update the conditions: the resource is read again, and may be gone.\<close>

definition conditions_attempt ::
  "world \<Rightarrow> (err + 'a) prog \<Rightarrow> kind \<Rightarrow> nsname \<Rightarrow> opaque list \<Rightarrow> retry_locals \<Rightarrow> (error \<times> retry_locals) prog" where
  "conditions_attempt W get kd key conditions l = do {
     g \<leftarrow> get;
     case g of
       Inl e \<Rightarrow> State_Monad.return (if IsNotFound e then None else Some e, l)
     | Inr _ \<Rightarrow> do { e \<leftarrow> UpdateConditions_api W kd key conditions; State_Monad.return (e, l) }
   }"

definition updateStatus :: "world \<Rightarrow> (err + 'a) prog \<Rightarrow> kind \<Rightarrow> nsname \<Rightarrow> opaque list \<Rightarrow> error prog" where
  "updateStatus W get kd key conditions = do {
     r \<leftarrow> w_RetryOnConflict W (conditions_attempt W get kd key conditions) (None, False);
     State_Monad.return (fst r)
   }"

definition sync_conditions :: "world \<Rightarrow> (err + 'a) prog \<Rightarrow> kind \<Rightarrow> nsname \<Rightarrow> opaque list \<Rightarrow> error prog" where
  "sync_conditions W get kd key conditions =
     (let newConditions = [] @ conditions
      in if w_StatusDeepEqual W conditions newConditions then ok
         else failing_with ''error updating status'' (updateStatus W get kd key newConditions))"

text \<open>\<^verbatim>\<open>Reconcile\<close>: the deferred call pops the store at the namespace.\<close>

definition reconcile :: "(nsname \<Rightarrow> error prog) \<Rightarrow> nsname \<Rightarrow> (duration \<times> error) prog" where
  "reconcile Sync req = do {
     retErr \<leftarrow> Sync req;
     requeueAfter \<leftarrow> durationStore_Pop (nsname_String req);
     durationStore_Pop (fst req);
     State_Monad.return (requeueAfter, retErr)
   }"

section \<open>Controllers\<close>

text \<open>An error that is no missing kind is returned, from the scheme or from the mapper.\<close>

definition delete_monitor :: "world \<Rightarrow> kobject \<Rightarrow> error prog" where
  "delete_monitor W object = do {
     m \<leftarrow> MapKind W ServiceMonitor;
     case m of
       Some e \<Rightarrow> if w_IsNoMatch W e then ok else fail e
     | None \<Rightarrow> failing_with ''failed to delete object'' (DeleteObject W True object)
   }"

definition syncServiceMonitor :: "world \<Rightarrow> slurm_controller \<Rightarrow> error prog" where
  "syncServiceMonitor W controller =
     (case BuildControllerServiceMonitor W controller of
        Inl e \<Rightarrow> fail (Wrapped ''failed to build'' e)
      | Inr object \<Rightarrow>
          if \<not> mt_Enabled (ct_Metrics controller) \<or> \<not> mt_MonitorEnabled (ct_Metrics controller)
          then delete_monitor W object
          else failing_with ''failed to sync object'' (SyncObject W True object True))"

definition controller_steps :: "world \<Rightarrow> slurm_controller \<Rightarrow> step list" where
  "controller_steps W controller =
     [step_of ''Service'' (if ct_External controller then ok else sync_built W False (BuildControllerService W controller)),
      step_of ''Config'' (sync_building W (if ct_External controller then BuildControllerConfigExternal W controller
                                           else BuildControllerConfig W controller)),
      step_of ''StatefulSet'' (if ct_External controller then ok else sync_building W (BuildController W controller)),
      step_of ''ServiceMonitor'' (syncServiceMonitor W controller)]"

definition controller_syncStatus :: "world \<Rightarrow> slurm_controller \<Rightarrow> error prog" where
  "controller_syncStatus W controller =
     sync_conditions W (GetSlurmController W (ct_key controller)) SlurmController (ct_key controller) (ct_Conditions controller)"

definition Controller_Sync :: "world \<Rightarrow> nsname \<Rightarrow> error prog" where
  "Controller_Sync W req = do {
     g \<leftarrow> GetSlurmController W req;
     case g of
       Inl err \<Rightarrow> if IsNotFound err then ok else fail err
     | Inr obj \<Rightarrow>
         let controller = SetControllerDefaults obj
         in if \<not> IsZero (ct_DeletionTimestamp controller) then ok
            else run_steps (controller_steps W controller) (controller_syncStatus W controller)
   }"

definition Controller_Reconcile :: "world \<Rightarrow> nsname \<Rightarrow> (duration \<times> error) prog" where
  "Controller_Reconcile W req = reconcile (Controller_Sync W) req"

section \<open>RestApis\<close>

definition restapi_steps :: "world \<Rightarrow> restapi \<Rightarrow> step list" where
  "restapi_steps W restapi =
     [step_of ''Service'' (sync_built W True (BuildRestapiService W restapi)),
      step_of ''Deployment'' (sync_building W (BuildRestapi W restapi))]"

definition restapi_syncStatus :: "world \<Rightarrow> restapi \<Rightarrow> error prog" where
  "restapi_syncStatus W restapi =
     sync_conditions W (GetRestapi W (ra_key restapi)) RestApi (ra_key restapi) (ra_Conditions restapi)"

definition Restapi_Sync :: "world \<Rightarrow> nsname \<Rightarrow> error prog" where
  "Restapi_Sync W req = do {
     g \<leftarrow> GetRestapi W req;
     case g of
       Inl err \<Rightarrow> if IsNotFound err then ok else fail err
     | Inr obj \<Rightarrow>
         let restapi = SetRestApiDefaults obj
         in if \<not> IsZero (ra_DeletionTimestamp restapi) then ok
            else run_steps (restapi_steps W restapi) (restapi_syncStatus W restapi)
   }"

definition Restapi_Reconcile :: "world \<Rightarrow> nsname \<Rightarrow> (duration \<times> error) prog" where
  "Restapi_Reconcile W req = reconcile (Restapi_Sync W) req"

section \<open>Accountings\<close>

definition accounting_steps :: "world \<Rightarrow> accounting \<Rightarrow> step list" where
  "accounting_steps W accounting =
     [step_of ''Service'' (if ac_External accounting then ok else sync_built W True (BuildAccountingService W accounting)),
      step_of ''Config'' (if ac_External accounting then ok else sync_building W (BuildAccountingConfig W accounting)),
      step_of ''StatefulSet'' (if ac_External accounting then ok else sync_building W (BuildAccounting W accounting))]"

definition accounting_syncStatus :: "world \<Rightarrow> accounting \<Rightarrow> error prog" where
  "accounting_syncStatus W accounting =
     sync_conditions W (GetAccounting W (ac_key accounting)) Accounting (ac_key accounting) (ac_Conditions accounting)"

definition Accounting_Sync :: "world \<Rightarrow> nsname \<Rightarrow> error prog" where
  "Accounting_Sync W req = do {
     g \<leftarrow> GetAccounting W req;
     case g of
       Inl err \<Rightarrow> if IsNotFound err then ok else fail err
     | Inr obj \<Rightarrow>
         let accounting = SetAccountingDefaults obj
         in if \<not> IsZero (ac_DeletionTimestamp accounting) then ok
            else run_steps (accounting_steps W accounting) (accounting_syncStatus W accounting)
   }"

definition Accounting_Reconcile :: "world \<Rightarrow> nsname \<Rightarrow> (duration \<times> error) prog" where
  "Accounting_Reconcile W req = reconcile (Accounting_Sync W) req"

section \<open>LoginSets\<close>

definition ControllerRefFailedReason :: string where "ControllerRefFailedReason = ''ControllerRefFailed''"

definition loginset_steps :: "world \<Rightarrow> loginset \<Rightarrow> step list" where
  "loginset_steps W loginset =
     [step_of ''SSH Host Keys'' (sync_building W (BuildLoginSshHostKeys W loginset)),
      step_of ''SSH Config'' (sync_built W True (BuildLoginSshConfig W loginset)),
      step_of ''Service'' (sync_built W True (BuildLoginService W loginset)),
      step_of ''Deployment'' (sync_building W (BuildLogin W loginset))]"

definition loginset_status_attempt ::
  "world \<Rightarrow> nsname \<Rightarrow> loginset_status \<Rightarrow> retry_locals \<Rightarrow> (error \<times> retry_locals) prog" where
  "loginset_status_attempt W key newStatus l = do {
     g \<leftarrow> GetLoginSet W key;
     case g of
       Inl e \<Rightarrow> State_Monad.return (if IsNotFound e then None else Some e, l)
     | Inr _ \<Rightarrow> do { e \<leftarrow> UpdateLoginSetStatus_api W key newStatus; State_Monad.return (e, l) }
   }"

definition loginset_updateStatus :: "world \<Rightarrow> loginset \<Rightarrow> loginset_status \<Rightarrow> error prog" where
  "loginset_updateStatus W loginset newStatus = do {
     r \<leftarrow> w_RetryOnConflict W (loginset_status_attempt W (LoginSet_Key loginset) newStatus) (None, False);
     State_Monad.return (fst r)
   }"

definition loginset_syncStatus :: "world \<Rightarrow> loginset \<Rightarrow> error prog" where
  "loginset_syncStatus W loginset =
     with_value (GetDeploymentReplicas W (LoginSet_Key loginset)) (\<lambda>replicas.
       let newStatus = \<lparr>lst_Replicas = replicas, lst_Selector = w_SelectorString W (WithLoginSelectorLabels loginset Map.empty),
             lst_Conditions = [] @ ls_Conditions loginset\<rparr>
       in if w_LoginSetDeepEqual W (ls_Conditions loginset) newStatus then ok
          else failing_with ''error updating LoginSet status'' (loginset_updateStatus W loginset newStatus))"

definition LoginSet_Sync :: "world \<Rightarrow> nsname \<Rightarrow> error prog" where
  "LoginSet_Sync W req = do {
     g \<leftarrow> GetLoginSet W req;
     case g of
       Inl err \<Rightarrow> if IsNotFound err then ok else fail err
     | Inr obj \<Rightarrow>
         let loginset = SetLoginSetDefaults obj
         in if \<not> IsZero (ls_DeletionTimestamp loginset) then ok
            else do {
              c \<leftarrow> GetSlurmController W (ls_ControllerRef loginset);
              case c of
                Inl err \<Rightarrow> do {
                  emit (Eventf ''Warning'' ControllerRefFailedReason ''Sync'' (Some err));
                  fail (Wrapped ''failed to get controller'' err)
                }
              | Inr _ \<Rightarrow> run_steps (loginset_steps W loginset) (loginset_syncStatus W loginset)
            }
   }"

definition LoginSet_Reconcile :: "world \<Rightarrow> nsname \<Rightarrow> (duration \<times> error) prog" where
  "LoginSet_Reconcile W req = reconcile (LoginSet_Sync W) req"

end
