(* ===== verification/ControllerFacts.thy ===== *)
theory ControllerFacts
  imports Controllers
begin

text \<open>
  What holds of a reconcile of a Controller, RestApi, Accounting or LoginSet. The locale \<open>read_frame\<close>
  is the contract of the builders and of the status: they read, report and update a status; \<open>resource_frame\<close>
  extends it with what the steps do, which is to apply or delete objects. Their interpretations are the
  predicates of interest.
\<close>

section \<open>What the controllers do to the state\<close>

locale read_frame =
  fixes I :: "st \<Rightarrow> bool" and W :: world
  assumes read: "I s \<Longrightarrow> I (s\<lparr>log := Rd e # log s\<rparr>)"
    and control: "I s \<Longrightarrow> I (s\<lparr>log := Ctl c # log s\<rparr>)"
    and status: "I s \<Longrightarrow> I (s\<lparr>log := Wr (UpdatedConditions kd k cs r) # log s\<rparr>)"
      "I s \<Longrightarrow> I (s\<lparr>log := Wr (UpdatedLoginSetStatus k u r) # log s\<rparr>)"
begin

lemma calls_kept [keeps_intros]:
  "keeps I (GetSlurmController W k)" "keeps I (GetRestapi W k)" "keeps I (GetAccounting W k)" "keeps I (GetLoginSet W k)"
  "keeps I (ListNodeSets W)" "keeps I (GetSecretData W k)" "keeps I (GetConfigMapData W k)" "keeps I (MapKind W kd)"
  "keeps I (GetDeploymentReplicas W k)" "keeps I (GenerateKey W kr)" "keeps I (UpdateConditions_api W kd k cs)"
  "keeps I (UpdateLoginSetStatus_api W k u)" "keeps I (emit z)"
  unfolding call_defs by (rule keepsI, simp add: read control status)+

lemma reads_kept [keeps_intros]:
  "keeps I (GetNodeSetsForController W c)" "keeps I (GetSecretKeyRef W sel n)" "keeps I (auth_hashes W a b)"
  "keeps I (get_accounting W d)"
  unfolding GetNodeSetsForController_def GetSecretKeyRef_def auth_hashes_def read_or_empty_def get_accounting_def
  by (intro keeps_intros)+

lemma read_configs_kept [keeps_intros]: "keeps I (read_configs W n refs)"
  by (induction refs) (auto intro!: keeps_intros)

lemma read_scripts_kept [keeps_intros]: "keeps I (read_scripts W n refs)"
  unfolding read_scripts_def by (intro keeps_intros)

lemma builders_kept [keeps_intros]:
  "keeps I (BuildController W c)" "keeps I (BuildControllerConfig W c)" "keeps I (BuildControllerConfigExternal W c)"
  "keeps I (BuildAccounting W a)" "keeps I (BuildAccountingConfig W a)" "keeps I (BuildRestapi W r)"
  unfolding BuildController_def controllerPodTemplate_def controller_getHashes_def controller_getAuthHashes_def
    read_or_empty_def BuildControllerConfig_def BuildControllerConfigExternal_def BuildAccounting_def
    accountingPodTemplate_def accounting_getHashes_def accounting_getAuthHashes_def BuildAccountingConfig_def
    BuildRestapi_def restapiPodTemplate_def Let_def
  by (intro keeps_intros)+

lemma login_builders_kept [keeps_intros]: "keeps I (BuildLogin W l)" "keeps I (BuildLoginSshHostKeys W l)"
  unfolding BuildLogin_def loginPodTemplate_def getLoginHashes_def read_for_hash_def read_or_empty_def BuildLoginSshHostKeys_def
    new_pair_def Let_def
  by (intro keeps_intros)+

lemma status_kept [keeps_intros]:
  "retry_ok W \<Longrightarrow> keeps I get \<Longrightarrow> keeps I (sync_conditions W get kd k cs)"
  "retry_ok W \<Longrightarrow> keeps I (loginset_syncStatus W l)"
  unfolding sync_conditions_def updateStatus_def conditions_attempt_def loginset_syncStatus_def loginset_updateStatus_def
    loginset_status_attempt_def Let_def
  by (intro keeps_intros keeps_retry; assumption)+

lemma run_steps_kept:
  assumes "\<And>a. a \<in> set steps \<Longrightarrow> keeps I (step_SyncFn a)" "keeps I st"
  shows "keeps I (run_steps steps st)"
  unfolding run_steps_def by (intro keeps_intros keeps_Sync_steps assms)

end

locale resource_frame = read_frame +
  assumes apply_kept: "keeps I (SyncObject W recorder new upd)"
    and delete_kept: "ko_Kind x = ServiceMonitor \<Longrightarrow> keeps I (DeleteObject W recorder x)"
begin

lemma sync_kept [keeps_intros]: "keeps I (sync_built W upd b)" "keeps I m \<Longrightarrow> keeps I (sync_building W m)"
  unfolding sync_building_def sync_built_def by (intro keeps_intros apply_kept; assumption)+

lemma monitor_kept [keeps_intros]: "keeps I (syncServiceMonitor W c)"
proof (cases "BuildControllerServiceMonitor W c")
  case (Inr x)
  then have "ko_Kind x = ServiceMonitor"
    by (auto simp: BuildControllerServiceMonitor_def BuildServiceMonitor_def set_owner_def new_object_def Let_def
        split: sum.splits)
  then have "keeps I (delete_monitor W x)"
    unfolding delete_monitor_def by (intro keeps_intros delete_kept)
  then show ?thesis
    unfolding syncServiceMonitor_def Inr by (simp, intro keeps_intros apply_kept impI conjI)
qed (simp add: syncServiceMonitor_def keeps_fail)

lemma resource_syncs_kept:
  assumes "retry_ok W"
  shows "keeps I (Controller_Sync W req)" "keeps I (Restapi_Sync W req)" "keeps I (Accounting_Sync W req)"
    "keeps I (LoginSet_Sync W req)"
  unfolding Controller_Sync_def Restapi_Sync_def Accounting_Sync_def LoginSet_Sync_def Let_def controller_syncStatus_def
    restapi_syncStatus_def accounting_syncStatus_def
  by (auto simp: controller_steps_def restapi_steps_def accounting_steps_def loginset_steps_def step_of_def
      intro!: keeps_intros run_steps_kept assms)

end

section \<open>Immutable configuration and secrets\<close>

definition holds :: "object_store \<Rightarrow> kind \<Rightarrow> nsname \<Rightarrow> kobject \<Rightarrow> st \<Rightarrow> bool" where
  "holds st kd k x s \<longleftrightarrow> keyed (store_of st (log s)) \<and> store_of st (log s) (kd, k) = Some x"

lemma holds_log [simp]:
  "holds st kd k x (s\<lparr>log := Rd e # log s\<rparr>) = holds st kd k x s"
  "holds st kd k x (s\<lparr>log := Ctl c # log s\<rparr>) = holds st kd k x s"
  "holds st kd k x (s\<lparr>log := Wr (UpdatedConditions kd' k' cs r) # log s\<rparr>) = holds st kd k x s"
  "holds st kd k x (s\<lparr>log := Wr (UpdatedLoginSetStatus k' u r') # log s\<rparr>) = holds st kd k x s"
  by (simp_all add: holds_def)

lemma holds_record_event: "keeps (holds st kd k x) (record_event recorder a b c e)"
  unfolding record_event_def call_defs by (auto intro!: keepsI)

text \<open>A patch of the object that was read replaces it, unless the object is frozen.\<close>

lemma holds_patch:
  assumes "kd \<in> {ConfigMap, Secret}" "ko_Immutable x = Some True" "store_of st (log s) (ko_Kind new, ko_Key new) = Some old"
    and "holds st kd k x s"
  shows "holds st kd k x (snd (run_state (patch_object W recorder new upd old) s))"
proof -
  have old: "ko_Kind old = ko_Kind new" "ko_Key old = ko_Key new"
    using assms(3,4) keyedD unfolding holds_def by blast+
  then have keyed: "keyed ((store_of st (log s))((ko_Kind old, ko_Key old) \<mapsto> updated_object old new))"
    using assms(4) unfolding holds_def keyed_def by simp
  have other: "(ko_Kind old, ko_Key old) \<noteq> (kd, k)" if "\<not> (ko_Kind new \<in> {ConfigMap, Secret} \<and> deref (ko_Immutable old) False)"
    using that assms old unfolding holds_def deref_def by auto
  have "store_of st (Wr (PatchedObject (updated_object old new) old r) # log s) =
      (if r = None then (store_of st (log s))((ko_Kind old, ko_Key old) \<mapsto> updated_object old new) else store_of st (log s))" for r
    by (cases r) simp_all
  with assms(4) keyed other show ?thesis
    by (auto simp: patch_object_def record_event_def call_defs holds_def split: option.split)
qed

lemma SyncObject_holds:
  assumes "serves st W" "kd \<in> {ConfigMap, Secret}" "ko_Immutable x = Some True"
  shows "keeps (holds st kd k x) (SyncObject W recorder new upd)"
proof (rule keepsI)
  fix s
  assume s: "holds st kd k x s"
  let ?k = "(ko_Kind new, ko_Key new)"
  have patch: "holds st kd k x (snd (run_state (patch_object W recorder new upd old) t))"
    if "store_of st (log t) ?k = Some old" "holds st kd k x t" for old t
    using holds_patch [OF assms(2,3) that] .
  show "holds st kd k x (snd (run_state (SyncObject W recorder new upd) s))"
  proof (cases "store_of st (log s) ?k")
    case (Some old)
    with s patch [of "s\<lparr>log := Rd (GotObject (ko_Kind new) (ko_Key new) (Inr old)) # log s\<rparr>" old] show ?thesis
      by (simp add: SyncObject_def servesD [OF assms(1)] call_defs)
  next
    case None
    let ?h = "Rd (GotObject (ko_Kind new) (ko_Key new) (Inl (StatusError NotFound))) # log s"
    have created: "holds st kd k x (s\<lparr>log := Wr (CreatedObject new r) # ?h\<rparr>)" for r
      using s None by (cases r) (auto simp: holds_def keyed_def)
    have again: "holds st kd k x (s\<lparr>log := Rd e # Wr (CreatedObject new (Some r)) # ?h\<rparr>)"
      "store_of st (Wr (CreatedObject new (Some r)) # ?h) ?k = None" for e r
      using s None by (simp_all add: holds_def)
    show ?thesis
      using created again None s
      by (auto simp: SyncObject_def servesD [OF assms(1)] call_defs IsNotFound_def split_beta split: option.split
          intro: keepsD [OF holds_record_event])
  qed
qed

lemma DeleteObject_holds:
  assumes "serves st W" "kd \<in> {ConfigMap, Secret}" "ko_Kind y = ServiceMonitor"
  shows "keeps (holds st kd k x) (DeleteObject W recorder y)"
proof (rule keepsI)
  fix s
  assume s: "holds st kd k x s"
  show "holds st kd k x (snd (run_state (DeleteObject W recorder y) s))"
  proof (cases "store_of st (log s) (ServiceMonitor, ko_Key y)")
    case None
    with s assms(3) show ?thesis
      by (simp add: DeleteObject_def servesD [OF assms(1)] call_defs IsNotFound_def)
  next
    case (Some old)
    with s have "ko_Kind old = ServiceMonitor" using keyedD unfolding holds_def by blast
    then have "holds st kd k x (s\<lparr>log := Wr (DeletedObject old r) # Rd e # log s\<rparr>)" for r e
      using s assms(2) by (cases r) (auto simp: holds_def keyed_def)
    with Some s assms(3) show ?thesis
      by (auto simp: DeleteObject_def servesD [OF assms(1)] call_defs split_beta split: option.split
          intro: keepsD [OF holds_record_event])
  qed
qed

text \<open>The invariant, for every store, kind, key and object: on a server that answers from the store, it holds what is immutable.\<close>

definition survives :: "world \<Rightarrow> object_store \<Rightarrow> kind \<Rightarrow> nsname \<Rightarrow> kobject \<Rightarrow> st \<Rightarrow> bool" where
  "survives W st kd k x s \<longleftrightarrow>
     (serves st W \<and> kd \<in> {ConfigMap, Secret} \<and> ko_Immutable x = Some True \<longrightarrow> holds st kd k x s)"

lemma keeps_survives:
  assumes "\<And>s. serves st W \<Longrightarrow> kd \<in> {ConfigMap, Secret} \<Longrightarrow> ko_Immutable x = Some True \<Longrightarrow> keeps (holds st kd k x) m"
  shows "keeps (survives W st kd k x) m"
  using assms by (auto simp: keeps_def triple_def survives_def)

interpretation immutable: resource_frame "survives W st kd k x" W
proof
  show "keeps (survives W st kd k x) (SyncObject W recorder new upd)" for recorder new upd
    by (rule keeps_survives) (rule SyncObject_holds)
  show "keeps (survives W st kd k x) (DeleteObject W recorder y)" if "ko_Kind y = ServiceMonitor" for recorder y
    by (rule keeps_survives) (rule DeleteObject_holds [OF _ _ that])
qed (simp_all add: survives_def)

text \<open>What is created for the host keys of a LoginSet is an immutable secret.\<close>

lemma host_keys_immutable:
  "fst (run_state (BuildLoginSshHostKeys W l) s) = Inr x \<Longrightarrow>
   ko_Kind x = Secret \<and> ko_Key x = LoginSet_SshHostKeys l \<and> ko_Immutable x = Some True"
  by (auto simp: BuildLoginSshHostKeys_def BuildSecret_def set_owner_def new_object_def Let_def
      split: sum.splits prod.splits if_splits)

text \<open>
  C14. No sync of a Controller, RestApi, Accounting or LoginSet, of any name, changes or deletes a
  configuration map or secret that is stored as immutable, whatever other errors there are. So the host keys
  that a LoginSet creates, which are built as an immutable secret, are never replaced by new ones.
\<close>

theorem immutable_objects_survive:
  assumes "serves st W" "retry_ok W" "kd \<in> {ConfigMap, Secret}" "ko_Immutable x = Some True"
    and "keyed (store_of st (log s))" "store_of st (log s) (kd, k) = Some x"
    and "Sync \<in> {Controller_Sync W req, Restapi_Sync W req, Accounting_Sync W req, LoginSet_Sync W req}"
  shows "store_of st (log (snd (run_state Sync s))) (kd, k) = Some x \<and>
    (fst (run_state (BuildLoginSshHostKeys W l) u) = Inr y \<longrightarrow>
      ko_Kind y = Secret \<and> ko_Key y = LoginSet_SshHostKeys l \<and> ko_Immutable y = Some True)"
proof -
  have s: "survives W st kd k x s" using assms(5,6) by (simp add: holds_def survives_def)
  have "keeps (survives W st kd k x) Sync"
    using assms(7) immutable.resource_syncs_kept [OF assms(2), of st kd k x req] by auto
  from keepsD [OF this s] assms(1,3,4) have "store_of st (log (snd (run_state Sync s))) (kd, k) = Some x"
    by (auto simp: survives_def holds_def)
  with host_keys_immutable show ?thesis by blast
qed

definition host_key_secret :: kobject where
  "host_key_secret = sample_config\<lparr>ko_Kind := Secret, ko_Key := (''slurm'', ''login-ssh-host-keys''), ko_Immutable := Some True\<rparr>"

definition login_world :: world where
  "login_world = (store_world [(Secret, (''slurm'', ''login-ssh-host-keys'')) \<mapsto> host_key_secret])
     \<lparr>w_GetLoginSet := (\<lambda>h k. Inr (empty_loginset\<lparr>ls_Namespace := ''slurm'', ls_Name := ''login''\<rparr>)),
      w_GetSlurmController := (\<lambda>h k. Inr empty_controller)\<rparr>"

lemma login_world_ok:
  "serves [(Secret, (''slurm'', ''login-ssh-host-keys'')) \<mapsto> host_key_secret] login_world" "retry_ok login_world"
  using store_world_ok(1) unfolding login_world_def serves_def
  by (simp_all add: retry_ok_def store_world_def quiet_world_def retries.last_try)

theorem immutable_objects_survive_witness:
  "store_of [(Secret, (''slurm'', ''login-ssh-host-keys'')) \<mapsto> host_key_secret]
     (log (snd (run_state (LoginSet_Sync login_world (''slurm'', ''login'')) st_init)))
     (Secret, (''slurm'', ''login-ssh-host-keys'')) = Some host_key_secret"
  by (rule immutable_objects_survive [OF login_world_ok, where req = "(''slurm'', ''login'')", THEN conjunct1])
    (simp_all add: st_init_def keyed_def host_key_secret_def)

section \<open>No timed requeue\<close>

interpretation no_push: resource_frame "\<lambda>s. durs s = d" W
proof
  show "keeps (\<lambda>s. durs s = d) (SyncObject W recorder new upd)" for recorder new upd
    unfolding SyncObject_def patch_object_def record_event_def call_defs by (intro keeps_intros keepsI) simp_all
  show "keeps (\<lambda>s. durs s = d) (DeleteObject W recorder y)" for recorder y
    unfolding DeleteObject_def record_event_def call_defs by (intro keeps_intros keepsI) simp_all
qed simp_all

text \<open>
  A reconcile of a Controller, RestApi, Accounting or LoginSet never asks to be repeated after a time:
  with nothing in the duration store it returns no delay and leaves the store empty; a failure is repeated
  only through the error it returns.
\<close>

theorem resources_never_requeue:
  assumes "retry_ok W" "durs s = NewDurationStore"
    and "Reconcile \<in> {Controller_Reconcile W req, Restapi_Reconcile W req, Accounting_Reconcile W req, LoginSet_Reconcile W req}"
  shows "fst (fst (run_state Reconcile s)) = 0 \<and> durs (snd (run_state Reconcile s)) = NewDurationStore"
proof -
  have "fst (fst (run_state (reconcile Sync req) s)) = 0 \<and> durs (snd (run_state (reconcile Sync req) s)) = NewDurationStore"
    if "durs (snd (run_state (Sync req) s)) = NewDurationStore" for Sync
    using that by (simp add: reconcile_def split_beta dur_Pop_def NewDurationStore_def fun_upd_idem)
  moreover have "durs (snd (run_state (S req) s)) = NewDurationStore"
    if "S \<in> {Controller_Sync W, Restapi_Sync W, Accounting_Sync W, LoginSet_Sync W}" for S
    using that no_push.resource_syncs_kept [OF assms(1), THEN keepsD, of s NewDurationStore req] assms(2) by auto
  ultimately show ?thesis
    using assms(3)
    by (auto simp: Controller_Reconcile_def Restapi_Reconcile_def Accounting_Reconcile_def LoginSet_Reconcile_def)
qed

theorem resources_never_requeue_witness:
  "fst (fst (run_state (LoginSet_Reconcile login_world (''slurm'', ''login'')) st_init)) = 0"
  using resources_never_requeue [OF login_world_ok(2), of st_init "LoginSet_Reconcile login_world (''slurm'', ''login'')" "(''slurm'', ''login'')"]
  by (simp add: st_init_def)

section \<open>Convergence\<close>

interpretation same_store: read_frame "\<lambda>s. store_of st (log s) = X" W for st X W
proof
qed simp_all

lemma sync_built_applies:
  assumes "serves st W" "accepts W" "ko_Kind x \<noteq> OtherKind" "keyed (store_of st (log s))"
  shows "fst (run_state (sync_built W upd (Inr x)) s) = None \<and>
    store_of st (log (snd (run_state (sync_built W upd (Inr x)) s))) = apply_object upd x (store_of st (log s))"
  using SyncObject_applies [OF assms] by (simp add: sync_built_def)

lemma BuildRestapi_stable:
  assumes "\<forall>h. w_GetSlurmController W h (ra_ControllerRef r) = Inr c"
  shows "fst (run_state (BuildRestapi W r) s) = fst (run_state (BuildRestapi W r) t)"
proof -
  have "run_state (GetSlurmController W (ra_ControllerRef r)) u =
      (Inr c, u\<lparr>log := Rd (GotSlurmController (ra_ControllerRef r) (Inr c)) # log u\<rparr>)" for u
    using assms unfolding call_defs by (metis run_call)
  then show ?thesis by (simp add: BuildRestapi_def restapiPodTemplate_def Let_def)
qed

lemma built_restapi_kinds:
  "BuildRestapiService W r = Inr svc \<Longrightarrow> ko_Kind svc = Service \<and> ko_Labels svc \<noteq> None \<and> ko_Annotations svc \<noteq> None"
  "fst (run_state (BuildRestapi W r) s) = Inr dep \<Longrightarrow> ko_Kind dep = Deployment \<and> ko_Labels dep \<noteq> None \<and> ko_Annotations dep \<noteq> None"
  by (auto simp: BuildRestapiService_def resource_service_def BuildService_def BuildRestapi_def deployment_def set_owner_def
      new_object_def meta_WithMetadata_def meta_WithLabels_def meta_WithAnnotations_def meta_NewBuilder_def restapi_metadata_def
      workload_metadata_def Let_def
      split: sum.splits prod.splits option.splits if_splits)

lemma restapi_store:
  assumes "serves st W" "accepts W" "retry_ok W" "keyed (store_of st (log s))"
    and "\<forall>h. w_GetSlurmController W h (ra_ControllerRef r) = Inr c"
    and "BuildRestapiService W r = Inr svc" "fst (run_state (BuildRestapi W r) st_init) = Inr dep"
  shows "store_of st (log (snd (run_state (run_steps (restapi_steps W r) (restapi_syncStatus W r)) s))) =
    apply_object True dep (apply_object True svc (store_of st (log s)))"
proof -
  define t where "t = snd (run_state (sync_built W True (Inr svc)) s)"
  define u where "u = snd (run_state (BuildRestapi W r) t)"
  define v where "v = snd (run_state (sync_built W True (Inr dep)) u)"
  note kinds = built_restapi_kinds(1) [OF assms(6)] built_restapi_kinds(2) [OF assms(7)]
  have t: "run_state (sync_built W True (Inr svc)) s = (None, t)" "store_of st (log t) = apply_object True svc (store_of st (log s))"
    using sync_built_applies [OF assms(1,2) _ assms(4), of svc True] kinds unfolding t_def by (auto simp: prod_eq_iff)
  have "fst (run_state (BuildRestapi W r) t) = Inr dep"
    using BuildRestapi_stable [OF assms(5), of t st_init] assms(7) by simp
  then have u: "run_state (BuildRestapi W r) t = (Inr dep, u)"
    by (simp add: u_def prod_eq_iff)
  have ustore: "store_of st (log u) = apply_object True svc (store_of st (log s))"
    unfolding u_def by (rule keepsD [OF same_store.builders_kept(6)]) (rule t(2))
  have v: "run_state (sync_built W True (Inr dep)) u = (None, v)"
    "store_of st (log v) = apply_object True dep (apply_object True svc (store_of st (log s)))"
    using sync_built_applies [OF assms(1,2), of dep u True] keyed_apply [OF assms(4)] kinds ustore
    unfolding v_def by (auto simp: prod_eq_iff)
  have "run_state (run_steps (restapi_steps W r) (restapi_syncStatus W r)) s = run_state (restapi_syncStatus W r) v"
    using t(1) u v(1)
    by (simp add: run_steps_def restapi_steps_def Sync_steps_def step_of_def assms(6) sync_building_def NewAggregate_def)
  moreover have "keeps (\<lambda>s. store_of st (log s) = apply_object True dep (apply_object True svc X)) (restapi_syncStatus W r)" for X
    unfolding restapi_syncStatus_def by (intro same_store.status_kept same_store.calls_kept assms(3))
  ultimately show ?thesis
    using v(2) keepsD by fastforce
qed

text \<open>
  C13. One sync brings a RestApi to its desired state: with the Controller it names in place, and a server
  that answers from its store, the store afterwards is the one before with the service and the deployment of
  the RestApi applied; a second sync leaves it as it is.
\<close>

theorem restapi_converges:
  assumes "serves st W" "accepts W" "retry_ok W" "keyed (store_of st (log s))"
    and "\<forall>h. w_GetRestapi W h req = Inr obj" "r = SetRestApiDefaults obj" "IsZero (ra_DeletionTimestamp r)"
    and "\<forall>h. w_GetSlurmController W h (ra_ControllerRef r) = Inr c"
    and "BuildRestapiService W r = Inr svc" "fst (run_state (BuildRestapi W r) st_init) = Inr dep"
    and "t = snd (run_state (Restapi_Sync W req) s)"
  shows "store_of st (log t) = apply_object True dep (apply_object True svc (store_of st (log s))) \<and>
    store_of st (log (snd (run_state (Restapi_Sync W req) t))) = store_of st (log t)"
proof -
  have sync: "store_of st (log (snd (run_state (Restapi_Sync W req) u))) =
      apply_object True dep (apply_object True svc (store_of st (log u)))" if "keyed (store_of st (log u))" for u
  proof -
    let ?u = "u\<lparr>log := Rd (GotRestapi req (Inr obj)) # log u\<rparr>"
    have "run_state (Restapi_Sync W req) u = run_state (run_steps (restapi_steps W r) (restapi_syncStatus W r)) ?u"
      using assms(5-7) by (simp add: Restapi_Sync_def call_defs Let_def)
    then show ?thesis
      using restapi_store [OF assms(1-3) _ assms(8-10), of ?u] that by simp
  qed
  note t = sync [OF assms(4), folded assms(11)]
  moreover have "keyed (store_of st (log t))"
    unfolding t by (intro keyed_apply assms(4))
  moreover have "apply_object True svc (apply_object True dep X) = apply_object True dep (apply_object True svc X)" for X
    using built_restapi_kinds(1) [OF assms(9)] built_restapi_kinds(2) [OF assms(10)]
    by (auto simp: apply_object_def fun_upd_twist split: option.split)
  ultimately show ?thesis
    using built_restapi_kinds(1) [OF assms(9)] built_restapi_kinds(2) [OF assms(10)]
    by (simp add: sync apply_object_idem)
qed

definition rest_world :: world where
  "rest_world = (store_world Map.empty)\<lparr>w_GetRestapi := (\<lambda>h k. Inr empty_restapi),
     w_GetSlurmController := (\<lambda>h k. Inr empty_controller)\<rparr>"

theorem restapi_converges_witness:
  "\<exists>svc dep. store_of Map.empty (log (snd (run_state (Restapi_Sync rest_world ('''', '''')) st_init))) =
     apply_object True dep (apply_object True svc Map.empty)"
proof -
  have serves: "serves Map.empty rest_world" "accepts rest_world" "retry_ok rest_world"
    using store_world_ok(1,2) [of Map.empty] unfolding rest_world_def serves_def accepts_def
    by (simp_all add: retry_ok_def store_world_def quiet_world_def retries.last_try)
  let ?r = "SetRestApiDefaults empty_restapi"
  have "\<exists>svc. BuildRestapiService rest_world ?r = Inr svc"
    by (simp add: BuildRestapiService_def resource_service_def BuildService_def set_owner_def rest_world_def store_world_def
        quiet_world_def Let_def SetRestApiDefaults_def empty_restapi_def empty_service_def empty_service_spec_def)
  moreover have "\<exists>dep. fst (run_state (BuildRestapi rest_world ?r) st_init) = Inr dep"
    by (simp add: BuildRestapi_def restapiPodTemplate_def Let_def set_owner_def rest_world_def store_world_def
        quiet_world_def call_defs)
  ultimately obtain svc dep where built: "BuildRestapiService rest_world ?r = Inr svc"
    "fst (run_state (BuildRestapi rest_world ?r) st_init) = Inr dep" by blast
  have "keyed (store_of Map.empty (log st_init))" "IsZero (ra_DeletionTimestamp ?r)"
    "\<forall>h. w_GetRestapi rest_world h ('''', '''') = Inr empty_restapi"
    "\<forall>h. w_GetSlurmController rest_world h (ra_ControllerRef ?r) = Inr empty_controller"
    using store_world_ok(3)
    by (simp_all add: st_init_def IsZero_def SetRestApiDefaults_def empty_restapi_def rest_world_def)
  from restapi_converges [OF serves this(1,3) refl this(2,4) built refl] show ?thesis
    by (auto simp: st_init_def)
qed

end
