(* ===== verification/Watches.thy ===== *)
theory Watches
  imports EventHandlers ResourceHandlers ControllerFacts
begin

text \<open>
  The event handlers as controller-runtime calls them, with one event at a time, and the wiring of each
  controller (its \<^verbatim>\<open>SetupWithManager\<close>): the resource it is for, the kinds it owns, and the handlers of the
  kinds it watches. Each controller has its own work queue. What controller-runtime itself puts into a
  queue for the resource and for owned objects is not modelled here.
\<close>

section \<open>Events\<close>

datatype 'o watch_event =
    CreateEvent 'o
  | UpdateEvent (ObjectOld: 'o) (ObjectNew: 'o)
  | DeleteEvent 'o
  | GenericEvent 'o

definition blank :: "error prog" where "blank = ok"

definition quietly :: "unit prog \<Rightarrow> error prog" where
  "quietly m = do { m; ok }"

subsection \<open>NodeSets\<close>

definition PodEventHandler :: "world \<Rightarrow> event_object watch_event \<Rightarrow> error prog" where
  "PodEventHandler W evt =
     (case evt of
        CreateEvent obj \<Rightarrow> quietly (PodEventHandler_Create W obj)
      | UpdateEvent old new \<Rightarrow> quietly (PodEventHandler_Update W new old)
      | DeleteEvent obj \<Rightarrow> quietly (PodEventHandler_Delete W obj)
      | GenericEvent obj \<Rightarrow> quietly (PodEventHandler_Generic W obj))"

definition NodeEventHandler :: "world \<Rightarrow> node option watch_event \<Rightarrow> error prog" where
  "NodeEventHandler W evt =
     (case evt of
        UpdateEvent (Some oldNode) (Some newNode) \<Rightarrow> quietly (NodeEventHandler_Update W oldNode newNode)
      | _ \<Rightarrow> blank)"

definition ControllerEventHandler :: "world \<Rightarrow> slurm_controller option watch_event \<Rightarrow> error prog" where
  "ControllerEventHandler W evt =
     (case evt of
        CreateEvent obj \<Rightarrow> quietly (ControllerEventHandler_enqueueRequest W obj)
      | UpdateEvent old new \<Rightarrow> quietly (ControllerEventHandler_Update W old new)
      | DeleteEvent obj \<Rightarrow> quietly (ControllerEventHandler_enqueueRequest W obj)
      | GenericEvent _ \<Rightarrow> blank)"

definition SecretEventHandler :: "world \<Rightarrow> nsname option watch_event \<Rightarrow> error prog" where
  "SecretEventHandler W evt =
     (case evt of
        CreateEvent obj \<Rightarrow> SecretEventHandler_enqueueRequest W obj
      | UpdateEvent _ new \<Rightarrow> SecretEventHandler_enqueueRequest W new
      | DeleteEvent obj \<Rightarrow> SecretEventHandler_enqueueRequest W obj
      | GenericEvent _ \<Rightarrow> blank)"

subsection \<open>Controllers\<close>

definition controller_AccountingEventHandler :: "world \<Rightarrow> accounting option watch_event \<Rightarrow> error prog" where
  "controller_AccountingEventHandler W evt =
     (case evt of
        CreateEvent obj \<Rightarrow> quietly (controller_AccountingEventHandler_enqueueRequest W obj)
      | UpdateEvent old new \<Rightarrow> quietly (controller_AccountingEventHandler_Update W old new)
      | DeleteEvent obj \<Rightarrow> quietly (controller_AccountingEventHandler_enqueueRequest W obj)
      | GenericEvent _ \<Rightarrow> blank)"

definition NodesetEventHandler :: "world \<Rightarrow> nodeset option watch_event \<Rightarrow> error prog" where
  "NodesetEventHandler W evt =
     (case evt of
        CreateEvent obj \<Rightarrow> quietly (NodesetEventHandler_enqueueRequest W obj)
      | UpdateEvent _ new \<Rightarrow> quietly (NodesetEventHandler_enqueueRequest W new)
      | DeleteEvent obj \<Rightarrow> quietly (NodesetEventHandler_enqueueRequest W obj)
      | GenericEvent _ \<Rightarrow> blank)"

definition controller_SecretEventHandler :: "world \<Rightarrow> nsname option watch_event \<Rightarrow> error prog" where
  "controller_SecretEventHandler W evt =
     (case evt of
        CreateEvent obj \<Rightarrow> quietly (controller_SecretEventHandler_enqueueRequest W obj)
      | UpdateEvent _ new \<Rightarrow> quietly (controller_SecretEventHandler_enqueueRequest W new)
      | DeleteEvent obj \<Rightarrow> quietly (controller_SecretEventHandler_enqueueRequest W obj)
      | GenericEvent _ \<Rightarrow> blank)"

subsection \<open>Accountings\<close>

definition accounting_AccountingEventHandler :: "world \<Rightarrow> accounting option watch_event \<Rightarrow> error prog" where
  "accounting_AccountingEventHandler W evt =
     (case evt of
        CreateEvent obj \<Rightarrow> quietly (accounting_AccountingEventHandler_enqueueRequest W obj)
      | UpdateEvent _ new \<Rightarrow> quietly (accounting_AccountingEventHandler_enqueueRequest W new)
      | DeleteEvent obj \<Rightarrow> quietly (accounting_AccountingEventHandler_enqueueRequest W obj)
      | GenericEvent _ \<Rightarrow> blank)"

definition accounting_SecretEventHandler :: "world \<Rightarrow> nsname option watch_event \<Rightarrow> error prog" where
  "accounting_SecretEventHandler W evt =
     (case evt of
        CreateEvent obj \<Rightarrow> quietly (accounting_SecretEventHandler_enqueueRequest W obj)
      | UpdateEvent _ new \<Rightarrow> quietly (accounting_SecretEventHandler_enqueueRequest W new)
      | DeleteEvent obj \<Rightarrow> quietly (accounting_SecretEventHandler_enqueueRequest W obj)
      | GenericEvent _ \<Rightarrow> blank)"

subsection \<open>RestApis\<close>

definition restapi_ControllerEventHandler :: "world \<Rightarrow> slurm_controller option watch_event \<Rightarrow> error prog" where
  "restapi_ControllerEventHandler W evt =
     (case evt of
        CreateEvent obj \<Rightarrow> quietly (restapi_ControllerEventHandler_enqueueRequest W obj)
      | UpdateEvent old new \<Rightarrow> quietly (restapi_ControllerEventHandler_Update W old new)
      | DeleteEvent obj \<Rightarrow> quietly (restapi_ControllerEventHandler_enqueueRequest W obj)
      | GenericEvent _ \<Rightarrow> blank)"

definition restapi_SecretEventHandler :: "world \<Rightarrow> nsname option watch_event \<Rightarrow> error prog" where
  "restapi_SecretEventHandler W evt =
     (case evt of
        CreateEvent obj \<Rightarrow> restapi_SecretEventHandler_enqueueRequest W obj
      | UpdateEvent _ new \<Rightarrow> restapi_SecretEventHandler_enqueueRequest W new
      | DeleteEvent obj \<Rightarrow> restapi_SecretEventHandler_enqueueRequest W obj
      | GenericEvent _ \<Rightarrow> blank)"

text \<open>
  The file of the handler of Controllers holds a second, unexported handler of secrets, which nothing
  uses.
\<close>

fun secretEventHandler_loop :: "world \<Rightarrow> nsname \<Rightarrow> slurm_controller list \<Rightarrow> error prog" where
  "secretEventHandler_loop W secretKey [] = ok"
| "secretEventHandler_loop W secretKey (controller # controllers) =
     (if nsname_String secretKey \<noteq> nsname_String (AuthSlurmKey controller) \<and>
         nsname_String secretKey \<noteq> nsname_String (AuthJwtKey controller)
      then secretEventHandler_loop W secretKey controllers
      else do {
        g \<leftarrow> GetRestapisForController W (Some controller);
        case g of
          Inl _ \<Rightarrow> fail (Panic ''nil pointer dereference'')
        | Inr restapis \<Rightarrow> do {
            enqueue_keys (map ra_key (filter (\<lambda>r. ObjectReference_IsMatch (ra_ControllerRef r) (ct_key controller)) restapis));
            secretEventHandler_loop W secretKey controllers
          }
      })"

definition secretEventHandler_enqueueRequest :: "world \<Rightarrow> nsname option \<Rightarrow> error prog" where
  "secretEventHandler_enqueueRequest W obj =
     (case obj of
        None \<Rightarrow> ok
      | Some secretKey \<Rightarrow> do {
          g \<leftarrow> ListControllers W;
          secretEventHandler_loop W secretKey (case g of Inl _ \<Rightarrow> [] | Inr controllers \<Rightarrow> controllers)
        })"

definition secretEventHandler :: "world \<Rightarrow> nsname option watch_event \<Rightarrow> error prog" where
  "secretEventHandler W evt =
     (case evt of
        CreateEvent obj \<Rightarrow> secretEventHandler_enqueueRequest W obj
      | UpdateEvent _ new \<Rightarrow> secretEventHandler_enqueueRequest W new
      | DeleteEvent obj \<Rightarrow> secretEventHandler_enqueueRequest W obj
      | GenericEvent _ \<Rightarrow> blank)"

subsection \<open>LoginSets\<close>

definition loginset_ControllerEventHandler :: "world \<Rightarrow> slurm_controller option watch_event \<Rightarrow> error prog" where
  "loginset_ControllerEventHandler W evt =
     (case evt of
        CreateEvent obj \<Rightarrow> quietly (loginset_ControllerEventHandler_enqueueRequest W obj)
      | UpdateEvent old new \<Rightarrow> quietly (loginset_ControllerEventHandler_Update W old new)
      | DeleteEvent obj \<Rightarrow> quietly (loginset_ControllerEventHandler_enqueueRequest W obj)
      | GenericEvent _ \<Rightarrow> blank)"

definition loginset_SecretEventHandler :: "world \<Rightarrow> nsname option watch_event \<Rightarrow> error prog" where
  "loginset_SecretEventHandler W evt =
     (case evt of
        CreateEvent obj \<Rightarrow> loginset_SecretEventHandler_enqueueRequest W obj
      | UpdateEvent _ new \<Rightarrow> loginset_SecretEventHandler_enqueueRequest W new
      | DeleteEvent obj \<Rightarrow> loginset_SecretEventHandler_enqueueRequest W obj
      | GenericEvent _ \<Rightarrow> blank)"

section \<open>Wiring\<close>

text \<open>What a controller is for, what it owns, and its handlers of each kind it watches.\<close>

datatype watched = OfKind kind | Pods | Tokens

record wiring =
  wr_For :: watched
  wr_Owns :: "watched list"
  on_Pod :: "(world \<Rightarrow> event_object watch_event \<Rightarrow> error prog) list"
  on_Node :: "(world \<Rightarrow> node option watch_event \<Rightarrow> error prog) list"
  on_Controller :: "(world \<Rightarrow> slurm_controller option watch_event \<Rightarrow> error prog) list"
  on_Accounting :: "(world \<Rightarrow> accounting option watch_event \<Rightarrow> error prog) list"
  on_NodeSet :: "(world \<Rightarrow> nodeset option watch_event \<Rightarrow> error prog) list"
  on_Secret :: "(world \<Rightarrow> nsname option watch_event \<Rightarrow> error prog) list"

definition wired_for :: "watched \<Rightarrow> watched list \<Rightarrow> wiring" where
  "wired_for kd owned = \<lparr>wr_For = kd, wr_Owns = owned, on_Pod = [], on_Node = [], on_Controller = [], on_Accounting = [],
     on_NodeSet = [], on_Secret = []\<rparr>"

definition nodeset_SetupWithManager :: wiring where
  "nodeset_SetupWithManager = (wired_for (OfKind NodeSet) [Pods, OfKind Service])
     \<lparr>on_Pod := [PodEventHandler], on_Node := [NodeEventHandler], on_Controller := [ControllerEventHandler],
      on_Secret := [SecretEventHandler]\<rparr>"

definition controller_SetupWithManager :: wiring where
  "controller_SetupWithManager = (wired_for (OfKind SlurmController) [OfKind StatefulSet, OfKind Service, OfKind ConfigMap, OfKind Secret])
     \<lparr>on_Accounting := [controller_AccountingEventHandler], on_NodeSet := [NodesetEventHandler],
      on_Secret := [controller_SecretEventHandler]\<rparr>"

definition accounting_SetupWithManager :: wiring where
  "accounting_SetupWithManager = (wired_for (OfKind Accounting) [OfKind StatefulSet, OfKind Service, OfKind ConfigMap, OfKind Secret])
     \<lparr>on_Accounting := [accounting_AccountingEventHandler], on_Secret := [accounting_SecretEventHandler]\<rparr>"

definition restapi_SetupWithManager :: wiring where
  "restapi_SetupWithManager = (wired_for (OfKind RestApi) [OfKind Deployment, OfKind Service, OfKind ConfigMap, OfKind Secret])
     \<lparr>on_Controller := [restapi_ControllerEventHandler], on_Secret := [restapi_SecretEventHandler]\<rparr>"

definition loginset_SetupWithManager :: wiring where
  "loginset_SetupWithManager = (wired_for (OfKind LoginSet) [OfKind Deployment, OfKind Service, OfKind ConfigMap, OfKind Secret])
     \<lparr>on_Controller := [loginset_ControllerEventHandler], on_Secret := [loginset_SecretEventHandler]\<rparr>"

definition slurmclient_SetupWithManager :: wiring where
  "slurmclient_SetupWithManager = wired_for (OfKind SlurmController) []"

definition token_SetupWithManager :: wiring where
  "token_SetupWithManager = wired_for Tokens [OfKind Secret]"

definition owned_kinds :: "wiring \<Rightarrow> kind set" where
  "owned_kinds w = {kd. OfKind kd \<in> set (wr_Owns w)}"

lemmas setup_defs = nodeset_SetupWithManager_def controller_SetupWithManager_def accounting_SetupWithManager_def
  restapi_SetupWithManager_def loginset_SetupWithManager_def slurmclient_SetupWithManager_def token_SetupWithManager_def wired_for_def

text \<open>What the handlers of an event put into the queue of the controller, when none of them panics.\<close>

definition wakes :: "(world \<Rightarrow> 'o watch_event \<Rightarrow> error prog) list \<Rightarrow> world \<Rightarrow> 'o watch_event \<Rightarrow> nsname set \<Rightarrow> bool" where
  "wakes handlers W evt keys \<longleftrightarrow> (\<forall>s. log s = [] \<longrightarrow>
     (\<exists>handler t. handlers = [handler] \<and> run_state (handler W evt) s = (None, t) \<and> enqueued_keys t = keys))"

section \<open>Who is woken\<close>

lemma dead_handler_agrees: "secretEventHandler W evt = restapi_SecretEventHandler W evt"
proof -
  have "secretEventHandler_loop W k cs = restapis_for_secret W k cs" for k cs
    by (induction cs) (simp_all add: uses_secret_def)
  then show ?thesis
    by (simp add: secretEventHandler_def restapi_SecretEventHandler_def secretEventHandler_enqueueRequest_def
        restapi_SecretEventHandler_enqueueRequest_def fun_eq_iff cong: watch_event.case_cong option.case_cong)
qed

lemma run_enqueue_all [simp]: "run_state (enqueue_all nss) s = ((), s\<lparr>log := queued (map ns_Key nss) (log s)\<rparr>)"
  by (induction nss arbitrary: s) (simp_all add: EnqueueRequest_def EnqueueRequestAfter_def call_defs queued_def ns_Key_def)

lemma run_quietly [simp]: "run_state (quietly m) s = (None, snd (run_state m s))"
  by (simp add: quietly_def split_beta)

text \<open>The objects an event tells of; an object of another type is no such object.\<close>

fun told :: "'o option watch_event \<Rightarrow> 'o set" where
  "told (CreateEvent obj) = set_option obj"
| "told (UpdateEvent old new) = set_option old \<union> set_option new"
| "told (DeleteEvent obj) = set_option obj"
| "told (GenericEvent obj) = {}"

lemma client_handlers_enqueue:
  assumes "\<forall>h. w_ListNodeSets W h = Inr nodesets" "\<forall>h. w_ListRestapis W h = Inr restapis"
    and "\<forall>h. w_ListLoginSets W h = Inr loginsets"
  shows "enqueued_keys (snd (run_state (ControllerEventHandler_enqueueRequest W obj) s)) =
      enqueued_keys s \<union> ns_Key ` {ns \<in> set nodesets. spec_ControllerRef (ns_Spec ns) \<in> ct_key ` set_option obj}"
    "enqueued_keys (snd (run_state (restapi_ControllerEventHandler_enqueueRequest W obj) s)) =
      enqueued_keys s \<union> ra_key ` {r \<in> set restapis. ra_ControllerRef r \<in> ct_key ` set_option obj}"
    "enqueued_keys (snd (run_state (loginset_ControllerEventHandler_enqueueRequest W obj) s)) =
      enqueued_keys s \<union> LoginSet_Key ` {l \<in> set loginsets. ls_ControllerRef l \<in> ct_key ` set_option obj}"
  using assms
  by (cases obj; auto simp: ControllerEventHandler_enqueueRequest_def restapi_ControllerEventHandler_enqueueRequest_def
      loginset_ControllerEventHandler_enqueueRequest_def GetNodeSetsForController_def GetRestapisForController_def
      GetLoginSetsForController_def call_defs IsMatch_eq)+

text \<open>
  C19. An event about a Slurm cluster wakes its clients: the handlers wired to a Controller put exactly those
  NodeSets, RestApis and LoginSets into the queues of their controllers that reference it, before or after
  an update, and none of them panics. A generic event wakes nobody.
\<close>

theorem controller_events_wake_clients:
  assumes "\<forall>h. w_ListNodeSets W h = Inr nodesets" "\<forall>h. w_ListRestapis W h = Inr restapis"
    and "\<forall>h. w_ListLoginSets W h = Inr loginsets"
  shows "wakes (on_Controller nodeset_SetupWithManager) W evt
      (ns_Key ` {ns \<in> set nodesets. spec_ControllerRef (ns_Spec ns) \<in> ct_key ` told evt}) \<and>
    wakes (on_Controller restapi_SetupWithManager) W evt
      (ra_key ` {r \<in> set restapis. ra_ControllerRef r \<in> ct_key ` told evt}) \<and>
    wakes (on_Controller loginset_SetupWithManager) W evt
      (LoginSet_Key ` {l \<in> set loginsets. ls_ControllerRef l \<in> ct_key ` told evt})"
proof -
  note enqueue = client_handlers_enqueue [OF assms]
  have none: "enqueued_keys s = {}" if "log s = []" for s
    using that by (simp add: enqueued_keys_def)
  show ?thesis
    by (cases evt)
      (auto simp: wakes_def setup_defs ControllerEventHandler_def restapi_ControllerEventHandler_def
        loginset_ControllerEventHandler_def ControllerEventHandler_Update_def restapi_ControllerEventHandler_Update_def
        loginset_ControllerEventHandler_Update_def blank_def split_beta enqueue none)
qed

lemma sample_refs:
  "spec_ControllerRef (ns_Spec sample_nodeset) = ct_key empty_controller" "ns_Key sample_nodeset = (''slurm'', ''gpu'')"
  by (simp_all add: sample_nodeset_def ns_Key_def ct_key_def empty_controller_def empty_nodeset_spec_def
      SetNodeSetDefaults_spec_def Let_def)

theorem controller_events_wake_clients_witness:
  "wakes (on_Controller nodeset_SetupWithManager) (quiet_world\<lparr>w_ListNodeSets := (\<lambda>h. Inr [sample_nodeset])\<rparr>)
     (DeleteEvent (Some empty_controller)) {(''slurm'', ''gpu'')}"
proof -
  let ?W = "quiet_world\<lparr>w_ListNodeSets := (\<lambda>h. Inr [sample_nodeset])\<rparr>"
  have "\<forall>h. w_ListNodeSets ?W h = Inr [sample_nodeset]" "\<forall>h. w_ListRestapis ?W h = Inr []" "\<forall>h. w_ListLoginSets ?W h = Inr []"
    by (simp_all add: quiet_world_def)
  note exact = controller_events_wake_clients [OF this, of "DeleteEvent (Some empty_controller)", THEN conjunct1]
  have "ns_Key ` {ns \<in> set [sample_nodeset]. spec_ControllerRef (ns_Spec ns) \<in> ct_key ` told (DeleteEvent (Some empty_controller))} =
      {(''slurm'', ''gpu'')}"
    by (auto simp: sample_refs)
  with exact show ?thesis by simp
qed

lemma clients_Cons:
  "key ` {x \<in> A. \<exists>c' \<in> set (c # cs). P c' \<and> ref x = ct_key c'} =
   (if P c then key ` {x \<in> A. ref x = ct_key c} else {}) \<union> key ` {x \<in> A. \<exists>c' \<in> set cs. P c' \<and> ref x = ct_key c'}"
  by auto

lemma enqueue_for_secret_enqueues:
  assumes "\<forall>h. w_ListNodeSets W h = Inr nodesets"
  shows "\<exists>t. run_state (enqueue_for_secret W secretKey controllers) s = (None, t) \<and>
    enqueued_keys t = enqueued_keys s \<union> ns_Key ` {ns \<in> set nodesets. \<exists>c \<in> set controllers.
      uses_secret secretKey (AuthSlurmKey c) (AuthJwtKey c) \<and> spec_ControllerRef (ns_Spec ns) = ct_key c}"
proof (induction controllers arbitrary: s)
  case (Cons c controllers)
  let ?s = "if uses_secret secretKey (AuthSlurmKey c) (AuthJwtKey c)
    then s\<lparr>log := queued (map ns_Key (filter (\<lambda>ns. spec_ControllerRef (ns_Spec ns) = ct_key c) nodesets))
      (Rd (ListedNodeSets (Inr nodesets)) # log s)\<rparr> else s"
  from Cons [of ?s] show ?case
    using assms unfolding clients_Cons
    by (cases "uses_secret secretKey (AuthSlurmKey c) (AuthJwtKey c)")
      (auto simp: uses_secret_def GetNodeSetsForController_def call_defs IsMatch_eq)
qed simp

lemma restapis_for_secret_enqueues:
  assumes "\<forall>h. w_ListRestapis W h = Inr restapis"
  shows "\<exists>t. run_state (restapis_for_secret W secretKey controllers) s = (None, t) \<and>
    enqueued_keys t = enqueued_keys s \<union> ra_key ` {r \<in> set restapis. \<exists>c \<in> set controllers.
      uses_secret secretKey (AuthSlurmKey c) (AuthJwtKey c) \<and> ra_ControllerRef r = ct_key c}"
proof (induction controllers arbitrary: s)
  case (Cons c controllers)
  let ?s = "if uses_secret secretKey (AuthSlurmKey c) (AuthJwtKey c)
    then s\<lparr>log := queued (map ra_key (filter (\<lambda>r. ra_ControllerRef r = ct_key c) restapis))
      (Rd (ListedRestapis (Inr restapis)) # log s)\<rparr> else s"
  from Cons [of ?s] show ?case
    using assms unfolding clients_Cons
    by (cases "uses_secret secretKey (AuthSlurmKey c) (AuthJwtKey c)")
      (auto simp: GetRestapisForController_def call_defs IsMatch_eq)
qed simp

text \<open>A secret holds a key of a Controller.\<close>

definition holds_keys :: "nsname \<Rightarrow> slurm_controller \<Rightarrow> bool" where
  "holds_keys secret c \<longleftrightarrow> uses_secret secret (AuthSlurmKey c) (AuthJwtKey c)"

text \<open>What the handlers wired to a secret wake.\<close>

lemma secret_handlers_wake:
  assumes "\<forall>h. w_ListControllers W h = Inr controllers" "\<forall>h. w_ListAccountings W h = Inr accountings"
    and "\<forall>h. w_ListNodeSets W h = Inr nodesets" "\<forall>h. w_ListRestapis W h = Inr restapis"
    and "\<forall>h. w_ListLoginSets W h = Inr loginsets" "\<forall>l \<in> set loginsets. plain_namespace (LoginSet_Key l)"
    and "evt \<in> {CreateEvent (Some secret), UpdateEvent old (Some secret), DeleteEvent (Some secret)}"
  shows "wakes (on_Secret accounting_SetupWithManager) W evt
      (ac_key ` {a \<in> set accountings. uses_secret secret (Accounting_AuthSlurmKey a) (Accounting_AuthJwtKey a)}) \<and>
    wakes (on_Secret controller_SetupWithManager) W evt (ct_key ` {c \<in> set controllers. holds_keys secret c}) \<and>
    wakes (on_Secret nodeset_SetupWithManager) W evt
      (ns_Key ` {ns \<in> set nodesets. \<exists>c \<in> set controllers. holds_keys secret c \<and> spec_ControllerRef (ns_Spec ns) = ct_key c}) \<and>
    wakes (on_Secret restapi_SetupWithManager) W evt
      (ra_key ` {r \<in> set restapis. \<exists>c \<in> set controllers. holds_keys secret c \<and> ra_ControllerRef r = ct_key c}) \<and>
    wakes (on_Secret loginset_SetupWithManager) W evt
      (LoginSet_Key ` {l \<in> set loginsets. nsname_String secret = nsname_String (LoginSet_SssdSecretKey l) \<or>
        (\<exists>c \<in> set controllers. holds_keys secret c \<and> ls_ControllerRef l = ct_key c)})"
proof -
  have accountings: "run_state (accounting_SecretEventHandler W evt) s = (None, s\<lparr>log := queued (map ac_key (filter
      (\<lambda>a. uses_secret secret (Accounting_AuthSlurmKey a) (Accounting_AuthJwtKey a)) accountings))
      (Rd (ListedAccountings (Inr accountings)) # log s)\<rparr>)" for s
    using assms(2,7)
    by (auto simp: accounting_SecretEventHandler_def accounting_SecretEventHandler_enqueueRequest_def call_defs)
  have controllers: "run_state (controller_SecretEventHandler W evt) s = (None, s\<lparr>log := queued (map ct_key (filter (holds_keys secret) controllers))
      (Rd (ListedControllers (Inr controllers)) # log s)\<rparr>)" for s
    using assms(1,7)
    by (auto simp: controller_SecretEventHandler_def controller_SecretEventHandler_enqueueRequest_def call_defs
        holds_keys_def [abs_def])
  have none: "enqueued_keys s = {}" "enqueued_keys (s\<lparr>log := [Rd e]\<rparr>) = {}" if "log s = []" for s e
    using that by (simp_all add: enqueued_keys_def)
  have dispatch: "SecretEventHandler W evt = SecretEventHandler_enqueueRequest W (Some secret)"
    "restapi_SecretEventHandler W evt = restapi_SecretEventHandler_enqueueRequest W (Some secret)"
    "loginset_SecretEventHandler W evt = loginset_SecretEventHandler_enqueueRequest W (Some secret)"
    using assms(7) by (auto simp: SecretEventHandler_def restapi_SecretEventHandler_def loginset_SecretEventHandler_def)
  have nodesets: "\<exists>t. run_state (SecretEventHandler W evt) s = (None, t) \<and> enqueued_keys t =
      ns_Key ` {ns \<in> set nodesets. \<exists>c \<in> set controllers. holds_keys secret c \<and> spec_ControllerRef (ns_Spec ns) = ct_key c}"
    if "log s = []" for s
    using enqueue_for_secret_enqueues [OF assms(3), of secret controllers "s\<lparr>log := [Rd (ListedControllers (Inr controllers))]\<rparr>"]
      assms(1) that none [OF that]
    by (auto simp: dispatch SecretEventHandler_enqueueRequest_def call_defs holds_keys_def)
  have restapis: "\<exists>t. run_state (restapi_SecretEventHandler W evt) s = (None, t) \<and> enqueued_keys t =
      ra_key ` {r \<in> set restapis. \<exists>c \<in> set controllers. holds_keys secret c \<and> ra_ControllerRef r = ct_key c}"
    if "log s = []" for s
    using restapis_for_secret_enqueues [OF assms(4), of secret controllers "s\<lparr>log := [Rd (ListedControllers (Inr controllers))]\<rparr>"]
      assms(1) that none [OF that]
    by (auto simp: dispatch restapi_SecretEventHandler_enqueueRequest_def call_defs holds_keys_def)
  show ?thesis
    unfolding wakes_def setup_defs
    using secret_change_enqueues_loginsets [OF assms(1,5,6), of _ secret, folded dispatch] nodesets restapis none
    by (simp add: accountings controllers holds_keys_def)
qed

text \<open>
  C18. A secret that is created, changed or deleted wakes, in the queue of each controller, exactly: the
  Accountings and Controllers whose Slurm or JWT key it holds, the NodeSets and RestApis of such a Controller,
  and the LoginSets of such a Controller or whose SSSD configuration it holds. These are not all the users of
  the secret: when it holds only the SSSD configuration of a NodeSet, no NodeSet is woken, and when it holds
  only the storage password of an Accounting, no Accounting is.
\<close>

theorem secret_events_wake_key_users:
  assumes "\<forall>h. w_ListControllers W h = Inr controllers" "\<forall>h. w_ListAccountings W h = Inr accountings"
    and "\<forall>h. w_ListNodeSets W h = Inr nodesets" "\<forall>h. w_ListRestapis W h = Inr restapis"
    and "\<forall>h. w_ListLoginSets W h = Inr loginsets" "\<forall>l \<in> set loginsets. plain_namespace (LoginSet_Key l)"
    and "evt \<in> {CreateEvent (Some secret), UpdateEvent old (Some secret), DeleteEvent (Some secret)}"
  shows "wakes (on_Secret accounting_SetupWithManager) W evt
      (ac_key ` {a \<in> set accountings. uses_secret secret (Accounting_AuthSlurmKey a) (Accounting_AuthJwtKey a)}) \<and>
    wakes (on_Secret controller_SetupWithManager) W evt (ct_key ` {c \<in> set controllers. holds_keys secret c}) \<and>
    wakes (on_Secret nodeset_SetupWithManager) W evt
      (ns_Key ` {ns \<in> set nodesets. \<exists>c \<in> set controllers. holds_keys secret c \<and> spec_ControllerRef (ns_Spec ns) = ct_key c}) \<and>
    wakes (on_Secret restapi_SetupWithManager) W evt
      (ra_key ` {r \<in> set restapis. \<exists>c \<in> set controllers. holds_keys secret c \<and> ra_ControllerRef r = ct_key c}) \<and>
    wakes (on_Secret loginset_SetupWithManager) W evt
      (LoginSet_Key ` {l \<in> set loginsets. nsname_String secret = nsname_String (LoginSet_SssdSecretKey l) \<or>
        (\<exists>c \<in> set controllers. holds_keys secret c \<and> ls_ControllerRef l = ct_key c)}) \<and>
    ((\<exists>ns \<in> set nodesets. secret = NodeSet_SssdSecretKey ns) \<and> (\<forall>c \<in> set controllers. \<not> holds_keys secret c) \<longrightarrow>
      wakes (on_Secret nodeset_SetupWithManager) W evt {}) \<and>
    ((\<exists>a \<in> set accountings. secret = Accounting_AuthStorageKey a) \<and>
      (\<forall>a \<in> set accountings. \<not> uses_secret secret (Accounting_AuthSlurmKey a) (Accounting_AuthJwtKey a)) \<longrightarrow>
      wakes (on_Secret accounting_SetupWithManager) W evt {})"
proof -
  have no_users: "ns_Key ` {ns \<in> set nodesets. \<exists>c \<in> set controllers. holds_keys secret c \<and> spec_ControllerRef (ns_Spec ns) = ct_key c} = {}"
    if "\<forall>c \<in> set controllers. \<not> holds_keys secret c"
    using that by simp
  have no_accountings: "ac_key ` {a \<in> set accountings. uses_secret secret (Accounting_AuthSlurmKey a) (Accounting_AuthJwtKey a)} = {}"
    if "\<forall>a \<in> set accountings. \<not> uses_secret secret (Accounting_AuthSlurmKey a) (Accounting_AuthJwtKey a)"
    using that by simp
  from secret_handlers_wake [OF assms] no_users no_accountings show ?thesis
    by (metis (no_types, lifting))
qed

text \<open>
  A NodeSet is woken by a change of the Slurm key of its Controller; of its SSSD configuration it is not told.
\<close>

theorem secret_events_wake_key_users_witness:
  "wakes (on_Secret nodeset_SetupWithManager)
     (quiet_world\<lparr>w_ListNodeSets := (\<lambda>h. Inr [sample_nodeset]), w_ListControllers := (\<lambda>h. Inr [empty_controller])\<rparr>)
     (UpdateEvent None (Some (AuthSlurmKey empty_controller))) {(''slurm'', ''gpu'')} \<and>
   wakes (on_Secret nodeset_SetupWithManager)
     (quiet_world\<lparr>w_ListNodeSets := (\<lambda>h. Inr [sample_nodeset]), w_ListControllers := (\<lambda>h. Inr [empty_controller])\<rparr>)
     (UpdateEvent None (Some (NodeSet_SssdSecretKey sample_nodeset))) {}"
proof
  let ?W = "quiet_world\<lparr>w_ListNodeSets := (\<lambda>h. Inr [sample_nodeset]), w_ListControllers := (\<lambda>h. Inr [empty_controller])\<rparr>"
  have W: "\<forall>h. w_ListControllers ?W h = Inr [empty_controller]" "\<forall>h. w_ListAccountings ?W h = Inr []"
    "\<forall>h. w_ListNodeSets ?W h = Inr [sample_nodeset]" "\<forall>h. w_ListRestapis ?W h = Inr []" "\<forall>h. w_ListLoginSets ?W h = Inr []"
    "\<forall>l \<in> set []. plain_namespace (LoginSet_Key l)"
    "UpdateEvent None (Some k) \<in> {CreateEvent (Some k), UpdateEvent None (Some k), DeleteEvent (Some k)}" for k
    by (simp_all add: quiet_world_def)
  let ?k = "AuthSlurmKey empty_controller"
  note exact = secret_events_wake_key_users [OF W, of ?k, THEN conjunct2, THEN conjunct2, THEN conjunct1]
  have "{ns. ns = sample_nodeset \<and> holds_keys ?k empty_controller \<and> spec_ControllerRef (ns_Spec ns) = ct_key empty_controller} =
      {sample_nodeset}"
    by (auto simp: holds_keys_def uses_secret_def sample_refs)
  with exact show "wakes (on_Secret nodeset_SetupWithManager) ?W (UpdateEvent None (Some ?k)) {(''slurm'', ''gpu'')}"
    by (simp add: sample_refs)
  have "\<not> holds_keys (NodeSet_SssdSecretKey sample_nodeset) empty_controller"
    by code_simp
  then show "wakes (on_Secret nodeset_SetupWithManager) ?W (UpdateEvent None (Some (NodeSet_SssdSecretKey sample_nodeset))) {}"
    using secret_events_wake_key_users [OF W, of "NodeSet_SssdSecretKey sample_nodeset"] by simp
qed

section \<open>The index of pods by node\<close>

text \<open>\<^verbatim>\<open>indexes.go\<close>: the cache lists pods by the texts that this function gives for them.\<close>

definition getPodNodeName :: "event_object \<Rightarrow> string list" where
  "getPodNodeName obj = (case obj of PodObject pod \<Rightarrow> [pod_NodeName pod] | _ \<Rightarrow> [])"

text \<open>A read by an indexed field answers with the objects that the index function gives the value for.\<close>

definition indexed :: "world \<Rightarrow> pod list \<Rightarrow> bool" where
  "indexed W pods \<longleftrightarrow> (\<forall>h n. w_ListPodsOn W h n = Inr (filter (\<lambda>p. n \<in> set (getPodNodeName (PodObject p))) pods))"

definition owner_of :: "(nsname \<Rightarrow> err + nodeset) \<Rightarrow> pod \<Rightarrow> nodeset option" where
  "owner_of stored p =
     (case GetControllerOf (pod_OwnerReferences p) of
        None \<Rightarrow> None
      | Some ref \<Rightarrow>
          if or_Kind ref = NodeSetKind \<and> or_APIVersion ref = NodeSetAPIVersion
          then (case stored (pod_Namespace p, or_Name ref) of
                  Inr ns \<Rightarrow> if ns_UID ns = or_UID ref then Some ns else None
                | Inl _ \<Rightarrow> None)
          else None)"

lemma enqueued_keys_event: "enqueued_keys (s\<lparr>log := Ctl (Enqueued k 0) # h\<rparr>) = insert k (enqueued_keys (s\<lparr>log := h\<rparr>))"
  by (auto simp: enqueued_keys_def)

lemma enqueue_owners_enqueues:
  assumes "\<forall>h k. w_GetNodeSet W h k = stored k"
  shows "enqueued_keys (snd (run_state (enqueue_owners W pods) s)) =
    enqueued_keys s \<union> ns_Key ` {ns. \<exists>p \<in> set pods. owner_of stored p = Some ns}"
proof (induction pods arbitrary: s)
  case (Cons p pods)
  have split: "ns_Key ` {ns. \<exists>q \<in> set (p # pods). owner_of stored q = Some ns} =
      ns_Key ` set_option (owner_of stored p) \<union> ns_Key ` {ns. \<exists>q \<in> set pods. owner_of stored q = Some ns}"
    by (auto simp: image_def)
  show ?case
    unfolding split using assms
    by (auto simp: Cons run_resolve owner_of_def EnqueueRequest_def EnqueueRequestAfter_def call_defs Let_def ns_Key_def
        enqueued_keys_event split: option.split sum.split)
qed simp

text \<open>
  C20. An update of a Kubernetes node that cordons or uncordons it, or changes its labels or annotations,
  wakes exactly the NodeSets that own a pod on it, found through the index of pods by node; any other
  update, and the creation or deletion of a node, wakes nobody.
\<close>

theorem node_events_wake_owners:
  assumes "indexed W pods" "\<forall>h k. w_GetNodeSet W h k = stored k"
  shows "wakes (on_Node nodeset_SetupWithManager) W evt
    (case evt of
       UpdateEvent (Some old) (Some new) \<Rightarrow>
         if node_Unschedulable old = node_Unschedulable new \<and> mmake (node_Annotations old) = mmake (node_Annotations new) \<and>
            mmake (node_Labels old) = mmake (node_Labels new)
         then {}
         else ns_Key ` {ns. \<exists>p \<in> set pods. pod_NodeName p = node_Name new \<and> owner_of stored p = Some ns}
     | _ \<Rightarrow> {})"
proof -
  have none: "enqueued_keys s = {}" "enqueued_keys (s\<lparr>log := [Rd e]\<rparr>) = {}" if "log s = []" for s e
    using that by (simp_all add: enqueued_keys_def)
  have listed: "w_ListPodsOn W h n = Inr (filter (\<lambda>p. pod_NodeName p = n) pods)" for h n
    using assms(1) by (auto simp: indexed_def getPodNodeName_def intro: filter_cong)
  note enqueued = enqueue_owners_enqueues [OF assms(2)]
  show ?thesis
    by (auto simp: wakes_def setup_defs NodeEventHandler_def blank_def NodeEventHandler_Update_def enqueueNodeSetsForNode_def
        call_defs listed enqueued none split: watch_event.split option.split)
qed

theorem node_events_wake_owners_witness:
  "wakes (on_Node nodeset_SetupWithManager)
     (quiet_world\<lparr>w_ListPodsOn := (\<lambda>h n. Inr (filter (\<lambda>p. pod_NodeName p = n) [owned_pod])), w_GetNodeSet := (\<lambda>h k. Inr sample_nodeset)\<rparr>)
     (UpdateEvent (Some empty_node) (Some (empty_node\<lparr>node_Unschedulable := True\<rparr>))) {(''slurm'', ''gpu'')}"
proof -
  let ?W = "quiet_world\<lparr>w_ListPodsOn := (\<lambda>h n. Inr (filter (\<lambda>p. pod_NodeName p = n) [owned_pod])), w_GetNodeSet := (\<lambda>h k. Inr sample_nodeset)\<rparr>"
  have "indexed ?W [owned_pod]" "\<forall>h k. w_GetNodeSet ?W h k = (\<lambda>k. Inr sample_nodeset) k"
    by (auto simp: indexed_def getPodNodeName_def)
  note exact = node_events_wake_owners [OF this, of "UpdateEvent (Some empty_node) (Some (empty_node\<lparr>node_Unschedulable := True\<rparr>))"]
  have "owner_of (\<lambda>k. Inr sample_nodeset) owned_pod = Some sample_nodeset"
    by (simp add: owner_of_def owned_pod_def GetControllerOf_def NewControllerRef_def nodeset_owner_def NodeSetKind_def
        NodeSetAPIVersion_def sample_nodeset_def)
  moreover have "pod_NodeName owned_pod = node_Name empty_node" "\<not> node_Unschedulable empty_node"
    by (simp_all add: owned_pod_def empty_pod_def empty_node_def)
  ultimately show ?thesis using exact by (simp add: sample_refs)
qed

section \<open>What a controller applies, it owns\<close>

fun applied_kind :: "ev \<Rightarrow> kind option" where
  "applied_kind (Wr (CreatedObject x r)) = Some (ko_Kind x)"
| "applied_kind (Wr (PatchedObject x y r)) = Some (ko_Kind x)"
| "applied_kind (Wr (DeletedObject x r)) = Some (ko_Kind x)"
| "applied_kind _ = None"

definition applies_only :: "kind set \<Rightarrow> history \<Rightarrow> ev \<Rightarrow> bool" where
  "applies_only K h e \<longleftrightarrow> (case applied_kind e of None \<Rightarrow> True | Some kd \<Rightarrow> kd \<in> K)"

lemma applies_only_simps [simp]:
  "applies_only K h (Rd q)" "applies_only K h (Ctl c)" "applies_only K h (Wr (UpdatedConditions kd k cs r))"
  "applies_only K h (Wr (UpdatedLoginSetStatus k u r'))"
  "applies_only K h (Wr (CreatedObject x e)) = (ko_Kind x \<in> K)" "applies_only K h (Wr (PatchedObject x y e)) = (ko_Kind x \<in> K)"
  "applies_only K h (Wr (DeletedObject x e)) = (ko_Kind x \<in> K)"
  by (simp_all add: applies_only_def)

text \<open>A typed read answers with an object of the type asked for.\<close>

definition typed_reads :: "world \<Rightarrow> bool" where
  "typed_reads W \<longleftrightarrow> (\<forall>h kd k x. w_GetObject W h kd k = Inr x \<longrightarrow> ko_Kind x = kd)"

interpretation applies: read_frame "logs (applies_only K)" W for K W
proof
qed (simp_all add: logs_def)

lemma typed_readsD: "typed_reads W \<Longrightarrow> w_GetObject W h kd k = Inr x \<Longrightarrow> ko_Kind x = kd"
  unfolding typed_reads_def by blast

lemma kind_of_updated_object [simp]: "ko_Kind (updated_object old new) = ko_Kind old"
  by (simp add: updated_object_def)

lemma applies_SyncObject:
  assumes "typed_reads W" "ko_Kind new \<in> K"
  shows "keeps (logs (applies_only K)) (SyncObject W recorder new upd)"
  using assms(2)
  by (auto simp: SyncObject_def patch_object_def record_event_def call_defs logs_def split_beta
      dest!: typed_readsD [OF assms(1)] intro!: keepsI split: sum.split option.split)

lemma applies_DeleteObject:
  assumes "typed_reads W" "ko_Kind new \<in> K"
  shows "keeps (logs (applies_only K)) (DeleteObject W recorder new)"
  using assms(2)
  by (auto simp: DeleteObject_def record_event_def call_defs logs_def split_beta
      dest!: typed_readsD [OF assms(1)] intro!: keepsI split: sum.split option.split)

lemma applies_built:
  assumes "typed_reads W" "\<And>x. b = Inr x \<Longrightarrow> ko_Kind x \<in> K"
  shows "keeps (logs (applies_only K)) (sync_built W upd b)"
  unfolding sync_built_def by (cases b) (auto intro!: keeps_intros applies_SyncObject assms)

lemma applies_building:
  assumes "typed_reads W" "keeps (logs (applies_only K)) m" "\<And>s x. fst (run_state m s) = Inr x \<Longrightarrow> ko_Kind x \<in> K"
  shows "keeps (logs (applies_only K)) (sync_building W m)"
proof (rule keepsI)
  fix s
  assume "logs (applies_only K) s"
  with assms(2) have "logs (applies_only K) (snd (run_state m s))" by (rule keepsD)
  then show "logs (applies_only K) (snd (run_state (sync_building W m) s))"
    using keepsD [OF applies_built [OF assms(1), of "fst (run_state m s)" K True]] assms(3) [of s]
    by (auto simp: sync_building_def split_beta)
qed

lemma made_kinds:
  "set_owner W owner x = Inr y \<Longrightarrow> ko_Kind y = ko_Kind x"
  "resource_service W k md tmpl port sel owner = Inr y \<Longrightarrow> ko_Kind y = Service"
  "ko_Kind (new_object kd k md fs) = kd" "ko_Kind (deployment k md n sel t) = Deployment"
  "ko_Kind (stateful_set k md sel svc t cs) = StatefulSet"
  by (auto simp: resource_service_def BuildService_def set_owner_def new_object_def deployment_def stateful_set_def Let_def
      split: sum.splits option.splits if_splits)

lemma built_kinds:
  "BuildControllerService W c = Inr x \<Longrightarrow> ko_Kind x = Service"
  "BuildRestapiService W r = Inr x \<Longrightarrow> ko_Kind x = Service"
  "BuildAccountingService W a = Inr x \<Longrightarrow> ko_Kind x = Service"
  "BuildLoginService W l = Inr x \<Longrightarrow> ko_Kind x = Service"
  "BuildLoginSshConfig W l = Inr x \<Longrightarrow> ko_Kind x = ConfigMap"
  "BuildControllerServiceMonitor W c = Inr x \<Longrightarrow> ko_Kind x = ServiceMonitor"
  by (auto simp: BuildControllerService_def BuildRestapiService_def BuildAccountingService_def BuildLoginService_def
      BuildLoginSshConfig_def BuildConfigMap_def BuildControllerServiceMonitor_def BuildServiceMonitor_def Let_def made_kinds
      dest!: made_kinds(1,2) split: if_splits)

lemma building_kinds:
  "fst (run_state (BuildController W c) s) = Inr x \<Longrightarrow> ko_Kind x = StatefulSet"
  "fst (run_state (BuildAccounting W a) s) = Inr x \<Longrightarrow> ko_Kind x = StatefulSet"
  "fst (run_state (BuildRestapi W r) s) = Inr x \<Longrightarrow> ko_Kind x = Deployment"
  "fst (run_state (BuildLogin W l) s) = Inr x \<Longrightarrow> ko_Kind x = Deployment"
  by (auto simp: BuildController_def BuildAccounting_def BuildRestapi_def BuildLogin_def split_beta made_kinds Let_def
      dest!: made_kinds(1) split: sum.splits)

lemma building_config_kinds:
  "fst (run_state (BuildControllerConfig W c) s) = Inr x \<Longrightarrow> ko_Kind x = ConfigMap"
  "fst (run_state (BuildControllerConfigExternal W c) s) = Inr x \<Longrightarrow> ko_Kind x = ConfigMap"
  "fst (run_state (BuildAccountingConfig W a) s) = Inr x \<Longrightarrow> ko_Kind x = Secret"
  by (auto simp: BuildControllerConfig_def BuildControllerConfigExternal_def BuildAccountingConfig_def BuildConfigMap_def
      BuildSecret_def split_beta made_kinds Let_def dest!: made_kinds(1) split: sum.splits if_splits)

lemma applies_monitor:
  assumes "typed_reads W" "ServiceMonitor \<in> K"
  shows "keeps (logs (applies_only K)) (syncServiceMonitor W c)"
proof (cases "BuildControllerServiceMonitor W c")
  case (Inr x)
  then have "ko_Kind x \<in> K" using built_kinds(6) assms(2) by simp
  then have "keeps (logs (applies_only K)) (DeleteObject W True x)" "keeps (logs (applies_only K)) (SyncObject W True x True)"
    using applies_DeleteObject applies_SyncObject assms(1) by blast+
  then show ?thesis
    unfolding syncServiceMonitor_def delete_monitor_def Inr
    by (auto intro!: keeps_bind keeps_intros applies.calls_kept split: option.split)
qed (simp add: syncServiceMonitor_def keeps_fail)

text \<open>
  C15. Whatever a reconcile of a Controller, Accounting, RestApi or LoginSet creates, patches or deletes is of a
  kind that its controller owns, so that a change of it by someone else wakes the controller again; the
  service monitors of Controllers are the only exception.
\<close>

theorem applied_objects_are_owned:
  assumes "typed_reads W" "retry_ok W"
  shows "keeps (logs (applies_only (insert ServiceMonitor (owned_kinds controller_SetupWithManager)))) (Controller_Sync W req) \<and>
    keeps (logs (applies_only (owned_kinds accounting_SetupWithManager))) (Accounting_Sync W req) \<and>
    keeps (logs (applies_only (owned_kinds restapi_SetupWithManager))) (Restapi_Sync W req) \<and>
    keeps (logs (applies_only (owned_kinds loginset_SetupWithManager))) (LoginSet_Sync W req)"
  unfolding Controller_Sync_def Restapi_Sync_def Accounting_Sync_def LoginSet_Sync_def Let_def controller_syncStatus_def
    restapi_syncStatus_def accounting_syncStatus_def setup_defs owned_kinds_def
  by (intro conjI)
    (auto simp: controller_steps_def restapi_steps_def accounting_steps_def loginset_steps_def step_of_def keeps_fail
      built_kinds building_kinds building_config_kinds host_keys_immutable
      intro!: keeps_bind applies.run_steps_kept applies.calls_kept applies.status_kept applies.builders_kept
        applies.login_builders_kept applies_built applies_building applies_monitor assms keeps_intros
      split: sum.split)

theorem applied_objects_are_owned_witness:
  "ok_log (applies_only {Deployment, Service, ConfigMap, Secret})
     (log (snd (run_state (LoginSet_Sync (login_world\<lparr>w_GetObject := (\<lambda>h kd k. Inl (StatusError NotFound))\<rparr>)
       (''slurm'', ''login'')) st_init)))"
proof -
  let ?W = "login_world\<lparr>w_GetObject := (\<lambda>h kd k. Inl (StatusError NotFound))\<rparr>"
  have "typed_reads ?W" "retry_ok ?W"
    using login_world_ok(2) by (simp_all add: typed_reads_def retry_ok_def)
  from applied_objects_are_owned [OF this, of "(''slurm'', ''login'')"]
  have owned: "keeps (logs (applies_only (owned_kinds loginset_SetupWithManager))) (LoginSet_Sync ?W (''slurm'', ''login''))"
    by (elim conjE)
  have init: "owned_kinds loginset_SetupWithManager = {Deployment, Service, ConfigMap, Secret}" "log st_init = []"
    by (auto simp: setup_defs owned_kinds_def st_init_def)
  from keepsD [OF owned logs_empty [OF init(2)]] show ?thesis
    unfolding init(1) logs_def .
qed

end
