(* ===== verification/Webhooks.thy ===== *)
theory Webhooks
  imports DaemonBuilders
begin

text \<open>
  The admission webhooks (\<^verbatim>\<open>internal/webhook\<close>): which versions of the resources the API server accepts,
  and the webhook that copies a node's topology to a worker pod when the pod is bound to the node. A
  validator returns warnings and an error. The locale \<open>admission\<close> derives what holds of every version of a
  resource from what one validation checks.
\<close>

section \<open>Controllers\<close>

definition denyConfigFiles :: "string list" where
  "denyConfigFiles = [''slurm.conf'', ''slurmdbd.conf'']"

definition knownConfigFiles :: "string list" where
  "knownConfigFiles = [''acct_gather.conf'', ''burst_buffer.conf'', ''cgroup.conf'', ''cli_filter.lua'', ''gres.conf'',
     ''helpers.conf'', ''job_container.conf'', ''job_submit.lua'', ''mpi.conf'', ''namespace.yaml'', ''oci.conf'',
     ''plugstack.conf'', ''topology.conf'', ''topology.yaml'']"

type_synonym findings = "string list \<times> err list"

definition reserved_file :: "string \<Rightarrow> err" where
  "reserved_file f = GoError (''the configFile is reserved for slurm-operator use: '' @ f)"

definition check_file :: "findings \<Rightarrow> string \<Rightarrow> findings" where
  "check_file fs f =
     (if f \<in> set denyConfigFiles then (fst fs, snd fs @ [reserved_file f])
      else if f \<notin> set knownConfigFiles then (fst fs @ [''the configFile is unknown to Slurm: '' @ f], snd fs)
      else fs)"

fun check_config_refs :: "world \<Rightarrow> string \<Rightarrow> nsname list \<Rightarrow> findings \<Rightarrow> findings prog" where
  "check_config_refs W namespace [] fs = State_Monad.return fs"
| "check_config_refs W namespace (ref # refs) fs = do {
     g \<leftarrow> GetConfigMapData W (namespace, snd ref);
     case g of
       Inl err \<Rightarrow> check_config_refs W namespace refs (fst fs, snd fs @ [err])
     | Inr files \<Rightarrow> check_config_refs W namespace refs (foldl check_file fs (map_Keys W files))
   }"

definition validateController :: "world \<Rightarrow> slurm_controller \<Rightarrow> findings prog" where
  "validateController W controller = check_config_refs W (ct_Namespace controller) (ct_ConfigFileRefs controller) ([], [])"

definition Controller_ValidateCreate :: "world \<Rightarrow> slurm_controller \<Rightarrow> (string list \<times> error) prog" where
  "Controller_ValidateCreate W controller = do {
     fs \<leftarrow> validateController W controller;
     State_Monad.return (fst fs, NewAggregate (snd fs @
       (if length (Controller_ClusterName controller) > 40 then [GoError ''ClusterName exceeds 40 characters''] else [])))
   }"

definition Controller_ValidateUpdate :: "world \<Rightarrow> slurm_controller \<Rightarrow> slurm_controller \<Rightarrow> (string list \<times> error) prog" where
  "Controller_ValidateUpdate W old new = do {
     fs \<leftarrow> validateController W new;
     State_Monad.return (fst fs, NewAggregate (snd fs @
       (if Controller_ClusterName new \<noteq> Controller_ClusterName old
        then [GoError ''cannot change ClusterName after deployment''] else []) @
       (if sks_Name (ct_SlurmKeyRef new) \<noteq> sks_Name (ct_SlurmKeyRef old)
        then [GoError ''cannot change SlurmKeyRef after deployment''] else []) @
       (if AuthJwtRef new \<noteq> AuthJwtRef old
        then [GoError ''the value of JwtKeyRef or JwtHs256KeyRef cannot be modified after deployment''] else []) @
       (if ct_PersistenceEnabled new \<noteq> ct_PersistenceEnabled old
        then [GoError ''cannot change persistence.enabled after deployment''] else [])))
   }"

section \<open>NodeSets\<close>

definition validate_max_unavailable :: "int_or_string option \<Rightarrow> err list" where
  "validate_max_unavailable mu =
     (case mu of
        None \<Rightarrow> []
      | Some (IntVal i) \<Rightarrow> if i < 1 then [GoError ''maxUnavailable must be > 0''] else []
      | Some (StrVal s) \<Rightarrow> if s = ''0%'' then [GoError ''maxUnavailable must not be 0%''] else [])"

definition validateNodeSet :: "nodeset \<Rightarrow> findings" where
  "validateNodeSet ns =
     (let spec = ns_Spec ns
      in (if spec_TaintKubeNodes spec then [''TaintKubeNodes option is deprecated and will removed in the future.''] else [],
          (if snd (spec_ControllerRef spec) = '''' then [GoError ''controllerRef.name must not be empty''] else []) @
          validate_max_unavailable (spec_MaxUnavailable spec) @
          (if spec_SshEnabled spec \<and> sks_Name (spec_SssdConfRef spec) = ''''
           then [GoError ''ssh.sssdConfRef.name must not be empty when ssh is enabled''] else [])))"

definition NodeSet_ValidateCreate :: "nodeset \<Rightarrow> string list \<times> error" where
  "NodeSet_ValidateCreate ns = (fst (validateNodeSet ns), NewAggregate (snd (validateNodeSet ns)))"

text \<open>\<^verbatim>\<open>Semantic.DeepEqual\<close> does not distinguish nil and empty maps.\<close>

definition claim_DeepEqual :: "pvc \<Rightarrow> pvc \<Rightarrow> bool" where
  "claim_DeepEqual a b \<longleftrightarrow> a\<lparr>pvc_Labels := Some (mmake (pvc_Labels a))\<rparr> = b\<lparr>pvc_Labels := Some (mmake (pvc_Labels b))\<rparr>"

definition NodeSet_ValidateUpdate :: "nodeset \<Rightarrow> nodeset \<Rightarrow> string list \<times> error" where
  "NodeSet_ValidateUpdate old new =
     (fst (validateNodeSet new), NewAggregate (snd (validateNodeSet new) @
       (if spec_ControllerRef (ns_Spec new) \<noteq> spec_ControllerRef (ns_Spec old)
        then [GoError ''cannot change controllerRef after deployment''] else []) @
       (if \<not> list_all2 claim_DeepEqual (spec_VolumeClaimTemplates (ns_Spec new)) (spec_VolumeClaimTemplates (ns_Spec old))
        then [GoError ''cannot change volumeClaimTemplates after deployment''] else [])))"

section \<open>LoginSets, Accountings, Tokens and RestApis\<close>

definition validateLoginSet :: "loginset \<Rightarrow> findings" where
  "validateLoginSet l =
     ([], (if snd (ls_ControllerRef l) = '''' then [GoError ''controllerRef.name must not be empty''] else []) @
          (if sks_Name (ls_SssdConfRef l) = '''' then [GoError ''sssdConfRef.name must not be empty''] else []))"

definition LoginSet_ValidateCreate :: "loginset \<Rightarrow> string list \<times> error" where
  "LoginSet_ValidateCreate l = (fst (validateLoginSet l), NewAggregate (snd (validateLoginSet l)))"

definition LoginSet_ValidateUpdate :: "loginset \<Rightarrow> loginset \<Rightarrow> string list \<times> error" where
  "LoginSet_ValidateUpdate old new =
     (fst (validateLoginSet new), NewAggregate (snd (validateLoginSet new) @
       (if ls_ControllerRef new \<noteq> ls_ControllerRef old then [GoError ''cannot change controllerRef after deployment''] else [])))"

definition Accounting_ValidateCreate :: "accounting \<Rightarrow> string list \<times> error" where
  "Accounting_ValidateCreate a = ([], None)"

definition Accounting_ValidateUpdate :: "accounting \<Rightarrow> accounting \<Rightarrow> string list \<times> error" where
  "Accounting_ValidateUpdate old new =
     ([], NewAggregate
       (if Accounting_AuthJwtRef new \<noteq> Accounting_AuthJwtRef old
        then [GoError ''the value of JwtKeyRef or JwtHs256KeyRef cannot be modified after deployment''] else []))"

definition Token_ValidateCreate :: "token \<Rightarrow> string list \<times> error" where
  "Token_ValidateCreate t = ([], None)"

definition Token_ValidateUpdate :: "token \<Rightarrow> token \<Rightarrow> string list \<times> error" where
  "Token_ValidateUpdate old new =
     ([], NewAggregate
       (if Token_JwtRef new \<noteq> Token_JwtRef old
        then [GoError ''the value of JwtKeyRef or JwtHs256KeyRef cannot be modified after deployment''] else []))"

definition RestApi_ValidateCreate :: "restapi \<Rightarrow> string list \<times> error" where
  "RestApi_ValidateCreate r = ([], None)"

definition RestApi_ValidateUpdate :: "restapi \<Rightarrow> restapi \<Rightarrow> string list \<times> error" where
  "RestApi_ValidateUpdate old new = ([], None)"

section \<open>Binding of a pod\<close>

text \<open>\<open>key\<close>: the key of the binding, which is the pod's; \<open>target\<close>: the name of the node.\<close>

definition PodBinding_Default :: "world \<Rightarrow> nsname \<Rightarrow> string \<Rightarrow> error prog" where
  "PodBinding_Default W key target = do {
     g \<leftarrow> GetPod W key;
     case g of
       Inl err \<Rightarrow> fail (Wrapped ''could not fetch pod for binding'' err)
     | Inr pod \<Rightarrow>
         if mmake (pod_Labels pod) = Map.empty \<or> mget (pod_Labels pod) AppLabel \<noteq> WorkerApp then ok
         else do {
           n \<leftarrow> GetNode W target;
           case n of
             Inl err \<Rightarrow> if IsNotFound err then ok else fail err
           | Inr node \<Rightarrow>
               (case mput (pod_Annotations pod) AnnotationNodeTopologySpec (mget (node_Annotations node) AnnotationNodeTopologySpec) of
                  Inl e \<Rightarrow> fail e
                | Inr annotations \<Rightarrow> PatchPod W (pod\<lparr>pod_Annotations := annotations\<rparr>) pod)
         }
   }"

section \<open>Versions of a resource\<close>

text \<open>
  The versions the API server stores, one after the other: the first was accepted as a creation, each later
  one as an update of the one before. \<open>admitted create update first current\<close>.
\<close>

inductive admitted :: "('a \<Rightarrow> bool) \<Rightarrow> ('a \<Rightarrow> 'a \<Rightarrow> bool) \<Rightarrow> 'a \<Rightarrow> 'a \<Rightarrow> bool" for create update where
  created: "create c \<Longrightarrow> admitted create update c c"
| updated: "admitted create update first old \<Longrightarrow> update old new \<Longrightarrow> admitted create update first new"

inductive_cases admittedE: "admitted create update first current"

text \<open>What one validation promises, and what follows for all versions.\<close>

locale admission =
  fixes create :: "'a \<Rightarrow> bool" and update :: "'a \<Rightarrow> 'a \<Rightarrow> bool"
    and valid :: "'a \<Rightarrow> bool" and fixed :: "'a \<Rightarrow> 'b"
  assumes create_valid: "create c \<Longrightarrow> valid c"
    and update_valid: "valid old \<Longrightarrow> update old new \<Longrightarrow> valid new"
    and update_fixed: "update old new \<Longrightarrow> fixed new = fixed old"
begin

lemma always_valid: "admitted create update first current \<Longrightarrow> valid current"
  by (induction rule: admitted.induct) (auto intro: create_valid update_valid)

lemma never_changes: "admitted create update first current \<Longrightarrow> fixed current = fixed first"
  by (induction rule: admitted.induct) (simp_all add: update_fixed)

end

subsection \<open>Controllers\<close>

definition controller_created :: "world \<Rightarrow> slurm_controller \<Rightarrow> bool" where
  "controller_created W c \<longleftrightarrow> (\<exists>s. snd (fst (run_state (Controller_ValidateCreate W c) s)) = None)"

definition controller_updated :: "world \<Rightarrow> slurm_controller \<Rightarrow> slurm_controller \<Rightarrow> bool" where
  "controller_updated W old new \<longleftrightarrow> (\<exists>s. snd (fst (run_state (Controller_ValidateUpdate W old new) s)) = None)"

interpretation controllers: admission "controller_created W" "controller_updated W"
    "\<lambda>c. length (Controller_ClusterName c) \<le> 40"
    "\<lambda>c. (Controller_ClusterName c, sks_Name (ct_SlurmKeyRef c), AuthJwtRef c, ct_PersistenceEnabled c)" for W
proof
  show "length (Controller_ClusterName c) \<le> 40" if "controller_created W c" for c
    using that by (auto simp: controller_created_def Controller_ValidateCreate_def split_beta split: if_splits)
  have same: "(Controller_ClusterName new, sks_Name (ct_SlurmKeyRef new), AuthJwtRef new, ct_PersistenceEnabled new) =
      (Controller_ClusterName old, sks_Name (ct_SlurmKeyRef old), AuthJwtRef old, ct_PersistenceEnabled old)"
    if "controller_updated W old new" for old new
    using that by (auto simp: controller_updated_def Controller_ValidateUpdate_def split_beta split: if_splits)
  then show "length (Controller_ClusterName new) \<le> 40"
    if "length (Controller_ClusterName old) \<le> 40" "controller_updated W old new" for old new
    using that by (metis Pair_inject)
  show "(Controller_ClusterName new, sks_Name (ct_SlurmKeyRef new), AuthJwtRef new, ct_PersistenceEnabled new) =
      (Controller_ClusterName old, sks_Name (ct_SlurmKeyRef old), AuthJwtRef old, ct_PersistenceEnabled old)"
    if "controller_updated W old new" for old new
    using same [OF that] .
qed

text \<open>
  C23. Every version of a Controller that the API server stores has a cluster name of at most 40
  characters, the same as the first version; with it the directory where \<^verbatim>\<open>slurmctld\<close> saves its state never
  changes. Fixed are also the name of the secret with the Slurm key (the entry of the secret that holds the key
  is not), the whole reference to the JWT key, and whether the state is persisted at all (the claim that is used
  for it is not).
\<close>

theorem controller_versions:
  assumes "admitted (controller_created W) (controller_updated W) first current"
  shows "length (Controller_ClusterName current) \<le> 40 \<and>
    Controller_ClusterName current = Controller_ClusterName first \<and>
    clusterSpoolDir (Controller_ClusterName current) = clusterSpoolDir (Controller_ClusterName first) \<and>
    sks_Name (ct_SlurmKeyRef current) = sks_Name (ct_SlurmKeyRef first) \<and>
    AuthJwtRef current = AuthJwtRef first \<and> ct_PersistenceEnabled current = ct_PersistenceEnabled first"
  using controllers.always_valid [OF assms] controllers.never_changes [OF assms] by simp

text \<open>
  A Controller is created and then updated to another entry of the same secret, with more configuration: both are
  accepted. An update to another secret is not.
\<close>

definition first_controller :: slurm_controller where
  "first_controller = empty_controller\<lparr>ct_Namespace := ''slurm'', ct_Name := ''main'', ct_SlurmKeyRef := \<lparr>sks_Name = ''auth'', sks_Key = ''k1''\<rparr>\<rparr>"

definition second_controller :: slurm_controller where
  "second_controller = first_controller\<lparr>ct_SlurmKeyRef := \<lparr>sks_Name = ''auth'', sks_Key = ''k2''\<rparr>, ct_ExtraConf := ''x''\<rparr>"

theorem controller_versions_witness:
  "admitted (controller_created quiet_world) (controller_updated quiet_world) first_controller second_controller \<and>
   \<not> admitted (controller_created quiet_world) (controller_updated quiet_world) first_controller
       (second_controller\<lparr>ct_SlurmKeyRef := \<lparr>sks_Name = ''other'', sks_Key = ''k2''\<rparr>\<rparr>) \<and>
   Controller_ClusterName second_controller = ''slurm_main'' \<and>
   clusterSpoolDir (Controller_ClusterName second_controller) = clusterSpoolDir ''slurm_main''"
proof -
  have a: "admitted (controller_created quiet_world) (controller_updated quiet_world) first_controller second_controller"
    by (rule admitted.updated [OF admitted.created])
      (simp_all add: controller_created_def controller_updated_def Controller_ValidateCreate_def Controller_ValidateUpdate_def
        validateController_def first_controller_def second_controller_def empty_controller_def Controller_ClusterName_def AuthJwtRef_def)
  have "Controller_ClusterName first_controller = ''slurm_main''"
    by (simp add: first_controller_def empty_controller_def Controller_ClusterName_def)
  with a controller_versions [OF a] controller_versions [of quiet_world first_controller
      "second_controller\<lparr>ct_SlurmKeyRef := \<lparr>sks_Name = ''other'', sks_Key = ''k2''\<rparr>\<rparr>"]
  show ?thesis by (auto simp: first_controller_def)
qed

lemma check_file_reserved: "f \<in> set denyConfigFiles \<Longrightarrow> f \<in> set files \<Longrightarrow> snd (foldl check_file fs files) \<noteq> []"
proof (induction files arbitrary: fs)
  case (Cons g files)
  have keep: "snd fs \<noteq> [] \<Longrightarrow> snd (foldl check_file fs gs) \<noteq> []" for fs gs
    by (induction gs arbitrary: fs) (auto simp: check_file_def)
  show ?case
  proof (cases "f = g")
    case True
    then have "snd (check_file fs g) \<noteq> []" using Cons.prems(1) by (simp add: check_file_def)
    then show ?thesis using keep by simp
  next
    case False
    then show ?thesis using Cons by simp
  qed
qed simp

lemma check_config_refs_clean:
  assumes "run_state (check_config_refs W namespace refs fs) s = (fs', t)" "snd fs' = []"
  shows "snd fs = [] \<and> (\<exists>l. log t = l @ log s \<and> (\<forall>ref \<in> set refs. \<exists>d. Rd (GotConfigMapData (namespace, snd ref) (Inr d)) \<in> set l \<and>
    set (map_Keys W d) \<inter> set denyConfigFiles = {}))"
  using assms
proof (induction refs arbitrary: fs s)
  case (Cons ref refs)
  let ?g = "w_GetConfigMapData W (log s) (namespace, snd ref)"
  let ?s = "s\<lparr>log := Rd (GotConfigMapData (namespace, snd ref) ?g) # log s\<rparr>"
  show ?case
  proof (cases ?g)
    case (Inl e)
    then have "run_state (check_config_refs W namespace refs (fst fs, snd fs @ [e])) ?s = (fs', t)"
      using Cons.prems(1) by (simp add: call_defs)
    from Cons.IH [OF this Cons.prems(2)] show ?thesis by simp
  next
    case (Inr d)
    then have "run_state (check_config_refs W namespace refs (foldl check_file fs (map_Keys W d))) ?s = (fs', t)"
      using Cons.prems(1) by (simp add: call_defs)
    note IH = Cons.IH [OF this Cons.prems(2)]
    then have "set (map_Keys W d) \<inter> set denyConfigFiles = {}"
      using check_file_reserved by blast
    moreover have "snd fs = []"
    proof (rule ccontr)
      have "snd fs \<noteq> [] \<Longrightarrow> snd (foldl check_file fs gs) \<noteq> []" for fs gs
        by (induction gs arbitrary: fs) (auto simp: check_file_def)
      then show "snd fs \<noteq> [] \<Longrightarrow> False" using IH by blast
    qed
    moreover obtain l where "log t = l @ Rd (GotConfigMapData (namespace, snd ref) ?g) # log s"
      "\<forall>ref \<in> set refs. \<exists>d. Rd (GotConfigMapData (namespace, snd ref) (Inr d)) \<in> set l \<and> set (map_Keys W d) \<inter> set denyConfigFiles = {}"
      using IH by auto
    ultimately show ?thesis
      using Inr by (intro conjI exI [of _ "l @ [Rd (GotConfigMapData (namespace, snd ref) ?g)]"]) auto
  qed
qed simp

text \<open>
  When a Controller is accepted, at its creation or at an update, each configuration map it references
  was read and holds no file that the operator writes itself (\<^verbatim>\<open>slurm.conf\<close>, \<^verbatim>\<open>slurmdbd.conf\<close>).
\<close>

theorem accepted_config_files:
  assumes "validation \<in> {Controller_ValidateCreate W c, Controller_ValidateUpdate W old c}"
    and "run_state validation s = ((warns, None), t)" "ref \<in> set (ct_ConfigFileRefs c)"
  shows "\<exists>d. Rd (GotConfigMapData (ct_Namespace c, snd ref) (Inr d)) \<in> set (log t) \<and>
    set (map_Keys W d) \<inter> set denyConfigFiles = {}"
proof -
  obtain fs where "run_state (validateController W c) s = (fs, t)" "snd fs = []"
    using assms(1,2)
    by (auto simp: Controller_ValidateCreate_def Controller_ValidateUpdate_def NewAggregate_def split: prod.splits if_splits)
  from check_config_refs_clean [OF this [unfolded validateController_def]]
  obtain l d where "log t = l @ log s" "Rd (GotConfigMapData (ct_Namespace c, snd ref) (Inr d)) \<in> set l"
    "set (map_Keys W d) \<inter> set denyConfigFiles = {}"
    using assms(3) by blast
  then show ?thesis by (intro exI [of _ d]) simp
qed

theorem accepted_config_files_witness:
  "\<exists>d. Rd (GotConfigMapData ('''', ''files'') (Inr d)) \<in> set (log (snd (run_state (Controller_ValidateCreate
      (quiet_world\<lparr>w_GetConfigMapData := (\<lambda>h k. Inr Map.empty)\<rparr>) (empty_controller\<lparr>ct_ConfigFileRefs := [('''', ''files'')]\<rparr>)) st_init)))"
proof -
  let ?W = "quiet_world\<lparr>w_GetConfigMapData := (\<lambda>h k. Inr Map.empty)\<rparr>"
  let ?c = "empty_controller\<lparr>ct_ConfigFileRefs := [('''', ''files'')]\<rparr>"
  let ?v = "Controller_ValidateCreate ?W ?c"
  have "snd (fst (run_state ?v st_init)) = None"
    by (simp add: Controller_ValidateCreate_def validateController_def call_defs map_Keys_def quiet_world_def
        empty_controller_def Controller_ClusterName_def)
  then have "run_state ?v st_init = ((fst (fst (run_state ?v st_init)), None), snd (run_state ?v st_init))"
    by (simp add: prod_eq_iff)
  from accepted_config_files [of ?v ?W ?c empty_controller, OF _ this, of "('''', ''files'')"] show ?thesis
    by (auto simp: empty_controller_def)
qed

subsection \<open>NodeSets and LoginSets\<close>

text \<open>
  What the documentation of the resource asks of \<^verbatim>\<open>maxUnavailable\<close>: a number or a percentage, and not 0. The
  names that have to be given: the controller, and with SSH the secret for SSSD.
\<close>

definition positive_percentage :: "string \<Rightarrow> bool" where
  "positive_percentage t \<longleftrightarrow>
     (\<exists>ds. t = ds @ ''%'' \<and> set ds \<subseteq> set ''0123456789'' \<and> \<not> set ds \<subseteq> {CHR ''0''})"

definition max_unavailable_documented :: "int_or_string option \<Rightarrow> bool" where
  "max_unavailable_documented mu \<longleftrightarrow>
     (case mu of None \<Rightarrow> True | Some (IntVal i) \<Rightarrow> i > 0 | Some (StrVal t) \<Rightarrow> positive_percentage t)"

definition names_given :: "nodeset \<Rightarrow> bool" where
  "names_given ns \<longleftrightarrow>
     snd (spec_ControllerRef (ns_Spec ns)) \<noteq> '''' \<and>
     (spec_SshEnabled (ns_Spec ns) \<longrightarrow> sks_Name (spec_SssdConfRef (ns_Spec ns)) \<noteq> '''')"

definition nodeset_valid :: "nodeset \<Rightarrow> bool" where
  "nodeset_valid ns \<longleftrightarrow> names_given ns \<and> max_unavailable_documented (spec_MaxUnavailable (ns_Spec ns))"

text \<open>The texts that the validator lets pass against the documentation: every one that is not \<^verbatim>\<open>0%\<close> to the letter.\<close>

definition unchecked_text :: "nodeset \<Rightarrow> bool" where
  "unchecked_text ns \<longleftrightarrow>
     (\<exists>t. spec_MaxUnavailable (ns_Spec ns) = Some (StrVal t) \<and> t \<noteq> ''0%'' \<and> \<not> positive_percentage t)"

lemma zero_percentages: "\<not> positive_percentage ''0%''" "\<not> positive_percentage ''00%''"
  by (auto simp: positive_percentage_def append_eq_Cons_conv)

lemma validateNodeSet_exact:
  "snd (validateNodeSet ns) = [] \<longleftrightarrow> nodeset_valid ns \<or> names_given ns \<and> unchecked_text ns"
  using zero_percentages(1)
  by (auto simp: validateNodeSet_def validate_max_unavailable_def nodeset_valid_def names_given_def
      max_unavailable_documented_def unchecked_text_def Let_def split: option.splits int_or_string.splits)

definition loginset_valid :: "loginset \<Rightarrow> bool" where
  "loginset_valid l \<longleftrightarrow> snd (ls_ControllerRef l) \<noteq> '''' \<and> sks_Name (ls_SssdConfRef l) \<noteq> ''''"

lemma validateLoginSet_exact: "snd (validateLoginSet l) = [] \<longleftrightarrow> loginset_valid l"
  by (simp add: validateLoginSet_def loginset_valid_def)

text \<open>The content of a volume claim template, in which no map of labels is the same as an empty one.\<close>

definition claim_content :: "pvc \<Rightarrow> pvc" where
  "claim_content c = c\<lparr>pvc_Labels := Some (mmake (pvc_Labels c))\<rparr>"

lemma claims_DeepEqual_content:
  "list_all2 claim_DeepEqual as bs \<longleftrightarrow> map claim_content as = map claim_content bs"
  by (simp add: list_all2_conv_all_nth claim_DeepEqual_def claim_content_def list_eq_iff_nth_eq cong: conj_cong)

interpretation nodesets: admission "\<lambda>ns. snd (NodeSet_ValidateCreate ns) = None" "\<lambda>old new. snd (NodeSet_ValidateUpdate old new) = None"
    "\<lambda>ns. nodeset_valid ns \<or> names_given ns \<and> unchecked_text ns"
    "\<lambda>ns. (spec_ControllerRef (ns_Spec ns), map claim_content (spec_VolumeClaimTemplates (ns_Spec ns)))"
  by unfold_locales
    (auto simp: NodeSet_ValidateCreate_def NodeSet_ValidateUpdate_def validateNodeSet_exact claims_DeepEqual_content split: if_splits)

interpretation loginsets: admission "\<lambda>l. snd (LoginSet_ValidateCreate l) = None" "\<lambda>old new. snd (LoginSet_ValidateUpdate old new) = None"
    loginset_valid ls_ControllerRef
  by unfold_locales
    (auto simp: LoginSet_ValidateCreate_def LoginSet_ValidateUpdate_def validateLoginSet_exact split: if_splits)

interpretation tokens: admission "\<lambda>t. snd (Token_ValidateCreate t) = None" "\<lambda>old new. snd (Token_ValidateUpdate old new) = None"
    "\<lambda>_. True" Token_JwtRef
  by unfold_locales (auto simp: Token_ValidateUpdate_def split: if_splits)

interpretation accountings: admission "\<lambda>a. snd (Accounting_ValidateCreate a) = None"
    "\<lambda>old new. snd (Accounting_ValidateUpdate old new) = None" "\<lambda>_. True" Accounting_AuthJwtRef
  by unfold_locales (auto simp: Accounting_ValidateUpdate_def split: if_splits)

text \<open>
  C24. Every NodeSet is accepted that names its controller, names a secret for SSSD when SSH is enabled, and has a
  \<^verbatim>\<open>maxUnavailable\<close> as documented: a number above 0 or a percentage above 0. A NodeSet is accepted against this
  rule only if its \<^verbatim>\<open>maxUnavailable\<close> is some other text than \<^verbatim>\<open>0%\<close>: \<^verbatim>\<open>00%\<close> is accepted, and so is a text that is
  no percentage. Every stored version is so, and keeps the controller and the contents of the volume claim
  templates, up to the difference of no labels and an empty map. Every stored version of a LoginSet names its
  controller, always the same, and a secret for SSSD.
\<close>

theorem workload_versions:
  "(nodeset_valid ns \<longrightarrow> snd (NodeSet_ValidateCreate ns) = None) \<and>
   (snd (NodeSet_ValidateCreate ns) = None \<and> \<not> nodeset_valid ns \<longleftrightarrow> names_given ns \<and> unchecked_text ns) \<and>
   (names_given ns \<and> spec_MaxUnavailable (ns_Spec ns) = Some (StrVal ''00%'') \<longrightarrow>
     snd (NodeSet_ValidateCreate ns) = None \<and> \<not> nodeset_valid ns) \<and>
   (admitted (\<lambda>ns. snd (NodeSet_ValidateCreate ns) = None) (\<lambda>old new. snd (NodeSet_ValidateUpdate old new) = None) ns0 ns1 \<longrightarrow>
     (nodeset_valid ns1 \<or> names_given ns1 \<and> unchecked_text ns1) \<and>
     spec_ControllerRef (ns_Spec ns1) = spec_ControllerRef (ns_Spec ns0) \<and>
     map claim_content (spec_VolumeClaimTemplates (ns_Spec ns1)) = map claim_content (spec_VolumeClaimTemplates (ns_Spec ns0))) \<and>
   (admitted (\<lambda>l. snd (LoginSet_ValidateCreate l) = None) (\<lambda>old new. snd (LoginSet_ValidateUpdate old new) = None) l0 l1 \<longrightarrow>
     loginset_valid l1 \<and> ls_ControllerRef l1 = ls_ControllerRef l0)"
proof -
  have accepted: "snd (NodeSet_ValidateCreate ns) = None \<longleftrightarrow> nodeset_valid ns \<or> names_given ns \<and> unchecked_text ns"
    by (simp add: NodeSet_ValidateCreate_def validateNodeSet_exact)
  have apart: "\<not> (nodeset_valid ns \<and> unchecked_text ns)"
    by (auto simp: nodeset_valid_def max_unavailable_documented_def unchecked_text_def)
  have "unchecked_text ns" if "spec_MaxUnavailable (ns_Spec ns) = Some (StrVal ''00%'')"
    using that zero_percentages(2) by (simp add: unchecked_text_def)
  with accepted apart show ?thesis
    using nodesets.always_valid nodesets.never_changes loginsets.always_valid loginsets.never_changes by auto
qed

text \<open>A NodeSet that is accepted with 25% and then updated to 00%, which is accepted too.\<close>

definition nodeset_with :: "string \<Rightarrow> nodeset" where
  "nodeset_with t = empty_nodeset\<lparr>ns_Spec := empty_nodeset_spec\<lparr>spec_ControllerRef := (''slurm'', ''main''),
     spec_MaxUnavailable := Some (StrVal t)\<rparr>\<rparr>"

theorem workload_versions_witness:
  "nodeset_valid (nodeset_with ''25%'') \<and> snd (NodeSet_ValidateCreate (nodeset_with ''25%'')) = None \<and>
   admitted (\<lambda>ns. snd (NodeSet_ValidateCreate ns) = None) (\<lambda>old new. snd (NodeSet_ValidateUpdate old new) = None)
     (nodeset_with ''25%'') (nodeset_with ''00%'') \<and>
   \<not> nodeset_valid (nodeset_with ''00%'') \<and> spec_ControllerRef (ns_Spec (nodeset_with ''00%'')) = (''slurm'', ''main'')"
proof -
  have v: "nodeset_valid (nodeset_with ''25%'')"
    by (auto simp: nodeset_with_def nodeset_valid_def names_given_def max_unavailable_documented_def positive_percentage_def
        empty_nodeset_spec_def intro!: exI [of _ "''25''"])
  have w: "names_given (nodeset_with ''00%'')" "spec_MaxUnavailable (ns_Spec (nodeset_with ''00%'')) = Some (StrVal ''00%'')"
    by (simp_all add: nodeset_with_def names_given_def empty_nodeset_spec_def)
  have c: "snd (NodeSet_ValidateCreate (nodeset_with ''25%'')) = None" "snd (NodeSet_ValidateCreate (nodeset_with ''00%'')) = None"
    "\<not> nodeset_valid (nodeset_with ''00%'')"
    using workload_versions [of "nodeset_with ''25%''"] workload_versions [of "nodeset_with ''00%''"] v w by blast+
  then have a: "admitted (\<lambda>ns. snd (NodeSet_ValidateCreate ns) = None) (\<lambda>old new. snd (NodeSet_ValidateUpdate old new) = None)
      (nodeset_with ''25%'') (nodeset_with ''00%'')"
    by (intro admitted.updated [OF admitted.created])
      (simp_all add: NodeSet_ValidateCreate_def NodeSet_ValidateUpdate_def claims_DeepEqual_content, simp add: nodeset_with_def)
  then have "spec_ControllerRef (ns_Spec (nodeset_with ''00%'')) = spec_ControllerRef (ns_Spec (nodeset_with ''25%''))"
    using workload_versions by blast
  also have "\<dots> = (''slurm'', ''main'')" by (simp add: nodeset_with_def)
  finally show ?thesis using v c a by blast
qed

section \<open>The topology of a bound pod\<close>

text \<open>The pod that is patched is the one that was read, with the topology of the node that was read.\<close>

definition binds_topology :: "nsname \<Rightarrow> string \<Rightarrow> history \<Rightarrow> ev \<Rightarrow> bool" where
  "binds_topology key target h e \<longleftrightarrow>
     (case e of
        Wr (PatchedPod p q r) \<Rightarrow> mget (pod_Labels q) AppLabel = WorkerApp \<and>
          (\<exists>node h'. h = Rd (GotNode target (Inr node)) # Rd (GotPod key (Inr q)) # h' \<and>
             p = q\<lparr>pod_Annotations := Some ((mmake (pod_Annotations q))
                   (AnnotationNodeTopologySpec \<mapsto> mget (node_Annotations node) AnnotationNodeTopologySpec))\<rparr>)
      | Wr _ \<Rightarrow> False
      | _ \<Rightarrow> True)"

text \<open>
  When a pod is bound to a node, the webhook writes at most once, and only to a worker pod: it sets the
  topology annotation of that pod to the one of the node it is bound to and changes nothing else. A
  worker pod with no annotations at all makes it panic.
\<close>

theorem PodBinding_topology:
  "keeps (logs (binds_topology key target)) (PodBinding_Default W key target) \<and>
   (w_GetPod W (log s) key = Inr p \<longrightarrow> mget (pod_Labels p) AppLabel = WorkerApp \<longrightarrow> pod_Annotations p = None \<longrightarrow>
    (\<forall>h. w_GetNode W h target = Inr node) \<longrightarrow>
    fst (run_state (PodBinding_Default W key target) s) = Some (Panic ''assignment to entry in nil map''))"
proof
  show "keeps (logs (binds_topology key target)) (PodBinding_Default W key target)"
  proof (rule keepsI)
    fix s
    assume s: "logs (binds_topology key target) s"
    have [simp]: "binds_topology key target h (Rd x)" for h x by (simp add: binds_topology_def)
    have "binds_topology key target (Rd (GotNode target (Inr node)) # Rd (GotPod key (Inr q)) # h)
        (Wr (PatchedPod (q\<lparr>pod_Annotations := a\<rparr>) q r))"
      if "mget (pod_Labels q) AppLabel = WorkerApp"
        "mput (pod_Annotations q) AnnotationNodeTopologySpec (mget (node_Annotations node) AnnotationNodeTopologySpec) = Inr a"
      for node q h a r
      using that by (auto simp: binds_topology_def mput_def split: option.splits)
    with s show "logs (binds_topology key target) (snd (run_state (PodBinding_Default W key target) s))"
      by (auto simp: PodBinding_Default_def call_defs logs_def split: sum.split)
  qed
  have "mmake (pod_Labels p) \<noteq> Map.empty" if "mget (pod_Labels p) AppLabel = WorkerApp"
    using that by (auto simp: mget_def mlookup_def mmake_def WorkerApp_def split: option.splits)
  then show "w_GetPod W (log s) key = Inr p \<longrightarrow> mget (pod_Labels p) AppLabel = WorkerApp \<longrightarrow> pod_Annotations p = None \<longrightarrow>
    (\<forall>h. w_GetNode W h target = Inr node) \<longrightarrow>
    fst (run_state (PodBinding_Default W key target) s) = Some (Panic ''assignment to entry in nil map'')"
    by (auto simp: PodBinding_Default_def call_defs mput_def)
qed

definition bound_pod :: pod where
  "bound_pod = empty_pod\<lparr>pod_Labels := Some [AppLabel \<mapsto> WorkerApp]\<rparr>"

theorem PodBinding_topology_witness:
  "fst (run_state (PodBinding_Default
     (quiet_world\<lparr>w_GetPod := (\<lambda>h k. Inr bound_pod), w_GetNode := (\<lambda>h n. Inr empty_node)\<rparr>) (''slurm'', ''gpu-0'') ''n1'') st_init) =
   Some (Panic ''assignment to entry in nil map'')"
  using PodBinding_topology [of "(''slurm'', ''gpu-0'')" "''n1''"
      "quiet_world\<lparr>w_GetPod := (\<lambda>h k. Inr bound_pod), w_GetNode := (\<lambda>h n. Inr empty_node)\<rparr>" st_init bound_pod empty_node]
  by (simp add: bound_pod_def empty_pod_def mget_def mlookup_def)

end
