(* ===== verification/Spec2Isabelle.thy ===== *)
theory Spec2Isabelle
  imports Reconcile TokenSync NewPodFacts TemplateMerge Watches Webhooks
begin

text \<open>
  A verification development for the Slurm operator (Go, under \<^verbatim>\<open>src/slurm-operator\<close>): all of its
  controllers, the builders of the objects they apply, the event handlers that feed them and the webhooks
  that guard the resources.

  \<^bold>\<open>The program.\<close> The operator runs Slurm on Kubernetes. A \<^verbatim>\<open>Controller\<close> is a Slurm cluster
  (\<^verbatim>\<open>slurmctld\<close>), an \<^verbatim>\<open>Accounting\<close> its database daemon, a \<^verbatim>\<open>RestApi\<close> its REST server, a \<^verbatim>\<open>LoginSet\<close> its
  login pods, a \<^verbatim>\<open>NodeSet\<close> a set of pods, each of which is one Slurm node, and a \<^verbatim>\<open>Token\<close> a signed token in a
  secret. Each resource has a controller.

  The core is the controller of NodeSets. A reconcile reads the NodeSet, keeps the
  history of its revisions, claims its pods and then runs a list of steps: apply the service, the
  disruption budget and the SSH configuration, taint nodes, refresh the cache of Slurm nodes, write the
  deadlines of running jobs to the pods, cordon and drain, scale (in one of two modes: numbered pods, or
  one pod per Kubernetes node), prune records of Slurm nodes, restart pods that Slurm lost, write the
  topology. Then it rolls out updates, truncates the history and publishes the status. Pods are only
  removed after Slurm has drained their node, so that running jobs are not killed. The client of the Slurm
  REST API that the steps use comes from a registry, which a controller of its own fills with one
  authenticated client per Controller.

  The controllers of Controllers, Accountings, RestApis and LoginSets run lists of steps too: each builds
  an object (a service, a configuration map with \<^verbatim>\<open>slurm.conf\<close>, a secret, a StatefulSet or Deployment with
  its pod template) and applies it with \<^verbatim>\<open>SyncObject\<close>, which creates or patches. Event handlers put a
  resource into the queue of its controller when something it depends on changes; those of NodeSets
  also lower the expectations that a sync waits for. Webhooks reject invalid resources and changes of
  fields that must stay.

  \<^bold>\<open>The machine.\<close> \<open>Machine\<close> defines the state of a handler: the history of calls to everything outside
  the repository, the pods that the code shares through pointers (a heap of references), and the package
  variable \<^verbatim>\<open>durationStore\<close>. What is outside the repository (API server, informer cache, Slurm REST
  client, expectations, back-off, event recorder, clock, goroutine scheduler, \<^verbatim>\<open>sort.Sort\<close>, JSON,
  helpers of Kubernetes) is the record \<open>world\<close>; an effectful call is answered by an arbitrary function of
  the whole history, so other clients may act between any two calls. Operations are programs of the
  library's state monad; a Go error is \<open>None\<close> or a value of \<open>err\<close>, a function that returns a value or an
  error gives a sum. A panic is the error \<open>Panic\<close>: the goroutine ends there, and what the model does
  afterwards has no counterpart. In a reconcile of a NodeSet every panic is also an event of the history
  (\<open>Panicked\<close> with its cause), and the outcome of \<open>Reconcile\<close> is \<open>Crashed\<close> then, not a result. The goroutines of one batch run one after the other in an
  arbitrary order. Objects that the code copies are values. Text is ASCII.

  \<^bold>\<open>Theories.\<close> Shared:
  \<^item> \<open>Prelude\<close>: errors, Go maps and strings, the Hoare calculus (\<open>triple\<close>, \<open>keeps\<close>), histories.
  \<^item> \<open>Objects\<close>: the NodeSet API (\<^verbatim>\<open>api/v1beta1/nodeset_types.go\<close>), pod templates and containers, the fields
    of pods, nodes, claims and revisions that the code uses, the defaults of NodeSets. \<open>Resources\<close>: the other
    resources and the objects that are built for them (\<open>kobject\<close>: a map from field paths to values).
  \<^item> \<open>Stores\<close>: \<^verbatim>\<open>durationstore.go\<close>, \<^verbatim>\<open>timestore.go\<close> (both instances of the locale \<open>keyed_store\<close>) and
    \<^verbatim>\<open>clientmap.go\<close>, a state machine with the invariant that starts and stops of clients balance.
  \<^item> \<open>Batch\<close>: \<^verbatim>\<open>SlowStartBatch\<close> (\<^verbatim>\<open>internal/utils/tools.go\<close>) against a reference in chunks, and the step
    runner (\<^verbatim>\<open>syncsteps.go\<close>) against a reference semantics.
  \<^item> \<open>Keys\<close>: the names of the objects of each resource (\<^verbatim>\<open>api/v1beta1/*_keys.go\<close>), domain names, the
    reference resolver and the defaults of the other resources.
  \<^item> \<open>ObjectSync\<close>: \<^verbatim>\<open>SyncObject\<close> and \<^verbatim>\<open>DeleteObject\<close> (\<^verbatim>\<open>objectutils/patch.go\<close>, \<^verbatim>\<open>delete.go\<close>). \<open>ApiServer\<close>:
    the server as a store; there \<open>SyncObject\<close> refines the abstract operation \<open>apply_object\<close>.

  Builders:
  \<^item> \<open>ConfigText\<close>: \<^verbatim>\<open>config.go\<close> and the parser and merger of options in \<^verbatim>\<open>common.go\<close>. \<open>SlurmConf\<close>: the files
    \<^verbatim>\<open>slurm.conf\<close>, \<^verbatim>\<open>slurmdbd.conf\<close>, \<^verbatim>\<open>cgroup.conf\<close>, \<^verbatim>\<open>gres.conf\<close>.
  \<^item> \<open>Builders\<close>: \<^verbatim>\<open>internal/builder/common\<close>, \<^verbatim>\<open>labels\<close>, \<^verbatim>\<open>metadata\<close>, checksums. \<open>Workloads\<close>: the Controller
    builder and what the builders share. \<open>DaemonBuilders\<close>: those of Accountings, RestApis, LoginSets, NodeSets.
    \<open>WorkloadFacts\<close>: their theorems.
  \<^item> \<open>KeyPair\<close>: \<^verbatim>\<open>crypto/keypair.go\<close>, the SSH keys of LoginSets. \<open>TemplateMerge\<close>: \<^verbatim>\<open>structutils/kube.go\<close>, how the
    user's templates are pruned before they are merged.

  NodeSets:
  \<^item> \<open>PodUtils\<close>, \<open>Naming\<close>: pod predicates, annotations, labels; names, ordinals, identity and
    storage (\<^verbatim>\<open>nodeset/utils/utils.go\<close>). \<open>NewPods\<close>: the pods made from the worker builder's template.
    \<open>NewPodFacts\<close>: the NodeSet finds them again.
  \<^item> \<open>PodSort\<close>: the deletion order and the splits of \<^verbatim>\<open>nodeset/utils/sort.go\<close>, over the contract \<open>go_sort\<close>.
  \<^item> \<open>SlurmControl\<close>: \<^verbatim>\<open>slurmcontrol.go\<close>; the locale \<open>drain_control\<close> is what the scaling code relies on.
  \<^item> \<open>PodControl\<close>: both \<^verbatim>\<open>podcontrol.go\<close>: claims and their owners, creation, deletion and update of pods, and
    the generic control beneath them.
  \<^item> \<open>ClusterObjects\<close>, \<open>Cordon\<close>, \<open>Scaling\<close>, \<open>Burst\<close>, \<open>DaemonMode\<close>, \<open>NodeSetSync\<close>: the steps of
    \<^verbatim>\<open>nodeset_sync.go\<close>.
  \<^item> \<open>NodeSetStatus\<close>: \<^verbatim>\<open>nodeset_sync_status.go\<close>. \<open>History\<close>: \<^verbatim>\<open>historycontrol.go\<close>, \<^verbatim>\<open>nodeset_history.go\<close>.
  \<^item> \<open>Frame\<close>: the locale \<open>monotone\<close>: a predicate that new events, writes to pods and pushed durations
    keep is kept by every operation, and every panic has one of the causes of \<open>caused\<close>. \<open>Reconcile\<close>: the entry points \<open>Sync\<close> and \<open>Reconcile\<close>.
  \<^item> \<open>EventHandlers\<close>: \<^verbatim>\<open>nodeset/eventhandler\<close> and \<^verbatim>\<open>objectutils/enqueue.go\<close>.

  The other controllers:
  \<^item> \<open>SlurmClientSync\<close>: \<^verbatim>\<open>internal/controller/slurmclient\<close> and \<^verbatim>\<open>slurmjwt/token.go\<close>; the client map of
    \<open>Stores\<close> is part of the state here. \<open>TokenSync\<close>: \<^verbatim>\<open>internal/controller/token\<close>; the locale
    \<open>token_frame\<close> says what a sync keeps.
  \<^item> \<open>Controllers\<close>: steps, status and \<^verbatim>\<open>Reconcile\<close> of Controllers, Accountings, RestApis and LoginSets.
    \<open>ControllerFacts\<close>: their theorems; \<open>resource_frame\<close> extends \<open>read_frame\<close> and says what a sync keeps.
  \<^item> \<open>ResourceHandlers\<close>: their event handlers. \<open>Watches\<close>: all handlers as they are called with an event, and the
    wiring of each controller (\<^verbatim>\<open>SetupWithManager\<close>); what an event wakes in which queue.
  \<^item> \<open>Webhooks\<close>: \<^verbatim>\<open>internal/webhook\<close>; the versions of a resource
    that the server can store are an inductive relation (\<open>admitted\<close>), and the locale \<open>admission\<close> turns what a
    validator checks into an invariant of all versions.

  \<^bold>\<open>What is shown.\<close> Safety over all histories: pods are deleted only right after Slurm said that their
  node is drained; nothing is scaled before the expectations are satisfied or with a stale Slurm cache;
  at most 250 creations and deletions per scale; records are pruned only when nothing maps to them; a
  pod is created after its claims; foreign drains are left alone. Handlers lower the expectations of the owner
  of a pod only; \<^verbatim>\<open>SyncObject\<close> writes only what it just read; immutable objects (host keys) survive every
  sync; a controller applies only kinds that it owns; a token that is not to be
  renewed is not. Refinement: the step runner, \<^verbatim>\<open>SlowStartBatch\<close>, \<^verbatim>\<open>SyncObject\<close>
  against the store. Liveness: a reconcile of a NodeSet returns and asks for the next one, unless it panics for one of the
  stated causes; one sync of a
  RestApi reaches the desired state and the next one keeps it; clients and tokens are looked at again before
  the tokens they were given expire. Well-formed objects: every mounted volume is declared and every workload selects its
  own pods, whatever the user merges in; new pods of a NodeSet are claimed by it and selected by the cluster's
  service; the host keys of a LoginSet are pairs. Configuration: the options that the operator needs survive the user's
  extra configuration, and what is built can be read back. Admission: invariants of all stored versions.
  Functional behaviour: ordinals, names, the replica and Slurm counters, deadlines, pins, conditions, owner
  references, splits and orders, services, checksums, which fields of a user's template count,
  and exactly which resources an event about a
  Controller, a secret or a node wakes (not all that use a secret). Where the code does not do what
  it means to, the theorem states what it does (cordoned pods in the deletion order, unhealthy pods chosen by
  age, the update budget, misreported claims, nil annotations, skipped condition updates, deleted revisions,
  clients that stay without a server, pods condemned by an unreadable Controller,
  shared objects that are never updated or blocked by another namespace).

  \<^bold>\<open>Hypotheses on the parameters\<close>, each with a witness: \<open>fair_sched\<close> and \<open>fair_range\<close> (a scheduler and a
  range over a map visit everything once), \<open>entries_ok\<close> (so does a range over the entries of a map), \<open>go_sort\<close>
  (\<^verbatim>\<open>sort.Sort\<close> sorts, given a strict weak order), \<open>retry_ok\<close> (\<^verbatim>\<open>RetryOnConflict\<close> calls its function until
  it gives up), \<open>condition_update\<close> (\<^verbatim>\<open>UpdatePodCondition\<close> replaces or adds the condition of its type and
  leaves the others alone), \<open>complete_answers\<close> (pods have annotations and revisions labels; only where a panic is
  excluded), \<open>merges_ok\<close> (a strategic merge keeps the containers, mounts and volumes of
  the base and adds only those of the patch), \<open>refuses_foreign_owners\<close> (\<^verbatim>\<open>SetOwnerReference\<close> fails across
  namespaces), \<open>copies_template\<close> (Kubernetes makes a pod with the labels of its template and the given owner),
  \<open>hashes_readable\<close> (reads for checksums fail only with NotFound), \<open>typed_reads\<close> (a read answers with an object
  of the kind asked for), \<open>indexed\<close> (a list by node goes by the index function),
  \<open>serves\<close> and \<open>accepts\<close> (the API server answers from its store and accepts writes). The theorems
  on configuration files ask that names and values have no characters that end or split a line
  (\<open>slurm_inputs_safe\<close>, \<open>extra_safe\<close>).

  \<^bold>\<open>Termination.\<close> All loops are total functions but one: \<open>CreateControllerRevision\<close> retries while names
  collide. It is a partial function with result \<open>None\<close> for no result, and it is proved to return when
  one of the \<open>2 ^ 32\<close> collision counts gives a free name. There is no fuel.

  \<^bold>\<open>Not modelled.\<close> The strategic merge of JSON documents and its instances for containers and pod templates,
  \<^verbatim>\<open>SetControllerReference\<close>, SHA-256, the generators and encoders of keys, the signing of tokens, the embedded scripts
  and the function of Kubernetes that makes a pod of a template are parameters. What controller-runtime puts
  into a queue for the resource of a controller and for objects it owns is outside the repository; the wiring
  only records the kinds. Generated deep copies, constructors, conversion markers, the registration with the
  manager, signing keys that only tests use, programs and tests are left out, as are log messages and the text
  of events.
\<close>

end
